(* ===== verification/PyBase.thy ===== *)
theory PyBase
  imports Main "HOL-Library.Char_ord" "HOL-Library.List_Lexorder" "HOL-Library.Product_Lexorder"
    "HOL-Library.Multiset"
begin

text \<open>
  The prelude: the effects of the Python code and the text operations it uses.
  A Python computation that may raise is a value of \<open>exn + 'a\<close>, with \<open>Inl\<close> the exception.
  A checker that appends to an error list returns the list of what it appends, and
  \<open>chks\<close> runs several checkers in the order of the statements: an exception in one of them
  ends the run, as an uncaught exception does.
  A Python \<open>str\<close> is the list of the bytes of its UTF-8 form. UTF-8 keeps the order of code
  points, so \<open>sorted\<close> on \<open>str\<close> is the lexicographic order of these lists.
  Lone surrogates have no UTF-8 form and are outside the model.
\<close>

section \<open>Exceptions and checkers\<close>

datatype exn =
    TypeError | KeyError | IndexError | AttributeError | ValueError
  | RecursionError | RailError string | ExpansionError string | SystemExit string

type_synonym 'a py = "exn + 'a"

named_theorems checks \<open>how a checker passes: the acceptance of each combinator\<close>

definition pbind :: "'a py \<Rightarrow> ('a \<Rightarrow> 'b py) \<Rightarrow> 'b py" where
  "pbind m f = (case m of Inl e \<Rightarrow> Inl e | Inr x \<Rightarrow> f x)"

declare pbind_def [code_unfold]

lemma pbind_simps [simp]:
  "pbind (Inl e) f = Inl e" "pbind (Inr x) f = f x"
  by (simp_all add: pbind_def)

lemma pbind_Inr_conv: "pbind m f = Inr y \<longleftrightarrow> (\<exists>x. m = Inr x \<and> f x = Inr y)"
  by (cases m) auto

lemma pbind_Inl_conv: "pbind m f = Inl e \<longleftrightarrow> m = Inl e \<or> (\<exists>x. m = Inr x \<and> f x = Inl e)"
  by (cases m) auto

text \<open>A computed form of \<open>m returns a value with P\<close>.\<close>

lemma returns_such_that: "(\<exists>x. m = Inr x \<and> P x) \<longleftrightarrow> (case m of Inl e \<Rightarrow> False | Inr x \<Rightarrow> P x)"
  by (cases m) auto

lemma pbind_cong [fundef_cong]:
  "m = m' \<Longrightarrow> (\<And>x. m' = Inr x \<Longrightarrow> f x = g x) \<Longrightarrow> pbind m f = pbind m' g"
  by (cases m') auto

fun chks :: "'a list py list \<Rightarrow> 'a list py" where
  "chks [] = Inr []"
| "chks (m # ms) = pbind m (\<lambda>xs. pbind (chks ms) (\<lambda>ys. Inr (xs @ ys)))"

text \<open>\<open>if b: out.append(d)\<close>, with a condition that may itself raise in \<open>emit_ifp\<close>.\<close>

definition emit_if :: "bool \<Rightarrow> 'a \<Rightarrow> 'a list py" where
  "emit_if b d = Inr (if b then [d] else [])"

definition emit_ifp :: "bool py \<Rightarrow> 'a \<Rightarrow> 'a list py" where
  "emit_ifp m d = pbind m (\<lambda>b. emit_if b d)"

definition guarded :: "bool \<Rightarrow> 'a list py \<Rightarrow> 'a list py" where
  "guarded b m = (if b then m else Inr [])"

text \<open>The \<open>for\<close> loops: over values, and over \<open>enumerate(values)\<close>.\<close>

definition each :: "'b list \<Rightarrow> ('b \<Rightarrow> 'a list py) \<Rightarrow> 'a list py" where
  "each xs f = chks (map f xs)"

definition each_i :: "'b list \<Rightarrow> (nat \<Rightarrow> 'b \<Rightarrow> 'a list py) \<Rightarrow> 'a list py" where
  "each_i xs f = chks (map (\<lambda>(i, x). f i x) (enumerate 0 xs))"

text \<open>
  A loop that also updates state: \<open>f\<close> checks an element in the state the earlier elements left,
  \<open>upd\<close> is the update an element makes.
\<close>

fun each_st :: "(nat \<Rightarrow> 's \<Rightarrow> 'b \<Rightarrow> 'a list py) \<Rightarrow> ('b \<Rightarrow> 's \<Rightarrow> 's) \<Rightarrow> nat \<Rightarrow> 's \<Rightarrow> 'b list \<Rightarrow> 'a list py" where
  "each_st f upd n s [] = Inr []"
| "each_st f upd n s (x # xs) =
     pbind (f n s x) (\<lambda>a. pbind (each_st f upd (Suc n) (upd x s) xs) (\<lambda>b. Inr (a @ b)))"

declare each_st.simps(2) [simp del]

lemma each_cong [fundef_cong]:
  "xs = ys \<Longrightarrow> (\<And>x. x \<in> set ys \<Longrightarrow> f x = g x) \<Longrightarrow> each xs f = each ys g"
  by (simp add: each_def cong: map_cong)

lemma set_enumerate_snd: "(i, x) \<in> set (enumerate n xs) \<Longrightarrow> x \<in> set xs"
  by (metis imageI map_snd_enumerate set_map snd_conv)

lemma each_i_cong [fundef_cong]:
  "xs = ys \<Longrightarrow> (\<And>i x. x \<in> set ys \<Longrightarrow> f i x = g i x) \<Longrightarrow> each_i xs f = each_i ys g"
  by (auto simp: each_i_def dest: set_enumerate_snd intro!: arg_cong [where f = chks] map_cong)

lemma chks_append:
  "chks (ms @ ns) = pbind (chks ms) (\<lambda>xs. pbind (chks ns) (\<lambda>ys. Inr (xs @ ys)))"
  by (induction ms) (auto simp: pbind_def split: sum.splits)

text \<open>A run of checks appends nothing iff every check appends nothing and none raises.\<close>

lemma chks_pass [checks]: "chks ms = Inr [] \<longleftrightarrow> (\<forall>m \<in> set ms. m = Inr [])"
  by (induction ms) (auto simp: pbind_Inr_conv)

lemma emit_if_pass [checks]: "emit_if b d = Inr [] \<longleftrightarrow> \<not> b"
  by (simp add: emit_if_def)

lemma emit_ifp_pass [checks]: "emit_ifp m d = Inr [] \<longleftrightarrow> m = Inr False"
  by (cases m) (auto simp: emit_ifp_def emit_if_def)

lemma guarded_pass [checks]: "guarded b m = Inr [] \<longleftrightarrow> (b \<longrightarrow> m = Inr [])"
  by (simp add: guarded_def)

lemma each_pass [checks]: "each xs f = Inr [] \<longleftrightarrow> (\<forall>x \<in> set xs. f x = Inr [])"
  by (auto simp: each_def chks_pass)

lemma each_i_pass [checks]:
  "each_i xs f = Inr [] \<longleftrightarrow> (\<forall>i < length xs. f i (xs ! i) = Inr [])"
  by (auto simp: each_i_def chks_pass set_conv_nth nth_enumerate_eq)

lemma each_i_passD: "each_i xs f = Inr [] \<Longrightarrow> x \<in> set xs \<Longrightarrow> \<exists>i. f i x = Inr []"
  by (auto simp: each_i_pass in_set_conv_nth)

lemma each_st_Cons_pass [checks]:
  "each_st f upd n s (x # xs) = Inr [] \<longleftrightarrow>
     f n s x = Inr [] \<and> each_st f upd (Suc n) (upd x s) xs = Inr []"
  by (auto simp: each_st.simps(2) pbind_Inr_conv)

lemma each_st_pass:
  "each_st f upd n s xs = Inr [] \<longleftrightarrow>
     (\<forall>i < length xs. f (n + i) (fold upd (take i xs) s) (xs ! i) = Inr [])"
proof (induction xs arbitrary: n s)
  case (Cons x xs)
  show ?case
    by (simp add: each_st_Cons_pass Cons.IH All_less_Suc2)
qed simp

lemma each_st_member_pass:
  assumes "each_st f upd n s xs = Inr []" and "x \<in> set xs"
  obtains i ss where "f i ss x = Inr []"
proof -
  obtain i where "i < length xs" "xs ! i = x" using assms(2) by (auto simp: in_set_conv_nth)
  with assms(1) that show ?thesis unfolding each_st_pass by blast
qed

lemma pbind_pass [checks]: "pbind m f = Inr [] \<longleftrightarrow> (\<exists>x. m = Inr x \<and> f x = Inr [])"
  by (rule pbind_Inr_conv)

text \<open>A loop that passes and whose state collects the keys \<open>g x\<close>, each of them new.\<close>

lemma each_st_collects:
  assumes "each_st f upd n s xs = Inr []" and "distinct s"
    and "\<And>i s x. x \<in> set xs \<Longrightarrow> f i s x = Inr [] \<Longrightarrow> distinct s \<Longrightarrow>
      upd x s = rev (g x) @ s \<and> distinct (rev (g x) @ s)"
  shows "fold upd xs s = rev (concat (map g xs)) @ s \<and> distinct (rev (concat (map g xs)) @ s)"
  using assms
proof (induction xs arbitrary: n s)
  case (Cons x xs)
  from Cons.prems(1) have fx: "f n s x = Inr []" and rest: "each_st f upd (Suc n) (upd x s) xs = Inr []"
    by (auto simp: each_st_Cons_pass)
  from Cons.prems(3) [OF _ fx] Cons.prems(2)
  have u: "upd x s = rev (g x) @ s" "distinct (upd x s)" by auto
  have "fold upd xs (upd x s) = rev (concat (map g xs)) @ upd x s \<and>
      distinct (rev (concat (map g xs)) @ upd x s)"
    by (rule Cons.IH [OF rest u(2)]) (rule Cons.prems(3), simp_all)
  then show ?case by (simp add: u(1))
qed simp

text \<open>A run raises only if one of its checks raises.\<close>

lemma chks_no_raise: "(\<exists>xs. chks ms = Inr xs) \<longleftrightarrow> (\<forall>m \<in> set ms. \<exists>xs. m = Inr xs)"
  by (induction ms) (auto simp: pbind_Inr_conv)

lemma chks_Inr_set:
  "chks ms = Inr ds \<Longrightarrow> set ds = \<Union> (set ` {xs. Inr xs \<in> set ms})"
  by (induction ms arbitrary: ds) (auto simp: pbind_Inr_conv)

declare chks.simps [simp del]

text \<open>
  What a checker can do: it raises only exceptions in \<open>E\<close> and appends only elements in \<open>P\<close>.
  The rules of \<open>outcomes\<close> follow the structure of a checker.
\<close>

named_theorems outcomes \<open>the exceptions and the diagnostics a checker can produce\<close>

definition outcome :: "(exn \<Rightarrow> bool) \<Rightarrow> ('a \<Rightarrow> bool) \<Rightarrow> 'a list py \<Rightarrow> bool" where
  "outcome E P m = (case m of Inl e \<Rightarrow> E e | Inr xs \<Rightarrow> list_all P xs)"

definition raises_only :: "(exn \<Rightarrow> bool) \<Rightarrow> 'a py \<Rightarrow> bool" where
  "raises_only E m = (\<forall>e. m = Inl e \<longrightarrow> E e)"

lemma outcome_Inr [outcomes]: "list_all P xs \<Longrightarrow> outcome E P (Inr xs)"
  by (simp add: outcome_def)

lemma outcome_Inl [outcomes]: "E e \<Longrightarrow> outcome E P (Inl e)"
  by (simp add: outcome_def)

lemma outcome_pbind [outcomes]:
  "raises_only E m \<Longrightarrow> (\<And>x. m = Inr x \<Longrightarrow> outcome E P (f x)) \<Longrightarrow> outcome E P (pbind m f)"
  by (cases m) (auto simp: raises_only_def outcome_def)

lemma raises_only_outcome: "outcome E P m \<Longrightarrow> raises_only E m"
  by (auto simp: outcome_def raises_only_def)

lemma raises_only_Inr [outcomes]: "raises_only E (Inr x)"
  by (simp add: raises_only_def)

lemma raises_only_Inl [outcomes]: "E e \<Longrightarrow> raises_only E (Inl e)"
  by (simp add: raises_only_def)

lemma raises_only_pbind [outcomes]:
  "raises_only E m \<Longrightarrow> (\<And>x. m = Inr x \<Longrightarrow> raises_only E (f x)) \<Longrightarrow> raises_only E (pbind m f)"
  by (cases m) (auto simp: raises_only_def)

lemma raises_only_if [outcomes]:
  "(b \<Longrightarrow> raises_only E m) \<Longrightarrow> (\<not> b \<Longrightarrow> raises_only E n) \<Longrightarrow> raises_only E (if b then m else n)"
  by simp

lemma raises_only_option [outcomes]:
  "(z = None \<Longrightarrow> raises_only E m) \<Longrightarrow> (\<And>x. z = Some x \<Longrightarrow> raises_only E (f x)) \<Longrightarrow>
   raises_only E (case z of None \<Rightarrow> m | Some x \<Rightarrow> f x)"
  by (cases z) simp_all

text \<open>\<open>[f(x) for x in xs]\<close> and the loop that updates a state.\<close>

fun map_py :: "('b \<Rightarrow> 'a py) \<Rightarrow> 'b list \<Rightarrow> 'a list py" where
  "map_py f [] = Inr []"
| "map_py f (x # xs) = pbind (f x) (\<lambda>y. pbind (map_py f xs) (\<lambda>ys. Inr (y # ys)))"

fun fold_py :: "('b \<Rightarrow> 's \<Rightarrow> 's py) \<Rightarrow> 'b list \<Rightarrow> 's \<Rightarrow> 's py" where
  "fold_py f [] s = Inr s"
| "fold_py f (x # xs) s = pbind (f x s) (fold_py f xs)"

text \<open>\<open>[x for x in xs if p(x)]\<close>.\<close>

fun filter_py :: "('b \<Rightarrow> bool py) \<Rightarrow> 'b list \<Rightarrow> 'b list py" where
  "filter_py p [] = Inr []"
| "filter_py p (x # xs) = pbind (p x) (\<lambda>b. pbind (filter_py p xs) (\<lambda>ys. Inr (if b then x # ys else ys)))"

lemma map_py_cong [fundef_cong]:
  "xs = ys \<Longrightarrow> (\<And>x. x \<in> set ys \<Longrightarrow> f x = g x) \<Longrightarrow> map_py f xs = map_py g ys"
  by (induction xs arbitrary: ys) auto

lemma map_py_Inr: "map_py f xs = Inr ys \<longleftrightarrow> list_all2 (\<lambda>x y. f x = Inr y) xs ys"
  by (induction xs arbitrary: ys) (auto simp: pbind_Inr_conv list_all2_Cons1)

lemma map_py_all:
  assumes "map_py f xs = Inr ys" and "\<And>x y. x \<in> set xs \<Longrightarrow> f x = Inr y \<Longrightarrow> P y"
  shows "list_all P ys"
  using assms unfolding map_py_Inr list_all2_conv_all_nth list_all_length by (metis nth_mem)

lemma map_py_total: "(\<exists>ys. map_py f xs = Inr ys) \<longleftrightarrow> (\<forall>x \<in> set xs. \<exists>y. f x = Inr y)"
  by (induction xs) (auto simp: pbind_Inr_conv)

lemma filter_py_Inr:
  "filter_py p xs = Inr ys \<longleftrightarrow> (\<forall>x \<in> set xs. \<exists>b. p x = Inr b) \<and> ys = filter (\<lambda>x. p x = Inr True) xs"
proof (induction xs arbitrary: ys)
  case (Cons x xs)
  show ?case by (cases "p x") (auto simp: pbind_Inr_conv Cons.IH)
qed auto

lemma fold_py_invariant:
  assumes "fold_py f xs s = Inr t" and "I s"
    and "\<And>x s t. x \<in> set xs \<Longrightarrow> I s \<Longrightarrow> f x s = Inr t \<Longrightarrow> I t"
  shows "I t"
  using assms
proof (induction xs arbitrary: s)
  case (Cons x xs)
  then obtain u where u: "f x s = Inr u" "fold_py f xs u = Inr t" by (auto simp: pbind_Inr_conv)
  from Cons.prems(3) [OF _ Cons.prems(2) u(1)] have "I u" by simp
  from Cons.IH [OF u(2) this] Cons.prems(3) show ?case by (meson list.set_intros(2))
qed simp

text \<open>What a computation returns, if it returns; the rules of \<open>yields\<close> follow its structure.\<close>

named_theorems yields \<open>what a computation returns\<close>

definition returns :: "('a \<Rightarrow> bool) \<Rightarrow> 'a py \<Rightarrow> bool" where
  "returns P m \<longleftrightarrow> (\<forall>x. m = Inr x \<longrightarrow> P x)"

lemma returnsD: "returns P m \<Longrightarrow> m = Inr x \<Longrightarrow> P x"
  by (simp add: returns_def)

lemma returns_pbind [yields]:
  "returns Q m \<Longrightarrow> (\<And>x. Q x \<Longrightarrow> returns P (f x)) \<Longrightarrow> returns P (pbind m f)"
  by (auto simp: returns_def pbind_Inr_conv)

lemma returns_Inr [yields]: "P x \<Longrightarrow> returns P (Inr x)"
  by (simp add: returns_def)

lemma returns_Inl [yields]: "returns P (Inl e)"
  by (simp add: returns_def)

lemma returns_if [yields]:
  "(b \<Longrightarrow> returns P m) \<Longrightarrow> (\<not> b \<Longrightarrow> returns P n) \<Longrightarrow> returns P (if b then m else n)"
  by simp

lemma returns_any: "returns (\<lambda>_. True) m"
  by (simp add: returns_def)

lemma returns_map_py [yields]:
  "(\<And>x. x \<in> set xs \<Longrightarrow> returns P (f x)) \<Longrightarrow> returns (list_all P) (map_py f xs)"
  unfolding returns_def by (blast intro: map_py_all)

lemma raises_only_map_py [outcomes]:
  "(\<And>x. x \<in> set xs \<Longrightarrow> raises_only E (f x)) \<Longrightarrow> raises_only E (map_py f xs)"
  by (induction xs) (auto intro!: outcomes)

lemma raises_only_fold_py [outcomes]:
  "(\<And>x s. x \<in> set xs \<Longrightarrow> raises_only E (f x s)) \<Longrightarrow> raises_only E (fold_py f xs s)"
  by (induction xs arbitrary: s) (auto intro!: outcomes)

lemma raises_only_filter_py [outcomes]:
  "(\<And>x. x \<in> set xs \<Longrightarrow> raises_only E (p x)) \<Longrightarrow> raises_only E (filter_py p xs)"
  by (induction xs) (auto intro!: outcomes)

lemma outcome_chks_Nil [outcomes]: "outcome E P (chks [])"
  by (simp add: outcome_def chks.simps)

lemma outcome_chks_Cons [outcomes]:
  "outcome E P m \<Longrightarrow> outcome E P (chks ms) \<Longrightarrow> outcome E P (chks (m # ms))"
  by (cases m; cases "chks ms") (auto simp: outcome_def chks.simps)

lemma outcome_chks: "(\<And>m. m \<in> set ms \<Longrightarrow> outcome E P m) \<Longrightarrow> outcome E P (chks ms)"
  by (induction ms) (auto intro: outcomes)

lemma outcome_emit_if [outcomes]: "P d \<Longrightarrow> outcome E P (emit_if b d)"
  by (simp add: outcome_def emit_if_def)

lemma outcome_emit_ifp [outcomes]: "raises_only E m \<Longrightarrow> P d \<Longrightarrow> outcome E P (emit_ifp m d)"
  by (cases m) (auto simp: outcome_def emit_ifp_def emit_if_def raises_only_def)

lemma outcome_guarded [outcomes]: "(b \<Longrightarrow> outcome E P m) \<Longrightarrow> outcome E P (guarded b m)"
  by (simp add: outcome_def guarded_def)

lemma outcome_each [outcomes]: "(\<And>x. x \<in> set xs \<Longrightarrow> outcome E P (f x)) \<Longrightarrow> outcome E P (each xs f)"
  by (auto simp: each_def intro!: outcome_chks)

lemma outcome_each_i [outcomes]:
  "(\<And>i x. x \<in> set xs \<Longrightarrow> outcome E P (f i x)) \<Longrightarrow> outcome E P (each_i xs f)"
  unfolding each_i_def by (rule outcome_chks) (force dest: set_enumerate_snd)

lemma outcome_each_st [outcomes]:
  "(\<And>i s x. x \<in> set xs \<Longrightarrow> outcome E P (f i s x)) \<Longrightarrow> outcome E P (each_st f upd n s xs)"
proof (induction xs arbitrary: n s)
  case (Cons x xs)
  have "outcome E P (f n s x)" "outcome E P (each_st f upd (Suc n) (upd x s) xs)"
    using Cons by auto
  then show ?case
    by (cases "f n s x"; cases "each_st f upd (Suc n) (upd x s) xs")
      (auto simp: outcome_def each_st.simps(2))
qed (simp add: outcome_def)

lemma outcome_if [outcomes]:
  "(b \<Longrightarrow> outcome E P m) \<Longrightarrow> (\<not> b \<Longrightarrow> outcome E P n) \<Longrightarrow> outcome E P (if b then m else n)"
  by simp

lemma outcome_Let [outcomes]: "(\<And>x. x = v \<Longrightarrow> outcome E P (f x)) \<Longrightarrow> outcome E P (let x = v in f x)"
  by (simp add: Let_def)

section \<open>Text\<close>

definition digit :: "nat \<Rightarrow> char" where
  "digit n = char_of (48 + n)"

definition is_digit :: "char \<Rightarrow> bool" where
  "is_digit c \<longleftrightarrow> 48 \<le> (of_char c :: nat) \<and> (of_char c :: nat) \<le> 57"

fun show_nat :: "nat \<Rightarrow> string" where
  "show_nat n = (if n < 10 then [digit n] else show_nat (n div 10) @ [digit (n mod 10)])"

declare show_nat.simps [simp del]

definition show_int :: "int \<Rightarrow> string" where
  "show_int i = (if i < 0 then CHR ''-'' # show_nat (nat (- i)) else show_nat (nat i))"

text \<open>The value a decimal numeral denotes, the inverse of \<open>show_nat\<close>.\<close>

definition digits_val :: "string \<Rightarrow> nat" where
  "digits_val s = foldl (\<lambda>n c. 10 * n + (of_char c - 48)) 0 s"

lemma of_char_digit: "n < 10 \<Longrightarrow> of_char (digit n) = 48 + n"
  by (simp add: digit_def of_char_of)

lemma is_digit_digit: "n < 10 \<Longrightarrow> is_digit (digit n)"
  by (simp add: is_digit_def of_char_digit)

lemma show_nat_digits: "\<forall>c \<in> set (show_nat n). is_digit c"
proof (induction n rule: show_nat.induct)
  case (1 n)
  then show ?case
    by (subst show_nat.simps) (auto simp: is_digit_digit)
qed

lemma show_nat_nonempty [simp]: "show_nat n \<noteq> []"
  by (subst show_nat.simps) simp

lemma digits_val_show_nat [simp]: "digits_val (show_nat n) = n"
proof (induction n rule: show_nat.induct)
  case (1 n)
  show ?case
  proof (cases "n < 10")
    case True
    then show ?thesis
      by (subst show_nat.simps) (simp add: digits_val_def of_char_digit)
  next
    case False
    with "1" have "digits_val (show_nat (n div 10)) = n div 10" by simp
    with False show ?thesis
      by (subst show_nat.simps) (simp add: digits_val_def of_char_digit)
  qed
qed

lemma show_nat_inject: "show_nat m = show_nat n \<longleftrightarrow> m = n"
  by (metis digits_val_show_nat)

lemma not_digit_minus: "\<not> is_digit (CHR ''-'')"
  by (simp add: is_digit_def)

lemma show_nat_not_minus: "show_nat m \<noteq> CHR ''-'' # s"
  using show_nat_digits [of m] not_digit_minus by (metis list.set_intros(1))

lemma show_int_inject: "show_int i = show_int j \<longleftrightarrow> i = j"
  by (auto simp: show_int_def show_nat_inject show_nat_not_minus
      show_nat_not_minus [symmetric] split: if_splits)

text \<open>\<open>sep.join(parts)\<close>.\<close>

fun join :: "string \<Rightarrow> string list \<Rightarrow> string" where
  "join sep [] = []"
| "join sep [x] = x"
| "join sep (x # y # ys) = x @ sep @ join sep (y # ys)"

text \<open>\<open>s.split(c)\<close>.\<close>

fun split_at :: "char \<Rightarrow> string \<Rightarrow> string list" where
  "split_at c [] = [[]]"
| "split_at c (x # xs) =
     (if x = c then [] # split_at c xs
      else case split_at c xs of [] \<Rightarrow> [[x]] | y # ys \<Rightarrow> (x # y) # ys)"

lemma split_at_nonempty: "split_at c s \<noteq> []"
  by (induction s) (auto split: list.splits)

lemma split_at_plain: "c \<notin> set s \<Longrightarrow> split_at c s = [s]"
  by (induction s) auto

lemma split_at_sep: "c \<notin> set x \<Longrightarrow> split_at c (x @ c # s) = x # split_at c s"
  by (induction x) auto

text \<open>Splitting a joined text gives back the parts, when the separator is in none of them.\<close>

lemma split_join: "xs \<noteq> [] \<Longrightarrow> \<forall>x \<in> set xs. c \<notin> set x \<Longrightarrow> split_at c (join [c] xs) = xs"
proof (induction "[c]" xs rule: join.induct)
  case (3 x y ys)
  then show ?case using split_at_sep [of c x "join [c] (y # ys)"] by simp
qed (simp_all add: split_at_plain)

definition newline :: string where
  "newline = [CHR 0x0A]"

definition sq :: "string \<Rightarrow> string" where
  "sq s = CHR 0x27 # s @ [CHR 0x27]"

definition dq :: "string \<Rightarrow> string" where
  "dq s = CHR 0x22 # s @ [CHR 0x22]"

text \<open>The em dash of the messages, in UTF-8.\<close>

definition em_dash :: string where
  "em_dash = [CHR 0xE2, CHR 0x80, CHR 0x94]"

text \<open>\<open>s.startswith(p)\<close>.\<close>

definition starts_with :: "string \<Rightarrow> string \<Rightarrow> bool" where
  "starts_with p s \<longleftrightarrow> take (length p) s = p"

lemma dropWhile_shorter [termination_simp]: "length (dropWhile P xs) < Suc (length xs)"
  by (simp add: le_imp_less_Suc length_dropWhile_le)

section \<open>Regular expressions\<close>

text \<open>
  A pattern ending in \<open>$\<close> used with \<open>re.match\<close> also matches before one final newline:
  \<open>$\<close> is not \<open>\Z\<close>. \<open>re_dollar p s\<close> is the match of \<open>^p$\<close> for a predicate \<open>p\<close> on
  whole texts.
\<close>

definition re_dollar :: "(string \<Rightarrow> bool) \<Rightarrow> string \<Rightarrow> bool" where
  "re_dollar p s \<longleftrightarrow> p s \<or> (s \<noteq> [] \<and> last s = CHR 0x0A \<and> p (butlast s))"

definition is_hex :: "char \<Rightarrow> bool" where
  "is_hex c \<longleftrightarrow> is_digit c \<or> (97 \<le> (of_char c :: nat) \<and> (of_char c :: nat) \<le> 102)"

definition is_alpha :: "char \<Rightarrow> bool" where
  "is_alpha c \<longleftrightarrow> (65 \<le> (of_char c :: nat) \<and> (of_char c :: nat) \<le> 90)
     \<or> (97 \<le> (of_char c :: nat) \<and> (of_char c :: nat) \<le> 122)"

definition hex64_text :: "string \<Rightarrow> bool" where
  "hex64_text s \<longleftrightarrow> length s = 64 \<and> list_all is_hex s"

definition digits_text :: "string \<Rightarrow> bool" where
  "digits_text s \<longleftrightarrow> s \<noteq> [] \<and> list_all is_digit s"

definition semver_text :: "string \<Rightarrow> bool" where
  "semver_text s \<longleftrightarrow>
     (let a = takeWhile is_digit s; r = dropWhile is_digit s
      in a \<noteq> [] \<and> r \<noteq> [] \<and> hd r = CHR ''.'' \<and>
         (let b = takeWhile is_digit (tl r); q = dropWhile is_digit (tl r)
          in b \<noteq> [] \<and> q \<noteq> [] \<and> hd q = CHR ''.'' \<and> digits_text (tl q)))"

lemma re_dollar_exact: "p s \<Longrightarrow> re_dollar p s"
  by (simp add: re_dollar_def)

lemma re_dollar_no_newline: "re_dollar p s \<Longrightarrow> CHR 0x0A \<notin> set s \<Longrightarrow> p s"
  unfolding re_dollar_def by (metis last_in_set)

lemma re_dollar_newline: "p s \<Longrightarrow> re_dollar p (s @ [CHR 0x0A])"
  by (simp add: re_dollar_def)

section \<open>Sorting\<close>

text \<open>
  \<open>sorted(set(a) - set(b))\<close> for lists of distinct texts. A Python set has no order of its
  own, so iterating over one without \<open>sorted\<close> is modelled in the order of the list that
  built it; \<open>sorted_by_key_perm\<close> shows that a later sort hides the difference.
\<close>

definition sorted_diff :: "string list \<Rightarrow> string list \<Rightarrow> string list" where
  "sorted_diff xs ys = sort (filter (\<lambda>x. x \<notin> set ys) xs)"

lemma set_sorted_diff [simp]: "set (sorted_diff xs ys) = set xs - set ys"
  by (auto simp: sorted_diff_def)

lemma sorted_diff_Nil_iff: "sorted_diff xs ys = [] \<longleftrightarrow> set xs \<subseteq> set ys"
proof -
  have "sorted_diff xs ys = [] \<longleftrightarrow> set (sorted_diff xs ys) = {}" by (simp del: set_sorted_diff)
  then show ?thesis by auto
qed

lemma sort_key_Nil_iff [simp]: "sort_key f xs = [] \<longleftrightarrow> xs = []"
  by (metis length_0_conv length_sort)

lemma sorted_by_key_perm:
  assumes "mset xs = mset ys" and "inj_on f (set xs)"
  shows "sort_key f xs = sort_key f ys"
proof (rule sort_key_inj_key_eq)
  show "mset xs = mset (sort_key f ys)" by (simp add: assms(1))
  show "inj_on f (set xs)" by (fact assms(2))
  show "sorted (map f (sort_key f ys))" by simp
qed

end
