(* ===== verification/PyJson.thy ===== *)
theory PyJson
  imports PyBase
begin

text \<open>
  The values \<open>json.load\<close> returns, and the Python operations on them that the tools use:
  \<open>isinstance\<close>, \<open>dict.get\<close>, \<open>in\<close>, \<open>==\<close>, truth values, \<open>str\<close> and \<open>repr\<close>.
  A \<open>dict\<close> is its list of items in insertion order, with distinct keys (\<open>wf_json\<close>).
  A \<open>float\<close> is its \<open>repr\<close> text: equal texts are equal floats, and a text \<open>123.0\<close> equals
  the integer 123. Floats of magnitude at least \<open>1e16\<close>, whose text has an exponent, are
  unequal to every integer here; the tools compare numbers with small constants only.
\<close>

datatype json =
    JNull
  | JBool bool
  | JInt int
  | JFloat string
  | JStr string
  | JList "json list"
  | JObj "(string \<times> json) list"

type_synonym obj = "(string \<times> json) list"

section \<open>Dictionaries\<close>

definition jhas :: "string \<Rightarrow> obj \<Rightarrow> bool" where
  "jhas k d \<longleftrightarrow> k \<in> set (map fst d)"

definition jkeys :: "obj \<Rightarrow> string list" where
  "jkeys d = map fst d"

text \<open>\<open>d.get(k)\<close>, whose default is \<open>None\<close>, and \<open>d.get(k, v)\<close>.\<close>

definition jget_or :: "string \<Rightarrow> json \<Rightarrow> obj \<Rightarrow> json" where
  "jget_or k v d = (case map_of d k of None \<Rightarrow> v | Some w \<Rightarrow> w)"

definition jget :: "string \<Rightarrow> obj \<Rightarrow> json" where
  "jget k d = jget_or k JNull d"

text \<open>\<open>d[k]\<close>, which raises on a missing key.\<close>

definition jindex :: "string \<Rightarrow> obj \<Rightarrow> json py" where
  "jindex k d = (case map_of d k of None \<Rightarrow> Inl KeyError | Some w \<Rightarrow> Inr w)"

text \<open>\<open>{k: v for k, v in d.items() if k not in ks}\<close>, also \<open>pop\<close> of each key of \<open>ks\<close>.\<close>

definition jwithout :: "string list \<Rightarrow> obj \<Rightarrow> obj" where
  "jwithout ks d = filter (\<lambda>(k, v). k \<notin> set ks) d"

text \<open>\<open>d[k] = v\<close>: an existing key keeps its place, a new one goes to the end.\<close>

fun dict_set :: "'k \<Rightarrow> 'v \<Rightarrow> ('k \<times> 'v) list \<Rightarrow> ('k \<times> 'v) list" where
  "dict_set k v [] = [(k, v)]"
| "dict_set k v ((k', v') # d) = (if k = k' then (k, v) # d else (k', v') # dict_set k v d)"

lemma map_of_dict_set [simp]: "map_of (dict_set k v d) = (map_of d)(k \<mapsto> v)"
  by (induction k v d rule: dict_set.induct) auto

lemma set_map_fst_dict_set [simp]: "fst ` set (dict_set k v d) = insert k (fst ` set d)"
  by (induction k v d rule: dict_set.induct) auto

lemma distinct_dict_set: "distinct (map fst d) \<Longrightarrow> distinct (map fst (dict_set k v d))"
  by (induction k v d rule: dict_set.induct) auto

lemma jhas_map_of: "jhas k d \<longleftrightarrow> (\<exists>v. map_of d k = Some v)"
  by (auto simp: jhas_def dom_map_of_conv_image_fst [symmetric])

lemma jget_notin: "\<not> jhas k d \<Longrightarrow> jget k d = JNull"
  by (auto simp: jhas_map_of jget_def jget_or_def split: option.splits)

lemma jget_not_null: "jget k d \<noteq> JNull \<Longrightarrow> jhas k d"
  using jget_notin by blast

lemma jget_in: "map_of d k = Some v \<Longrightarrow> jget k d = v"
  by (simp add: jget_def jget_or_def)

lemma jindex_has: "jhas k d \<Longrightarrow> jindex k d = Inr (jget k d)"
  by (auto simp: jindex_def jhas_map_of jget_in)

lemma set_jkeys: "set (jkeys d) = fst ` set d"
  by (simp add: jkeys_def)

lemma jhas_jkeys: "k \<in> set (jkeys d) \<longleftrightarrow> jhas k d"
  by (simp add: jkeys_def jhas_def)

lemma size_item_less: "(k, v) \<in> set d \<Longrightarrow> size v < size (JObj d)"
  by (induction d) auto

lemma size_elem_less: "v \<in> set xs \<Longrightarrow> size v < size (JList xs)"
  by (induction xs) auto

lemma size_jget_less: "size (jget k d) < size (JObj d)"
proof (cases "map_of d k")
  case None
  then show ?thesis by (simp add: jget_def jget_or_def)
next
  case (Some v)
  then have "size v < size (JObj d)" by (blast intro: size_item_less dest: map_of_SomeD)
  with Some show ?thesis by (simp add: jget_in)
qed

lemma size_jget_term [termination_simp]:
  "size (jget k d) < Suc (size_list (\<lambda>x. Suc (size (snd x))) d)"
  using size_jget_less [of k d] by (simp add: size_prod_simp)

lemma size_jget_elem_less:
  assumes "jget k d = JList xs" and "v \<in> set xs"
  shows "size v < size (JObj d)"
proof -
  have "size v < size (JList xs)" using assms(2) by (rule size_elem_less)
  also have "\<dots> < size (JObj d)" using size_jget_less [of k d] assms(1) by simp
  finally show ?thesis .
qed

lemma size_jget_elem_term [termination_simp]:
  "jget k d = JList xs \<Longrightarrow> v \<in> set xs \<Longrightarrow> size v < Suc (size_list (\<lambda>x. Suc (size (snd x))) d)"
  using size_jget_elem_less [of k d xs v] by (simp add: size_prod_simp)

text \<open>\<open>set(d) - allowed\<close>, in the order of \<open>d\<close>, and the comparisons of \<open>set(d)\<close>.\<close>

definition key_diff :: "obj \<Rightarrow> string list \<Rightarrow> string list" where
  "key_diff d allowed = filter (\<lambda>k. k \<notin> set allowed) (jkeys d)"

definition same_keys :: "obj \<Rightarrow> string list \<Rightarrow> bool" where
  "same_keys d ks \<longleftrightarrow> list_all (\<lambda>k. k \<in> set ks) (jkeys d) \<and> list_all (\<lambda>k. jhas k d) ks"

lemma key_diff_Nil_iff: "key_diff d ks = [] \<longleftrightarrow> (\<forall>k. jhas k d \<longrightarrow> k \<in> set ks)"
  by (auto simp: key_diff_def filter_empty_conv jhas_jkeys)

lemma same_keys_iff: "same_keys d ks \<longleftrightarrow> (\<forall>k. jhas k d \<longleftrightarrow> k \<in> set ks)"
  unfolding same_keys_def list_all_iff Ball_def jhas_jkeys by blast

lemma size_zip_left [termination_simp]:
  "(x, y) \<in> set (zip xs ys) \<Longrightarrow> size (x :: json) < Suc (size_list size xs)"
  using size_elem_less [of x xs] by (auto dest: set_zip_leftD)

section \<open>Types and truth\<close>

fun is_str :: "json \<Rightarrow> bool" where
  "is_str (JStr _) = True"
| "is_str _ = False"

fun is_obj :: "json \<Rightarrow> bool" where
  "is_obj (JObj _) = True"
| "is_obj _ = False"

fun is_list :: "json \<Rightarrow> bool" where
  "is_list (JList _) = True"
| "is_list _ = False"

fun is_bool :: "json \<Rightarrow> bool" where
  "is_bool (JBool _) = True"
| "is_bool _ = False"

text \<open>\<open>isinstance(v, int) and not isinstance(v, bool)\<close>.\<close>

fun is_proper_int :: "json \<Rightarrow> bool" where
  "is_proper_int (JInt _) = True"
| "is_proper_int _ = False"

text \<open>The value as a list, the empty list for a value of another type.\<close>

fun as_list :: "json \<Rightarrow> json list" where
  "as_list (JList xs) = xs"
| "as_list _ = []"

text \<open>The text of a value, the empty one for a value of another type.\<close>

fun str_of :: "json \<Rightarrow> string" where
  "str_of (JStr s) = s"
| "str_of _ = []"

text \<open>The items of a value known to be an object.\<close>

fun as_obj :: "json \<Rightarrow> obj" where
  "as_obj (JObj d) = d"
| "as_obj _ = []"

text \<open>A non-empty \<open>str\<close>: the helper \<open>_s\<close>, \<open>nonempty\<close> or \<open>nonempty_str\<close> of the tools.\<close>

fun nonempty_str :: "json \<Rightarrow> bool" where
  "nonempty_str (JStr s) = (s \<noteq> [])"
| "nonempty_str _ = False"

lemma is_str_iff: "is_str v \<longleftrightarrow> (\<exists>s. v = JStr s)"
  by (cases v) auto

lemma is_obj_iff: "is_obj v \<longleftrightarrow> (\<exists>d. v = JObj d)"
  by (cases v) auto

lemma is_list_iff: "is_list v \<longleftrightarrow> (\<exists>xs. v = JList xs)"
  by (cases v) auto

lemma is_bool_iff: "is_bool v \<longleftrightarrow> (\<exists>b. v = JBool b)"
  by (cases v) auto

lemma nonempty_str_iff: "nonempty_str v \<longleftrightarrow> (\<exists>s. v = JStr s \<and> s \<noteq> [])"
  by (cases v) auto

lemma is_proper_int_iff: "is_proper_int v \<longleftrightarrow> (\<exists>i. v = JInt i)"
  by (cases v) auto

lemma ex_filter_obj: "(\<exists>v \<in> set (filter is_obj vs). Q v) \<longleftrightarrow> (\<exists>d. JObj d \<in> set vs \<and> Q (JObj d))"
  by (auto simp: is_obj_iff)

lemmas json_type_iffs = is_str_iff is_obj_iff is_list_iff is_bool_iff nonempty_str_iff
  is_proper_int_iff

lemma nonempty_strs_map:
  assumes "list_all nonempty_str vs"
  shows "vs = map JStr (map str_of vs)" and "[] \<notin> set (map str_of vs)"
  using assms by (induction vs) (auto simp: nonempty_str_iff)

text \<open>The texts of the two float zeros; every other float is true.\<close>

fun truthy :: "json \<Rightarrow> bool" where
  "truthy JNull = False"
| "truthy (JBool b) = b"
| "truthy (JInt i) = (i \<noteq> 0)"
| "truthy (JFloat t) = (t \<notin> {''0.0'', ''-0.0''})"
| "truthy (JStr s) = (s \<noteq> [])"
| "truthy (JList xs) = (xs \<noteq> [])"
| "truthy (JObj d) = (d \<noteq> [])"

section \<open>Equality and membership\<close>

text \<open>The integer a float equals, for a text of digits followed by \<open>.0\<close>.\<close>

definition float_int :: "string \<Rightarrow> int option" where
  "float_int t =
     (let neg = (t \<noteq> [] \<and> hd t = CHR ''-''); u = (if neg then tl t else t);
          ds = takeWhile is_digit u
      in if ds \<noteq> [] \<and> dropWhile is_digit u = ''.0''
         then Some (if neg then - int (digits_val ds) else int (digits_val ds)) else None)"

fun int_value :: "json \<Rightarrow> int option" where
  "int_value (JBool b) = Some (if b then 1 else 0)"
| "int_value (JInt i) = Some i"
| "int_value (JFloat t) = float_int t"
| "int_value _ = None"

text \<open>\<open>v == i\<close> for an integer constant: \<open>True\<close> and \<open>1.0\<close> equal 1.\<close>

definition eq_int :: "json \<Rightarrow> int \<Rightarrow> bool" where
  "eq_int v i \<longleftrightarrow> int_value v = Some i"

text \<open>\<open>v == w\<close> on two values.\<close>

fun jeq :: "json \<Rightarrow> json \<Rightarrow> bool" where
  "jeq (JStr s) w = (w = JStr s)"
| "jeq JNull w = (w = JNull)"
| "jeq (JList xs) w =
     (case w of
        JList ys \<Rightarrow> length xs = length ys \<and> list_all (\<lambda>(x, y). jeq x y) (zip xs ys)
      | _ \<Rightarrow> False)"
| "jeq (JObj d) w =
     (case w of
        JObj e \<Rightarrow> length d = length e \<and>
          list_all (\<lambda>(k, v). case map_of e k of None \<Rightarrow> False | Some u \<Rightarrow> jeq v u) d
      | _ \<Rightarrow> False)"
| "jeq (JBool b) w = (int_value w = Some (if b then 1 else 0))"
| "jeq (JInt i) w = (int_value w = Some i)"
| "jeq (JFloat t) w =
     (w = JFloat t \<or> (float_int t \<noteq> None \<and> int_value w = float_int t))"

text \<open>
  \<open>v in S\<close> for a set, dict or frozenset of texts: the hash of a list or a dict raises
  \<open>TypeError\<close>, and no number or \<open>None\<close> equals a text.
\<close>

fun in_strs :: "json \<Rightarrow> string list \<Rightarrow> bool py" where
  "in_strs (JList _) S = Inl TypeError"
| "in_strs (JObj _) S = Inl TypeError"
| "in_strs (JStr s) S = Inr (s \<in> set S)"
| "in_strs _ S = Inr False"

definition not_in_strs :: "json \<Rightarrow> string list \<Rightarrow> bool py" where
  "not_in_strs v S = pbind (in_strs v S) (\<lambda>b. Inr (\<not> b))"

definition hashable :: "json \<Rightarrow> bool" where
  "hashable v \<longleftrightarrow> \<not> is_list v \<and> \<not> is_obj v"

lemma in_strs_True [checks]: "in_strs v S = Inr True \<longleftrightarrow> (\<exists>s \<in> set S. v = JStr s)"
  by (cases v) auto

lemma not_in_strs_False [checks]: "not_in_strs v S = Inr False \<longleftrightarrow> (\<exists>s \<in> set S. v = JStr s)"
  by (cases v) (auto simp: not_in_strs_def)

lemma in_strs_raises: "in_strs v S = Inl e \<longleftrightarrow> \<not> hashable v \<and> e = TypeError"
  by (cases v) (auto simp: hashable_def)

lemma not_in_strs_raises: "not_in_strs v S = Inl e \<longleftrightarrow> \<not> hashable v \<and> e = TypeError"
  by (cases v) (auto simp: hashable_def not_in_strs_def)

lemma raises_only_in_strs [outcomes]: "raises_only (\<lambda>e. e = TypeError) (in_strs v S)"
  by (simp add: raises_only_def in_strs_raises)

lemma raises_only_not_in_strs [outcomes]: "raises_only (\<lambda>e. e = TypeError) (not_in_strs v S)"
  by (simp add: raises_only_def not_in_strs_raises)

lemma outcome_json_case [outcomes]:
  "(v = JNull \<Longrightarrow> outcome E P a) \<Longrightarrow> (\<And>b. v = JBool b \<Longrightarrow> outcome E P (f b)) \<Longrightarrow>
   (\<And>i. v = JInt i \<Longrightarrow> outcome E P (g i)) \<Longrightarrow> (\<And>t. v = JFloat t \<Longrightarrow> outcome E P (h t)) \<Longrightarrow>
   (\<And>s. v = JStr s \<Longrightarrow> outcome E P (k s)) \<Longrightarrow> (\<And>xs. v = JList xs \<Longrightarrow> outcome E P (l xs)) \<Longrightarrow>
   (\<And>d. v = JObj d \<Longrightarrow> outcome E P (m d)) \<Longrightarrow>
   outcome E P (case v of JNull \<Rightarrow> a | JBool b \<Rightarrow> f b | JInt i \<Rightarrow> g i | JFloat t \<Rightarrow> h t
     | JStr s \<Rightarrow> k s | JList xs \<Rightarrow> l xs | JObj d \<Rightarrow> m d)"
  by (cases v) simp_all

lemma outcome_option_case [outcomes]:
  "(z = None \<Longrightarrow> outcome E P a) \<Longrightarrow> (\<And>x. z = Some x \<Longrightarrow> outcome E P (f x)) \<Longrightarrow>
   outcome E P (case z of None \<Rightarrow> a | Some x \<Rightarrow> f x)"
  by (cases z) simp_all

text \<open>\<open>v in xs\<close> for a list: equality with each element, nothing is hashed.\<close>

definition in_list :: "json \<Rightarrow> json list \<Rightarrow> bool" where
  "in_list v xs \<longleftrightarrow> list_ex (jeq v) xs"

lemma jeq_JStr_right: "jeq v (JStr s) \<longleftrightarrow> v = JStr s"
  by (cases v) auto

lemma eq_int_JInt [simp]: "eq_int (JInt i) j \<longleftrightarrow> i = j"
  by (simp add: eq_int_def)

section \<open>Text of a value\<close>

definition hex_digit :: "nat \<Rightarrow> char" where
  "hex_digit n = (if n < 10 then digit n else char_of (87 + n))"

definition hex2 :: "char \<Rightarrow> string" where
  "hex2 c = (let n = of_char c :: nat in [hex_digit (n div 16), hex_digit (n mod 16)])"

text \<open>
  \<open>repr\<close> of a text: single quotes unless the text has a single and no double one. Bytes of
  a non-ASCII character stay as they are, which is Python's choice for printable ones.
\<close>

definition repr_char :: "char \<Rightarrow> char \<Rightarrow> string" where
  "repr_char quote c =
     (let n = of_char c :: nat
      in if c = quote \<or> c = CHR 0x5C then [CHR 0x5C, c]
         else if n = 9 then [CHR 0x5C, CHR ''t'']
         else if n = 10 then [CHR 0x5C, CHR ''n'']
         else if n = 13 then [CHR 0x5C, CHR ''r'']
         else if n < 32 \<or> n = 127 then [CHR 0x5C, CHR ''x''] @ hex2 c
         else [c])"

definition repr_str :: "string \<Rightarrow> string" where
  "repr_str s =
     (let quote = (if CHR 0x27 \<in> set s \<and> CHR 0x22 \<notin> set s then CHR 0x22 else CHR 0x27)
      in quote # concat (map (repr_char quote) s) @ [quote])"

fun py_repr :: "json \<Rightarrow> string" where
  "py_repr JNull = ''None''"
| "py_repr (JBool b) = (if b then ''True'' else ''False'')"
| "py_repr (JInt i) = show_int i"
| "py_repr (JFloat t) = t"
| "py_repr (JStr s) = repr_str s"
| "py_repr (JList xs) = ''['' @ join '', '' (map py_repr xs) @ '']''"
| "py_repr (JObj d) =
     ''{'' @ join '', '' (map (\<lambda>(k, v). repr_str k @ '': '' @ py_repr v) d) @ ''}''"

definition py_str :: "json \<Rightarrow> string" where
  "py_str v = (case v of JStr s \<Rightarrow> s | _ \<Rightarrow> py_repr v)"

text \<open>The text of a list of texts, as in a message that shows \<open>sorted(...)\<close>.\<close>

definition repr_strs :: "string list \<Rightarrow> string" where
  "repr_strs xs = ''['' @ join '', '' (map repr_str xs) @ '']''"

section \<open>Well-formed values\<close>

text \<open>
  What \<open>json.load\<close> guarantees: the keys of an object are distinct, and the text of a float
  is made of numeral characters and is not the text of an integer.
\<close>

definition is_numeral_char :: "char \<Rightarrow> bool" where
  "is_numeral_char c \<longleftrightarrow> is_digit c \<or> c \<in> set ''-+.e''"

definition wf_float :: "string \<Rightarrow> bool" where
  "wf_float t \<longleftrightarrow> t \<noteq> [] \<and> list_all is_numeral_char t \<and> (CHR ''.'' \<in> set t \<or> CHR ''e'' \<in> set t)"

fun wf_json :: "json \<Rightarrow> bool" where
  "wf_json (JList xs) = list_all wf_json xs"
| "wf_json (JObj d) = (distinct (map fst d) \<and> list_all (\<lambda>(k, v). wf_json v) d)"
| "wf_json (JFloat t) = wf_float t"
| "wf_json _ = True"

lemma wf_json_item: "wf_json (JObj d) \<Longrightarrow> (k, v) \<in> set d \<Longrightarrow> wf_json v"
  by (auto simp: list_all_iff)

lemma wf_json_jget: "wf_json (JObj d) \<Longrightarrow> wf_json (jget k d)"
  by (auto simp: jget_def jget_or_def list_all_iff split: option.splits dest!: map_of_SomeD)

text \<open>\<open>name[i]\<close>, the place of an element in the messages.\<close>

definition idx :: "string \<Rightarrow> nat \<Rightarrow> string" where
  "idx name i = name @ ''['' @ show_nat i @ '']''"

end
