(* ===== verification/Canonical.thy ===== *)
theory Canonical
  imports PyJson
begin

text \<open>
  The canonical JSON text the tools hash: \<open>json.dumps(o, sort_keys=True, separators=(",", ":"),
  ensure_ascii=False)\<close>, called \<open>_compact\<close>, \<open>compact\<close> or inlined in nine modules under
  \<open>scripts/\<close>. \<open>enc\<close> prints the items of an object in list order and \<open>compact\<close> sorts them.
  The text determines the value up to the order of object keys (\<open>compact_inject\<close>), so a digest
  of it pins that value as far as the hash function does not collide. The hash function
  \<open>hashlib.sha256(...).hexdigest()\<close> is an argument \<open>H\<close> of the definitions that use it.
\<close>

section \<open>Printing\<close>

definition json_escape :: "char \<Rightarrow> string" where
  "json_escape c =
     (let n = of_char c :: nat
      in if n = 34 then [CHR 0x5C, CHR 0x22]
         else if n = 92 then [CHR 0x5C, CHR 0x5C]
         else if n = 10 then [CHR 0x5C, CHR ''n'']
         else if n = 13 then [CHR 0x5C, CHR ''r'']
         else if n = 9 then [CHR 0x5C, CHR ''t'']
         else if n = 12 then [CHR 0x5C, CHR ''f'']
         else if n = 8 then [CHR 0x5C, CHR ''b'']
         else if n < 32 then [CHR 0x5C, CHR ''u'', CHR ''0'', CHR ''0''] @ hex2 c
         else [c])"

definition json_string :: "string \<Rightarrow> string" where
  "json_string s = dq (concat (map json_escape s))"

fun enc :: "json \<Rightarrow> string" where
  "enc JNull = ''null''"
| "enc (JBool b) = (if b then ''true'' else ''false'')"
| "enc (JInt i) = show_int i"
| "enc (JFloat t) = t"
| "enc (JStr s) = json_string s"
| "enc (JList xs) = ''['' @ join '','' (map enc xs) @ '']''"
| "enc (JObj d) = ''{'' @ join '','' (map (\<lambda>(k, v). json_string k @ '':'' @ enc v) d) @ ''}''"

fun compact :: "json \<Rightarrow> string" where
  "compact JNull = ''null''"
| "compact (JBool b) = (if b then ''true'' else ''false'')"
| "compact (JInt i) = show_int i"
| "compact (JFloat t) = t"
| "compact (JStr s) = json_string s"
| "compact (JList xs) = ''['' @ join '','' (map compact xs) @ '']''"
| "compact (JObj d) =
     ''{'' @ join '','' (map (\<lambda>(k, v). json_string k @ '':'' @ compact v) (sort_key fst d)) @ ''}''"

text \<open>The same value with the items of every object in key order.\<close>

fun canon :: "json \<Rightarrow> json" where
  "canon (JList xs) = JList (map canon xs)"
| "canon (JObj d) = JObj (sort_key fst (map (\<lambda>(k, v). (k, canon v)) d))"
| "canon v = v"

lemma insort_key_map:
  assumes "\<And>x. g (f x) = h x"
  shows "insort_key g (f x) (map f xs) = map f (insort_key h x xs)"
  by (induction xs) (auto simp: assms)

lemma sort_key_map_commute:
  assumes "\<And>x. g (f x) = h x"
  shows "sort_key g (map f xs) = map f (sort_key h xs)"
  by (induction xs) (simp_all add: insort_key_map [where g = g and f = f and h = h, OF assms])

lemma canon_obj: "canon (JObj d) = JObj (map (\<lambda>(k, v). (k, canon v)) (sort_key fst d))"
  using sort_key_map_commute [of fst "\<lambda>(k, v). (k, canon v)" fst d] by (simp add: split_beta)

lemma compact_enc_canon: "compact v = enc (canon v)"
proof (induction v rule: compact.induct)
  case (6 xs)
  then have "map compact xs = map enc (map canon xs)" by simp
  then show ?case by (simp only: compact.simps canon.simps enc.simps)
next
  case (7 d)
  have "map (\<lambda>(k, v). json_string k @ '':'' @ compact v) (sort_key fst d) =
    map (\<lambda>(k, v). json_string k @ '':'' @ enc v) (map (\<lambda>(k, v). (k, canon v)) (sort_key fst d))"
    using "7" by auto
  then show ?case by (simp only: canon_obj compact.simps enc.simps)
qed simp_all

lemma canon_idem: "canon (canon v) = canon v"
proof (induction v rule: canon.induct)
  case (2 d)
  then have "map (\<lambda>(k, v). (k, canon v)) (map (\<lambda>(k, v). (k, canon v)) (sort_key fst d)) =
    map (\<lambda>(k, v). (k, canon v)) (sort_key fst d)"
    by auto
  moreover have "sorted (map fst (map (\<lambda>(k, v). (k, canon v)) (sort_key fst d)))"
    by (simp add: comp_def split_beta)
  ultimately show ?case
    by (simp only: canon_obj sort_key_id_if_sorted)
qed auto

section \<open>Reading back\<close>

text \<open>A text that may follow a value: nothing, or a separator or closing bracket.\<close>

definition delim :: "string \<Rightarrow> bool" where
  "delim x \<longleftrightarrow> x = [] \<or> hd x \<in> {CHR '','', CHR '']'', CHR ''}''}"

lemma of_char_hex_digit:
  "k < 16 \<Longrightarrow> of_char (hex_digit k) = (if k < 10 then 48 + k else 87 + k)"
  by (simp add: hex_digit_def of_char_digit of_char_of)

lemma hex_digit_inject:
  assumes "m < 16" and "n < 16" and "hex_digit m = hex_digit n"
  shows "m = n"
proof -
  have "of_char (hex_digit m) = (of_char (hex_digit n) :: nat)" using assms(3) by (rule arg_cong)
  then have "(if m < 10 then 48 + m else 87 + m) = (if n < 10 then 48 + n else 87 + n)"
    by (simp only: of_char_hex_digit [OF assms(1)] of_char_hex_digit [OF assms(2)])
  then show ?thesis using assms(1,2) by (simp split: if_splits)
qed

lemma hex2_inject: "hex2 c = hex2 d \<Longrightarrow> c = d"
proof -
  assume eq: "hex2 c = hex2 d"
  have b: "of_char e div 16 < (16::nat)" for e :: char
    using nat_of_char_less_256 [of e] by (simp add: less_mult_imp_div_less)
  have "of_char c div 16 = (of_char d div 16 :: nat)" "of_char c mod 16 = (of_char d mod 16 :: nat)"
    using eq hex_digit_inject b by (simp_all add: hex2_def Let_def)
  then have "(of_char c :: nat) = of_char d"
    by (metis div_mult_mod_eq)
  then show ?thesis by simp
qed
text \<open>
  An escaped character is one byte, two bytes or six; the first two bytes tell which, so the
  encoding of a text can be cut into characters in one way only.
\<close>

lemma json_escape_cases:
  obtains (plain) "json_escape c = [c]" "c \<noteq> CHR 0x22" "c \<noteq> CHR 0x5C"
  | (short) d where "json_escape c = [CHR 0x5C, d]" "d \<noteq> CHR ''u''"
  | (long) "json_escape c = [CHR 0x5C, CHR ''u'', CHR ''0'', CHR ''0''] @ hex2 c"
proof -
  consider "of_char c = (34::nat)" | "of_char c = (92::nat)" | "of_char c = (10::nat)"
    | "of_char c = (13::nat)" | "of_char c = (9::nat)" | "of_char c = (12::nat)"
    | "of_char c = (8::nat)" | "of_char c < (32::nat)" "of_char c \<notin> {8,9,10,12,13::nat}"
    | "32 \<le> (of_char c::nat)" "of_char c \<notin> {34,92::nat}" by fastforce
  then show thesis
    by cases (auto simp: json_escape_def Let_def intro: that)
qed

definition short_escape_value :: "char \<Rightarrow> nat" where
  "short_escape_value x =
     (if x = CHR 0x22 then 34 else if x = CHR 0x5C then 92 else if x = CHR ''n'' then 10
      else if x = CHR ''r'' then 13 else if x = CHR ''t'' then 9
      else if x = CHR ''f'' then 12 else 8)"

lemma json_escape_short: "json_escape c = [CHR 0x5C, x] \<Longrightarrow> of_char c = short_escape_value x"
  by (auto simp: json_escape_def Let_def short_escape_value_def hex2_def split: if_splits)

lemma json_escape_inject:
  assumes "json_escape c = json_escape d"
  shows "c = d"
proof (cases rule: json_escape_cases [of c])
  case plain
  with assms show ?thesis
    by (cases rule: json_escape_cases [of d]) auto
next
  case (short x)
  with assms have "of_char c = short_escape_value x" "of_char d = short_escape_value x"
    by (simp_all add: json_escape_short)
  then have "(of_char c :: nat) = of_char d" by simp
  then show ?thesis by simp
next
  case long
  with assms show ?thesis
    by (cases rule: json_escape_cases [of d]) (auto dest: hex2_inject)
qed

lemma length_hex2 [simp]: "length (hex2 c) = 2"
  by (simp add: hex2_def Let_def)

lemma escape_prefix:
  assumes "json_escape c @ x = json_escape d @ y"
  shows "c = d \<and> x = y"
proof -
  have "length (json_escape c) = length (json_escape d)"
    using assms by (cases rule: json_escape_cases [of c]; cases rule: json_escape_cases [of d]) auto
  with assms show ?thesis by (auto dest: json_escape_inject)
qed

lemma escape_not_quote: "json_escape c @ x \<noteq> CHR 0x22 # y"
  by (cases rule: json_escape_cases [of c]) auto

lemma escapes_prefix:
  "concat (map json_escape s) @ CHR 0x22 # x = concat (map json_escape t) @ CHR 0x22 # y
   \<Longrightarrow> s = t \<and> x = y"
proof (induction s arbitrary: t)
  case Nil
  show ?case
  proof (cases t)
    case (Cons d t')
    with Nil have "json_escape d @ concat (map json_escape t') @ CHR 0x22 # y = CHR 0x22 # x"
      by simp
    then show ?thesis using escape_not_quote by blast
  qed (use Nil in simp)
next
  case (Cons c s)
  obtain d t' where t: "t = d # t'"
  proof (cases t)
    case t: Nil
    with Cons.prems have "json_escape c @ concat (map json_escape s) @ CHR 0x22 # x = CHR 0x22 # y"
      by simp
    then show ?thesis using escape_not_quote by blast
  qed
  with Cons.prems have "c = d \<and>
    concat (map json_escape s) @ CHR 0x22 # x = concat (map json_escape t') @ CHR 0x22 # y"
    by (intro escape_prefix) simp
  with Cons.IH t show ?case by blast
qed

lemma json_string_prefix: "json_string s @ x = json_string t @ y \<Longrightarrow> s = t \<and> x = y"
  by (rule escapes_prefix) (simp add: json_string_def dq_def)

section \<open>The text determines the value\<close>

fun wf_floats :: "json \<Rightarrow> bool" where
  "wf_floats (JList xs) = list_all wf_floats xs"
| "wf_floats (JObj d) = list_all (\<lambda>(k, v). wf_floats v) d"
| "wf_floats (JFloat t) = wf_float t"
| "wf_floats _ = True"

lemma wf_json_floats: "wf_json v \<Longrightarrow> wf_floats v"
  by (induction v rule: wf_json.induct) (auto simp: list_all_iff)

lemma wf_floats_canon: "wf_floats (canon v) \<longleftrightarrow> wf_floats v"
  by (induction v rule: canon.induct) (auto simp: list_all_iff)

definition numeral_text :: "string \<Rightarrow> bool" where
  "numeral_text t \<longleftrightarrow> t \<noteq> [] \<and> list_all is_numeral_char t"

lemma numeral_show_int: "numeral_text (show_int i)"
  using show_nat_digits
  by (auto simp: numeral_text_def show_int_def list_all_iff is_numeral_char_def)

lemma numeral_wf_float: "wf_float t \<Longrightarrow> numeral_text t"
  by (simp add: wf_float_def numeral_text_def)

lemma not_numeral [simp]:
  "\<not> is_numeral_char (CHR '','')" "\<not> is_numeral_char (CHR '']'')" "\<not> is_numeral_char (CHR ''}'')"
  "\<not> is_numeral_char (CHR ''['')" "\<not> is_numeral_char (CHR ''{'')" "\<not> is_numeral_char (CHR ''n'')"
  "\<not> is_numeral_char (CHR ''t'')" "\<not> is_numeral_char (CHR ''f'')" "\<not> is_numeral_char (CHR 0x22)"
  by (simp_all add: is_numeral_char_def is_digit_def)

lemma takeWhile_numeral:
  assumes "numeral_text t" and "delim x"
  shows "takeWhile is_numeral_char (t @ x) = t"
proof -
  have "takeWhile is_numeral_char (t @ x) = t @ takeWhile is_numeral_char x"
    using assms(1) by (simp add: numeral_text_def list_all_iff)
  also have "takeWhile is_numeral_char x = []"
    using assms(2) by (cases x) (auto simp: delim_def)
  finally show ?thesis by simp
qed

lemma numeral_prefix:
  "numeral_text s \<Longrightarrow> numeral_text t \<Longrightarrow> delim x \<Longrightarrow> delim y \<Longrightarrow> s @ x = t @ y \<Longrightarrow> s = t \<and> x = y"
  by (metis takeWhile_numeral same_append_eq)

lemma show_int_not_float: "wf_float t \<Longrightarrow> show_int i \<noteq> t"
proof
  assume wf: "wf_float t" and eq: "show_int i = t"
  have "\<not> is_digit (CHR ''.'')" "\<not> is_digit (CHR ''e'')" by (simp_all add: is_digit_def)
  then have "CHR ''.'' \<notin> set (show_int i)" "CHR ''e'' \<notin> set (show_int i)"
    using show_nat_digits by (auto simp: show_int_def)
  with wf eq show False by (simp add: wf_float_def)
qed

text \<open>Sequences of encoded items: a separator cannot be confused with a closing bracket.\<close>

lemma join_Cons: "join sep (x # xs) = x @ concat (map (\<lambda>y. sep @ y) xs)"
  by (induction xs arbitrary: x) auto

lemma tails_prefix:
  assumes "\<And>v w x y. v \<in> set vs \<Longrightarrow> w \<in> set ws \<Longrightarrow> delim x \<Longrightarrow> delim y \<Longrightarrow>
      f v @ x = f w @ y \<Longrightarrow> v = w \<and> x = y"
    and "e \<in> {CHR '']'', CHR ''}''}"
    and "concat (map (\<lambda>v. '','' @ f v) vs) @ e # x = concat (map (\<lambda>v. '','' @ f v) ws) @ e # y"
  shows "vs = ws \<and> x = y"
  using assms(1,3)
proof (induction vs arbitrary: ws)
  case Nil
  with assms(2) show ?case by (cases ws) auto
next
  case (Cons v vs)
  obtain w ws' where ws: "ws = w # ws'"
    using Cons.prems(2) assms(2) by (cases ws) auto
  let ?x = "concat (map (\<lambda>v. '','' @ f v) vs) @ e # x"
  let ?y = "concat (map (\<lambda>v. '','' @ f v) ws') @ e # y"
  have d: "delim ?x" "delim ?y"
    using assms(2) by (cases vs; cases ws'; auto simp: delim_def)+
  have "f v @ ?x = f w @ ?y" using Cons.prems(2) ws by simp
  then have "v = w \<and> ?x = ?y"
    using Cons.prems(1) [of v w, OF _ _ d] ws by simp
  moreover have "vs = ws' \<and> x = y"
    using calculation Cons.prems(1) ws by (intro Cons.IH) auto
  ultimately show ?case using ws by simp
qed

lemma joined_prefix:
  assumes "\<And>v w x y. v \<in> set vs \<Longrightarrow> w \<in> set ws \<Longrightarrow> delim x \<Longrightarrow> delim y \<Longrightarrow>
      f v @ x = f w @ y \<Longrightarrow> v = w \<and> x = y"
    and e: "e \<in> {CHR '']'', CHR ''}''}"
    and ne: "\<And>v. v \<in> set vs \<union> set ws \<Longrightarrow> f v \<noteq> [] \<and> hd (f v) \<noteq> e"
    and eq: "join '','' (map f vs) @ e # x = join '','' (map f ws) @ e # y"
  shows "vs = ws \<and> x = y"
proof (cases vs)
  case vs: Nil
  show ?thesis
  proof (cases ws)
    case (Cons w ws')
    with eq vs ne [of w] show ?thesis by (cases "f w") (auto simp: join_Cons)
  qed (use vs eq in simp)
next
  case vs: (Cons v vs')
  show ?thesis
  proof (cases ws)
    case Nil
    with eq vs ne [of v] show ?thesis by (cases "f v") (auto simp: join_Cons)
  next
    case ws: (Cons w ws')
    let ?x = "concat (map (\<lambda>v. '','' @ f v) vs') @ e # x"
    let ?y = "concat (map (\<lambda>v. '','' @ f v) ws') @ e # y"
    have d: "delim ?x" "delim ?y"
      using e by (cases vs'; cases ws'; auto simp: delim_def)+
    have "f v @ ?x = f w @ ?y"
      using eq vs ws by (simp add: join_Cons comp_def)
    then have "v = w \<and> ?x = ?y" using assms(1) [of v w, OF _ _ d] vs ws by simp
    moreover have "vs' = ws' \<and> x = y"
      using calculation assms(1) vs ws by (intro tails_prefix [where f = f, OF _ e]) auto
    ultimately show ?thesis using vs ws by simp
  qed
qed

lemma enc_head:
  assumes "wf_floats v"
  shows "enc v \<noteq> [] \<and> hd (enc v) \<notin> {CHR '','', CHR '']'', CHR ''}''}"
proof (cases v)
  case (JInt i)
  then show ?thesis
    using numeral_show_int [of i] by (cases "show_int i") (auto simp: numeral_text_def)
next
  case (JFloat t)
  then show ?thesis
    using numeral_wf_float [of t] assms by (cases t) (auto simp: numeral_text_def)
qed (auto simp: json_string_def dq_def)

lemma enc_number_prefix:
  assumes "delim x" and "delim y" and "wf_floats b" and "enc a @ x = enc b @ y"
    and "numeral_text (enc a)" and a: "a = JInt i \<or> (a = JFloat t \<and> wf_float t)"
  shows "a = b \<and> x = y"
proof -
  have "numeral_text (enc b)"
  proof (cases b)
    case (JInt j)
    then show ?thesis by (simp add: numeral_show_int)
  next
    case (JFloat u)
    with assms(3) show ?thesis by (simp add: numeral_wf_float)
  qed (use assms(4,5) in \<open>cases "enc a"; auto simp: numeral_text_def json_string_def dq_def split: if_splits\<close>)+
  with assms have eq: "enc a = enc b" "x = y" using numeral_prefix by blast+
  have "a = b"
  proof (cases b)
    case (JInt j)
    with a eq(1) show ?thesis by (auto simp: show_int_inject dest: show_int_not_float)
  next
    case (JFloat u)
    with a eq(1) assms(3) show ?thesis by (auto dest: show_int_not_float)
  qed (use \<open>numeral_text (enc b)\<close> in \<open>auto simp: numeral_text_def json_string_def dq_def split: if_splits\<close>)
  with eq(2) show ?thesis by simp
qed

lemma hd_show_int: "is_numeral_char (hd (show_int i))"
  using numeral_show_int [of i] by (cases "show_int i") (auto simp: numeral_text_def)

lemma hd_float: "wf_float t \<Longrightarrow> is_numeral_char (hd t)"
  using numeral_wf_float [of t] by (cases t) (auto simp: numeral_text_def)

lemma numeral_not_letter: "is_numeral_char c \<Longrightarrow> CHR ''t'' \<noteq> c \<and> CHR ''f'' \<noteq> c"
  by auto

lemma enc_hd_eq:
  assumes "wf_floats a" and "wf_floats b" and "enc a @ x = enc b @ y"
  shows "hd (enc a) = hd (enc b)"
  using assms enc_head by (metis hd_append2)

lemma enc_same_kind:
  assumes "wf_floats a" and "wf_floats b" and "enc a @ x = enc b @ y"
  shows "(a = JNull \<longleftrightarrow> b = JNull) \<and> (a = JBool c \<longleftrightarrow> b = JBool c) \<and> (is_str a \<longleftrightarrow> is_str b)
    \<and> (is_list a \<longleftrightarrow> is_list b) \<and> (is_obj a \<longleftrightarrow> is_obj b)"
proof -
  have "is_numeral_char (hd (enc v))" if "wf_floats v" "int_value v \<noteq> None \<or> (\<exists>t. v = JFloat t)" "\<not> is_bool v" for v
    using that by (cases v) (auto simp: hd_show_int hd_float)
  note num = this [of a] this [of b]
  have hd: "hd (enc a) = hd (enc b)" using assms by (rule enc_hd_eq)
  then have "is_numeral_char (hd (enc a)) = is_numeral_char (hd (enc b))" by (rule arg_cong)
  then show ?thesis
    by (cases a; cases b) (use num assms(1,2) hd in \<open>auto simp: json_string_def dq_def split: if_splits dest!: numeral_not_letter\<close>)
qed

lemma enc_list_prefix:
  assumes "\<And>v w x y. v \<in> set vs \<Longrightarrow> w \<in> set ws \<Longrightarrow> delim x \<Longrightarrow> delim y \<Longrightarrow>
      enc v @ x = enc w @ y \<Longrightarrow> v = w \<and> x = y"
    and "list_all wf_floats vs" and "list_all wf_floats ws"
    and "enc (JList vs) @ x = enc (JList ws) @ y"
  shows "vs = ws \<and> x = y"
  by (rule joined_prefix [where f = enc and e = "CHR '']''"])
    (use assms enc_head in \<open>auto simp: list_all_iff\<close>)

lemma enc_obj_prefix:
  assumes "\<And>v w x y. v \<in> snd ` set d \<Longrightarrow> w \<in> snd ` set e \<Longrightarrow> delim x \<Longrightarrow> delim y \<Longrightarrow>
      enc v @ x = enc w @ y \<Longrightarrow> v = w \<and> x = y"
    and "enc (JObj d) @ x = enc (JObj e) @ y"
  shows "d = e \<and> x = y"
proof (rule joined_prefix [where f = "\<lambda>(k, v). json_string k @ '':'' @ enc v" and e = "CHR ''}''"])
  fix p q x y
  assume pq: "p \<in> set d" "q \<in> set e" and dl: "delim x" "delim y"
    and eq: "(case p of (k, v) \<Rightarrow> json_string k @ '':'' @ enc v) @ x =
      (case q of (k, v) \<Rightarrow> json_string k @ '':'' @ enc v) @ y"
  obtain k v where p: "p = (k, v)" by fastforce
  obtain l w where q: "q = (l, w)" by fastforce
  have "k = l \<and> '':'' @ enc v @ x = '':'' @ enc w @ y"
    using eq p q by (intro json_string_prefix) simp
  then have "k = l" and "enc v @ x = enc w @ y" by auto
  moreover have "v = w \<and> x = y"
    using calculation(2) pq p q dl by (intro assms(1)) force+
  ultimately show "p = q \<and> x = y" using p q by simp
qed (use assms(2) in \<open>auto simp: json_string_def dq_def\<close>)

lemma enc_prefix:
  "wf_floats a \<Longrightarrow> wf_floats b \<Longrightarrow> delim x \<Longrightarrow> delim y \<Longrightarrow> enc a @ x = enc b @ y \<Longrightarrow>
   a = b \<and> x = y"
proof (induction a arbitrary: b x y)
  case JNull
  then show ?case using enc_same_kind [of JNull b x y] by simp
next
  case (JBool c)
  then show ?case using enc_same_kind [of "JBool c" b x y c] by auto
next
  case (JInt i)
  then show ?case
    by (intro enc_number_prefix [where i = i and t = "[]"]) (simp_all add: numeral_show_int)
next
  case (JFloat t)
  then show ?case
    by (intro enc_number_prefix [where t = t and i = 0]) (simp_all add: numeral_wf_float)
next
  case (JStr s)
  then have "is_str b" using enc_same_kind [of "JStr s" b x y] by simp
  then obtain t where "b = JStr t" using is_str_iff by blast
  with JStr show ?case using json_string_prefix [of s x t y] by simp
next
  case (JList vs)
  then have "is_list b" using enc_same_kind [of "JList vs" b x y] by simp
  then obtain ws where b: "b = JList ws" using is_list_iff by blast
  have "vs = ws \<and> x = y"
    by (rule enc_list_prefix) (use JList b in \<open>auto simp: list_all_iff\<close>)
  with b show ?case by simp
next
  case (JObj d)
  then have "is_obj b" using enc_same_kind [of "JObj d" b x y] by simp
  then obtain e where b: "b = JObj e" using is_obj_iff by blast
  have "d = e \<and> x = y"
  proof (rule enc_obj_prefix)
    fix v w x y
    assume a: "v \<in> snd ` set d" "w \<in> snd ` set e" "delim x" "delim y" "enc v @ x = enc w @ y"
    then obtain p where p: "p \<in> set d" "v \<in> Basic_BNFs.snds p" by auto
    have "wf_floats v" "wf_floats w" using JObj.prems(1,2) b a(1,2) by (auto simp: list_all_iff)
    then show "v = w \<and> x = y" using a(3-5) by (rule JObj.IH [OF p])
  qed (use JObj.prems(5) b in simp)
  with b show ?case by simp
qed

text \<open>Two values with one canonical text differ at most in the order of object keys.\<close>

lemma compact_canon: "canon a = canon b \<Longrightarrow> compact a = compact b"
  by (simp add: compact_enc_canon)

lemma compact_inject:
  assumes "wf_json a" and "wf_json b" and "compact a = compact b"
  shows "canon a = canon b"
  using enc_prefix [of "canon a" "canon b" "[]" "[]"] assms
  by (simp add: compact_enc_canon wf_floats_canon wf_json_floats delim_def)

section \<open>Pinning a document by a digest\<close>

text \<open>
  The contract between the tools that hash a document and the canonical text: equal texts mean
  equal documents up to their normal form. \<open>tamper\<close> is what every hash check rests on: with
  no collision between the two texts, a document with the pinned digest is the pinned one.
\<close>

locale canonical_text =
  fixes text_of :: "'d \<Rightarrow> string" and norm :: "'d \<Rightarrow> 'd" and ok :: "'d \<Rightarrow> bool"
  assumes text_norm: "text_of (norm a) = text_of a"
    and text_inject: "ok a \<Longrightarrow> ok b \<Longrightarrow> text_of a = text_of b \<Longrightarrow> norm a = norm b"
begin

lemma digest_stable: "norm a = norm b \<Longrightarrow> H (text_of a) = H (text_of b)"
  by (metis text_norm)

lemma tamper:
  assumes "ok a" and "ok b" and "inj_on H {text_of a, text_of b}"
    and "H (text_of a) = H (text_of b)"
  shows "norm a = norm b"
  using assms by (meson inj_onD insertCI text_inject)

end

interpretation canonical: canonical_text compact canon wf_json
proof
  show "compact (canon a) = compact a" for a
    by (simp add: compact_enc_canon canon_idem)
  show "canon a = canon b" if "wf_json a" "wf_json b" "compact a = compact b" for a b
    using that by (rule compact_inject)
qed

section \<open>Objects as maps\<close>

text \<open>Two objects have one normal form iff they hold the same values under the same keys.\<close>

lemma canon_items: "map_of (map (\<lambda>(k, v). (k, canon v)) d) k = map_option canon (map_of d k)"
  by (induction d) auto

lemma sort_key_fst_map_of:
  assumes "distinct (map fst d)"
  shows "map_of (sort_key fst d) = map_of d"
proof (rule map_of_eqI)
  show "set (map fst (sort_key fst d)) = set (map fst d)" by simp
  show "\<forall>k \<in> set (map fst (sort_key fst d)). map_of (sort_key fst d) k = map_of d k"
  proof
    fix k assume "k \<in> set (map fst (sort_key fst d))"
    then obtain v where v: "(k, v) \<in> set d" by auto
    have "distinct (map fst (sort_key fst d))"
      using assms by (metis distinct_map distinct_sort set_sort)
    with v assms show "map_of (sort_key fst d) k = map_of d k" by simp
  qed
qed

lemma canon_obj_iff:
  assumes "distinct (map fst d)" and "distinct (map fst e)"
  shows "canon (JObj d) = canon (JObj e) \<longleftrightarrow>
    (\<forall>k. map_option canon (map_of d k) = map_option canon (map_of e k))"
proof -
  let ?d = "map (\<lambda>(k, v). (k, canon v)) d" and ?e = "map (\<lambda>(k, v). (k, canon v)) e"
  have dist: "distinct (map fst ?d)" "distinct (map fst ?e)"
    using assms by (simp_all add: comp_def split_beta)
  have "sort_key fst ?d = sort_key fst ?e \<longleftrightarrow> map_of ?d = map_of ?e"
  proof
    assume "map_of ?d = map_of ?e"
    then have "set ?d = set ?e" using dist by (metis map_of_inject_set)
    then have "mset ?d = mset ?e"
      using dist by (metis distinct_map set_eq_iff_mset_eq_distinct)
    then show "sort_key fst ?d = sort_key fst ?e"
      using dist(1) [unfolded distinct_map] by (intro sorted_by_key_perm) blast+
  next
    assume "sort_key fst ?d = sort_key fst ?e"
    then show "map_of ?d = map_of ?e" using dist sort_key_fst_map_of by metis
  qed
  then show ?thesis by (auto simp: fun_eq_iff canon_items)
qed

lemma map_of_jwithout: "map_of (jwithout ks d) k = (if k \<in> set ks then None else map_of d k)"
  by (induction d) (auto simp: jwithout_def)

lemma wf_jwithout: "wf_json (JObj d) \<Longrightarrow> wf_json (JObj (jwithout ks d))"
  by (auto simp: jwithout_def list_all_iff distinct_map_filter)

lemma set_dict_set_snd: "v' \<in> snd ` set (dict_set k v d) \<Longrightarrow> v' = v \<or> v' \<in> snd ` set d"
  by (induction k v d rule: dict_set.induct) (auto split: if_splits)

lemma wf_dict_set: "wf_json (JObj d) \<Longrightarrow> wf_json v \<Longrightarrow> wf_json (JObj (dict_set k v d))"
  using set_dict_set_snd by (fastforce simp: list_all_iff distinct_dict_set)

end
