(* ===== verification/SpecExpr.thy ===== *)
theory SpecExpr
  imports Canonical
begin

text \<open>
  The building blocks of \<open>scripts/validators/validate_capability_spec.py\<close>: diagnostics, the
  check of an expression tree (\<open>_validate_expr\<close>), the variables it mentions (\<open>_expr_vars\<close>) and
  the small schema mirrors (\<open>_str_array\<close>, \<open>_validate_source\<close>, \<open>_validate_operand\<close>,
  \<open>_exact_object\<close>, \<open>_str_or_null\<close>). The lemmas say what passing each check means.
\<close>

section \<open>Diagnostics\<close>

record diagnostic =
  dcode :: string
  dseverity :: string
  dmessage :: string

definition diag :: "string \<Rightarrow> string \<Rightarrow> diagnostic" where
  "diag c m = \<lparr>dcode = c, dseverity = ''error'', dmessage = m\<rparr>"

type_synonym diags = "diagnostic list py"

text \<open>A checker all of whose diagnostics are errors.\<close>

abbreviation errs :: "diagnostic \<Rightarrow> bool" where
  "errs d \<equiv> dseverity d = ''error''"

abbreviation errors_only :: "diags \<Rightarrow> bool" where
  "errors_only m \<equiv> outcome (\<lambda>_. True) errs m"

lemma errs_diag [simp]: "dseverity (diag c m) = ''error''"
  by (simp add: diag_def)

lemma raises_any [outcomes]: "raises_only (\<lambda>_. True) m"
  by (simp add: raises_only_def)

text \<open>An exit status of 0 is then the absence of diagnostics.\<close>

lemma errors_only_none:
  "errors_only m \<Longrightarrow> m = Inr ds \<Longrightarrow> list_ex errs ds \<longleftrightarrow> ds \<noteq> []"
  by (cases ds) (auto simp: outcome_def)

definition schema_error :: "string \<Rightarrow> diagnostic" where
  "schema_error m = diag ''spec.schema'' m"

definition categories :: "string list" where
  "categories = [''money'', ''decimal'', ''party'', ''currency'', ''evidence'', ''string'', ''extension'']"

text \<open>\<open>for k in set(d) - allowed: out.append(diag("spec.unknown_field", ...))\<close>.\<close>

definition unknown_fields :: "obj \<Rightarrow> string list \<Rightarrow> string \<Rightarrow> diags" where
  "unknown_fields d allowed pre =
     Inr (map (\<lambda>k. diag ''spec.unknown_field'' (pre @ sq k)) (key_diff d allowed))"

lemma unknown_fields_pass [checks]:
  "unknown_fields d allowed pre = Inr [] \<longleftrightarrow> (\<forall>k. jhas k d \<longrightarrow> k \<in> set allowed)"
  by (simp add: unknown_fields_def key_diff_Nil_iff)

section \<open>Expressions\<close>

definition ast_fields :: "string list" where
  "ast_fields = [''kind'', ''dtype'', ''num'', ''name'', ''op'', ''lhs'', ''rhs'', ''args'']"

definition arith_ops :: "string list" where
  "arith_ops = [''+'', ''-'', ''*'', ''/'']"

definition cmp_ops :: "string list" where
  "cmp_ops = [''<'', ''<='', ''>'', ''>='', ''=='', ''!='']"

fun validate_expr :: "json \<Rightarrow> string \<Rightarrow> diags" where
  "validate_expr node w =
     (case node of
        JObj d \<Rightarrow>
          chks [
            unknown_fields d ast_fields (w @ '': unknown ast field ''),
            emit_ifp (not_in_strs (jget ''dtype'' d) categories)
              (diag ''spec.bad_category''
                 (w @ '': ast dtype '' @ sq (py_str (jget ''dtype'' d)) @ '' not a value category'')),
            (let kind = jget ''kind'' d in
             if kind = JStr ''num'' then
               emit_if (\<not> is_proper_int (jget ''num'' d))
                 (schema_error (w @ '': num node needs integer '' @ sq ''num''))
             else if kind = JStr ''var'' then
               emit_if (\<not> nonempty_str (jget ''name'' d))
                 (schema_error (w @ '': var node needs '' @ sq ''name''))
             else if kind = JStr ''bin'' then
               chks [
                 emit_ifp (not_in_strs (jget ''op'' d) arith_ops)
                   (schema_error (w @ '': bin node op '' @ sq (py_str (jget ''op'' d)) @ '' invalid'')),
                 validate_expr (jget ''lhs'' d) (w @ ''.lhs''),
                 validate_expr (jget ''rhs'' d) (w @ ''.rhs'')]
             else if kind = JStr ''call'' then
               chks [
                 emit_if (\<not> nonempty_str (jget ''name'' d))
                   (schema_error (w @ '': call node needs '' @ sq ''name'')),
                 (case jget ''args'' d of
                    JList args \<Rightarrow> each_i args (\<lambda>i a. validate_expr a (idx (w @ ''.args'') i))
                  | _ \<Rightarrow> Inr [schema_error (w @ '': call node needs '' @ sq ''args'' @ '' array'')])]
             else if kind = JStr ''cmp'' then
               chks [
                 emit_ifp (not_in_strs (jget ''op'' d) cmp_ops)
                   (schema_error (w @ '': cmp node op '' @ sq (py_str (jget ''op'' d)) @ '' invalid'')),
                 validate_expr (jget ''lhs'' d) (w @ ''.lhs''),
                 validate_expr (jget ''rhs'' d) (w @ ''.rhs'')]
             else
               Inr [schema_error (w @ '': ast kind '' @ sq (py_str kind) @ '' invalid'')])]
      | _ \<Rightarrow> Inr [schema_error (w @ '': ast node must be an object'')])"

declare validate_expr.simps [simp del]

text \<open>The set of names is a list without repetitions, in the order of the tree.\<close>

fun expr_vars :: "json \<Rightarrow> string list" where
  "expr_vars node =
     (case node of
        JObj d \<Rightarrow>
          if jget ''kind'' d = JStr ''var'' then
            (case jget ''name'' d of JStr s \<Rightarrow> [s] | _ \<Rightarrow> [])
          else
            remdups (expr_vars (jget ''lhs'' d) @ expr_vars (jget ''rhs'' d) @
              concat (case jget ''args'' d of JList args \<Rightarrow> map expr_vars args | _ \<Rightarrow> []))
      | _ \<Rightarrow> [])"

declare expr_vars.simps [simp del]

text \<open>
  The reference: a tree of the expression language, read off the schema. A node is an object
  with known fields and a value category, and the shape its kind prescribes.
\<close>

inductive well_formed_expr :: "json \<Rightarrow> bool" where
  num: "set (jkeys d) \<subseteq> set ast_fields \<Longrightarrow> jget ''dtype'' d = JStr c \<Longrightarrow> c \<in> set categories \<Longrightarrow>
    jget ''kind'' d = JStr ''num'' \<Longrightarrow> jget ''num'' d = JInt n \<Longrightarrow> well_formed_expr (JObj d)"
| var: "set (jkeys d) \<subseteq> set ast_fields \<Longrightarrow> jget ''dtype'' d = JStr c \<Longrightarrow> c \<in> set categories \<Longrightarrow>
    jget ''kind'' d = JStr ''var'' \<Longrightarrow> jget ''name'' d = JStr s \<Longrightarrow> s \<noteq> [] \<Longrightarrow>
    well_formed_expr (JObj d)"
| binary: "set (jkeys d) \<subseteq> set ast_fields \<Longrightarrow> jget ''dtype'' d = JStr c \<Longrightarrow> c \<in> set categories \<Longrightarrow>
    jget ''kind'' d = JStr k \<Longrightarrow> jget ''op'' d = JStr oper \<Longrightarrow>
    k = ''bin'' \<and> oper \<in> set arith_ops \<or> k = ''cmp'' \<and> oper \<in> set cmp_ops \<Longrightarrow>
    well_formed_expr (jget ''lhs'' d) \<Longrightarrow> well_formed_expr (jget ''rhs'' d) \<Longrightarrow>
    well_formed_expr (JObj d)"
| call: "set (jkeys d) \<subseteq> set ast_fields \<Longrightarrow> jget ''dtype'' d = JStr c \<Longrightarrow> c \<in> set categories \<Longrightarrow>
    jget ''kind'' d = JStr ''call'' \<Longrightarrow> jget ''name'' d = JStr s \<Longrightarrow> s \<noteq> [] \<Longrightarrow>
    jget ''args'' d = JList args \<Longrightarrow> (\<And>a. a \<in> set args \<Longrightarrow> well_formed_expr a) \<Longrightarrow>
    well_formed_expr (JObj d)"

lemma subset_keys: "set (jkeys d) \<subseteq> set ks \<longleftrightarrow> (\<forall>k. jhas k d \<longrightarrow> k \<in> set ks)"
  by (auto simp: jhas_jkeys [symmetric])

lemma validate_expr_obj: "validate_expr v w = Inr [] \<Longrightarrow> \<exists>d. v = JObj d"
  by (cases v) (auto simp: validate_expr.simps)

text \<open>One step of acceptance, the equation all proofs about \<open>validate_expr\<close> unfold.\<close>

lemma validate_expr_pass:
  "validate_expr (JObj d) w = Inr [] \<longleftrightarrow>
    set (jkeys d) \<subseteq> set ast_fields \<and> (\<exists>c \<in> set categories. jget ''dtype'' d = JStr c) \<and>
    (jget ''kind'' d = JStr ''num'' \<and> is_proper_int (jget ''num'' d)
     \<or> jget ''kind'' d = JStr ''var'' \<and> nonempty_str (jget ''name'' d)
     \<or> (jget ''kind'' d = JStr ''bin'' \<and> (\<exists>p \<in> set arith_ops. jget ''op'' d = JStr p)
         \<or> jget ''kind'' d = JStr ''cmp'' \<and> (\<exists>p \<in> set cmp_ops. jget ''op'' d = JStr p)) \<and>
       validate_expr (jget ''lhs'' d) (w @ ''.lhs'') = Inr [] \<and>
       validate_expr (jget ''rhs'' d) (w @ ''.rhs'') = Inr []
     \<or> jget ''kind'' d = JStr ''call'' \<and> nonempty_str (jget ''name'' d) \<and>
       (\<exists>args. jget ''args'' d = JList args \<and>
         (\<forall>i < length args. validate_expr (args ! i) (idx (w @ ''.args'') i) = Inr [])))"
proof -
  have args: "(case v of JList args \<Rightarrow> each_i args f | _ \<Rightarrow> Inr [e]) = Inr [] \<longleftrightarrow>
    (\<exists>args. v = JList args \<and> (\<forall>i < length args. f i (args ! i) = Inr []))" for v f and e :: diagnostic
    by (cases v) (simp_all add: checks)
  show ?thesis
    by (subst validate_expr.simps)
      (cases "\<exists>k. jget ''kind'' d = JStr k", auto simp: checks Let_def args subset_keys)
qed

lemma validate_expr_sound: "validate_expr v w = Inr [] \<Longrightarrow> well_formed_expr v"
proof (induction v w rule: validate_expr.induct)
  case (1 node w)
  obtain d where node: "node = JObj d" using validate_expr_obj [OF "1.prems"] by blast
  note pass = "1.prems" [unfolded node validate_expr_pass]
  consider (num) "jget ''kind'' d = JStr ''num''" | (var) "jget ''kind'' d = JStr ''var''"
    | (bin) "jget ''kind'' d = JStr ''bin''" | (call) "jget ''kind'' d = JStr ''call''"
    | (cmp) "jget ''kind'' d = JStr ''cmp''"
    using pass by blast
  then show ?case
  proof cases
    case num
    then show ?thesis using pass node
      by (auto simp: is_proper_int_iff intro: well_formed_expr.num)
  next
    case var
    then show ?thesis using pass node
      by (auto simp: nonempty_str_iff intro: well_formed_expr.var)
  next
    case bin
    then have "well_formed_expr (jget ''lhs'' d)" "well_formed_expr (jget ''rhs'' d)"
      using pass node by (auto intro!: "1.IH"(1,2))
    with bin show ?thesis using pass node by (auto intro: well_formed_expr.binary)
  next
    case call
    then obtain args where args: "jget ''args'' d = JList args"
      and ok: "\<And>i. i < length args \<Longrightarrow> validate_expr (args ! i) (idx (w @ ''.args'') i) = Inr []"
      using pass by auto
    have "well_formed_expr a" if "a \<in> set args" for a
      using ok node call args that by (auto simp: in_set_conv_nth intro!: "1.IH"(3))
    with call args show ?thesis using pass node
      by (auto simp: nonempty_str_iff intro: well_formed_expr.call)
  next
    case cmp
    then have "well_formed_expr (jget ''lhs'' d)" "well_formed_expr (jget ''rhs'' d)"
      using pass node by (auto intro!: "1.IH"(4,5))
    with cmp show ?thesis using pass node by (auto intro: well_formed_expr.binary)
  qed
qed

lemma validate_expr_complete: "well_formed_expr v \<Longrightarrow> validate_expr v w = Inr []"
proof (induction v arbitrary: w rule: well_formed_expr.induct)
  case (num d c n)
  then show ?case
    by (subst validate_expr.simps) (simp add: checks subset_keys)
next
  case (var d c s)
  then show ?case
    by (subst validate_expr.simps) (simp add: checks subset_keys)
next
  case (binary d c k oper)
  then show ?case
    by (subst validate_expr.simps) (auto simp: checks subset_keys)
next
  case (call d c s args)
  then show ?case
    by (subst validate_expr.simps) (simp add: checks subset_keys)
qed

text \<open>A well-formed tree is exactly one the validator has nothing to say about.\<close>

lemma validate_expr_iff: "validate_expr v w = Inr [] \<longleftrightarrow> well_formed_expr v"
  using validate_expr_sound validate_expr_complete by blast

section \<open>Schema mirrors\<close>

definition str_array :: "obj \<Rightarrow> string \<Rightarrow> string \<Rightarrow> diags" where
  "str_array d key w =
     (let v = jget key d in
      emit_if (\<not> is_list v \<or> list_ex (\<lambda>x. \<not> nonempty_str x) (as_list v))
        (schema_error (w @ ''.'' @ key @ '' must be an array of non-empty strings'')))"

text \<open>\<open>isinstance(v, int) and not isinstance(v, bool) and v >= 1\<close>.\<close>

fun is_int_from :: "int \<Rightarrow> json \<Rightarrow> bool" where
  "is_int_from lo (JInt i) = (lo \<le> i)"
| "is_int_from lo _ = False"

definition validate_source :: "json \<Rightarrow> string \<Rightarrow> diags" where
  "validate_source src w =
     emit_if (src \<noteq> JNull \<and>
         \<not> (is_obj src \<and> same_keys (as_obj src) [''line'', ''column''] \<and>
            list_all (\<lambda>x. is_int_from 1 (jget x (as_obj src))) [''line'', ''column'']))
       (schema_error (w @ '': source must be null or {line, column} (>=1)''))"

definition validate_operand :: "json \<Rightarrow> string \<Rightarrow> diags" where
  "validate_operand oper w =
     (case oper of
        JObj d \<Rightarrow>
          chks [
            unknown_fields d [''kind'', ''value''] (w @ '': unknown operand field ''),
            emit_ifp (not_in_strs (jget ''kind'' d) [''ref'', ''literal''])
              (schema_error (w @ '': operand kind must be ref|literal'')),
            emit_if (\<not> nonempty_str (jget ''value'' d))
              (schema_error (w @ '': operand needs a non-empty value''))]
      | _ \<Rightarrow> Inr [schema_error (w @ '': operand must be an object'')])"

text \<open>The diagnostics of \<open>_exact_object\<close> and its result.\<close>

definition exact_object :: "json \<Rightarrow> string list \<Rightarrow> string \<Rightarrow> diagnostic list \<times> bool" where
  "exact_object v allowed w =
     (case v of
        JObj d \<Rightarrow>
          (let ds = map (\<lambda>k. schema_error (w @ '': unknown field '' @ sq k)) (sorted_diff (jkeys d) allowed) @
                    map (\<lambda>k. schema_error (w @ '': missing '' @ sq k)) (sorted_diff allowed (jkeys d))
           in (ds, ds = []))
      | _ \<Rightarrow> ([schema_error (w @ '': must be an object'')], False))"

text \<open>\<open>if _exact_object(...): body\<close>.\<close>

definition if_exact :: "json \<Rightarrow> string list \<Rightarrow> string \<Rightarrow> diags \<Rightarrow> diags" where
  "if_exact v allowed w body =
     (let (ds, ok) = exact_object v allowed w in chks [Inr ds, guarded ok body])"

definition str_or_null :: "json \<Rightarrow> string \<Rightarrow> diags" where
  "str_or_null v w =
     emit_if (\<not> (v = JNull \<or> is_str v)) (schema_error (w @ '' must be a string or null''))"

lemma str_array_pass [checks]:
  "str_array d key w = Inr [] \<longleftrightarrow> (\<exists>xs. jget key d = JList xs \<and> (\<forall>x \<in> set xs. nonempty_str x))"
  by (cases "jget key d") (simp_all add: str_array_def Let_def checks list_ex_iff)

lemma validate_source_pass [checks]:
  "validate_source v w = Inr [] \<longleftrightarrow>
    v = JNull \<or> (\<exists>d i j. v = JObj d \<and> same_keys d [''line'', ''column''] \<and>
      jget ''line'' d = JInt i \<and> 1 \<le> i \<and> jget ''column'' d = JInt j \<and> 1 \<le> j)"
proof -
  have "is_int_from 1 x \<longleftrightarrow> (\<exists>i. x = JInt i \<and> 1 \<le> i)" for x by (cases x) auto
  then show ?thesis by (cases v) (auto simp: validate_source_def checks)
qed

lemma validate_operand_pass [checks]:
  "validate_operand v w = Inr [] \<longleftrightarrow>
    (\<exists>d. v = JObj d \<and> set (jkeys d) \<subseteq> {''kind'', ''value''} \<and>
      (jget ''kind'' d = JStr ''ref'' \<or> jget ''kind'' d = JStr ''literal'') \<and>
      nonempty_str (jget ''value'' d))"
  by (cases v) (auto simp: validate_operand_def checks jhas_jkeys [symmetric])

lemma exact_object_pass:
  "exact_object v ks w = (ds, ok) \<Longrightarrow>
   (ds = [] \<longleftrightarrow> ok) \<and> (ok \<longleftrightarrow> (\<exists>d. v = JObj d \<and> same_keys d ks))"
  by (cases v)
    (auto simp: exact_object_def Let_def sorted_diff_Nil_iff same_keys_iff jhas_jkeys [symmetric])

lemma if_exact_pass [checks]:
  "if_exact v ks w body = Inr [] \<longleftrightarrow> (\<exists>d. v = JObj d \<and> same_keys d ks) \<and> body = Inr []"
  using exact_object_pass [of v ks w]
  by (cases "exact_object v ks w") (auto simp: if_exact_def checks)

lemma str_or_null_pass [checks]: "str_or_null v w = Inr [] \<longleftrightarrow> v = JNull \<or> is_str v"
  by (simp add: str_or_null_def checks)

end
