(* ===== verification/CapabilitySpec.thy ===== *)
theory CapabilitySpec
  imports SpecExpr
begin

text \<open>
  The sections of \<open>scripts/validators/validate_capability_spec.py\<close> up to the lifecycle: the
  optional attestation policies and obligations, the header with its conditional version, and
  the inputs, computes, effects, participants, topology, source map and target requirements.
  Each definition is one block of \<open>validate\<close> and returns the diagnostics the block appends.
  An iteration over a Python set is in document order; \<open>validate\<close> sorts the result.
\<close>

section \<open>Attestation policies\<close>

definition attest_canon_modes :: "string list" where
  "attest_canon_modes = [''exact'', ''median'']"

definition attest_fallbacks :: "string list" where
  "attest_fallbacks = [''abort'', ''escalate'']"

definition attest_assurance_tiers :: "string list" where
  "attest_assurance_tiers = [''A1'', ''A2'', ''A3'', ''A4'']"

definition attest_independence :: "string list" where
  "attest_independence = [''independent'', ''correlated'']"

definition validate_observer_set :: "json \<Rightarrow> string \<Rightarrow> diags" where
  "validate_observer_set os w =
     (case os of
        JObj d \<Rightarrow>
          chks [
            each (sorted_diff (jkeys d) [''ref'', ''role'', ''assurance'', ''independence''])
              (\<lambda>k. Inr [schema_error (w @ ''.observerSet: unknown field '' @ sq k)]),
            each (sorted_diff [''ref'', ''role''] (jkeys d))
              (\<lambda>k. Inr [schema_error (w @ ''.observerSet: missing '' @ sq k)]),
            emit_if (\<not> nonempty_str (jget ''ref'' d))
              (schema_error (w @ ''.observerSet.ref must be a non-empty reference'')),
            guarded (jhas ''role'' d) (str_or_null (jget ''role'' d) (w @ ''.observerSet.role'')),
            guarded (jhas ''assurance'' d)
              (emit_ifp (not_in_strs (jget ''assurance'' d) attest_assurance_tiers)
                (diag ''kernel.attest.invalid_assurance''
                  (w @ ''.observerSet.assurance, when present, must be one of '' @
                   repr_strs (sort attest_assurance_tiers)))),
            guarded (jhas ''independence'' d)
              (emit_ifp (not_in_strs (jget ''independence'' d) attest_independence)
                (diag ''kernel.attest.invalid_independence''
                  (w @ ''.observerSet.independence, when present, must be one of '' @
                   repr_strs (sort attest_independence))))]
      | _ \<Rightarrow> Inr [schema_error (w @ ''.observerSet: must be an object'')])"

definition validate_attestation :: "nat \<Rightarrow> json \<Rightarrow> diags" where
  "validate_attestation i p =
     (let w = idx ''attestations'' i; d = as_obj p;
          q = jget ''quorum'' d; c = jget ''canonicalization'' d in
      if_exact p [''input'', ''quorum'', ''observerSet'', ''canonicalization'', ''timeout'', ''fallback''] w
        (chks [
          emit_if (\<not> nonempty_str (jget ''input'' d))
            (schema_error (w @ ''.input must reference an evidence input'')),
          if_exact q [''threshold''] (w @ ''.quorum'')
            (emit_if (\<not> is_int_from 1 (jget ''threshold'' (as_obj q)))
              (schema_error (w @ ''.quorum.threshold (M) must be a positive integer''))),
          validate_observer_set (jget ''observerSet'' d) w,
          if_exact c [''mode'', ''tolerance''] (w @ ''.canonicalization'')
            (chks [
              emit_ifp (not_in_strs (jget ''mode'' (as_obj c)) attest_canon_modes)
                (schema_error (w @ ''.canonicalization.mode must be one of '' @
                   repr_strs (sort attest_canon_modes))),
              str_or_null (jget ''tolerance'' (as_obj c)) (w @ ''.canonicalization.tolerance'')]),
          str_or_null (jget ''timeout'' d) (w @ ''.timeout''),
          emit_ifp (not_in_strs (jget ''fallback'' d) attest_fallbacks)
            (schema_error (w @ ''.fallback must be one of '' @ repr_strs (sort attest_fallbacks)))]))"

definition validate_attestations :: "obj \<Rightarrow> diags" where
  "validate_attestations spec =
     (if \<not> jhas ''attestations'' spec then Inr []
      else case jget ''attestations'' spec of
        JList arr \<Rightarrow> each_i arr validate_attestation
      | _ \<Rightarrow> Inr [schema_error ''attestations must be an array''])"

section \<open>Obligations\<close>

definition validate_obligation :: "nat \<Rightarrow> json \<Rightarrow> diags" where
  "validate_obligation i p =
     (let w = idx ''obligations'' i; d = as_obj p; when = jget ''when'' d in
      if_exact p [''version'', ''name'', ''obligor'', ''beneficiary'', ''authority'', ''effects'', ''when''] w
        (chks [
          emit_if (\<not> eq_int (jget ''version'' d) 1)
            (diag ''spec.schema_version'' (w @ ''.version must be 1 (the  obligation representation)'')),
          each [''name'', ''obligor'', ''beneficiary'', ''authority'']
            (\<lambda>k. emit_if (\<not> nonempty_str (jget k d))
               (schema_error (w @ ''.'' @ k @ '' must be a non-empty string''))),
          str_array d ''effects'' w,
          emit_if (jget ''effects'' d = JList []) (schema_error (w @ ''.effects must be non-empty'')),
          (if \<not> (is_obj when \<and> same_keys (as_obj when) [''expr'', ''ast''])
           then Inr [schema_error (w @ ''.when must be {expr, ast}'')]
           else chks [
             emit_if (\<not> nonempty_str (jget ''expr'' (as_obj when)))
               (schema_error (w @ ''.when.expr must be a non-empty string'')),
             validate_expr (jget ''ast'' (as_obj when)) (w @ ''.when.ast'')])]))"

definition validate_obligations :: "obj \<Rightarrow> diags" where
  "validate_obligations spec =
     (if \<not> jhas ''obligations'' spec then Inr []
      else case jget ''obligations'' spec of
        JList arr \<Rightarrow> each_i arr validate_obligation
      | _ \<Rightarrow> Inr [schema_error ''obligations must be an array''])"

section \<open>The header\<close>

definition top_fields :: "string list" where
  "top_fields = [''schemaVersion'', ''kind'', ''specVersion'', ''procedure'', ''trigger'', ''identity'',
     ''inputs'', ''computes'', ''effects'', ''invariants'', ''participants'', ''topology'',
     ''lifecycle'', ''targetRequirements'', ''sourceMap'']"

definition optional_top_fields :: "string list" where
  "optional_top_fields = [''attestations'', ''obligations'']"

definition check_top_fields :: "obj \<Rightarrow> diags" where
  "check_top_fields spec =
     chks [
       each (sorted_diff (jkeys spec) (top_fields @ optional_top_fields))
         (\<lambda>k. Inr [diag ''spec.unknown_field'' (''top-level: unknown field '' @ sq k)]),
       each (sorted_diff top_fields (jkeys spec))
         (\<lambda>k. Inr [diag ''spec.missing_field'' (''top-level: missing '' @ sq k)])]"

definition guarded_effect :: "json \<Rightarrow> bool" where
  "guarded_effect e \<longleftrightarrow> is_obj e \<and> jget ''when'' (as_obj e) \<noteq> JNull"

definition expected_version :: "obj \<Rightarrow> int" where
  "expected_version spec =
     (if truthy (jget ''obligations'' spec) then 4
      else if truthy (jget ''attestations'' spec) then 3
      else if list_ex guarded_effect (as_list (jget ''effects'' spec)) then 2
      else 1)"

definition version_reason :: "int \<Rightarrow> string" where
  "version_reason v =
     (if v = 1 then ''an unguarded spec is 1'' else if v = 2 then ''a guarded spec is 2''
      else if v = 3 then ''an attested spec is 3'' else ''an obligation-bearing spec is 4'')"

definition str_matches :: "(string \<Rightarrow> bool) \<Rightarrow> json \<Rightarrow> bool" where
  "str_matches p v = (case v of JStr s \<Rightarrow> re_dollar p s | _ \<Rightarrow> False)"

definition check_header :: "obj \<Rightarrow> diags" where
  "check_header spec =
     chks [
       emit_if (\<not> eq_int (jget ''schemaVersion'' spec) (expected_version spec))
         (diag ''spec.schema_version'' (''schemaVersion must be '' @ show_int (expected_version spec) @
            '' ('' @ version_reason (expected_version spec) @ '')'')),
       emit_if (jget ''kind'' spec \<noteq> JStr ''neutrino.capability-spec'')
         (schema_error (''kind must be '' @ sq ''neutrino.capability-spec'')),
       emit_if (\<not> str_matches semver_text (jget ''specVersion'' spec))
         (schema_error ''specVersion must be a semver string''),
       emit_if (\<not> nonempty_str (jget ''procedure'' spec))
         (schema_error ''procedure must be a non-empty string''),
       emit_if (\<not> (jget ''trigger'' spec = JNull \<or> nonempty_str (jget ''trigger'' spec)))
         (schema_error ''trigger must be a string or null'')]"

definition check_identity :: "obj \<Rightarrow> diags" where
  "check_identity spec =
     (let ident = jget ''identity'' spec in
      if \<not> (is_obj ident \<and> same_keys (as_obj ident) [''capabilityHash'', ''specHash''])
      then Inr [schema_error ''identity must be {capabilityHash, specHash}'']
      else each [''capabilityHash'', ''specHash'']
        (\<lambda>h. emit_if (\<not> str_matches hex64_text (jget h (as_obj ident)))
           (diag ''spec.bad_hash'' (''identity.'' @ h @ '' must be 64-hex''))))"

definition check_arrays :: "obj \<Rightarrow> diags" where
  "check_arrays spec =
     each [''inputs'', ''computes'', ''effects'', ''invariants'', ''participants'', ''sourceMap'']
       (\<lambda>key. emit_if (jhas key spec \<and> \<not> is_list (jget key spec))
          (schema_error (key @ '' must be an array'')))"

section \<open>Declared names\<close>

text \<open>The names of the objects of an array that have a non-empty one, in order.\<close>

definition own_name :: "json \<Rightarrow> string list" where
  "own_name it = (case jget ''name'' (as_obj it) of JStr s \<Rightarrow> (if s \<noteq> [] then [s] else []) | _ \<Rightarrow> [])"

definition declared_in :: "json \<Rightarrow> string list" where
  "declared_in v = concat (map own_name (as_list v))"

definition declared_names :: "obj \<Rightarrow> string list" where
  "declared_names spec = declared_in (jget ''inputs'' spec) @ declared_in (jget ''computes'' spec)"

definition participant_names :: "obj \<Rightarrow> string list" where
  "participant_names spec = declared_in (jget ''participants'' spec)"

lemma set_own_name: "s \<in> set (own_name it) \<longleftrightarrow> (\<exists>d. it = JObj d \<and> jget ''name'' d = JStr s \<and> s \<noteq> [])"
  by (cases it) (auto simp: own_name_def jget_def jget_or_def split: json.splits)

lemma set_declared_in:
  "s \<in> set (declared_in v) \<longleftrightarrow>
    (\<exists>xs d. v = JList xs \<and> JObj d \<in> set xs \<and> jget ''name'' d = JStr s \<and> s \<noteq> [])"
  by (cases v) (auto simp: declared_in_def set_own_name)

section \<open>Inputs and computes\<close>

definition must_be_object :: "string \<Rightarrow> diagnostic" where
  "must_be_object w = schema_error (w @ '': must be an object'')"

text \<open>A loop body that reports an element that is no object and skips it.\<close>

definition on_object :: "string \<Rightarrow> json \<Rightarrow> (obj \<Rightarrow> diags) \<Rightarrow> diags" where
  "on_object w v f = (case v of JObj d \<Rightarrow> f d | _ \<Rightarrow> Inr [must_be_object w])"

lemma on_object_pass [checks]: "on_object w v f = Inr [] \<longleftrightarrow> (\<exists>d. v = JObj d \<and> f d = Inr [])"
  by (cases v) (auto simp: on_object_def)

definition category_check :: "string \<Rightarrow> obj \<Rightarrow> diags" where
  "category_check w d =
     emit_ifp (not_in_strs (jget ''category'' d) categories)
       (diag ''spec.bad_category'' (w @ '': category '' @ sq (py_str (jget ''category'' d)) @ '' invalid''))"

definition check_input :: "nat \<Rightarrow> json \<Rightarrow> diags" where
  "check_input i it =
     (let w = idx ''inputs'' i in
      on_object w it (\<lambda>d. chks [
        unknown_fields d [''name'', ''type'', ''category''] (w @ '': unknown field ''),
        emit_if (\<not> nonempty_str (jget ''name'' d)) (schema_error (w @ '': name required'')),
        emit_if (\<not> nonempty_str (jget ''type'' d)) (schema_error (w @ '': type required'')),
        category_check w d]))"

definition check_inputs :: "obj \<Rightarrow> diags" where
  "check_inputs spec = each_i (as_list (jget ''inputs'' spec)) check_input"

definition check_compute :: "string list \<Rightarrow> nat \<Rightarrow> json \<Rightarrow> diags" where
  "check_compute declared i c =
     (let w = idx ''computes'' i in
      on_object w c (\<lambda>d. chks [
        unknown_fields d [''name'', ''expr'', ''category'', ''deps'', ''ast''] (w @ '': unknown field ''),
        emit_if (\<not> nonempty_str (jget ''expr'' d)) (schema_error (w @ '': expr required'')),
        category_check w d,
        (case jget ''deps'' d of
           JList deps \<Rightarrow> each deps (\<lambda>dep. emit_ifp (not_in_strs dep declared)
             (diag ''spec.unresolved_dep''
               (w @ '': dep '' @ sq (py_str dep) @ '' is not a declared input/compute'')))
         | _ \<Rightarrow> Inr [schema_error (w @ '': deps must be an array'')]),
        validate_expr (jget ''ast'' d) (w @ ''.ast'')]))"

definition check_computes :: "obj \<Rightarrow> diags" where
  "check_computes spec =
     each_i (as_list (jget ''computes'' spec)) (check_compute (declared_names spec))"

section \<open>Effects\<close>

definition check_guard :: "string list \<Rightarrow> string \<Rightarrow> json \<Rightarrow> diags" where
  "check_guard declared w when =
     (if when = JNull then Inr []
      else if \<not> is_obj when \<or> key_diff (as_obj when) [''expr'', ''ast''] \<noteq> []
      then Inr [schema_error (w @ ''.when: must be an object {expr, ast}'')]
      else
        (let ast = jget ''ast'' (as_obj when) in
         chks [
           emit_if (\<not> nonempty_str (jget ''expr'' (as_obj when)))
             (schema_error (w @ ''.when: expr required'')),
           validate_expr ast (w @ ''.when.ast''),
           emit_if (is_obj ast \<and> jget ''kind'' (as_obj ast) \<noteq> JStr ''cmp'')
             (schema_error (w @ ''.when.ast: guard must be a cmp predicate'')),
           each (expr_vars ast) (\<lambda>vn. emit_if (vn \<notin> set declared)
             (diag ''spec.unresolved_ref''
               (w @ ''.when.ast: var '' @ sq vn @ '' is not a declared input/compute'')))]))"

definition check_effect_operand :: "string list \<Rightarrow> string \<Rightarrow> obj \<Rightarrow> string \<Rightarrow> diags" where
  "check_effect_operand declared w e f =
     (let oper = jget f e; value = jget ''value'' (as_obj oper) in
      chks [
        validate_operand oper (w @ ''.'' @ f),
        guarded (is_obj oper \<and> jget ''kind'' (as_obj oper) = JStr ''ref'')
          (emit_ifp (not_in_strs value declared)
            (diag ''spec.unresolved_ref''
              (w @ ''.'' @ f @ '': ref '' @ sq (py_str value) @ '' not a declared input/compute'')))])"

definition effect_fields :: "string list" where
  "effect_fields = [''kind'', ''name'', ''ledger'', ''owner'', ''participant'', ''party'', ''amount'',
     ''currency'', ''idempotencyKey'', ''when'', ''memo'']"

definition check_effect :: "string list \<Rightarrow> string list \<Rightarrow> nat \<Rightarrow> json \<Rightarrow> diags" where
  "check_effect declared parts i v =
     (let w = idx ''effects'' i in
      on_object w v (\<lambda>e.
        (let part = jget ''participant'' e in
         chks [
           unknown_fields e effect_fields (w @ '': unknown field ''),
           emit_if (jhas ''memo'' e \<and> \<not> nonempty_str (jget ''memo'' e))
             (schema_error (w @ ''.memo: must be a non-empty string'')),
           check_guard declared w (jget ''when'' e),
           emit_ifp (not_in_strs (jget ''kind'' e) [''debit'', ''credit''])
             (schema_error (w @ '': kind must be debit|credit'')),
           each [''name'', ''ledger'', ''owner'']
             (\<lambda>f. emit_if (\<not> nonempty_str (jget f e)) (schema_error (w @ '': '' @ f @ '' required''))),
           guarded (part \<noteq> JNull)
             (if \<not> nonempty_str part then Inr [schema_error (w @ '': participant must be string|null'')]
              else emit_ifp (not_in_strs part parts)
                (diag ''spec.unresolved_participant''
                  (w @ '': participant '' @ sq (py_str part) @ '' not declared''))),
           each [''party'', ''amount'', ''currency'', ''idempotencyKey'']
             (check_effect_operand declared w e)])))"

definition check_effects :: "obj \<Rightarrow> diags" where
  "check_effects spec =
     each_i (as_list (jget ''effects'' spec)) (check_effect (declared_names spec) (participant_names spec))"

section \<open>Invariants, participants, topology\<close>

definition check_invariants :: "obj \<Rightarrow> diags" where
  "check_invariants spec =
     each_i (as_list (jget ''invariants'' spec)) (\<lambda>i inv.
       emit_if (\<not> (is_obj inv \<and> jget ''kind'' (as_obj inv) = JStr ''balanced'' \<and>
                  same_keys (as_obj inv) [''kind'']))
         (schema_error (idx ''invariants'' i @ '': must be {kind: balanced}'')))"

definition check_participant :: "nat \<Rightarrow> json \<Rightarrow> diags" where
  "check_participant i p =
     (let w = idx ''participants'' i in
      on_object w p (\<lambda>d. chks [
        unknown_fields d [''name'', ''role'', ''org'', ''capabilities'', ''binding'', ''bindRuntimes'',
            ''bindMinAssurance''] (w @ '': unknown field ''),
        emit_if (\<not> nonempty_str (jget ''name'' d)) (schema_error (w @ '': name required'')),
        emit_ifp (not_in_strs (jget ''binding'' d) [''fixed'', ''to_be_bound''])
          (diag ''kernel.binding.invalid_mode'' (w @ '': binding must be fixed|to_be_bound'')),
        emit_ifp (not_in_strs (jget ''bindMinAssurance'' d) [[], ''A1'', ''A2'', ''A3'', ''A4''])
          (diag ''kernel.binding.invalid_assurance'' (w @ '': bindMinAssurance invalid'')),
        str_array d ''capabilities'' w,
        str_array d ''bindRuntimes'' w]))"

definition check_participants :: "obj \<Rightarrow> diags" where
  "check_participants spec = each_i (as_list (jget ''participants'' spec)) check_participant"

definition check_org_pair :: "nat \<Rightarrow> json \<Rightarrow> diags" where
  "check_org_pair i pr =
     (let w = idx ''topology.allowedOrgPairs'' i in
      on_object w pr (\<lambda>d. chks [
        unknown_fields d [''orgA'', ''orgB'', ''roleA'', ''roleB''] (w @ '': unknown field ''),
        each [''orgA'', ''orgB'']
          (\<lambda>k. emit_if (\<not> nonempty_str (jget k d)) (schema_error (w @ '': '' @ k @ '' required''))),
        each [''roleA'', ''roleB'']
          (\<lambda>k. emit_if (\<not> is_str (jget k d)) (schema_error (w @ '': '' @ k @ '' must be a string'')))]))"

definition check_topology :: "obj \<Rightarrow> diags" where
  "check_topology spec =
     (case jget ''topology'' spec of
        JObj topo \<Rightarrow>
          chks [
            unknown_fields topo [''allowedOrgPairs''] ''topology: unknown field '',
            (case jget ''allowedOrgPairs'' topo of
               JList pairs \<Rightarrow> each_i pairs check_org_pair
             | _ \<Rightarrow> Inr [schema_error ''topology.allowedOrgPairs must be an array''])]
      | _ \<Rightarrow> Inr [schema_error ''topology must be an object''])"

section \<open>Source map and target requirements\<close>

definition check_source_map_entry :: "nat \<Rightarrow> json \<Rightarrow> diags" where
  "check_source_map_entry i sm =
     (let w = idx ''sourceMap'' i in
      on_object w sm (\<lambda>d. chks [
        unknown_fields d [''specPath'', ''construct'', ''source''] (w @ '': unknown field ''),
        emit_if (\<not> nonempty_str (jget ''specPath'' d)) (schema_error (w @ '': specPath required'')),
        emit_if (\<not> nonempty_str (jget ''construct'' d)) (schema_error (w @ '': construct required'')),
        (if \<not> jhas ''source'' d
         then Inr [diag ''spec.missing_field'' (w @ '': missing '' @ sq ''source'' @ '' (use null if unset)'')]
         else validate_source (jget ''source'' d) w)]))"

definition check_source_map :: "obj \<Rightarrow> diags" where
  "check_source_map spec = each_i (as_list (jget ''sourceMap'' spec)) check_source_map_entry"

definition check_requirement :: "nat \<Rightarrow> json \<Rightarrow> diags" where
  "check_requirement i r =
     (let w = idx ''targetRequirements.requirements'' i in
      on_object w r (\<lambda>d. chks [
        unknown_fields d [''feature'', ''primitive'', ''source'', ''requirement'', ''fallback'']
          (w @ '': unknown field ''),
        each [''feature'', ''primitive'']
          (\<lambda>k. emit_if (\<not> nonempty_str (jget k d)) (schema_error (w @ '': '' @ k @ '' required''))),
        emit_ifp (not_in_strs (jget ''requirement'' d) [''required'', ''optional''])
          (schema_error (w @ '': requirement must be required|optional'')),
        emit_if (\<not> (jget ''fallback'' d = JNull \<or> nonempty_str (jget ''fallback'' d)))
          (schema_error (w @ '': fallback must be a string or null'')),
        validate_source (jget ''source'' d) w]))"

definition check_target_requirements :: "obj \<Rightarrow> diags" where
  "check_target_requirements spec =
     (case jget ''targetRequirements'' spec of
        JObj tr \<Rightarrow>
          (let need = [''requirements'', ''evidenceStyle'', ''unsupportedConstructs''] in
           chks [
             each (sorted_diff (jkeys tr) need)
               (\<lambda>k. Inr [diag ''spec.unknown_field'' (''targetRequirements: unknown field '' @ sq k)]),
             each (sorted_diff need (jkeys tr))
               (\<lambda>k. Inr [diag ''spec.missing_field'' (''targetRequirements: missing '' @ sq k)]),
             (case jget ''requirements'' tr of
                JList reqs \<Rightarrow> each_i reqs check_requirement
              | _ \<Rightarrow> Inr [schema_error ''targetRequirements.requirements must be an array'']),
             emit_ifp (not_in_strs (jget ''evidenceStyle'' tr) [''single_hash'', ''batched_root''])
               (schema_error ''targetRequirements.evidenceStyle must be single_hash|batched_root''),
             str_array tr ''unsupportedConstructs'' ''targetRequirements''])
      | _ \<Rightarrow> Inr [schema_error ''targetRequirements must be an object''])"

end
