(* ===== verification/SpecLifecycle.thy ===== *)
theory SpecLifecycle
  imports CapabilitySpec
begin

text \<open>
  The lifecycle section of a capability spec (\<open>_validate_lifecycle\<close>), read as a state machine:
  the declared states, the transitions between them, and the terminal states by kind. The
  lemmas relate acceptance to the machine: every transition stays inside the declared states,
  every non-terminal state has a way out, and the named terminal states are terminal and of
  their kind. Acceptance does not make a terminal state reachable: two non-terminal states that
  lead to each other pass.
\<close>

section \<open>The check\<close>

definition check_instance_key :: "json \<Rightarrow> diags" where
  "check_instance_key ik =
     (if \<not> is_obj ik \<or> key_diff (as_obj ik) [''fields'', ''declared''] \<noteq> []
      then Inr [schema_error ''lifecycle.instanceKey must be {fields: [...], declared?: str}'']
      else chks [
        str_array (as_obj ik) ''fields'' ''lifecycle.instanceKey'',
        emit_if (jhas ''declared'' (as_obj ik) \<and> \<not> is_str (jget ''declared'' (as_obj ik)))
          (schema_error ''lifecycle.instanceKey.declared must be a string'')])"

text \<open>
  A state enters the dictionary when it has a name and a boolean \<open>terminal\<close>; a repeated name
  replaces the earlier entry.
\<close>

definition state_ok :: "json \<Rightarrow> bool" where
  "state_ok s \<longleftrightarrow> is_obj s \<and> nonempty_str (jget ''name'' (as_obj s)) \<and> is_bool (jget ''terminal'' (as_obj s))"

definition check_state :: "nat \<Rightarrow> json \<Rightarrow> diags" where
  "check_state i s =
     (let w = idx ''lifecycle.states'' i; d = as_obj s in
      if \<not> state_ok s then Inr [schema_error (w @ '': needs name + terminal bool'')]
      else chks [
        unknown_fields d [''name'', ''terminal'', ''terminalKind''] (w @ '': unknown field ''),
        guarded (jhas ''terminalKind'' d) (chks [
          emit_ifp (not_in_strs (jget ''terminalKind'' d) [''success'', ''aborted'', ''contested''])
            (diag ''spec.terminal_kind'' (w @ '': terminalKind invalid'')),
          emit_if (\<not> truthy (jget ''terminal'' d))
            (diag ''spec.bad_terminal_state'' (w @ '': terminalKind on a non-terminal state''))])])"

type_synonym states = "(string \<times> obj) list"

definition state_name :: "json \<Rightarrow> string" where
  "state_name s = (case jget ''name'' (as_obj s) of JStr n \<Rightarrow> n | _ \<Rightarrow> [])"

fun collect_states :: "states \<Rightarrow> json list \<Rightarrow> states" where
  "collect_states acc [] = acc"
| "collect_states acc (s # ss) =
     collect_states (if state_ok s then dict_set (state_name s) (as_obj s) acc else acc) ss"

definition lifecycle_states :: "obj \<Rightarrow> states" where
  "lifecycle_states lc = collect_states [] (as_list (jget ''states'' lc))"

definition check_transition_guard :: "string \<Rightarrow> nat \<Rightarrow> json \<Rightarrow> diags" where
  "check_transition_guard w gi g =
     (let bad = Inr [schema_error (idx (w @ ''.guards'') gi @
            '': must be {kind: participant|deadline|sequence, detail?}'')] in
      case g of
        JObj d \<Rightarrow>
          if key_diff d [''kind'', ''detail''] \<noteq> [] then bad
          else pbind (in_strs (jget ''kind'' d) [''participant'', ''deadline'', ''sequence'']) (\<lambda>known.
            if \<not> known then bad
            else emit_if (jhas ''detail'' d \<and> \<not> is_str (jget ''detail'' d))
              (schema_error (idx (w @ ''.guards'') gi @ '': detail must be a string'')))
      | _ \<Rightarrow> bad)"

definition check_evidence :: "string \<Rightarrow> json \<Rightarrow> diags" where
  "check_evidence w ev =
     (let bad = schema_error (w @ '': evidence must be null or {style, chained}''); d = as_obj ev in
      if ev = JNull then Inr []
      else if \<not> (is_obj ev \<and> same_keys d [''style'', ''chained'']) then Inr [bad]
      else pbind (in_strs (jget ''style'' d) [''single_hash'', ''batched_root'']) (\<lambda>known.
        emit_if (\<not> (known \<and> is_bool (jget ''chained'' d))) bad))"

definition check_transition :: "states \<Rightarrow> nat \<Rightarrow> json \<Rightarrow> diags" where
  "check_transition states i v =
     (let w = idx ''lifecycle.transitions'' i in
      on_object w v (\<lambda>t. chks [
        unknown_fields t [''name'', ''from'', ''to'', ''effects'', ''guards'', ''idempotency'', ''evidence'']
          (w @ '': unknown field ''),
        emit_if (\<not> nonempty_str (jget ''name'' t)) (schema_error (w @ '': name required'')),
        each [''from'', ''to''] (\<lambda>endp. emit_ifp (not_in_strs (jget endp t) (map fst states))
          (diag ''spec.bad_transition''
            (w @ '': '' @ endp @ '' '' @ sq (py_str (jget endp t)) @ '' is not a declared state''))),
        emit_ifp (not_in_strs (jget ''idempotency'' t) [''reject'', ''noop_on_identical''])
          (diag ''spec.transition_idempotency'' (w @ '': idempotency must be reject|noop_on_identical'')),
        (case jget ''effects'' t of
           JList efs \<Rightarrow> each efs (\<lambda>ef.
             emit_ifp (not_in_strs ef [''post'', ''compensate'', ''reserve'', ''consume'', ''release''])
               (diag ''spec.transition_effect'' (w @ '': effect '' @ sq (py_str ef) @ '' invalid'')))
         | _ \<Rightarrow> Inr [schema_error (w @ '': effects must be an array'')]),
        (case jget ''guards'' t of
           JList gs \<Rightarrow> each_i gs (check_transition_guard w)
         | _ \<Rightarrow> Inr [schema_error (w @ '': guards must be an array'')]),
        check_evidence w (jget ''evidence'' t)]))"

text \<open>The values of \<open>from\<close> over the transitions that are objects: the set \<open>froms\<close>.\<close>

definition transition_froms :: "obj \<Rightarrow> json list" where
  "transition_froms lc =
     map (\<lambda>t. jget ''from'' (as_obj t)) (filter is_obj (as_list (jget ''transitions'' lc)))"

definition check_dead_ends :: "states \<Rightarrow> json list \<Rightarrow> diags" where
  "check_dead_ends states froms =
     each states (\<lambda>(name, s).
       emit_if (\<not> truthy (jget ''terminal'' s) \<and> JStr name \<notin> set froms)
         (diag ''spec.dead_end_state''
           (''lifecycle: non-terminal state '' @ sq name @ '' has no outgoing transition'')))"

definition check_terminal_state :: "states \<Rightarrow> string \<Rightarrow> json \<Rightarrow> diags" where
  "check_terminal_state states k v =
     (let w = ''lifecycle.terminalStates.'' @ k @ '' '' @ sq (py_str v) in
      if v = JNull then Inr []
      else pbind (in_strs v (map fst states)) (\<lambda>known.
        if \<not> known then Inr [diag ''spec.bad_terminal_state'' (w @ '' is not a declared state'')]
        else (case map_of states (py_str v) of
            None \<Rightarrow> Inl KeyError
          | Some s \<Rightarrow>
              if \<not> truthy (jget ''terminal'' s)
              then Inr [diag ''spec.bad_terminal_state'' (w @ '' is not terminal'')]
              else emit_if (jget ''terminalKind'' s \<noteq> JStr k)
                (diag ''spec.bad_terminal_state''
                  (w @ '' points to terminalKind '' @ py_repr (jget ''terminalKind'' s))))))"

definition check_terminal_states :: "states \<Rightarrow> json \<Rightarrow> diags" where
  "check_terminal_states states ts =
     (if \<not> (is_obj ts \<and> same_keys (as_obj ts) [''success'', ''aborted'', ''contested''])
      then Inr [schema_error ''lifecycle.terminalStates must be {success, aborted, contested}'']
      else each (as_obj ts) (\<lambda>(k, v). check_terminal_state states k v))"

definition lifecycle_fields :: "string list" where
  "lifecycle_fields = [''instanceKey'', ''initialState'', ''states'', ''transitions'', ''terminalStates'']"

definition validate_lifecycle :: "json \<Rightarrow> diags" where
  "validate_lifecycle v =
     (case v of
        JObj lc \<Rightarrow>
          (let states = lifecycle_states lc in
           chks [
             each (sorted_diff (jkeys lc) lifecycle_fields)
               (\<lambda>k. Inr [diag ''spec.unknown_field'' (''lifecycle: unknown field '' @ sq k)]),
             each (sorted_diff lifecycle_fields (jkeys lc))
               (\<lambda>k. Inr [diag ''spec.missing_field'' (''lifecycle: missing '' @ sq k)]),
             check_instance_key (jget ''instanceKey'' lc),
             emit_if (\<not> is_list (jget ''states'' lc)) (schema_error ''lifecycle.states must be an array''),
             emit_if (\<not> is_list (jget ''transitions'' lc))
               (schema_error ''lifecycle.transitions must be an array''),
             each_i (as_list (jget ''states'' lc)) check_state,
             emit_ifp (not_in_strs (jget ''initialState'' lc) (map fst states))
               (diag ''spec.bad_initial_state''
                 (''lifecycle.initialState '' @ sq (py_str (jget ''initialState'' lc)) @
                  '' is not a declared state'')),
             each_i (as_list (jget ''transitions'' lc)) (check_transition states),
             check_dead_ends states (transition_froms lc),
             check_terminal_states states (jget ''terminalStates'' lc)])
      | _ \<Rightarrow> Inr [schema_error ''lifecycle must be an object''])"

section \<open>The machine an accepted lifecycle describes\<close>

definition declared_state :: "obj \<Rightarrow> string \<Rightarrow> bool" where
  "declared_state lc a \<longleftrightarrow> a \<in> fst ` set (lifecycle_states lc)"

definition terminal_state :: "obj \<Rightarrow> string \<Rightarrow> bool" where
  "terminal_state lc a \<longleftrightarrow>
     (\<exists>s. map_of (lifecycle_states lc) a = Some s \<and> truthy (jget ''terminal'' s))"

inductive lc_step :: "obj \<Rightarrow> string \<Rightarrow> string \<Rightarrow> bool" for lc where
  transition: "JObj t \<in> set (as_list (jget ''transitions'' lc)) \<Longrightarrow> jget ''from'' t = JStr a \<Longrightarrow>
    jget ''to'' t = JStr b \<Longrightarrow> lc_step lc a b"

inductive_simps lc_step_iff: "lc_step lc a b"

inductive lc_reachable :: "obj \<Rightarrow> string \<Rightarrow> bool" for lc where
  initial: "jget ''initialState'' lc = JStr a \<Longrightarrow> lc_reachable lc a"
| step: "lc_reachable lc a \<Longrightarrow> lc_step lc a b \<Longrightarrow> lc_reachable lc b"

lemma collect_states_distinct:
  "distinct (map fst acc) \<Longrightarrow> distinct (map fst (collect_states acc ss))"
  by (induction acc ss rule: collect_states.induct) (auto simp: distinct_dict_set)

lemma distinct_states: "distinct (map fst (lifecycle_states lc))"
  by (simp add: lifecycle_states_def collect_states_distinct)

text \<open>What acceptance says of each part.\<close>

lemma validate_lifecycle_pass:
  "validate_lifecycle (JObj lc) = Inr [] \<longleftrightarrow>
     set (jkeys lc) = set lifecycle_fields \<and>
     check_instance_key (jget ''instanceKey'' lc) = Inr [] \<and>
     is_list (jget ''states'' lc) \<and> is_list (jget ''transitions'' lc) \<and>
     (\<forall>i < length (as_list (jget ''states'' lc)). check_state i (as_list (jget ''states'' lc) ! i) = Inr []) \<and>
     (\<exists>a. jget ''initialState'' lc = JStr a \<and> declared_state lc a) \<and>
     (\<forall>i < length (as_list (jget ''transitions'' lc)).
        check_transition (lifecycle_states lc) i (as_list (jget ''transitions'' lc) ! i) = Inr []) \<and>
     check_dead_ends (lifecycle_states lc) (transition_froms lc) = Inr [] \<and>
     check_terminal_states (lifecycle_states lc) (jget ''terminalStates'' lc) = Inr []"
  by (auto simp: validate_lifecycle_def Let_def checks declared_state_def)

lemma accepted_step_declared:
  assumes "validate_lifecycle (JObj lc) = Inr []" and "lc_step lc a b"
  shows "declared_state lc a \<and> declared_state lc b"
  using assms(2)
proof (cases rule: lc_step.cases)
  case (transition t)
  then obtain i where "i < length (as_list (jget ''transitions'' lc))"
    and "as_list (jget ''transitions'' lc) ! i = JObj t"
    by (auto simp: in_set_conv_nth)
  then have "check_transition (lifecycle_states lc) i (JObj t) = Inr []"
    using assms(1) unfolding validate_lifecycle_pass by metis
  with transition show ?thesis
    by (auto simp: check_transition_def Let_def checks declared_state_def)
qed

lemma accepted_progress:
  assumes "validate_lifecycle (JObj lc) = Inr []" and "declared_state lc a" and "\<not> terminal_state lc a"
  shows "\<exists>b. lc_step lc a b"
proof -
  obtain s where s: "(a, s) \<in> set (lifecycle_states lc)"
    using assms(2) by (auto simp: declared_state_def)
  then have "map_of (lifecycle_states lc) a = Some s" by (simp add: distinct_states)
  with assms(3) have "\<not> truthy (jget ''terminal'' s)" by (simp add: terminal_state_def)
  moreover have "check_dead_ends (lifecycle_states lc) (transition_froms lc) = Inr []"
    using assms(1) by (simp add: validate_lifecycle_pass)
  ultimately have "JStr a \<in> set (transition_froms lc)"
    using s by (auto simp: check_dead_ends_def checks)
  then obtain t where t: "JObj t \<in> set (as_list (jget ''transitions'' lc))" "jget ''from'' t = JStr a"
    by (auto simp: transition_froms_def is_obj_iff)
  then obtain i where "i < length (as_list (jget ''transitions'' lc))"
    and "as_list (jget ''transitions'' lc) ! i = JObj t"
    by (auto simp: in_set_conv_nth)
  then have "check_transition (lifecycle_states lc) i (JObj t) = Inr []"
    using assms(1) unfolding validate_lifecycle_pass by metis
  then obtain b where "jget ''to'' t = JStr b"
    by (auto simp: check_transition_def Let_def checks)
  with t show ?thesis by (blast intro: lc_step.transition)
qed

lemma accepted_reachable_declared:
  assumes "validate_lifecycle (JObj lc) = Inr []" and "lc_reachable lc a"
  shows "declared_state lc a"
  using assms(2)
proof induction
  case (initial a)
  with assms(1) show ?case by (auto simp: validate_lifecycle_pass)
next
  case (step a b)
  with assms(1) show ?case by (blast dest: accepted_step_declared)
qed

lemma accepted_terminal_states:
  assumes "validate_lifecycle (JObj lc) = Inr []" and "jget ''terminalStates'' lc = JObj ts"
    and "(k, v) \<in> set ts" and "v \<noteq> JNull"
  shows "\<exists>a s. v = JStr a \<and> map_of (lifecycle_states lc) a = Some s \<and>
    truthy (jget ''terminal'' s) \<and> jget ''terminalKind'' s = JStr k"
proof -
  have "check_terminal_state (lifecycle_states lc) k v = Inr []"
    using assms(1-3) by (auto simp: validate_lifecycle_pass check_terminal_states_def checks split: if_splits)
  with assms(4) show ?thesis
    by (auto simp: check_terminal_state_def Let_def checks py_str_def split: if_splits option.splits)
qed

text \<open>
  Where the steps have no cycle, every state leads to a terminal one: a step relation on
  finitely many states without cycles is well-founded backwards.
\<close>

lemma finite_declared: "finite {a. declared_state lc a}"
  by (simp add: declared_state_def)

lemma accepted_acyclic_terminates:
  assumes ok: "validate_lifecycle (JObj lc) = Inr []"
    and acyc: "acyclicP (lc_step lc)" and "declared_state lc a"
  shows "\<exists>b. (lc_step lc)\<^sup>*\<^sup>* a b \<and> terminal_state lc b"
proof -
  let ?R = "{(a, b). lc_step lc a b}"
  have "?R \<subseteq> {a. declared_state lc a} \<times> {a. declared_state lc a}"
    using accepted_step_declared [OF ok] by blast
  then have "finite ?R" using finite_declared finite_cartesian_product finite_subset by metis
  then have "wf (?R\<inverse>)" using acyc by (rule finite_acyclic_wf_converse)
  then show ?thesis using assms(3)
  proof (induction a rule: wf_induct_rule)
    case (less a)
    show ?case
    proof (cases "terminal_state lc a")
      case False
      then obtain b where b: "lc_step lc a b" using accepted_progress [OF ok less.prems] by blast
      with less.IH [of b] accepted_step_declared [OF ok b]
      obtain c where "(lc_step lc)\<^sup>*\<^sup>* b c" "terminal_state lc c" by auto
      with b show ?thesis by (meson converse_rtranclp_into_rtranclp)
    qed blast
  qed
qed

end
