(* ===== verification/SpecValidate.thy ===== *)
theory SpecValidate
  imports SpecLifecycle
begin

text \<open>
  The gate over a whole capability spec: the recomputation of the two digests
  (\<open>_check_hashes\<close>), \<open>validate\<close> and the report of \<open>main\<close>. The hash function is the argument
  \<open>H\<close>. The lemmas turn acceptance into the invariants the module's documentation states:
  closed top-level shape, resolved references, authentic digests.
\<close>

section \<open>The digests\<close>

definition non_semantic :: "string list" where
  "non_semantic = [''identity'', ''sourceMap'', ''targetRequirements'', ''kind'', ''schemaVersion'']"

text \<open>The semantic core that \<open>capabilityHash\<close> covers, and the body that \<open>specHash\<close> covers.\<close>

definition semantic_core :: "obj \<Rightarrow> json" where
  "semantic_core spec = JObj (jwithout non_semantic spec)"

definition spec_body :: "obj \<Rightarrow> json \<Rightarrow> json" where
  "spec_body spec h = JObj (dict_set ''identity'' (JObj [(''capabilityHash'', h)]) spec)"

definition check_hashes :: "(string \<Rightarrow> string) \<Rightarrow> obj \<Rightarrow> diags" where
  "check_hashes H spec =
     (case jget_or ''identity'' (JObj []) spec of
        JObj ident \<Rightarrow>
          (let cap = H (compact (semantic_core spec));
               ph = H (compact (spec_body spec (jget ''capabilityHash'' ident))) in
           chks [
             emit_if (jget ''capabilityHash'' ident \<noteq> JStr cap)
               (diag ''spec.hash_mismatch''
                 ''identity.capabilityHash does not match the recomputed digest''),
             emit_if (jget ''specHash'' ident \<noteq> JStr ph)
               (diag ''spec.hash_mismatch'' ''identity.specHash does not match the recomputed digest'')])
      | _ \<Rightarrow> Inl AttributeError)"

section \<open>The validator\<close>

definition field_codes :: "string list" where
  "field_codes = [''kernel.attest.invalid_assurance'', ''kernel.attest.invalid_independence'',
     ''kernel.binding.invalid_mode'', ''kernel.binding.invalid_assurance'',
     ''spec.terminal_kind'', ''spec.transition_idempotency'', ''spec.transition_effect'']"

definition structural :: "diagnostic \<Rightarrow> bool" where
  "structural d \<longleftrightarrow>
     list_ex (\<lambda>p. starts_with p (dcode d)) [''spec.schema'', ''spec.missing_field'', ''spec.unknown_field'']
     \<or> dcode d \<in> set field_codes"

text \<open>Everything \<open>validate\<close> appends before the digests, in its order.\<close>

definition sections :: "obj \<Rightarrow> diags" where
  "sections spec =
     chks [
       check_top_fields spec,
       validate_attestations spec,
       validate_obligations spec,
       check_header spec,
       check_identity spec,
       check_arrays spec,
       check_inputs spec,
       check_computes spec,
       check_effects spec,
       check_invariants spec,
       check_participants spec,
       check_topology spec,
       check_source_map spec,
       validate_lifecycle (jget ''lifecycle'' spec),
       check_target_requirements spec]"

definition diag_key :: "diagnostic \<Rightarrow> string \<times> string" where
  "diag_key d = (dcode d, dmessage d)"

definition validate :: "(string \<Rightarrow> string) \<Rightarrow> json \<Rightarrow> diags" where
  "validate H v =
     (case v of
        JObj spec \<Rightarrow>
          pbind (sections spec) (\<lambda>out.
          pbind (guarded (\<not> list_ex structural out) (check_hashes H spec)) (\<lambda>hs.
          Inr (sort_key diag_key (out @ hs))))
      | _ \<Rightarrow> Inr [schema_error ''top-level must be a JSON object''])"

section \<open>The report\<close>

record spec_report =
  rok :: bool
  rcapability_hash :: json
  rspec_hash :: json
  rdiagnostics :: "diagnostic list"
  rexit :: nat

definition report :: "(string \<Rightarrow> string) \<Rightarrow> json \<Rightarrow> spec_report py" where
  "report H spec =
     pbind (validate H spec) (\<lambda>ds.
       (let ok = (filter (\<lambda>d. dseverity d = ''error'') ds = []);
            ident = (case spec of JObj d \<Rightarrow> jget ''identity'' d | _ \<Rightarrow> JNull)
        in Inr \<lparr>rok = ok,
             rcapability_hash = jget ''capabilityHash'' (as_obj ident),
             rspec_hash = jget ''specHash'' (as_obj ident),
             rdiagnostics = ds,
             rexit = (if ok then 0 else 1)\<rparr>))"

section \<open>Acceptance\<close>

lemma validate_pass:
  "validate H v = Inr [] \<longleftrightarrow> (\<exists>spec. v = JObj spec \<and> sections spec = Inr [] \<and> check_hashes H spec = Inr [])"
  by (cases v) (auto simp: validate_def pbind_Inr_conv guarded_def)

lemma sections_pass:
  "sections spec = Inr [] \<longleftrightarrow>
     check_top_fields spec = Inr [] \<and> validate_attestations spec = Inr [] \<and>
     validate_obligations spec = Inr [] \<and> check_header spec = Inr [] \<and>
     check_identity spec = Inr [] \<and> check_arrays spec = Inr [] \<and> check_inputs spec = Inr [] \<and>
     check_computes spec = Inr [] \<and> check_effects spec = Inr [] \<and> check_invariants spec = Inr [] \<and>
     check_participants spec = Inr [] \<and> check_topology spec = Inr [] \<and>
     check_source_map spec = Inr [] \<and> validate_lifecycle (jget ''lifecycle'' spec) = Inr [] \<and>
     check_target_requirements spec = Inr []"
  by (simp add: sections_def chks_pass)

lemma check_hashes_pass:
  "check_hashes H spec = Inr [] \<longleftrightarrow>
    (\<exists>ident. jget_or ''identity'' (JObj []) spec = JObj ident \<and>
      jget ''capabilityHash'' ident = JStr (H (compact (semantic_core spec))) \<and>
      jget ''specHash'' ident = JStr (H (compact (spec_body spec (jget ''capabilityHash'' ident)))))"
  by (cases "jget_or ''identity'' (JObj []) spec") (auto simp: check_hashes_def Let_def checks)

lemma accepted_identity:
  assumes "validate H (JObj spec) = Inr []"
  obtains ident where "jget ''identity'' spec = JObj ident"
    and "same_keys ident [''capabilityHash'', ''specHash'']"
    and "jget ''capabilityHash'' ident = JStr (H (compact (semantic_core spec)))"
    and "jget ''specHash'' ident = JStr (H (compact (spec_body spec (jget ''capabilityHash'' ident))))"
proof -
  have "check_identity spec = Inr []" "check_hashes H spec = Inr []"
    using assms by (simp_all add: validate_pass sections_pass)
  then obtain ident where id: "jget ''identity'' spec = JObj ident"
    and keys: "same_keys ident [''capabilityHash'', ''specHash'']"
    by (auto simp: check_identity_def Let_def is_obj_iff split: if_splits)
  then have "jget_or ''identity'' (JObj []) spec = JObj ident"
    by (auto simp: jget_def jget_or_def split: option.splits)
  with \<open>check_hashes H spec = Inr []\<close> id keys that show thesis
    by (auto simp: check_hashes_pass)
qed

text \<open>Sections that are absent or no arrays are rejected, so the loops see the whole section.\<close>

lemma accepted_array:
  assumes "sections spec = Inr []"
    and "key \<in> {''inputs'', ''computes'', ''effects'', ''invariants'', ''participants'', ''sourceMap''}"
  shows "\<exists>xs. jget key spec = JList xs"
proof -
  have "check_top_fields spec = Inr []" "check_arrays spec = Inr []"
    using assms(1) by (simp_all add: sections_pass)
  then have "set top_fields \<subseteq> set (jkeys spec)" "jhas key spec \<longrightarrow> is_list (jget key spec)"
    using assms(2) by (auto simp: check_top_fields_def check_arrays_def checks)
  moreover have "key \<in> set top_fields" using assms(2) by (auto simp: top_fields_def)
  ultimately have "is_list (jget key spec)" by (auto simp: jhas_jkeys [symmetric])
  then show ?thesis by (simp add: is_list_iff)
qed

lemma accepted_elements:
  assumes "each_i (as_list v) f = Inr []" and "v = JList xs" and "x \<in> set xs"
  shows "\<exists>i. f i x = Inr []"
  using assms by (auto simp: checks in_set_conv_nth)

lemma accepted_effect:
  assumes "sections spec = Inr []" and "jget ''effects'' spec = JList es" and "JObj e \<in> set es"
  shows "\<exists>i. check_effect (declared_names spec) (participant_names spec) i (JObj e) = Inr []"
  by (rule accepted_elements [where v = "jget ''effects'' spec"])
    (use assms in \<open>simp_all add: sections_pass check_effects_def\<close>)

lemma effect_operand_resolves:
  assumes "check_effect declared parts i (JObj e) = Inr []"
    and "f \<in> {''party'', ''amount'', ''currency'', ''idempotencyKey''}"
  shows "\<exists>d s. jget f e = JObj d \<and> jget ''value'' d = JStr s \<and> s \<noteq> [] \<and>
    (jget ''kind'' d = JStr ''literal'' \<or> jget ''kind'' d = JStr ''ref'' \<and> s \<in> set declared)"
proof -
  have "\<exists>w. check_effect_operand declared w e f = Inr []"
    using assms by (auto simp: check_effect_def Let_def checks)
  then show ?thesis
    by (auto simp: check_effect_operand_def Let_def checks nonempty_str_iff)
qed

lemma effect_participant_resolves:
  assumes "check_effect declared parts i (JObj e) = Inr []" and "jget ''participant'' e \<noteq> JNull"
  shows "\<exists>s \<in> set parts. jget ''participant'' e = JStr s"
  using assms by (auto simp: check_effect_def Let_def checks split: if_splits)

lemma effect_guard_resolves:
  assumes "check_effect declared parts i (JObj e) = Inr []" and "jget ''when'' e \<noteq> JNull"
  shows "\<exists>g d. jget ''when'' e = JObj g \<and> jget ''ast'' g = JObj d \<and> jget ''kind'' d = JStr ''cmp'' \<and>
    well_formed_expr (JObj d) \<and> set (expr_vars (JObj d)) \<subseteq> set declared"
proof -
  obtain w where "check_guard declared w (jget ''when'' e) = Inr []"
    using assms(1) by (auto simp: check_effect_def Let_def checks)
  then obtain g where g: "jget ''when'' e = JObj g"
    and ast: "validate_expr (jget ''ast'' g) (w @ ''.when.ast'') = Inr []"
    and cmp: "is_obj (jget ''ast'' g) \<longrightarrow> jget ''kind'' (as_obj (jget ''ast'' g)) = JStr ''cmp''"
    and vars: "\<forall>x \<in> set (expr_vars (jget ''ast'' g)). x \<in> set declared"
    using assms(2) by (auto simp: check_guard_def Let_def checks is_obj_iff split: if_splits)
  obtain d where "jget ''ast'' g = JObj d" using validate_expr_obj [OF ast] by blast
  with g ast cmp vars show ?thesis by (auto simp: validate_expr_iff)
qed

section \<open>What the gate can do\<close>

text \<open>
  Every block raises only \<open>TypeError\<close>, from a membership test on an unhashable value, and
  appends only diagnostics of severity \<open>error\<close>.
\<close>

definition is_error :: "diagnostic \<Rightarrow> bool" where "is_error d \<longleftrightarrow> dseverity d = ''error''"
abbreviation diag_outcome :: "diags \<Rightarrow> bool" where
  "diag_outcome \<equiv> outcome (\<lambda>e. e = TypeError) is_error"

lemma is_error_diag [simp]: "is_error (diag c m)" "is_error (schema_error m)" "is_error (must_be_object w)"
  by (simp_all add: is_error_def diag_def schema_error_def must_be_object_def)

lemma outcome_unknown_fields [outcomes]: "diag_outcome (unknown_fields d ks pre)"
  by (auto simp: unknown_fields_def list_all_iff intro!: outcomes)

lemma outcome_validate_expr [outcomes]: "diag_outcome (validate_expr v w)"
proof (induction v w rule: validate_expr.induct)
  case (1 node w)
  show ?case
   by (subst validate_expr.simps) (intro outcomes "1.IH"; simp)
qed

lemma outcome_str_array [outcomes]: "diag_outcome (str_array d k w)"
  by (auto simp: str_array_def intro!: outcomes)

lemma outcome_validate_source [outcomes]: "diag_outcome (validate_source d w)"
  by (auto simp: validate_source_def intro!: outcomes)

lemma outcome_validate_operand [outcomes]: "diag_outcome (validate_operand d w)"
  by (auto simp: validate_operand_def intro!: outcomes)

lemma outcome_str_or_null [outcomes]: "diag_outcome (str_or_null d w)"
  by (auto simp: str_or_null_def intro!: outcomes)

lemma outcome_if_exact [outcomes]: "diag_outcome m \<Longrightarrow> diag_outcome (if_exact v ks w m)"
  by (cases v) (auto simp: if_exact_def exact_object_def Let_def list_all_iff intro!: outcomes)

lemma outcome_on_object [outcomes]: "(\<And>d. v = JObj d \<Longrightarrow> diag_outcome (f d)) \<Longrightarrow> diag_outcome (on_object w v f)"
  by (auto simp: on_object_def intro!: outcomes)

lemma outcome_attestations [outcomes]: "diag_outcome (validate_attestations d)"
  unfolding validate_attestations_def validate_attestation_def validate_observer_set_def by (intro outcomes; simp)

lemma outcome_obligations [outcomes]: "diag_outcome (validate_obligations d)"
  unfolding validate_obligations_def validate_obligation_def by (intro outcomes; simp)

lemma outcome_blocks [outcomes]: "diag_outcome (check_top_fields d)" "diag_outcome (check_header d)" "diag_outcome (check_identity d)"
  "diag_outcome (check_arrays d)" "diag_outcome (check_inputs d)" "diag_outcome (check_computes d)" "diag_outcome (check_effects d)"
  "diag_outcome (check_invariants d)" "diag_outcome (check_participants d)" "diag_outcome (check_topology d)"
  "diag_outcome (check_source_map d)" "diag_outcome (check_target_requirements d)"
  unfolding check_top_fields_def check_header_def check_identity_def check_arrays_def check_inputs_def check_input_def check_computes_def
    check_compute_def check_effects_def check_effect_def check_guard_def check_effect_operand_def category_check_def check_invariants_def
    check_participants_def check_participant_def check_topology_def check_org_pair_def check_source_map_def check_source_map_entry_def
    check_target_requirements_def check_requirement_def
  by (intro outcomes; simp)+

lemma outcome_terminal_states [outcomes]: "diag_outcome (check_terminal_states st v)"
proof -
  have key: False if "in_strs w (map fst st) = Inr b" "b" "map_of st (py_str w) = None" for w b
    using that by (cases w) (auto simp: py_str_def map_of_eq_None_iff)
  have "diag_outcome (check_terminal_state st k w)" for k w
    unfolding check_terminal_state_def by (intro outcomes; (simp; fail | blast dest: key))
  then show ?thesis unfolding check_terminal_states_def by (auto intro!: outcomes)
qed

lemma outcome_lifecycle [outcomes]: "diag_outcome (validate_lifecycle v)"
  unfolding validate_lifecycle_def check_instance_key_def check_state_def check_transition_def check_transition_guard_def check_evidence_def check_dead_ends_def
  by (intro outcomes; (simp split: prod.splits add: outcomes)?)

lemma outcome_sections: "diag_outcome (sections spec)"
  unfolding sections_def by (intro outcomes)

text \<open>
  Without a structural diagnostic the identity is an object, so the recomputation of the
  digests does not raise.
\<close>

lemma check_identity_structural:
  assumes "sections spec = Inr out" and "\<not> list_ex structural out"
  shows "\<exists>ident. jget_or ''identity'' (JObj []) spec = JObj ident"
proof -
  have "is_obj (jget ''identity'' spec)"
  proof (rule ccontr)
    assume "\<not> is_obj (jget ''identity'' spec)"
    then have "check_identity spec = Inr [schema_error ''identity must be {capabilityHash, specHash}'']"
      by (simp add: check_identity_def Let_def)
    then have "schema_error ''identity must be {capabilityHash, specHash}'' \<in> set out"
      using chks_Inr_set [OF assms(1) [unfolded sections_def]] by auto
    with assms(2) show False
      by (auto simp: list_ex_iff structural_def schema_error_def diag_def starts_with_def)
  qed
  then show ?thesis by (auto simp: is_obj_iff jget_def jget_or_def split: option.splits)
qed

lemma outcome_validate: "diag_outcome (validate H v)"
proof (cases v)
  case (JObj spec)
  show ?thesis
  proof (cases "sections spec")
    case (Inl e)
    then show ?thesis using outcome_sections [of spec] JObj by (simp add: validate_def outcome_def)
  next
    case (Inr out)
    show ?thesis
    proof (cases "list_ex structural out")
      case True
      then show ?thesis using outcome_sections [of spec] JObj Inr
        by (simp add: validate_def outcome_def guarded_def list_all_iff)
    next
      case False
      with Inr obtain ident where "jget_or ''identity'' (JObj []) spec = JObj ident"
        using check_identity_structural by blast
      then have "outcome (\<lambda>e. e = TypeError) is_error (check_hashes H spec)"
        by (auto simp: check_hashes_def Let_def intro!: outcomes)
      then show ?thesis using outcome_sections [of spec] JObj Inr False
        by (cases "check_hashes H spec") (auto simp: validate_def outcome_def guarded_def list_all_iff)
    qed
  qed
qed (auto simp: validate_def intro!: outcomes)

end
