(* ===== verification/SpecProps.thy ===== *)
theory SpecProps
  imports SpecValidate
begin

text \<open>
  What an accepted capability spec guarantees, with a sample document for the witnesses. The
  sample has an input, a compute over it, one guarded effect, one participant and a lifecycle
  of two states; its digests are those of the constant function \<open>zero_hash\<close>.
\<close>

section \<open>A sample document\<close>

definition zero_hash :: "string \<Rightarrow> string" where
  "zero_hash s = replicate 64 (CHR ''0'')"

definition var_node :: "string \<Rightarrow> json" where
  "var_node s = JObj [(''kind'', JStr ''var''), (''dtype'', JStr ''money''), (''name'', JStr s)]"

definition num_node :: "int \<Rightarrow> json" where
  "num_node n = JObj [(''kind'', JStr ''num''), (''dtype'', JStr ''decimal''), (''num'', JInt n)]"

definition two_node :: "string \<Rightarrow> string \<Rightarrow> json \<Rightarrow> json \<Rightarrow> json" where
  "two_node k oper l r =
     JObj [(''kind'', JStr k), (''dtype'', JStr ''money''), (''op'', JStr oper), (''lhs'', l), (''rhs'', r)]"

definition operand :: "string \<Rightarrow> string \<Rightarrow> json" where
  "operand k v = JObj [(''kind'', JStr k), (''value'', JStr v)]"

definition sample_effect :: obj where
  "sample_effect = [(''kind'', JStr ''debit''), (''name'', JStr ''charge''), (''ledger'', JStr ''book''),
     (''owner'', JStr ''payer''), (''participant'', JStr ''payer''), (''party'', operand ''literal'' ''p''),
     (''amount'', operand ''ref'' ''fee''), (''currency'', operand ''literal'' ''EUR''),
     (''idempotencyKey'', operand ''literal'' ''k''),
     (''when'', JObj [(''expr'', JStr ''amount > 0''),
        (''ast'', two_node ''cmp'' ''>'' (var_node ''amount'') (num_node 0))])]"

definition lc_state :: "string \<Rightarrow> json" where
  "lc_state n = JObj [(''name'', JStr n), (''terminal'', JBool False)]"

definition lc_final :: "string \<Rightarrow> string \<Rightarrow> json" where
  "lc_final n k = JObj [(''name'', JStr n), (''terminal'', JBool True), (''terminalKind'', JStr k)]"

definition lc_arrow :: "string \<Rightarrow> string \<Rightarrow> json" where
  "lc_arrow a b = JObj [(''name'', JStr ''go''), (''from'', JStr a), (''to'', JStr b),
     (''effects'', JList [JStr ''post'']), (''guards'', JList []), (''idempotency'', JStr ''reject''),
     (''evidence'', JNull)]"

definition lifecycle_doc :: "json list \<Rightarrow> json list \<Rightarrow> json \<Rightarrow> obj" where
  "lifecycle_doc states transitions success =
     [(''instanceKey'', JObj [(''fields'', JList [JStr ''amount''])]), (''initialState'', JStr ''open''),
      (''states'', JList states), (''transitions'', JList transitions),
      (''terminalStates'', JObj [(''success'', success), (''aborted'', JNull), (''contested'', JNull)])]"

definition sample_lifecycle :: obj where
  "sample_lifecycle =
     lifecycle_doc [lc_state ''open'', lc_final ''done'' ''success''] [lc_arrow ''open'' ''done''] (JStr ''done'')"

text \<open>Two states that lead to each other, and no way to the terminal one.\<close>

definition looping_lifecycle :: obj where
  "looping_lifecycle =
     lifecycle_doc [lc_state ''open'', lc_state ''wait'', lc_final ''done'' ''success'']
       [lc_arrow ''open'' ''wait'', lc_arrow ''wait'' ''open''] (JStr ''done'')"

definition spec_doc :: "json \<Rightarrow> json list \<Rightarrow> obj" where
  "spec_doc lifecycle source_map =
     [(''schemaVersion'', JInt 2), (''kind'', JStr ''neutrino.capability-spec''),
      (''specVersion'', JStr ''0.1.0''), (''procedure'', JStr ''pay''), (''trigger'', JNull),
      (''identity'', JObj [(''capabilityHash'', JStr (zero_hash [])), (''specHash'', JStr (zero_hash []))]),
      (''inputs'', JList [JObj [(''name'', JStr ''amount''), (''type'', JStr ''money''), (''category'', JStr ''money'')]]),
      (''computes'', JList [JObj [(''name'', JStr ''fee''), (''expr'', JStr ''amount / 10''),
         (''category'', JStr ''money''), (''deps'', JList [JStr ''amount'']),
         (''ast'', two_node ''bin'' ''/'' (var_node ''amount'') (num_node 10))]]),
      (''effects'', JList [JObj sample_effect]),
      (''invariants'', JList []),
      (''participants'', JList [JObj [(''name'', JStr ''payer''), (''binding'', JStr ''fixed''),
         (''bindMinAssurance'', JStr ''A1''), (''capabilities'', JList []), (''bindRuntimes'', JList [])]]),
      (''topology'', JObj [(''allowedOrgPairs'', JList [])]),
      (''lifecycle'', lifecycle),
      (''targetRequirements'', JObj [(''requirements'', JList []), (''evidenceStyle'', JStr ''single_hash''),
         (''unsupportedConstructs'', JList [])]),
      (''sourceMap'', JList source_map)]"

definition sample_spec :: obj where
  "sample_spec = spec_doc (JObj sample_lifecycle) []"

text \<open>The same capability with a source map, which the capability digest does not cover.\<close>

definition mapped_spec :: obj where
  "mapped_spec = spec_doc (JObj sample_lifecycle)
     [JObj [(''specPath'', JStr ''inputs''), (''construct'', JStr ''input''), (''source'', JNull)]]"

lemma sample_sections: "sections sample_spec = Inr []" "sections mapped_spec = Inr []"
  by code_simp+

lemma sample_hashes: "check_hashes zero_hash sample_spec = Inr []" "check_hashes zero_hash mapped_spec = Inr []"
  by (simp_all add: check_hashes_def sample_spec_def mapped_spec_def spec_doc_def jget_or_def jget_def
      Let_def checks zero_hash_def)

lemma sample_accepted:
  "validate zero_hash (JObj sample_spec) = Inr []" "validate zero_hash (JObj mapped_spec) = Inr []"
  by (simp_all add: validate_pass sample_sections sample_hashes)

lemma sample_lifecycle_accepted: "validate_lifecycle (JObj sample_lifecycle) = Inr []"
  by code_simp

lemma looping_lifecycle_accepted: "validate_lifecycle (JObj looping_lifecycle) = Inr []"
  by code_simp

lemma sample_spec_simps:
  "jget ''effects'' sample_spec = JList [JObj sample_effect]"
  "jget ''lifecycle'' sample_spec = JObj sample_lifecycle"
  "semantic_core mapped_spec = semantic_core sample_spec"
  by (simp_all add: sample_spec_def mapped_spec_def spec_doc_def jget_def jget_or_def semantic_core_def
      jwithout_def non_semantic_def)

section \<open>Expressions and references\<close>

text \<open>C4. The expression check accepts exactly the well-formed trees of the expression language:
  an ast passes \<open>_validate_expr\<close> without a diagnostic and without an exception iff every node
  has only known fields, a value category and the shape of its kind, and so have its operands.\<close>

theorem expr_gate_exact: "validate_expr v w = Inr [] \<longleftrightarrow> well_formed_expr v"
  by (rule validate_expr_iff)

text \<open>C1. In an accepted capability spec every effect is closed: each of its four operands is a
  literal or references a declared input or compute, its participant is null or declared, and a
  guard is a well-formed comparison all of whose variables are declared.\<close>

theorem accepted_references_resolve:
  assumes "validate H (JObj spec) = Inr []" and "JObj e \<in> set (as_list (jget ''effects'' spec))"
  shows "(\<forall>f \<in> {''party'', ''amount'', ''currency'', ''idempotencyKey''}.
      \<exists>d s. jget f e = JObj d \<and> jget ''value'' d = JStr s \<and> s \<noteq> [] \<and>
        (jget ''kind'' d = JStr ''literal'' \<or> jget ''kind'' d = JStr ''ref'' \<and> s \<in> set (declared_names spec)))
    \<and> (jget ''participant'' e = JNull \<or> (\<exists>s \<in> set (participant_names spec). jget ''participant'' e = JStr s))
    \<and> (jget ''when'' e = JNull \<or>
       (\<exists>g d. jget ''when'' e = JObj g \<and> jget ''ast'' g = JObj d \<and> jget ''kind'' d = JStr ''cmp'' \<and>
         well_formed_expr (JObj d) \<and> set (expr_vars (JObj d)) \<subseteq> set (declared_names spec)))"
proof -
  have secs: "sections spec = Inr []" using assms(1) by (simp add: validate_pass)
  then obtain es where "jget ''effects'' spec = JList es" using accepted_array [of spec "''effects''"] by auto
  with assms(2) obtain i where
    i: "check_effect (declared_names spec) (participant_names spec) i (JObj e) = Inr []"
    using accepted_effect [OF secs] by auto
  show ?thesis
    using effect_operand_resolves [OF i] effect_participant_resolves [OF i] effect_guard_resolves [OF i]
    by blast
qed

lemma accepted_references_resolve_witness:
  "validate zero_hash (JObj sample_spec) = Inr [] \<and>
   (\<exists>d. jget ''amount'' sample_effect = JObj d \<and> jget ''value'' d = JStr ''fee'' \<and>
     ''fee'' \<in> set (declared_names sample_spec)) \<and>
   ''payer'' \<in> set (participant_names sample_spec)"
proof -
  have e: "JObj sample_effect \<in> set (as_list (jget ''effects'' sample_spec))"
    by (simp add: sample_spec_simps)
  have amount: "jget ''amount'' sample_effect = operand ''ref'' ''fee''"
    "jget ''participant'' sample_effect = JStr ''payer''"
    by (simp_all add: sample_effect_def jget_def jget_or_def)
  show ?thesis
    using accepted_references_resolve [OF sample_accepted(1) e] sample_accepted(1) amount
    by (auto simp: operand_def jget_def jget_or_def)
qed

section \<open>Identity\<close>

definition declared_hash :: "string \<Rightarrow> obj \<Rightarrow> json" where
  "declared_hash which spec = jget which (as_obj (jget ''identity'' spec))"

lemma accepted_hashes:
  assumes "validate H (JObj spec) = Inr []"
  shows "declared_hash ''capabilityHash'' spec = JStr (H (compact (semantic_core spec)))"
    and "declared_hash ''specHash'' spec =
      JStr (H (compact (spec_body spec (declared_hash ''capabilityHash'' spec))))"
  by (rule accepted_identity [OF assms]; simp add: declared_hash_def)+

lemma wf_semantic_core: "wf_json (JObj spec) \<Longrightarrow> wf_json (semantic_core spec)"
  by (simp only: semantic_core_def wf_jwithout)

lemma wf_spec_body: "wf_json (JObj spec) \<Longrightarrow> wf_json h \<Longrightarrow> wf_json (spec_body spec h)"
  unfolding spec_body_def by (rule wf_dict_set) simp_all

text \<open>The core is the spec without five fields, up to the order of keys.\<close>

lemma semantic_core_canon:
  assumes "wf_json (JObj a)" and "wf_json (JObj b)"
  shows "canon (semantic_core a) = canon (semantic_core b) \<longleftrightarrow>
    (\<forall>k. k \<notin> {''identity'', ''sourceMap'', ''targetRequirements'', ''kind'', ''schemaVersion''} \<longrightarrow>
       map_option canon (map_of a k) = map_option canon (map_of b k))"
proof -
  have "distinct (map fst (jwithout non_semantic a))" and "distinct (map fst (jwithout non_semantic b))"
    using wf_jwithout [OF assms(1)] wf_jwithout [OF assms(2)] by simp_all
  note iff = canon_obj_iff [OF this, folded semantic_core_def, unfolded map_of_jwithout]
  have "canon (semantic_core a) = canon (semantic_core b) \<longleftrightarrow>
    (\<forall>k. k \<notin> set non_semantic \<longrightarrow> map_option canon (map_of a k) = map_option canon (map_of b k))"
    unfolding iff by (rule all_cong1) simp
  then show ?thesis by (simp add: non_semantic_def)
qed

text \<open>C2. The capability hash is the identity of the semantic content: two accepted specs declare one
  capability hash iff every field apart from identity, source map, target requirements, kind and
  version holds the same value in both or is absent from both, whatever the order of object keys. The
  direction from the hash to the content needs that the hash function does not collide on the two
  canonical texts.\<close>

theorem capability_hash_identifies_core:
  assumes "validate H (JObj a) = Inr []" and "validate H (JObj b) = Inr []"
    and wf: "wf_json (JObj a)" "wf_json (JObj b)"
    and "inj_on H {compact (semantic_core a), compact (semantic_core b)}"
  shows "declared_hash ''capabilityHash'' a = declared_hash ''capabilityHash'' b \<longleftrightarrow>
    (\<forall>k. k \<notin> {''identity'', ''sourceMap'', ''targetRequirements'', ''kind'', ''schemaVersion''} \<longrightarrow>
       map_option canon (map_of a k) = map_option canon (map_of b k))"
proof -
  have "declared_hash ''capabilityHash'' a = declared_hash ''capabilityHash'' b \<longleftrightarrow>
    H (compact (semantic_core a)) = H (compact (semantic_core b))"
    using accepted_hashes(1) assms(1,2) by simp
  also have "\<dots> \<longleftrightarrow> canon (semantic_core a) = canon (semantic_core b)"
    using canonical.tamper [OF wf_semantic_core wf_semantic_core assms(5)] wf
      canonical.digest_stable by blast
  finally show ?thesis unfolding semantic_core_canon [OF wf] .
qed

lemma capability_hash_identifies_core_witness:
  "declared_hash ''capabilityHash'' sample_spec = declared_hash ''capabilityHash'' mapped_spec \<and>
   sample_spec \<noteq> mapped_spec"
proof -
  have wf: "wf_json (JObj sample_spec)" "wf_json (JObj mapped_spec)" by code_simp+
  have "sample_spec \<noteq> mapped_spec" by (simp add: sample_spec_def mapped_spec_def spec_doc_def)
  moreover have "inj_on zero_hash {compact (semantic_core sample_spec), compact (semantic_core mapped_spec)}"
    by (simp add: sample_spec_simps)
  ultimately show ?thesis
    using capability_hash_identifies_core [OF sample_accepted wf] semantic_core_canon [OF wf]
    by (simp add: sample_spec_simps)
qed

text \<open>An identity object is determined by its two hashes.\<close>

lemma identity_canon:
  assumes "same_keys i [''capabilityHash'', ''specHash'']" and "same_keys j [''capabilityHash'', ''specHash'']"
    and "distinct (map fst i)" and "distinct (map fst j)"
    and "jget ''capabilityHash'' i = jget ''capabilityHash'' j" and "jget ''specHash'' i = jget ''specHash'' j"
  shows "canon (JObj i) = canon (JObj j)"
proof -
  have has: "jhas k i \<longleftrightarrow> jhas k j" for k using assms(1,2) by (simp add: same_keys_iff)
  have "map_of i k = map_of j k" for k
  proof (cases "jhas k i")
    case True
    then have "k = ''capabilityHash'' \<or> k = ''specHash''" using assms(1) by (simp add: same_keys_iff)
    moreover obtain x y where "map_of i k = Some x" "map_of j k = Some y"
      using True has jhas_map_of by metis
    ultimately show ?thesis using assms(5,6) by (auto simp: jget_in)
  next
    case False
    then show ?thesis using has jhas_map_of by (metis option.exhaust)
  qed
  then show ?thesis using canon_obj_iff [OF assms(3,4)] by presburger
qed

text \<open>Equal hashed bodies and equal identities make equal documents.\<close>

lemma spec_body_canon:
  assumes "wf_json (JObj a)" and "wf_json (JObj b)"
    and body: "canon (spec_body a (JStr g)) = canon (spec_body b (JStr h))"
    and ids: "map_of a ''identity'' = Some (JObj i)" "map_of b ''identity'' = Some (JObj j)"
      "g = h \<Longrightarrow> canon (JObj i) = canon (JObj j)"
  shows "canon (JObj a) = canon (JObj b)"
proof -
  let ?id = "\<lambda>x. JObj [(''capabilityHash'', JStr x)]"
  have dist: "distinct (map fst a)" "distinct (map fst b)" using assms(1,2) by simp_all
  then have eq: "map_option canon (map_of (dict_set ''identity'' (?id g) a) k) =
    map_option canon (map_of (dict_set ''identity'' (?id h) b) k)" for k
    using body unfolding spec_body_def by (subst (asm) canon_obj_iff) (blast intro: distinct_dict_set)+
  have "g = h" using eq [of "''identity''"] by simp
  have "map_option canon (map_of a k) = map_option canon (map_of b k)" for k
  proof (cases "k = ''identity''")
    case True
    with ids \<open>g = h\<close> show ?thesis by simp
  next
    case False
    with eq [of k] show ?thesis by simp
  qed
  then show ?thesis using canon_obj_iff [OF dist] by blast
qed

text \<open>C3. The spec hash pins the whole document: two accepted specs with one spec hash are the
  same JSON value up to the order of object keys, as far as the hash function does not collide on
  the two hashed texts. No section, not even an unhashed one, can change under a kept spec
  hash.\<close>

theorem spec_hash_identifies_document:
  assumes "validate H (JObj a) = Inr []" and "validate H (JObj b) = Inr []"
    and "wf_json (JObj a)" and "wf_json (JObj b)"
    and "inj_on H {compact (spec_body a (declared_hash ''capabilityHash'' a)),
      compact (spec_body b (declared_hash ''capabilityHash'' b))}"
    and "declared_hash ''specHash'' a = declared_hash ''specHash'' b"
  shows "canon (JObj a) = canon (JObj b)"
proof -
  let ?g = "H (compact (semantic_core a))" and ?h = "H (compact (semantic_core b))"
  note ha = accepted_hashes [OF assms(1)] and hb = accepted_hashes [OF assms(2)]
  have "H (compact (spec_body a (JStr ?g))) = H (compact (spec_body b (JStr ?h)))"
    using assms(6) ha hb by simp
  then have body: "canon (spec_body a (JStr ?g)) = canon (spec_body b (JStr ?h))"
    by (rule canonical.tamper [where H = H, rotated 3])
      (use assms(3-5) ha hb wf_spec_body in \<open>simp_all del: wf_json.simps(2)\<close>)
  obtain i where i: "jget ''identity'' a = JObj i" "same_keys i [''capabilityHash'', ''specHash'']"
    using accepted_identity [OF assms(1)] by blast
  obtain j where j: "jget ''identity'' b = JObj j" "same_keys j [''capabilityHash'', ''specHash'']"
    using accepted_identity [OF assms(2)] by blast
  have ids: "map_of a ''identity'' = Some (JObj i)" "map_of b ''identity'' = Some (JObj j)"
    using i(1) j(1) by (auto simp: jget_def jget_or_def split: option.splits)
  then have "distinct (map fst i)" "distinct (map fst j)"
    using assms(3,4) by (auto simp: list_all_iff dest!: map_of_SomeD)
  then have "canon (JObj i) = canon (JObj j)" if "?g = ?h"
    using that i j ha hb assms(6) by (intro identity_canon) (simp_all add: declared_hash_def)
  then show ?thesis by (rule spec_body_canon [OF assms(3,4) body ids])
qed

lemma spec_hash_identifies_document_witness:
  "canon (JObj sample_spec) = canon (JObj (rev sample_spec)) \<and> sample_spec \<noteq> rev sample_spec"
proof -
  have wf: "wf_json (JObj sample_spec)" "wf_json (JObj (rev sample_spec))" by code_simp+
  have acc: "validate zero_hash (JObj (rev sample_spec)) = Inr []" by code_simp
  have body: "compact (spec_body sample_spec (declared_hash ''capabilityHash'' sample_spec)) =
    compact (spec_body (rev sample_spec) (declared_hash ''capabilityHash'' (rev sample_spec)))"
    by code_simp
  have hash: "declared_hash ''specHash'' sample_spec = declared_hash ''specHash'' (rev sample_spec)"
    by code_simp
  have "inj_on zero_hash {compact (spec_body sample_spec (declared_hash ''capabilityHash'' sample_spec)),
    compact (spec_body (rev sample_spec) (declared_hash ''capabilityHash'' (rev sample_spec)))}"
    by (simp add: body)
  note spec_hash_identifies_document [OF sample_accepted(1) acc wf this hash]
  moreover have "sample_spec \<noteq> rev sample_spec" by (simp add: sample_spec_def spec_doc_def)
  ultimately show ?thesis by simp
qed

section \<open>Lifecycle\<close>

text \<open>C5. In an accepted spec the lifecycle never leaves its declared states and never gets stuck
  before a terminal one: every state reachable from the initial state is declared, and it is
  terminal or has a step to a declared state.\<close>

theorem lifecycle_never_stuck:
  assumes "validate H (JObj spec) = Inr []" and "jget ''lifecycle'' spec = JObj lc"
    and "lc_reachable lc a"
  shows "declared_state lc a \<and>
    (terminal_state lc a \<or> (\<exists>b. lc_step lc a b \<and> declared_state lc b))"
proof -
  have ok: "validate_lifecycle (JObj lc) = Inr []"
    using assms(1,2) by (simp add: validate_pass sections_pass)
  have "declared_state lc a" using accepted_reachable_declared [OF ok assms(3)] .
  then show ?thesis using accepted_progress [OF ok] accepted_step_declared [OF ok] by blast
qed

lemma open_reachable:
  "lc_reachable sample_lifecycle ''open''" "lc_reachable looping_lifecycle ''open''"
  by (rule lc_reachable.initial; simp add: sample_lifecycle_def looping_lifecycle_def lifecycle_doc_def
      jget_def jget_or_def)+

lemma lifecycle_never_stuck_witness:
  "declared_state sample_lifecycle ''open'' \<and>
   (terminal_state sample_lifecycle ''open'' \<or>
    (\<exists>b. lc_step sample_lifecycle ''open'' b \<and> declared_state sample_lifecycle b))"
  by (rule lifecycle_never_stuck [OF sample_accepted(1) sample_spec_simps(2) open_reachable(1)])

text \<open>C6. An accepted lifecycle without a cycle terminates: from every declared state a terminal
  state can be reached.\<close>

theorem acyclic_lifecycle_terminates:
  assumes "validate_lifecycle (JObj lc) = Inr []" and "acyclicP (lc_step lc)" and "declared_state lc a"
  shows "\<exists>b. (lc_step lc)\<^sup>*\<^sup>* a b \<and> terminal_state lc b"
  by (rule accepted_acyclic_terminates [OF assms])

lemma sample_transitions:
  "jget ''transitions'' sample_lifecycle = JList [lc_arrow ''open'' ''done'']"
  "jget ''transitions'' looping_lifecycle = JList [lc_arrow ''open'' ''wait'', lc_arrow ''wait'' ''open'']"
  by (simp_all add: sample_lifecycle_def looping_lifecycle_def lifecycle_doc_def jget_def jget_or_def)

lemma arrow_ends: "lc_arrow a b = JObj t \<Longrightarrow> jget ''from'' t = JStr a \<and> jget ''to'' t = JStr b"
  by (auto simp: lc_arrow_def jget_def jget_or_def)

lemma arrow_obj: "\<exists>t. lc_arrow a b = JObj t"
  by (simp add: lc_arrow_def)

text \<open>The steps of a lifecycle whose transitions are arrows.\<close>

lemma arrow_steps:
  assumes "jget ''transitions'' lc = JList (map (\<lambda>(x, y). lc_arrow x y) es)"
  shows "lc_step lc a b \<longleftrightarrow> (a, b) \<in> set es"
proof
  show "(a, b) \<in> set es" if "lc_step lc a b"
    using that assms by (auto simp: lc_step_iff dest!: arrow_ends [OF sym])
  show "lc_step lc a b" if "(a, b) \<in> set es"
  proof -
    obtain t where "lc_arrow a b = JObj t" using arrow_obj by blast
    with that assms arrow_ends [OF this] show ?thesis by (force simp: lc_step_iff)
  qed
qed

lemma sample_step: "lc_step sample_lifecycle a b \<longleftrightarrow> a = ''open'' \<and> b = ''done''"
  using arrow_steps [of sample_lifecycle "[(''open'', ''done'')]" a b] by (simp add: sample_transitions)

lemma looping_step:
  "lc_step looping_lifecycle a b \<longleftrightarrow> a = ''open'' \<and> b = ''wait'' \<or> a = ''wait'' \<and> b = ''open''"
  using arrow_steps [of looping_lifecycle "[(''open'', ''wait''), (''wait'', ''open'')]" a b]
  by (simp add: sample_transitions)

lemma acyclic_lifecycle_terminates_witness:
  "\<exists>b. (lc_step sample_lifecycle)\<^sup>*\<^sup>* ''open'' b \<and> terminal_state sample_lifecycle b"
proof -
  have "acyclicP (lc_step sample_lifecycle)"
  proof (rule acyclicI, intro allI notI)
    fix x assume "(x, x) \<in> {(a, b). lc_step sample_lifecycle a b}\<^sup>+"
    then show False by (cases rule: tranclE) (auto simp: sample_step dest!: tranclD)
  qed
  moreover have "declared_state sample_lifecycle ''open''"
    using accepted_reachable_declared [OF sample_lifecycle_accepted open_reachable(1)] .
  ultimately show ?thesis by (rule acyclic_lifecycle_terminates [OF sample_lifecycle_accepted])
qed

text \<open>Acceptance alone does not make a lifecycle end: there is an accepted lifecycle none of
  whose reachable states is terminal. The check asks only for an outgoing transition of every
  non-terminal state, and two states that lead to each other have one.\<close>

theorem accepted_lifecycle_may_loop:
  "validate_lifecycle (JObj looping_lifecycle) = Inr [] \<and>
   lc_reachable looping_lifecycle ''open'' \<and>
   {a. lc_reachable looping_lifecycle a \<and> terminal_state looping_lifecycle a} = {}"
proof -
  have "a = ''open'' \<or> a = ''wait''" if "lc_reachable looping_lifecycle a" for a
    using that
  proof induction
    case (initial a)
    then show ?case by (simp add: looping_lifecycle_def lifecycle_doc_def jget_def jget_or_def)
  qed (auto simp: looping_step)
  moreover have "\<not> terminal_state looping_lifecycle ''open''" "\<not> terminal_state looping_lifecycle ''wait''"
    by (simp_all add: terminal_state_def lifecycle_states_def looping_lifecycle_def lifecycle_doc_def
        lc_state_def lc_final_def state_ok_def state_name_def jget_def jget_or_def)
  ultimately show ?thesis using looping_lifecycle_accepted open_reachable(2) by auto
qed

text \<open>C7. The terminal states an accepted lifecycle names are declared, terminal and of the kind
  they are named for, so the outcomes success, aborted and contested never share a state.\<close>

theorem terminal_outcomes_distinct:
  assumes "validate_lifecycle (JObj lc) = Inr []" and "jget ''terminalStates'' lc = JObj ts"
    and "(k, v) \<in> set ts" and "(l, v) \<in> set ts" and "v \<noteq> JNull"
  shows "k = l \<and> (\<exists>a. v = JStr a \<and> terminal_state lc a)"
  using accepted_terminal_states [OF assms(1,2,3,5)] accepted_terminal_states [OF assms(1,2,4,5)]
  by (auto simp: terminal_state_def)

lemma terminal_outcomes_distinct_witness: "terminal_state sample_lifecycle ''done''"
proof -
  have "jget ''terminalStates'' sample_lifecycle =
    JObj [(''success'', JStr ''done''), (''aborted'', JNull), (''contested'', JNull)]"
    by (simp add: sample_lifecycle_def lifecycle_doc_def jget_def jget_or_def)
  then show ?thesis
    using terminal_outcomes_distinct [OF sample_lifecycle_accepted, of _ "''success''" "JStr ''done''" "''success''"]
    by auto
qed

section \<open>Versions, order and failures\<close>

text \<open>The version of an accepted spec is high enough for a consumer to refuse what it cannot
  honour: a spec with a guarded effect has at least version 2, one with attestations at least 3,
  one with obligations version 4.\<close>

theorem version_covers_features:
  assumes "validate H (JObj spec) = Inr []"
  shows "\<exists>v. int_value (jget ''schemaVersion'' spec) = Some v \<and> v \<in> {1, 2, 3, 4} \<and>
    (list_ex guarded_effect (as_list (jget ''effects'' spec)) \<longrightarrow> 2 \<le> v) \<and>
    (truthy (jget ''attestations'' spec) \<longrightarrow> 3 \<le> v) \<and>
    (truthy (jget ''obligations'' spec) \<longrightarrow> v = 4)"
proof -
  have "eq_int (jget ''schemaVersion'' spec) (expected_version spec)"
    using assms by (auto simp: validate_pass sections_pass check_header_def checks)
  then show ?thesis by (auto simp: eq_int_def expected_version_def)
qed

lemma version_covers_features_witness: "int_value (jget ''schemaVersion'' sample_spec) \<noteq> Some 1"
proof -
  have "list_ex guarded_effect (as_list (jget ''effects'' sample_spec))" by code_simp
  with version_covers_features [OF sample_accepted(1)] show ?thesis by force
qed

text \<open>The order in which Python iterates over a set cannot show in the result: whatever
  permutation of the diagnostics of a spec the blocks produce, the sorted list is the same.\<close>

theorem diagnostics_deterministic:
  assumes "sections spec = Inr out" and "mset out' = mset out"
  shows "sort_key diag_key out' = sort_key diag_key out"
proof (rule sorted_by_key_perm [OF assms(2)])
  have "list_all is_error out" using outcome_sections [of spec] assms(1) by (simp add: outcome_def)
  then have "\<forall>d \<in> set out'. is_error d" using assms(2) by (metis list_all_iff set_mset_mset)
  then show "inj_on diag_key (set out')"
    by (auto simp: inj_on_def diag_key_def is_error_def intro: diagnostic.equality)
qed

definition empty_out :: "diagnostic list" where
  "empty_out = (case sections [] of Inr out \<Rightarrow> out | Inl _ \<Rightarrow> [])"

lemma diagnostics_deterministic_witness:
  "sort_key diag_key (rev empty_out) = sort_key diag_key empty_out \<and> 20 < length empty_out"
proof -
  have "sections [] = Inr empty_out" and "20 < length empty_out" by code_simp+
  then show ?thesis using diagnostics_deterministic [of "[]" empty_out "rev empty_out"] by simp
qed

text \<open>The gate raises at most \<open>TypeError\<close>, and its report is a verdict: \<open>ok\<close> holds iff there is
  no diagnostic, and the exit status is 0 exactly then.\<close>

theorem report_is_verdict:
  "case report H v of
     Inl e \<Rightarrow> e = TypeError
   | Inr r \<Rightarrow> (rok r \<longleftrightarrow> rdiagnostics r = []) \<and> (rexit r = 0 \<longleftrightarrow> rok r) \<and> validate H v = Inr (rdiagnostics r)"
  using outcome_validate [of H v]
  by (cases "validate H v") (auto simp: report_def outcome_def Let_def filter_empty_conv list_all_iff is_error_def)

text \<open>The gate is not total: an expression node whose \<open>dtype\<close> is a list ends it with an
  uncaught \<open>TypeError\<close>, so no report is written, instead of the \<open>spec.bad_category\<close> diagnostic a
  value of any other type gets.\<close>

definition unhashable_spec :: obj where
  "unhashable_spec =
     dict_set ''computes'' (JList [JObj [(''ast'', JObj [(''dtype'', JList [])])]]) sample_spec"

definition mistyped_spec :: obj where
  "mistyped_spec =
     dict_set ''computes'' (JList [JObj [(''ast'', JObj [(''dtype'', JInt 0)])]]) sample_spec"

theorem gate_raises_on_unhashable_category:
  "report H (JObj unhashable_spec) = Inl TypeError \<and>
   (\<exists>r. report H (JObj mistyped_spec) = Inr r \<and> rexit r = 1)"
proof -
  have "sections unhashable_spec = Inl TypeError" by code_simp
  then have crash: "report H (JObj unhashable_spec) = Inl TypeError"
    by (simp add: report_def validate_def)
  have "case sections mistyped_spec of Inr out \<Rightarrow> list_ex structural out \<and> out \<noteq> [] | Inl _ \<Rightarrow> False"
    by code_simp
  then obtain out where out: "sections mistyped_spec = Inr out" "list_ex structural out" "out \<noteq> []"
    by (auto split: sum.splits)
  then have "validate H (JObj mistyped_spec) = Inr (sort_key diag_key out)"
    by (simp add: validate_def guarded_def)
  moreover have "\<exists>d \<in> set out. is_error d"
    using outcome_sections [of mistyped_spec] out by (cases out) (auto simp: outcome_def)
  ultimately have "\<exists>r. report H (JObj mistyped_spec) = Inr r \<and> rexit r = 1"
    by (auto simp: report_def Let_def filter_empty_conv is_error_def)
  with crash show ?thesis by blast
qed

end
