(* ===== verification/PyDyn.thy ===== *)
theory PyDyn
  imports PyJson
begin

text \<open>
  Python operations on JSON values whose type is not known: indexing, \<open>get\<close>, iteration, membership,
  sets and dictionaries whose keys are JSON values, and \<open>sorted\<close>. A key is compared by \<open>==\<close>; a list
  or an object as a key raises \<open>TypeError\<close>.
\<close>

section \<open>Dictionaries and sets of JSON values\<close>

fun jdict_set :: "json \<Rightarrow> 'v \<Rightarrow> (json \<times> 'v) list \<Rightarrow> (json \<times> 'v) list" where
  "jdict_set k v [] = [(k, v)]"
| "jdict_set k v ((k', w) # d) = (if jeq k' k then (k', v) # d else (k', w) # jdict_set k v d)"

fun jlookup :: "json \<Rightarrow> (json \<times> 'v) list \<Rightarrow> 'v option" where
  "jlookup k [] = None"
| "jlookup k ((k', v) # d) = (if jeq k' k then Some v else jlookup k d)"

text \<open>\<open>d[k]\<close> and \<open>k in d\<close>, which hash \<open>k\<close>.\<close>

definition jdict_get :: "json \<Rightarrow> (json \<times> 'v) list \<Rightarrow> 'v option py" where
  "jdict_get k d = (if hashable k then Inr (jlookup k d) else Inl TypeError)"

text \<open>\<open>set(vs)\<close>, as the list of the first occurrences.\<close>

fun jset_add :: "json list \<Rightarrow> json list \<Rightarrow> json list py" where
  "jset_add acc [] = Inr (rev acc)"
| "jset_add acc (v # vs) =
     (if \<not> hashable v then Inl TypeError
      else if in_list v acc then jset_add acc vs else jset_add (v # acc) vs)"

definition jset :: "json list \<Rightarrow> json list py" where
  "jset vs = jset_add [] vs"

text \<open>
  \<open>sorted\<close> on values that are not lists. Texts and numbers are ordered among themselves; any other
  combination of at least two values has a pair every sort has to compare and that cannot be
  compared. The key of a number is its value scaled by \<open>10^350\<close>, an integer for every float.
\<close>

fun is_number :: "json \<Rightarrow> bool" where
  "is_number (JBool _) = True"
| "is_number (JInt _) = True"
| "is_number (JFloat _) = True"
| "is_number _ = False"

definition decimal_key :: "string \<Rightarrow> int" where
  "decimal_key t =
     (let neg = starts_with ''-'' t; u = (if neg then tl t else t);
          whole = takeWhile is_digit u; r = dropWhile is_digit u;
          frac = (if r \<noteq> [] \<and> hd r = CHR ''.'' then takeWhile is_digit (tl r) else []);
          e = (if r \<noteq> [] \<and> hd r = CHR ''.'' then dropWhile is_digit (tl r) else r);
          ex = (if e = [] then 0
                else if starts_with ''e-'' e then - int (digits_val (drop 2 e))
                else if starts_with ''e+'' e then int (digits_val (drop 2 e))
                else int (digits_val (tl e)));
          m = int (digits_val (whole @ frac)) * 10 ^ nat (350 + ex - int (length frac))
      in if neg then - m else m)"

definition number_scale :: int where
  "number_scale = 10 ^ 350"

fun number_key :: "json \<Rightarrow> int" where
  "number_key (JBool b) = (if b then number_scale else 0)"
| "number_key (JInt i) = i * number_scale"
| "number_key (JFloat t) = decimal_key t"
| "number_key _ = 0"

definition jsorted :: "json list \<Rightarrow> json list py" where
  "jsorted vs =
     (if length vs \<le> 1 then Inr vs
      else if list_all is_str vs then Inr (map JStr (sort (map str_of vs)))
      else if list_all is_number vs then Inr (sort_key number_key vs)
      else Inl TypeError)"

text \<open>Iteration over a value: the elements of a list, the keys of an object, the characters of a text.\<close>

definition utf8_continuation :: "char \<Rightarrow> bool" where
  "utf8_continuation c \<longleftrightarrow> 128 \<le> (of_char c :: nat) \<and> (of_char c :: nat) < 192"

fun utf8_chars :: "string \<Rightarrow> string list" where
  "utf8_chars [] = []"
| "utf8_chars (c # cs) =
     (c # takeWhile utf8_continuation cs) # utf8_chars (dropWhile utf8_continuation cs)"

fun py_iter :: "json \<Rightarrow> json list py" where
  "py_iter (JList vs) = Inr vs"
| "py_iter (JObj d) = Inr (map JStr (jkeys d))"
| "py_iter (JStr s) = Inr (map JStr (utf8_chars s))"
| "py_iter _ = Inl TypeError"

text \<open>\<open>for x in (v or [])\<close> and \<open>x in (v or [])\<close>.\<close>

definition iter_or_empty :: "json \<Rightarrow> json list py" where
  "iter_or_empty v = (if truthy v then py_iter v else Inr [])"

fun contains_text :: "string \<Rightarrow> string \<Rightarrow> bool" where
  "contains_text p [] = (p = [])"
| "contains_text p (c # cs) = (starts_with p (c # cs) \<or> contains_text p cs)"

fun py_in :: "json \<Rightarrow> json \<Rightarrow> bool py" where
  "py_in v (JList vs) = Inr (in_list v vs)"
| "py_in v (JObj d) = in_strs v (jkeys d)"
| "py_in v (JStr s) = (case v of JStr p \<Rightarrow> Inr (contains_text p s) | _ \<Rightarrow> Inl TypeError)"
| "py_in v _ = Inl TypeError"

definition in_or_empty :: "json \<Rightarrow> json \<Rightarrow> bool py" where
  "in_or_empty v c = (if truthy c then py_in v c else Inr False)"

lemma jeq_JStr_left [simp]: "jeq (JStr s) v \<longleftrightarrow> v = JStr s"
  by auto

lemma in_list_JStr [simp]: "in_list (JStr s) vs \<longleftrightarrow> JStr s \<in> set vs"
  by (auto simp: in_list_def list_ex_iff)

lemma jlookup_set [simp]:
  "jlookup (JStr a) (jdict_set k v d) = (if k = JStr a then Some v else jlookup (JStr a) d)"
  by (induction k v d rule: jdict_set.induct) (auto simp: jeq_JStr_right)

lemma in_list_strs: "in_list v (map JStr ts) \<longleftrightarrow> (\<exists>t \<in> set ts. v = JStr t)"
  by (auto simp: in_list_def list_ex_iff jeq_JStr_right)

lemma iter_list [simp]: "iter_or_empty (JList xs) = Inr xs"
  by (simp add: iter_or_empty_def)

lemma iter_null [simp]: "iter_or_empty JNull = Inr []"
  by (simp add: iter_or_empty_def)

lemma jget_Nil [simp]: "jget k [] = JNull"
  by (simp add: jget_def jget_or_def)

lemma jset_strs: "jset (map JStr ts) = Inr (map JStr (rev (fold List.insert ts [])))"
proof -
  have "jset_add (map JStr acc) (map JStr ts) = Inr (map JStr (rev (fold List.insert ts acc)))" for acc
  proof (induction ts arbitrary: acc)
    case (Cons t ts)
    show ?case using Cons.IH [of acc] Cons.IH [of "t # acc"] by (auto simp: hashable_def List.insert_def)
  qed (simp add: rev_map)
  from this [of "[]"] show ?thesis by (simp add: jset_def)
qed

lemma raises_only_jdict_get [outcomes]: "raises_only (\<lambda>e. e = TypeError) (jdict_get k d)"
  by (simp add: raises_only_def jdict_get_def)

lemma raises_only_jset [outcomes]: "raises_only (\<lambda>e. e = TypeError) (jset vs)"
proof -
  have "raises_only (\<lambda>e. e = TypeError) (jset_add acc vs)" for acc
    by (induction acc vs rule: jset_add.induct) (auto simp: raises_only_def)
  then show ?thesis by (simp add: jset_def)
qed

lemma mset_jsorted:
  assumes "jsorted vs = Inr ws"
  shows "mset ws = mset vs"
proof -
  have "map JStr (map str_of vs) = vs" if "list_all is_str vs"
    using that by (induction vs) (auto simp: is_str_iff)
  then have "mset (map JStr (sort (map str_of vs))) = mset vs" if "list_all is_str vs"
    using that by (metis mset_map mset_sort)
  then show ?thesis using assms by (auto simp: jsorted_def split: if_splits)
qed

lemma raises_only_jsorted [outcomes]: "raises_only (\<lambda>e. e = TypeError) (jsorted vs)"
  by (simp add: raises_only_def jsorted_def)

lemma raises_only_iter_or_empty [outcomes]: "raises_only (\<lambda>e. e = TypeError) (iter_or_empty v)"
  by (cases v) (simp_all add: raises_only_def iter_or_empty_def)

lemma raises_only_in_or_empty [outcomes]: "raises_only (\<lambda>e. e = TypeError) (in_or_empty v c)"
  by (cases c) (auto simp: raises_only_def in_or_empty_def in_strs_raises split: json.splits)

text \<open>A character as a decimal digit; \<open>U\<close> is the digit value of the characters outside ASCII.\<close>

definition char_digit :: "(string \<Rightarrow> nat option) \<Rightarrow> string \<Rightarrow> nat option" where
  "char_digit U c =
     (case c of [x] \<Rightarrow> (if is_digit x then Some (of_char x - 48) else None) | _ \<Rightarrow> U c)"

section \<open>Indexing\<close>

text \<open>\<open>xs[i]\<close> with Python's negative indices.\<close>

definition list_index :: "'a list \<Rightarrow> int \<Rightarrow> 'a py" where
  "list_index xs i =
     (let n = int (length xs); j = (if i < 0 then i + n else i)
      in if 0 \<le> j \<and> j < n then Inr (xs ! nat j) else Inl IndexError)"

text \<open>\<open>v[k]\<close>.\<close>

fun py_item :: "json \<Rightarrow> json \<Rightarrow> json py" where
  "py_item (JObj d) k = (case k of JStr s \<Rightarrow> jindex s d | _ \<Rightarrow> if hashable k then Inl KeyError else Inl TypeError)"
| "py_item (JList vs) k =
     (case k of JInt i \<Rightarrow> list_index vs i | JBool b \<Rightarrow> list_index vs (if b then 1 else 0) | _ \<Rightarrow> Inl TypeError)"
| "py_item (JStr s) k =
     (case k of JInt i \<Rightarrow> list_index (map JStr (utf8_chars s)) i
      | JBool b \<Rightarrow> list_index (map JStr (utf8_chars s)) (if b then 1 else 0) | _ \<Rightarrow> Inl TypeError)"
| "py_item _ k = Inl TypeError"

text \<open>\<open>v[s]\<close> for a constant key, \<open>v.get(s)\<close>, \<open>v.get(s, w)\<close> and \<open>v.items()\<close>.\<close>

definition py_key :: "json \<Rightarrow> string \<Rightarrow> json py" where
  "py_key v s = py_item v (JStr s)"

fun py_get_or :: "json \<Rightarrow> string \<Rightarrow> json \<Rightarrow> json py" where
  "py_get_or (JObj d) s w = Inr (jget_or s w d)"
| "py_get_or _ s w = Inl AttributeError"

definition py_get :: "json \<Rightarrow> string \<Rightarrow> json py" where
  "py_get v s = py_get_or v s JNull"

fun py_items :: "json \<Rightarrow> obj py" where
  "py_items (JObj d) = Inr d"
| "py_items _ = Inl AttributeError"

text \<open>\<open>len(v)\<close>, of a text the number of its characters, and \<open>len(v or [])\<close>.\<close>

fun py_len :: "json \<Rightarrow> int py" where
  "py_len (JStr s) = Inr (int (length (utf8_chars s)))"
| "py_len (JList xs) = Inr (int (length xs))"
| "py_len (JObj d) = Inr (int (length d))"
| "py_len _ = Inl TypeError"

definition py_len_or_empty :: "json \<Rightarrow> int py" where
  "py_len_or_empty v = (if truthy v then py_len v else Inr 0)"

lemma py_key_simps [simp]:
  "py_key (JObj d) s = jindex s d"
  "py_get (JObj d) s = Inr (jget s d)"
  by (simp_all add: py_key_def py_get_def jget_def)

lemma py_key_obj: "py_key v s = Inr w \<longleftrightarrow> (\<exists>d. v = JObj d \<and> map_of d s = Some w)"
  by (cases v) (auto simp: py_key_def jindex_def split: option.splits)

lemma py_get_obj: "py_get v s = Inr w \<longleftrightarrow> (\<exists>d. v = JObj d \<and> jget s d = w)"
  by (cases v) (auto simp: py_get_def jget_def)

lemma py_items_obj: "py_items v = Inr d \<longleftrightarrow> v = JObj d"
  by (cases v) auto

text \<open>The exceptions of dynamic operations on JSON values.\<close>

fun dyn_error :: "exn \<Rightarrow> bool" where
  "dyn_error TypeError = True"
| "dyn_error KeyError = True"
| "dyn_error IndexError = True"
| "dyn_error AttributeError = True"
| "dyn_error _ = False"

lemma raises_only_mono: "raises_only E m \<Longrightarrow> (\<And>e. E e \<Longrightarrow> F e) \<Longrightarrow> raises_only F m"
  by (simp add: raises_only_def)

lemma raises_dyn:
  "raises_only dyn_error (jdict_get k d)" "raises_only dyn_error (jset vs)" "raises_only dyn_error (jsorted vs)"
  "raises_only dyn_error (iter_or_empty v)" "raises_only dyn_error (in_or_empty v c)"
  by (rule raises_only_mono, rule outcomes, simp)+

lemma raises_dyn_item:
  "raises_only dyn_error (py_item v k)" "raises_only dyn_error (py_key v s)"
  "raises_only dyn_error (py_get_or v s w)" "raises_only dyn_error (py_get v s)"
  "raises_only dyn_error (py_items v)" "raises_only dyn_error (py_iter v)" "raises_only dyn_error (py_in u v)"
proof -
  show item: "raises_only dyn_error (py_item v k)" for v k
    by (cases v; cases k)
      (auto simp: raises_only_def jindex_def list_index_def Let_def split: option.splits if_splits)
  show "raises_only dyn_error (py_key v s)" unfolding py_key_def by (rule item)
  show "raises_only dyn_error (py_get_or v s w)" for w by (cases v) (simp_all add: raises_only_def)
  then show "raises_only dyn_error (py_get v s)" by (simp add: py_get_def)
  show "raises_only dyn_error (py_items v)" "raises_only dyn_error (py_iter v)"
    by (cases v; simp add: raises_only_def)+
  show "raises_only dyn_error (py_in u v)"
    by (cases v) (auto simp: raises_only_def in_strs_raises split: json.splits)
qed

end
