(* ===== verification/SlotIndex.thy ===== *)
theory SlotIndex
  imports PyDyn
begin

text \<open>
  The contract under which an index of binding slots by id is faithful. The locale \<open>slot_index\<close> states
  what a client of the index needs from the provider of the slots: in an accepted document their ids
  are texts and distinct.
\<close>

section \<open>The index of slots\<close>

text \<open>A slot with the \<open>organizationId\<close> and the \<open>participantId\<close> it stands under.\<close>

type_synonym slot_entry = "json \<times> json \<times> obj"

definition entry_id :: "slot_entry \<Rightarrow> json" where
  "entry_id en = jget ''slotId'' (snd (snd en))"

fun index_entries :: "(json \<times> slot_entry) list \<Rightarrow> slot_entry list \<Rightarrow> (json \<times> slot_entry) list py" where
  "index_entries out [] = Inr out"
| "index_entries out (en # es) =
     (if hashable (entry_id en) then index_entries (jdict_set (entry_id en) en out) es else Inl TypeError)"

lemma jdict_set_new:
  "\<forall>(k', w) \<in> set d. \<not> jeq k' k \<Longrightarrow> jdict_set k v d = d @ [(k, v)]"
  by (induction k v d rule: jdict_set.induct) auto

lemma index_distinct:
  assumes "\<forall>en \<in> set es. is_str (entry_id en)" and "distinct (map entry_id es)"
    and "\<forall>(k, w) \<in> set out. is_str k \<and> k \<notin> entry_id ` set es"
  shows "index_entries out es = Inr (out @ map (\<lambda>en. (entry_id en, en)) es)"
  using assms
proof (induction es arbitrary: out)
  case (Cons en es)
  have "jdict_set (entry_id en) en out = out @ [(entry_id en, en)]"
    using Cons.prems by (intro jdict_set_new) (fastforce simp: is_str_iff)
  moreover have "index_entries (out @ [(entry_id en, en)]) es =
      Inr ((out @ [(entry_id en, en)]) @ map (\<lambda>en. (entry_id en, en)) es)"
    using Cons.prems by (intro Cons.IH) auto
  ultimately show ?case using Cons.prems(1) by (auto simp: hashable_def is_str_iff)
qed simp

lemma jlookup_entries:
  assumes "distinct (map entry_id es)" and "\<forall>en \<in> set es. is_str (entry_id en)"
  shows "jlookup k (map (\<lambda>en. (entry_id en, en)) es) = Some en \<longleftrightarrow> en \<in> set es \<and> entry_id en = k"
  using assms
proof (induction es)
  case (Cons e es)
  then obtain t where t: "entry_id e = JStr t" by (auto simp: is_str_iff)
  have IH: "jlookup k (map (\<lambda>en. (entry_id en, en)) es) = Some en \<longleftrightarrow> en \<in> set es \<and> entry_id en = k"
    using Cons by simp
  have "entry_id en \<noteq> JStr t" if "en \<in> set es" using Cons.prems(1) that t by force
  then show ?case using IH t by auto
qed simp

locale slot_index =
  fixes entries :: "'d \<Rightarrow> slot_entry list" and accepted :: "'d \<Rightarrow> bool"
  assumes text_ids: "accepted d \<Longrightarrow> en \<in> set (entries d) \<Longrightarrow> is_str (entry_id en)"
    and distinct_ids: "accepted d \<Longrightarrow> distinct (map entry_id (entries d))"
begin

text \<open>The index of an accepted document exists and finds exactly its slots.\<close>

lemma index_exact:
  assumes "accepted d"
  obtains slots where "index_entries [] (entries d) = Inr slots"
    and "\<And>k en. jlookup k slots = Some en \<longleftrightarrow> en \<in> set (entries d) \<and> entry_id en = k"
    and "set slots = (\<lambda>en. (entry_id en, en)) ` set (entries d)"
proof
  let ?slots = "map (\<lambda>en. (entry_id en, en)) (entries d)"
  show "index_entries [] (entries d) = Inr ?slots"
    using index_distinct [of "entries d" "[]"] text_ids distinct_ids assms by simp
  show "jlookup k ?slots = Some en \<longleftrightarrow> en \<in> set (entries d) \<and> entry_id en = k" for k en
    using jlookup_entries text_ids distinct_ids assms by blast
qed simp

lemma slot_unique:
  "accepted d \<Longrightarrow> en \<in> set (entries d) \<Longrightarrow> en' \<in> set (entries d) \<Longrightarrow> entry_id en = entry_id en' \<Longrightarrow> en = en'"
  using distinct_ids by (simp add: distinct_map inj_on_def)

end

end
