(* ===== verification/BindingTopology.thy ===== *)
theory BindingTopology
  imports SlotIndex
begin

text \<open>
  \<open>validators/validate_binding_topology.py\<close>: the gate on slot binding topologies, the nesting
  of organizations, participants and slots a binding manifest refers to. \<open>topology_errors\<close> is
  the error list \<open>main\<close> builds, \<open>topology_main\<close> its printed lines and exit status for a document
  that could be read. The set \<open>seen_slot_ids\<close> is the list of the ids seen so far, without
  repetition. \<open>topology_slots\<close> is the list of all slots with their owners, over which the
  lemmas state what acceptance means.
\<close>

section \<open>The gate\<close>

definition modes :: "string list" where
  "modes = [''fixed'', ''to_be_bound'']"

definition assurance_levels :: "string list" where
  "assurance_levels = [''A1'', ''A2'', ''A3'', ''A4'']"

definition req_field :: "obj \<Rightarrow> string \<Rightarrow> string \<Rightarrow> string list py" where
  "req_field d k place = emit_if (\<not> jhas k d) (place @ '': missing '' @ sq k)"

definition no_unknown_fields :: "obj \<Rightarrow> string list \<Rightarrow> string \<Rightarrow> string list py" where
  "no_unknown_fields d allowed place =
     each (jkeys d) (\<lambda>k. emit_if (k \<notin> set allowed) (place @ '': unknown field '' @ sq k))"

definition topology_fields :: "string list" where
  "topology_fields = [''kind'', ''schemaVersion'', ''capability'', ''capabilityVersion'', ''procedure'',
     ''organizations'', ''crossOrganization'']"

definition topology_header :: "obj \<Rightarrow> string list py" where
  "topology_header doc = chks
     [each topology_fields (\<lambda>k. req_field doc k ''topology''),
      no_unknown_fields doc topology_fields ''topology'',
      emit_if (jget ''kind'' doc \<noteq> JStr ''neutrino.slot-binding-topology'')
        (''topology: kind must be '' @ sq ''neutrino.slot-binding-topology''),
      emit_if (\<not> eq_int (jget ''schemaVersion'' doc) 1) ''topology: schemaVersion must be 1'',
      each [''capability'', ''capabilityVersion'', ''procedure''] (\<lambda>k.
        emit_if (\<not> nonempty_str (jget k doc)) (''topology: '' @ sq k @ '' must be a non-empty string'')),
      emit_if (\<not> is_bool (jget ''crossOrganization'' doc)) ''topology: crossOrganization must be a boolean'']"

definition slot_fields :: "string list" where
  "slot_fields = [''slotId'', ''lateBindingMode'', ''allowedRuntimes'', ''minAssurance'', ''evidenceProfile'',
     ''authorizedBinder'']"

text \<open>\<open>f"{cap}#{pid}"\<close>.\<close>

definition slot_name :: "json \<Rightarrow> json \<Rightarrow> string" where
  "slot_name cap pid = py_str cap @ ''#'' @ py_str pid"

definition topology_slot_id :: "json \<Rightarrow> json \<Rightarrow> string \<Rightarrow> string list \<Rightarrow> obj \<Rightarrow> string list py" where
  "topology_slot_id cap pid sw seen s =
     (case jget ''slotId'' s of
        JStr sid \<Rightarrow>
          if sid = [] then Inr [sw @ '': slotId must be a non-empty string'']
          else chks
            [emit_if (sid \<in> set seen) (sw @ '': duplicate slotId '' @ sq sid),
             emit_if (nonempty_str cap \<and> nonempty_str pid \<and> sid \<noteq> slot_name cap pid)
               (sw @ '': slotId '' @ sq sid @ '' != '' @ sq (slot_name cap pid))]
      | _ \<Rightarrow> Inr [sw @ '': slotId must be a non-empty string''])"

text \<open>The runtimes of a slot as the mode checks read them: \<open>[]\<close> after a reported shape error.\<close>

definition slot_runtimes :: "obj \<Rightarrow> json list" where
  "slot_runtimes s =
     (case jget ''allowedRuntimes'' s of
        JList rs \<Rightarrow> if list_all nonempty_str rs then rs else [] | _ \<Rightarrow> [])"

definition topology_slot_mode :: "string \<Rightarrow> obj \<Rightarrow> string list py" where
  "topology_slot_mode sw s = guarded (jget ''lateBindingMode'' s = JStr ''fixed'') (chks
     [emit_if (slot_runtimes s \<noteq> []) (sw @ '': a fixed slot must not declare allowedRuntimes''),
      emit_if (jhas ''authorizedBinder'' s) (sw @ '': a fixed slot must not declare authorizedBinder''),
      emit_if (jget ''minAssurance'' s \<noteq> JStr ''A1'')
        (sw @ '': a fixed slot's minAssurance must be A1 (static generation claims no more)'')])"

definition topology_slot_binder :: "json \<Rightarrow> string \<Rightarrow> obj \<Rightarrow> string list py" where
  "topology_slot_binder oid sw s = guarded (jhas ''authorizedBinder'' s)
     (let ab = jget ''authorizedBinder'' s
      in if \<not> nonempty_str ab then Inr [sw @ '': authorizedBinder must be a non-empty string'']
         else if oid = JNull then Inr [sw @ '': authorizedBinder set but the organization is unscoped (null) ''
           @ em_dash @ '' a binder must name an org'']
         else emit_if (\<not> jeq ab oid) (sw @ '': authorizedBinder '' @ sq (py_str ab)
           @ '' must name the owning organization '' @ sq (py_str oid)))"

definition topology_slot :: "json \<Rightarrow> json \<Rightarrow> json \<Rightarrow> string \<Rightarrow> string list \<Rightarrow> json \<Rightarrow> string list py" where
  "topology_slot cap oid pid sw seen v =
     (case v of
        JObj s \<Rightarrow> chks
          [no_unknown_fields s slot_fields sw,
           topology_slot_id cap pid sw seen s,
           emit_ifp (not_in_strs (jget ''lateBindingMode'' s) modes)
             (sw @ '': lateBindingMode must be one of '' @ repr_strs (sort modes)),
           emit_if (\<not> (is_list (jget ''allowedRuntimes'' s) \<and>
               list_all nonempty_str (as_list (jget ''allowedRuntimes'' s))))
             (sw @ '': allowedRuntimes must be an array of non-empty strings''),
           emit_ifp (not_in_strs (jget ''minAssurance'' s) assurance_levels)
             (sw @ '': minAssurance must be one of '' @ repr_strs (sort assurance_levels)),
           (let ep = jget_or ''evidenceProfile'' (JStr ''MISSING'') s
            in if ep = JStr ''MISSING'' then Inr [sw @ '': missing 'evidenceProfile' (use null if unset)'']
               else emit_if (ep \<noteq> JNull \<and> \<not> nonempty_str ep)
                 (sw @ '': evidenceProfile must be a non-empty string or null'')),
           topology_slot_mode sw s,
           topology_slot_binder oid sw s]
      | _ \<Rightarrow> Inr [sw @ '': must be an object''])"

text \<open>\<open>seen_slot_ids.add(sid)\<close> for a non-empty text, through the loops that contain it.\<close>

definition see_slot :: "json \<Rightarrow> string list \<Rightarrow> string list" where
  "see_slot v seen =
     (case jget ''slotId'' (as_obj v) of JStr sid \<Rightarrow> if sid = [] then seen else List.insert sid seen | _ \<Rightarrow> seen)"

definition slots_of :: "json \<Rightarrow> json list" where
  "slots_of p = as_list (jget ''slots'' (as_obj p))"

definition see_participant :: "json \<Rightarrow> string list \<Rightarrow> string list" where
  "see_participant p = fold see_slot (slots_of p)"

definition participants_of :: "json \<Rightarrow> json list" where
  "participants_of org = as_list (jget ''participants'' (as_obj org))"

definition see_organization :: "json \<Rightarrow> string list \<Rightarrow> string list" where
  "see_organization org = fold see_participant (participants_of org)"

definition topology_participant :: "json \<Rightarrow> json \<Rightarrow> string \<Rightarrow> string list \<Rightarrow> json \<Rightarrow> string list py" where
  "topology_participant cap oid pw seen v =
     (case v of
        JObj p \<Rightarrow> chks
          [no_unknown_fields p [''participantId'', ''role'', ''slots''] pw,
           emit_if (\<not> nonempty_str (jget ''participantId'' p)) (pw @ '': participantId must be a non-empty string''),
           emit_if (\<not> nonempty_str (jget ''role'' p)) (pw @ '': role must be a non-empty string''),
           emit_if (slots_of v = []) (pw @ '': slots must be a non-empty array''),
           each_st (\<lambda>i. topology_slot cap oid (jget ''participantId'' p) (pw @ idx ''.slots'' i)) see_slot 0 seen
             (slots_of v)]
      | _ \<Rightarrow> Inr [pw @ '': must be an object''])"

definition topology_organization :: "json \<Rightarrow> string \<Rightarrow> string list \<Rightarrow> json \<Rightarrow> string list py" where
  "topology_organization cap ow seen v =
     (case v of
        JObj org \<Rightarrow> chks
          [no_unknown_fields org [''organizationId'', ''participants''] ow,
           req_field org ''organizationId'' ow,
           emit_if (jget ''organizationId'' org \<noteq> JNull \<and> \<not> nonempty_str (jget ''organizationId'' org))
             (ow @ '': organizationId must be a non-empty string or null''),
           emit_if (participants_of v = []) (ow @ '': participants must be a non-empty array''),
           each_st (\<lambda>i. topology_participant cap (jget ''organizationId'' org) (ow @ idx ''.participants'' i))
             see_participant 0 seen (participants_of v)]
      | _ \<Rightarrow> Inr [ow @ '': must be an object''])"

definition organizations_of :: "obj \<Rightarrow> json list" where
  "organizations_of doc = as_list (jget ''organizations'' doc)"

text \<open>\<open>named_orgs\<close>: the texts that occur as \<open>organizationId\<close>.\<close>

definition named_org :: "json \<Rightarrow> string list \<Rightarrow> string list" where
  "named_org org named =
     (case jget ''organizationId'' (as_obj org) of JStr oid \<Rightarrow> List.insert oid named | _ \<Rightarrow> named)"

definition named_orgs :: "obj \<Rightarrow> string list" where
  "named_orgs doc = fold named_org (organizations_of doc) []"

definition seen_slot_ids :: "obj \<Rightarrow> string list" where
  "seen_slot_ids doc = fold see_organization (organizations_of doc) []"

definition topology_cross :: "obj \<Rightarrow> string list py" where
  "topology_cross doc =
     (case jget ''crossOrganization'' doc of
        JBool b \<Rightarrow> emit_if (b \<noteq> (length (named_orgs doc) > 1))
          (''topology: crossOrganization='' @ py_repr (JBool b) @ '' but ''
           @ show_nat (length (named_orgs doc)) @ '' named org(s) present'')
      | _ \<Rightarrow> Inr [])"

definition topology_errors :: "obj \<Rightarrow> string list py" where
  "topology_errors doc = chks
     [topology_header doc,
      (case jget_or ''organizations'' (JList []) doc of
         JList orgs \<Rightarrow> emit_if (orgs = []) (''topology: organizations must be non-empty ''
           @ ''(the artifact exists only when participants are declared)'')
       | _ \<Rightarrow> Inr [''topology: organizations must be an array'']),
      each_st (\<lambda>i. topology_organization (jget ''capability'' doc) (idx ''organizations'' i)) see_organization 0 []
        (organizations_of doc),
      topology_cross doc]"

definition topology_main :: "json \<Rightarrow> (string list \<times> nat) py" where
  "topology_main v =
     (case v of
        JObj doc \<Rightarrow> pbind (topology_errors doc) (\<lambda>errors.
          if errors \<noteq> []
          then Inr (map (\<lambda>e. ''  - '' @ e) errors
            @ [''binding-topology check: '' @ show_nat (length errors) @ '' problem(s)''], 1)
          else Inr ([''binding-topology check: OK ('' @ show_nat (length (seen_slot_ids doc)) @ '' slot(s), ''
            @ show_nat (length (named_orgs doc)) @ '' named org(s))''], 0))
      | _ \<Rightarrow> Inr ([''error: top-level must be an object''], 1))"

section \<open>The slots of a topology\<close>

text \<open>All slots with the \<open>organizationId\<close> and \<open>participantId\<close> they stand under.\<close>

definition participant_slots :: "json \<Rightarrow> json \<Rightarrow> slot_entry list" where
  "participant_slots oid p =
     map (\<lambda>s. (oid, jget ''participantId'' (as_obj p), as_obj s)) (filter is_obj (slots_of p))"

definition organization_slots :: "json \<Rightarrow> slot_entry list" where
  "organization_slots org =
     concat (map (participant_slots (jget ''organizationId'' (as_obj org))) (filter is_obj (participants_of org)))"

definition topology_slots :: "obj \<Rightarrow> slot_entry list" where
  "topology_slots doc = concat (map organization_slots (filter is_obj (organizations_of doc)))"

definition slot_text :: "obj \<Rightarrow> string" where
  "slot_text s = (case jget ''slotId'' s of JStr t \<Rightarrow> t | _ \<Rightarrow> [])"

text \<open>What the gate promises of one slot.\<close>

definition slot_admissible :: "json \<Rightarrow> json \<Rightarrow> json \<Rightarrow> obj \<Rightarrow> bool" where
  "slot_admissible cap oid pid s \<longleftrightarrow>
     jget ''slotId'' s = JStr (slot_name cap pid) \<and> nonempty_str pid \<and>
     (\<exists>m \<in> set modes. jget ''lateBindingMode'' s = JStr m) \<and>
     (\<exists>a \<in> set assurance_levels. jget ''minAssurance'' s = JStr a) \<and>
     (\<exists>rs. jget ''allowedRuntimes'' s = JList (map JStr rs) \<and> [] \<notin> set rs) \<and>
     (jhas ''authorizedBinder'' s \<longrightarrow> jget ''authorizedBinder'' s = oid \<and> nonempty_str oid) \<and>
     (jget ''lateBindingMode'' s = JStr ''fixed'' \<longrightarrow>
        jget ''allowedRuntimes'' s = JList [] \<and> \<not> jhas ''authorizedBinder'' s \<and>
        jget ''minAssurance'' s = JStr ''A1'')"

lemma slot_name_nonempty: "slot_name cap pid \<noteq> []"
  by (simp add: slot_name_def)

lemma slot_id_pass:
  assumes "topology_slot_id cap pid sw seen s = Inr []" and "nonempty_str cap" and "nonempty_str pid"
  shows "jget ''slotId'' s = JStr (slot_name cap pid)" and "slot_name cap pid \<notin> set seen"
  using assms by (auto simp: topology_slot_id_def checks split: json.splits if_splits)


lemma runtimes_pass:
  assumes "is_list v" and "list_all nonempty_str (as_list v)"
  shows "\<exists>rs. v = JList (map JStr rs) \<and> [] \<notin> set rs"
proof (intro exI conjI)
  show "v = JList (map JStr (map str_of (as_list v)))"
    using assms(1) nonempty_strs_map(1) [OF assms(2)] by (cases v) (simp_all del: map_map)
qed (rule nonempty_strs_map(2) [OF assms(2)])

lemma binder_pass:
  assumes "topology_slot_binder oid sw s = Inr []" and "jhas ''authorizedBinder'' s"
  shows "jget ''authorizedBinder'' s = oid \<and> nonempty_str oid"
  using assms by (auto simp: topology_slot_binder_def checks Let_def nonempty_str_iff split: if_splits)

lemma mode_pass:
  assumes "topology_slot_mode sw s = Inr []" and "jget ''lateBindingMode'' s = JStr ''fixed''"
  shows "slot_runtimes s = [] \<and> \<not> jhas ''authorizedBinder'' s \<and> jget ''minAssurance'' s = JStr ''A1''"
  using assms by (simp add: topology_slot_mode_def checks)

lemma topology_slot_pass:
  assumes "topology_slot cap oid pid sw seen v = Inr []" and "nonempty_str cap" and "nonempty_str pid"
  shows "is_obj v \<and> slot_admissible cap oid pid (as_obj v) \<and> slot_name cap pid \<notin> set seen"
proof -
  obtain s where v: "v = JObj s" using assms(1) by (cases v) (auto simp: topology_slot_def)
  note pass = assms(1) [unfolded v topology_slot_def, simplified, unfolded chks_pass, simplified]
  have sid: "jget ''slotId'' s = JStr (slot_name cap pid)" "slot_name cap pid \<notin> set seen"
    using slot_id_pass [OF _ assms(2,3)] pass by blast+
  have rs: "\<exists>rs. jget ''allowedRuntimes'' s = JList (map JStr rs) \<and> [] \<notin> set rs"
    using pass by (intro runtimes_pass) (auto simp: checks)
  then have "jget ''allowedRuntimes'' s = JList (slot_runtimes s)"
    by (auto simp: slot_runtimes_def list_all_iff)
  then show ?thesis
    using v sid rs pass assms(3) binder_pass [of oid sw s] mode_pass [of sw s]
    by (auto simp: slot_admissible_def checks)
qed

text \<open>The ids a slot, a participant and an organization add to \<open>seen_slot_ids\<close>.\<close>

definition slot_keys :: "json \<Rightarrow> string list" where
  "slot_keys v = (if is_obj v then [slot_text (as_obj v)] else [])"

definition participant_keys :: "json \<Rightarrow> string list" where
  "participant_keys p = concat (map slot_keys (slots_of p))"

definition organization_keys :: "json \<Rightarrow> string list" where
  "organization_keys org = concat (map participant_keys (participants_of org))"

definition topology_keys :: "obj \<Rightarrow> string list" where
  "topology_keys doc = concat (map organization_keys (organizations_of doc))"

lemma slot_text_admissible: "slot_admissible cap oid pid s \<Longrightarrow> slot_text s = slot_name cap pid"
  by (simp add: slot_admissible_def slot_text_def)

lemma topology_slot_keys:
  assumes "topology_slot cap oid pid sw seen v = Inr []" and "nonempty_str cap" and "nonempty_str pid"
    and "distinct seen"
  shows "see_slot v seen = rev (slot_keys v) @ seen \<and> distinct (rev (slot_keys v) @ seen)"
proof -
  note slot = topology_slot_pass [OF assms(1-3)]
  then have "see_slot v seen = slot_text (as_obj v) # seen" "slot_text (as_obj v) \<notin> set seen"
    by (auto simp: see_slot_def slot_text_def slot_admissible_def slot_name_nonempty)
  with slot assms(4) show ?thesis by (simp add: slot_keys_def)
qed

lemma topology_participant_pass:
  assumes "topology_participant cap oid pw seen v = Inr []" and "nonempty_str cap"
  shows "is_obj v" and "nonempty_str (jget ''participantId'' (as_obj v))" and "slots_of v \<noteq> []"
    and "s \<in> set (slots_of v) \<Longrightarrow>
      is_obj s \<and> slot_admissible cap oid (jget ''participantId'' (as_obj v)) (as_obj s)"
    and "distinct seen \<Longrightarrow> see_participant v seen = rev (participant_keys v) @ seen \<and>
      distinct (rev (participant_keys v) @ seen)"
proof -
  obtain p where v: "v = JObj p" using assms(1) by (cases v) (auto simp: topology_participant_def)
  note pass = assms(1) [unfolded v topology_participant_def, simplified, unfolded chks_pass, simplified]
  show "is_obj v" by (simp add: v)
  show pid: "nonempty_str (jget ''participantId'' (as_obj v))" and "slots_of v \<noteq> []"
    using pass v by (simp_all add: checks)
  from pass have loop: "each_st (\<lambda>i. topology_slot cap oid (jget ''participantId'' p) (pw @ idx ''.slots'' i))
      see_slot 0 seen (slots_of v) = Inr []" by (simp add: v)
  show "is_obj s \<and> slot_admissible cap oid (jget ''participantId'' (as_obj v)) (as_obj s)"
    if "s \<in> set (slots_of v)"
    using each_st_member_pass [OF loop that] topology_slot_pass assms(2) pid v by (metis as_obj.simps(1))
  show "see_participant v seen = rev (participant_keys v) @ seen \<and> distinct (rev (participant_keys v) @ seen)"
    if "distinct seen"
    unfolding see_participant_def participant_keys_def
    by (rule each_st_collects [OF loop that], rule topology_slot_keys [where cap = cap and pid = "jget ''participantId'' p"])
      (use assms(2) pid v in auto)
qed

lemma topology_organization_pass:
  assumes "topology_organization cap ow seen v = Inr []" and "nonempty_str cap"
  shows "is_obj v" and "participants_of v \<noteq> []"
    and "p \<in> set (participants_of v) \<Longrightarrow> is_obj p \<and> slots_of p \<noteq> []"
    and "p \<in> set (participants_of v) \<Longrightarrow> s \<in> set (slots_of p) \<Longrightarrow> is_obj s \<and>
      slot_admissible cap (jget ''organizationId'' (as_obj v)) (jget ''participantId'' (as_obj p)) (as_obj s)"
    and "distinct seen \<Longrightarrow> see_organization v seen = rev (organization_keys v) @ seen \<and>
      distinct (rev (organization_keys v) @ seen)"
proof -
  obtain org where v: "v = JObj org" using assms(1) by (cases v) (auto simp: topology_organization_def)
  note pass = assms(1) [unfolded v topology_organization_def, simplified, unfolded chks_pass, simplified]
  show "is_obj v" by (simp add: v)
  show "participants_of v \<noteq> []" using pass v by (simp add: checks)
  from pass have loop: "each_st (\<lambda>i. topology_participant cap (jget ''organizationId'' org)
      (ow @ idx ''.participants'' i)) see_participant 0 seen (participants_of v) = Inr []" by (simp add: v)
  note at = each_st_member_pass [OF loop]
  show "is_obj p \<and> slots_of p \<noteq> []" if "p \<in> set (participants_of v)"
    using at [OF that] topology_participant_pass(1,3) assms(2) by metis
  show "is_obj s \<and>
      slot_admissible cap (jget ''organizationId'' (as_obj v)) (jget ''participantId'' (as_obj p)) (as_obj s)"
    if "p \<in> set (participants_of v)" "s \<in> set (slots_of p)"
    using at [OF that(1)] topology_participant_pass(4) [OF _ assms(2) that(2)] v by (metis as_obj.simps(1))
  show "see_organization v seen = rev (organization_keys v) @ seen \<and>
      distinct (rev (organization_keys v) @ seen)" if "distinct seen"
    unfolding see_organization_def organization_keys_def
    by (rule each_st_collects [OF loop that], rule topology_participant_pass(5)) (use assms(2) in auto)
qed

lemma topology_header_capability: "topology_header doc = Inr [] \<Longrightarrow> nonempty_str (jget ''capability'' doc)"
  by (simp add: topology_header_def checks)

lemma topology_pass:
  assumes "topology_errors doc = Inr []"
  shows "nonempty_str (jget ''capability'' doc)" and "organizations_of doc \<noteq> []"
    and "is_list (jget ''organizations'' doc)"
    and "each_st (\<lambda>i. topology_organization (jget ''capability'' doc) (idx ''organizations'' i))
      see_organization 0 [] (organizations_of doc) = Inr []"
    and "jget ''crossOrganization'' doc = JBool (length (named_orgs doc) > 1)"
proof -
  note pass = assms [unfolded topology_errors_def chks_pass, simplified]
  then show "nonempty_str (jget ''capability'' doc)" using topology_header_capability by blast
  obtain orgs where "jget ''organizations'' doc = JList orgs" "orgs \<noteq> []"
    using pass by (auto simp: jget_def jget_or_def checks split: json.splits option.splits)
  then show "organizations_of doc \<noteq> []" "is_list (jget ''organizations'' doc)"
    by (simp_all add: organizations_of_def)
  show "each_st (\<lambda>i. topology_organization (jget ''capability'' doc) (idx ''organizations'' i))
      see_organization 0 [] (organizations_of doc) = Inr []" using pass by blast
  have "is_bool (jget ''crossOrganization'' doc)" using pass by (simp add: topology_header_def checks)
  with pass show "jget ''crossOrganization'' doc = JBool (length (named_orgs doc) > 1)"
    by (auto simp: topology_cross_def checks is_bool_iff)
qed

text \<open>The three levels together.\<close>

lemma in_topology_slots:
  "(oid, pid, s) \<in> set (topology_slots doc) \<longleftrightarrow>
     (\<exists>org p. JObj org \<in> set (organizations_of doc) \<and> oid = jget ''organizationId'' org \<and>
        JObj p \<in> set (participants_of (JObj org)) \<and> pid = jget ''participantId'' p \<and>
        JObj s \<in> set (slots_of (JObj p)))"
proof -
  have parts: "(oid, pid, s) \<in> set (participant_slots oid' (JObj p)) \<longleftrightarrow>
      oid = oid' \<and> pid = jget ''participantId'' p \<and> JObj s \<in> set (slots_of (JObj p))" for oid' p
    by (auto simp: participant_slots_def is_obj_iff intro!: image_eqI [where x = "JObj s"])
  have "(oid, pid, s) \<in> set (organization_slots (JObj org)) \<longleftrightarrow>
      (\<exists>p. oid = jget ''organizationId'' org \<and> JObj p \<in> set (participants_of (JObj org)) \<and>
        pid = jget ''participantId'' p \<and> JObj s \<in> set (slots_of (JObj p)))" for org
    unfolding organization_slots_def set_concat set_map UN_iff bex_simps ex_filter_obj parts by auto
  then show ?thesis
    unfolding topology_slots_def set_concat set_map UN_iff bex_simps ex_filter_obj by auto
qed

lemma topology_slots_admissible:
  assumes "topology_errors doc = Inr []" and "(oid, pid, s) \<in> set (topology_slots doc)"
  shows "slot_admissible (jget ''capability'' doc) oid pid s"
proof -
  note pass = topology_pass [OF assms(1)]
  obtain org p where at: "JObj org \<in> set (organizations_of doc)" "oid = jget ''organizationId'' org"
    "JObj p \<in> set (participants_of (JObj org))" "pid = jget ''participantId'' p" "JObj s \<in> set (slots_of (JObj p))"
    using assms(2) unfolding in_topology_slots by blast
  obtain i seen where
    "topology_organization (jget ''capability'' doc) (idx ''organizations'' i) seen (JObj org) = Inr []"
    using each_st_member_pass [OF pass(4) at(1)] .
  from topology_organization_pass(4) [OF this pass(1) at(3) at(5)] show ?thesis using at(2,4) by simp
qed

lemma topology_keys_seen:
  assumes "topology_errors doc = Inr []"
  shows "seen_slot_ids doc = rev (topology_keys doc)" and "distinct (topology_keys doc)"
proof -
  note pass = topology_pass [OF assms]
  have "fold see_organization (organizations_of doc) [] = rev (topology_keys doc) @ [] \<and>
      distinct (rev (topology_keys doc) @ [])"
    unfolding topology_keys_def
    by (rule each_st_collects [OF pass(4)], simp, rule topology_organization_pass(5)) (use pass(1) in auto)
  then show "seen_slot_ids doc = rev (topology_keys doc)" "distinct (topology_keys doc)"
    by (simp_all add: seen_slot_ids_def)
qed

lemma keys_of_slots: "map (\<lambda>(_, _, s). slot_text s) (topology_slots doc) =
    concat (map organization_keys (filter is_obj (organizations_of doc)))"
proof -
  have slots: "map slot_text (map as_obj (filter is_obj vs)) = concat (map slot_keys vs)" for vs
    by (induction vs) (auto simp: slot_keys_def)
  have parts: "map (\<lambda>(_, _, s). slot_text s) (concat (map (participant_slots oid) (filter is_obj ps))) =
      concat (map participant_keys ps)" for oid ps
  proof (induction ps)
    case (Cons p ps)
    have "participant_keys p = []" if "\<not> is_obj p"
      using that by (cases p) (simp_all add: participant_keys_def slots_of_def jget_def jget_or_def)
    with Cons slots [of "slots_of p"] show ?case
      by (auto simp: participant_slots_def participant_keys_def o_def)
  qed simp
  have "map (\<lambda>(_, _, s). slot_text s) (organization_slots org) = organization_keys org" for org
    unfolding organization_slots_def organization_keys_def by (rule parts)
  then show ?thesis by (simp add: topology_slots_def map_concat o_def)
qed

lemma topology_slots_text:
  assumes "topology_errors doc = Inr []"
  shows "map (\<lambda>(_, _, s). slot_text s) (topology_slots doc) = topology_keys doc"
proof -
  note pass = topology_pass [OF assms]
  have "is_obj org" if "org \<in> set (organizations_of doc)" for org
    using each_st_member_pass [OF pass(4) that] topology_organization_pass(1) pass(1) by metis
  then show ?thesis by (simp add: keys_of_slots topology_keys_def filter_id_conv)
qed

lemma topology_slots_distinct:
  assumes "topology_errors doc = Inr []"
  shows "distinct (map entry_id (topology_slots doc))"
    and "distinct (map (\<lambda>(_, pid, _). pid) (topology_slots doc))"
proof -
  let ?cap = "jget ''capability'' doc" and ?S = "topology_slots doc"
  have adm: "slot_admissible ?cap oid pid s" if "(oid, pid, s) \<in> set ?S" for oid pid s
    using topology_slots_admissible [OF assms that] .
  have d: "distinct (map (\<lambda>(_, _, s). slot_text s) ?S)"
    using topology_keys_seen(2) [OF assms] topology_slots_text [OF assms] by simp
  then have "distinct (map JStr (map (\<lambda>(_, _, s). slot_text s) ?S))"
    by (subst distinct_map) (simp add: inj_on_def)
  also have "map JStr (map (\<lambda>(_, _, s). slot_text s) ?S) = map entry_id ?S"
    using adm by (auto simp: slot_admissible_def slot_text_def entry_id_def)
  finally show "distinct (map entry_id ?S)" .
  have "map (\<lambda>(_, _, s). slot_text s) ?S = map (slot_name ?cap) (map (\<lambda>(_, pid, _). pid) ?S)"
    by (auto dest!: adm slot_text_admissible)
  with d show "distinct (map (\<lambda>(_, pid, _). pid) ?S)" by (metis distinct_map)
qed

interpretation topology: slot_index topology_slots "\<lambda>doc. topology_errors doc = Inr []"
proof unfold_locales
  fix doc en
  assume "topology_errors doc = Inr []" "en \<in> set (topology_slots doc)"
  then show "is_str (entry_id en)"
    by (cases en) (auto dest!: topology_slots_admissible simp: slot_admissible_def entry_id_def)
qed (rule topology_slots_distinct(1))

lemma set_named_orgs:
  "set (fold named_org vs ns) = {t. \<exists>v \<in> set vs. jget ''organizationId'' (as_obj v) = JStr t} \<union> set ns"
  by (induction vs arbitrary: ns) (auto simp: named_org_def split: json.splits)

lemma distinct_named_orgs: "distinct ns \<Longrightarrow> distinct (fold named_org vs ns)"
  by (induction vs arbitrary: ns) (auto simp: named_org_def split: json.splits)

lemma more_than_one: "distinct xs \<Longrightarrow> length xs > 1 \<longleftrightarrow> (\<exists>a \<in> set xs. \<exists>b \<in> set xs. a \<noteq> b)"
  by (cases xs; cases "tl xs") auto

lemma cross_organization_iff:
  assumes "topology_errors doc = Inr []"
  shows "jget ''crossOrganization'' doc = JBool True \<longleftrightarrow>
    (\<exists>org \<in> set (organizations_of doc). \<exists>org' \<in> set (organizations_of doc). \<exists>a b.
       jget ''organizationId'' (as_obj org) = JStr a \<and> jget ''organizationId'' (as_obj org') = JStr b \<and> a \<noteq> b)"
proof -
  have "jget ''crossOrganization'' doc = JBool True \<longleftrightarrow> length (named_orgs doc) > 1"
    using topology_pass(5) [OF assms] by simp
  also have "\<dots> \<longleftrightarrow> (\<exists>a \<in> set (named_orgs doc). \<exists>b \<in> set (named_orgs doc). a \<noteq> b)"
    unfolding named_orgs_def by (rule more_than_one, rule distinct_named_orgs) simp
  finally show ?thesis unfolding named_orgs_def set_named_orgs list.set(1) Un_empty_right bex_simps mem_Collect_eq by blast
qed

lemma topology_main_ok:
  "topology_main (JObj doc) = Inr (out, 0) \<longleftrightarrow> topology_errors doc = Inr [] \<and>
     out = [''binding-topology check: OK ('' @ show_nat (length (seen_slot_ids doc)) @ '' slot(s), ''
       @ show_nat (length (named_orgs doc)) @ '' named org(s))'']"
  by (auto simp: topology_main_def pbind_Inr_conv)

section \<open>A sample topology\<close>

definition topology_slot_doc :: "string \<Rightarrow> string \<Rightarrow> json list \<Rightarrow> string \<Rightarrow> (string \<times> json) list \<Rightarrow> json" where
  "topology_slot_doc pid mode runtimes tier extra =
     JObj [(''participantId'', JStr pid), (''role'', JStr ''party''), (''slots'', JList [JObj
       ([(''slotId'', JStr (''pay#'' @ pid)), (''lateBindingMode'', JStr mode), (''allowedRuntimes'', JList runtimes),
         (''minAssurance'', JStr tier), (''evidenceProfile'', JNull)] @ extra)])]"

definition topology_doc :: "json \<Rightarrow> json list \<Rightarrow> obj" where
  "topology_doc cross orgs =
     [(''kind'', JStr ''neutrino.slot-binding-topology''), (''schemaVersion'', JInt 1), (''capability'', JStr ''pay''),
      (''capabilityVersion'', JStr ''1''), (''procedure'', JStr ''pay''), (''organizations'', JList orgs),
      (''crossOrganization'', cross)]"

definition org_doc :: "json \<Rightarrow> json list \<Rightarrow> json" where
  "org_doc oid ps = JObj [(''organizationId'', oid), (''participants'', JList ps)]"

definition sample_topology :: obj where
  "sample_topology = topology_doc (JBool True)
     [org_doc (JStr ''acme'') [topology_slot_doc ''payer'' ''to_be_bound'' [JStr ''cordapp''] ''A2''
        [(''authorizedBinder'', JStr ''acme'')]],
      org_doc (JStr ''bank'') [topology_slot_doc ''payee'' ''fixed'' [] ''A1'' []]]"

lemma sample_topology_ok: "topology_errors sample_topology = Inr []"
  by code_simp

section \<open>What acceptance means\<close>

text \<open>C10. A topology the gate accepts is consistent. Every slot, wherever it is nested, is named
  after the capability and its participant, has a known mode and assurance tier, and an authorized
  binder that is its own organization; a fixed slot has no runtime and no binder and stays at tier
  A1. Slot ids are unique across organizations, and so are the participants that have a slot, so
  each participant has exactly one. The cross-organization flag is set iff two organizations with
  different names occur.\<close>

theorem accepted_topology_consistent:
  assumes "topology_main (JObj doc) = Inr (out, 0)"
  shows "(\<forall>(oid, pid, s) \<in> set (topology_slots doc). slot_admissible (jget ''capability'' doc) oid pid s) \<and>
    distinct (map entry_id (topology_slots doc)) \<and>
    distinct (map (\<lambda>(_, pid, _). pid) (topology_slots doc)) \<and>
    (jget ''crossOrganization'' doc = JBool True \<longleftrightarrow>
      (\<exists>org \<in> set (organizations_of doc). \<exists>org' \<in> set (organizations_of doc). \<exists>a b.
         jget ''organizationId'' (as_obj org) = JStr a \<and> jget ''organizationId'' (as_obj org') = JStr b \<and> a \<noteq> b))"
proof -
  have ok: "topology_errors doc = Inr []" using assms by (simp add: topology_main_ok)
  show ?thesis
    using topology_slots_admissible [OF ok] topology_slots_distinct [OF ok] cross_organization_iff [OF ok] by blast
qed

lemma accepted_topology_consistent_witness:
  "map (\<lambda>(oid, pid, _). (oid, pid)) (topology_slots sample_topology) =
     [(JStr ''acme'', JStr ''payer''), (JStr ''bank'', JStr ''payee'')] \<and>
   distinct (map entry_id (topology_slots sample_topology)) \<and>
   slot_admissible (JStr ''pay'') (JStr ''acme'') (JStr ''payer'') (snd (snd (hd (topology_slots sample_topology))))"
proof -
  have cap: "jget ''capability'' sample_topology = JStr ''pay''"
    by (simp add: sample_topology_def topology_doc_def jget_def jget_or_def)
  have places: "map (\<lambda>(oid, pid, _). (oid, pid)) (topology_slots sample_topology) =
     [(JStr ''acme'', JStr ''payer''), (JStr ''bank'', JStr ''payee'')]" by code_simp
  then obtain s where "hd (topology_slots sample_topology) = (JStr ''acme'', JStr ''payer'', s)"
    "topology_slots sample_topology \<noteq> []"
    by (cases "topology_slots sample_topology") auto
  then have "(JStr ''acme'', JStr ''payer'', s) \<in> set (topology_slots sample_topology)"
    by (metis hd_in_set)
  with places cap \<open>hd (topology_slots sample_topology) = _\<close> show ?thesis
    using accepted_topology_consistent [of sample_topology] sample_topology_ok
    by (fastforce simp: topology_main_ok)
qed

text \<open>The gate is not total on JSON documents: a mode that is a list ends it with an uncaught
  \<open>TypeError\<close> and prints no verdict, while a mode that is a number is a reported problem. It raises
  nothing else.\<close>

theorem topology_gate_errors:
  "raises_only (\<lambda>e. e = TypeError) (topology_main v) \<and>
   topology_main (JObj (topology_doc (JBool False) [org_doc JNull [JObj [(''participantId'', JStr ''p''),
     (''role'', JStr ''r''), (''slots'', JList [JObj [(''lateBindingMode'', JList [])]])]]])) = Inl TypeError \<and>
   (\<exists>out. topology_main (JObj (topology_doc (JBool False) [org_doc JNull [JObj [(''participantId'', JStr ''p''),
     (''role'', JStr ''r''), (''slots'', JList [JObj [(''lateBindingMode'', JInt 0)]])]]])) = Inr (out, 1))"
proof (intro conjI)
  have "outcome (\<lambda>e. e = TypeError) (\<lambda>_. True) (topology_errors doc)" for doc
    unfolding topology_errors_def topology_header_def req_field_def no_unknown_fields_def topology_organization_def
      topology_participant_def topology_slot_def topology_slot_id_def topology_slot_mode_def topology_slot_binder_def
      topology_cross_def
    by (intro outcomes; simp add: list_all_iff)
  then show "raises_only (\<lambda>e. e = TypeError) (topology_main v)"
    by (auto simp: topology_main_def split: json.splits intro!: outcomes intro: raises_only_outcome)
next
  show "topology_main (JObj (topology_doc (JBool False) [org_doc JNull [JObj [(''participantId'', JStr ''p''),
     (''role'', JStr ''r''), (''slots'', JList [JObj [(''lateBindingMode'', JList [])]])]]])) = Inl TypeError"
    by code_simp
next
  show "\<exists>out. topology_main (JObj (topology_doc (JBool False) [org_doc JNull [JObj [(''participantId'', JStr ''p''),
     (''role'', JStr ''r''), (''slots'', JList [JObj [(''lateBindingMode'', JInt 0)]])]]])) = Inr (out, 1)"
    by (rule exI, code_simp)
qed

end
