(* ===== verification/BindingManifest.thy ===== *)
theory BindingManifest
  imports BindingTopology
begin

text \<open>
  \<open>validators/validate_binding_manifest.py\<close>: the check of a binding manifest against a slot
  binding topology. \<open>manifest_diags\<close> is the list \<open>validate\<close> collects in its \<open>Report\<close>,
  \<open>manifest_status\<close> the status of an L3 manifest and \<open>manifest_main\<close> the JSON report with its exit
  status. The files of an L3 manifest, the L2 interface and the profile catalog, are arguments:
  \<open>None\<close> stands for a file that cannot be read and for \<open>null\<close>. The iteration order of the set
  \<open>_L3_HOOK_FIELDS\<close> is the argument \<open>hooks\<close>.
\<close>

section \<open>Diagnostics\<close>

definition taxonomy :: "(string \<times> string \<times> string \<times> string) list" where
  "taxonomy =
     [(''NEU-1001'', ''ERR_NEU_MANIFEST_MALFORMED'', ''topology'', ''error''),
      (''NEU-1002'', ''ERR_NEU_CAPABILITY_MISMATCH'', ''topology'', ''error''),
      (''NEU-1003'', ''ERR_NEU_SLOT_OWNERSHIP'', ''topology'', ''error''),
      (''NEU-1004'', ''ERR_NEU_COVERAGE'', ''topology'', ''error''),
      (''NEU-2001'', ''ERR_NEU_ASSURANCE_BELOW_MINIMUM'', ''security'', ''error''),
      (''NEU-2002'', ''ERR_NEU_BINDER_UNAUTHORIZED'', ''security'', ''error''),
      (''NEU-2003'', ''ERR_NEU_ASSURANCE_INVALID'', ''security'', ''error''),
      (''NEU-3000'', ''ERR_NEU_RUNTIME_NOT_ALLOWED'', ''runtime'', ''error''),
      (''NEU-3001'', ''ERR_NEU_SLOT_NOT_BINDABLE'', ''runtime'', ''error''),
      (''NEU-3002'', ''ERR_NEU_PROFILE_UNSUPPORTED'', ''runtime'', ''error''),
      (''NEU-4001'', ''ERR_NEU_PARAM_NOT_DECLARED'', ''l2-binding'', ''error''),
      (''NEU-4002'', ''ERR_NEU_PARAM_REQUIRED_MISSING'', ''l2-binding'', ''error''),
      (''NEU-4003'', ''ERR_NEU_PARAM_TYPE_MISMATCH'', ''l2-binding'', ''error''),
      (''NEU-4004'', ''ERR_NEU_UNTRACEABLE_SEMANTICS'', ''l2-binding'', ''error''),
      (''NEU-4005'', ''ERR_NEU_L2_CAPABILITY_MISMATCH'', ''l2-binding'', ''error'')]"

text \<open>A diagnostic with its optional target fields; \<open>JNull\<close> in one of them is \<open>None\<close>.\<close>

record mdiag =
  md_code :: string
  md_message :: string
  md_index :: "nat option"
  md_capability :: json
  md_org :: json
  md_part :: json
  md_slot :: json

text \<open>\<open>report.add(code, message)\<close>, with a binding index and a slot, and with all owners.\<close>

definition mdiag :: "string \<Rightarrow> string \<Rightarrow> mdiag" where
  "mdiag c msg = \<lparr>md_code = c, md_message = msg, md_index = None, md_capability = JNull, md_org = JNull,
     md_part = JNull, md_slot = JNull\<rparr>"

definition mdiag_at :: "string \<Rightarrow> string \<Rightarrow> nat \<Rightarrow> json \<Rightarrow> mdiag" where
  "mdiag_at c msg i sid = (mdiag c msg)\<lparr>md_index := Some i, md_slot := sid\<rparr>"

definition mdiag_owned :: "string \<Rightarrow> string \<Rightarrow> nat \<Rightarrow> obj \<Rightarrow> mdiag" where
  "mdiag_owned c msg i b = (mdiag_at c msg i (jget ''slotId'' b))
     \<lparr>md_org := jget ''organizationId'' b, md_part := jget ''participantId'' b\<rparr>"

definition optional_field :: "string \<Rightarrow> json \<Rightarrow> obj" where
  "optional_field k v = (if v = JNull then [] else [(k, v)])"

definition mdiag_json :: "mdiag \<Rightarrow> json" where
  "mdiag_json d =
     (case map_of taxonomy (md_code d) of
        None \<Rightarrow> JNull
      | Some (symbol, category, severity) \<Rightarrow> JObj
          ([(''code'', JStr (md_code d)), (''symbol'', JStr symbol), (''category'', JStr category),
            (''severity'', JStr severity), (''message'', JStr (md_message d))]
           @ optional_field ''capability'' (md_capability d)
           @ optional_field ''organizationId'' (md_org d)
           @ optional_field ''participantId'' (md_part d)
           @ optional_field ''slotId'' (md_slot d)
           @ (case md_index d of None \<Rightarrow> [] | Some i \<Rightarrow> [(''bindingIndex'', JInt (int i))])))"

section \<open>The topology as the manifest check reads it\<close>

definition participant_malformed :: "json \<Rightarrow> bool" where
  "participant_malformed p \<longleftrightarrow> \<not> is_obj p \<or> \<not> is_list (jget ''slots'' (as_obj p)) \<or>
     list_ex (\<lambda>s. \<not> is_obj s) (slots_of p)"

definition organization_malformed :: "json \<Rightarrow> bool" where
  "organization_malformed org \<longleftrightarrow> \<not> is_obj org \<or> \<not> is_list (jget ''participants'' (as_obj org)) \<or>
     list_ex participant_malformed (participants_of org)"

definition topology_malformed :: "obj \<Rightarrow> bool" where
  "topology_malformed topo \<longleftrightarrow> \<not> is_list (jget ''organizations'' topo) \<or>
     list_ex organization_malformed (organizations_of topo)"

definition index_slots :: "obj \<Rightarrow> (json \<times> slot_entry) list py" where
  "index_slots topo = index_entries [] (topology_slots topo)"

section \<open>The core checks\<close>

text \<open>The tiers in the order of their ranks \<open>ASSURANCE[a]\<close>, which are only compared.\<close>

datatype tier = A1 | A2 | A3 | A4

fun tier_rank :: "tier \<Rightarrow> nat" where
  "tier_rank A1 = 1"
| "tier_rank A2 = 2"
| "tier_rank A3 = 3"
| "tier_rank A4 = 4"

lemma tier_rank_inject: "tier_rank a = tier_rank b \<longleftrightarrow> a = b"
  by (cases a; cases b) simp_all

instantiation tier :: linorder
begin

definition less_eq_tier :: "tier \<Rightarrow> tier \<Rightarrow> bool" where
  "less_eq_tier a b \<longleftrightarrow> tier_rank a \<le> tier_rank b"

definition less_tier :: "tier \<Rightarrow> tier \<Rightarrow> bool" where
  "less_tier a b \<longleftrightarrow> tier_rank a < tier_rank b"

instance
  by standard (auto simp: less_eq_tier_def less_tier_def tier_rank_inject)

end

definition tier_of :: "string \<Rightarrow> tier option" where
  "tier_of s = map_of [(''A1'', A1), (''A2'', A2), (''A3'', A3), (''A4'', A4)] s"

text \<open>\<open>ASSURANCE.get(v)\<close>, which hashes \<open>v\<close>.\<close>

fun tier_get :: "json \<Rightarrow> tier option py" where
  "tier_get (JStr s) = Inr (tier_of s)"
| "tier_get (JList _) = Inl TypeError"
| "tier_get (JObj _) = Inl TypeError"
| "tier_get _ = Inr None"

definition l3_top_fields :: "string list" where
  "l3_top_fields = [''l2Ref'', ''backendProfile'']"

definition l3_binding_fields :: "string list" where
  "l3_binding_fields = [''parameterBindings'', ''derivedConcepts'', ''evidenceRefs'', ''compensation'',
     ''observability'', ''retryTimeout'', ''deferred'']"

definition l3_hook_fields :: "string list" where
  "l3_hook_fields = [''compensation'', ''observability'', ''retryTimeout'']"

definition is_l3 :: "obj \<Rightarrow> bool" where
  "is_l3 m \<longleftrightarrow> eq_int (jget ''schemaVersion'' m) 2"

definition top_allowed :: "obj \<Rightarrow> string list" where
  "top_allowed m = [''kind'', ''schemaVersion'', ''capability'', ''bindings'']
     @ (if is_l3 m then l3_top_fields else [])"

definition binding_allowed :: "obj \<Rightarrow> string list" where
  "binding_allowed m = [''organizationId'', ''participantId'', ''slotId'', ''runtime'', ''assurance'', ''binder'']
     @ (if is_l3 m then l3_binding_fields else [])"

definition unknown_diag :: "string \<Rightarrow> nat option \<Rightarrow> mdiag" where
  "unknown_diag k i = (mdiag ''NEU-1001'' (''unknown field '' @ repr_str k))\<lparr>md_index := i\<rparr>"

definition no_unknown :: "obj \<Rightarrow> string list \<Rightarrow> nat option \<Rightarrow> mdiag list py" where
  "no_unknown d allowed i = each (jkeys d) (\<lambda>k. emit_if (k \<notin> set allowed) (unknown_diag k i))"

definition topology_kind_ok :: "json \<Rightarrow> bool" where
  "topology_kind_ok topo \<longleftrightarrow> is_obj topo \<and> jget ''kind'' (as_obj topo) = JStr ''neutrino.slot-binding-topology''"

definition check_shape :: "obj \<Rightarrow> json \<Rightarrow> mdiag list py" where
  "check_shape m topo = chks
     [no_unknown m (top_allowed m) None,
      emit_if (jget ''kind'' m \<noteq> JStr ''neutrino.binding-manifest'')
        (mdiag ''NEU-1001'' (''kind must be '' @ sq ''neutrino.binding-manifest'')),
      emit_if (\<not> eq_int (jget ''schemaVersion'' m) 1 \<and> \<not> eq_int (jget ''schemaVersion'' m) 2)
        (mdiag ''NEU-1001'' ''schemaVersion must be 1 or 2''),
      emit_if (\<not> topology_kind_ok topo)
        (mdiag ''NEU-1001'' (''binding-topology kind must be '' @ sq ''neutrino.slot-binding-topology'')),
      emit_if (is_obj topo \<and> topology_malformed (as_obj topo))
        (mdiag ''NEU-1001'' (''binding-topology structure is malformed ''
          @ ''(organizations/participants/slots must be arrays of objects)''))]"

definition check_capability :: "obj \<Rightarrow> obj \<Rightarrow> mdiag list py" where
  "check_capability m topo =
     (let mc = jget ''capability'' m; tc = jget ''capability'' topo
      in chks
        [emit_if (\<not> nonempty_str mc) (mdiag ''NEU-1002'' ''manifest capability is required (non-empty string)''),
         emit_if (\<not> nonempty_str tc)
           (mdiag ''NEU-1002'' ''binding-topology capability is required (non-empty string)''),
         emit_if (nonempty_str mc \<and> nonempty_str tc \<and> mc \<noteq> tc)
           ((mdiag ''NEU-1002'' (''manifest capability '' @ py_repr mc @ '' != binding-topology capability ''
             @ py_repr tc))\<lparr>md_capability := mc\<rparr>)])"

definition bindings_of :: "obj \<Rightarrow> json list" where
  "bindings_of m = as_list (jget ''bindings'' m)"

text \<open>The policy checks of a binding whose slot exists and is to be bound.\<close>

definition check_policy :: "nat \<Rightarrow> obj \<Rightarrow> obj \<Rightarrow> mdiag list py" where
  "check_policy i b slot =
     (let runtime = jget ''runtime'' b; a = jget ''assurance'' b
      in chks
        [pbind (in_or_empty runtime (jget ''allowedRuntimes'' slot)) (\<lambda>ok.
           emit_if (\<not> ok) (mdiag_owned ''NEU-3000'' (''runtime '' @ py_repr runtime @ '' not in allowedRuntimes ''
             @ py_str (jget ''allowedRuntimes'' slot)) i b)),
         pbind (tier_get a) (\<lambda>known. case known of
           None \<Rightarrow> Inr [mdiag_owned ''NEU-2003''
             (''assurance must be one of '' @ repr_strs (sort assurance_levels)) i b]
         | Some t \<Rightarrow> pbind (tier_get (jget ''minAssurance'' slot)) (\<lambda>least.
             emit_if (t < (case least of None \<Rightarrow> A1 | Some l \<Rightarrow> l))
               (mdiag_owned ''NEU-2001'' (''assurance '' @ py_str a @ '' is below the slot's minAssurance ''
                 @ py_str (jget ''minAssurance'' slot)) i b))),
         emit_if (\<not> jeq (jget ''binder'' b) (jget ''authorizedBinder'' slot))
           (mdiag_owned ''NEU-2002'' (''binder '' @ py_repr (jget ''binder'' b) @ '' != authorizedBinder ''
             @ py_repr (jget ''authorizedBinder'' slot)) i b)])"

definition check_owner :: "nat \<Rightarrow> obj \<Rightarrow> slot_entry \<Rightarrow> mdiag list py" where
  "check_owner i b en =
     (case en of (org_id, part_id, slot) \<Rightarrow>
        let sid = jget ''slotId'' b; org_b = jget ''organizationId'' b; part_b = jget ''participantId'' b
        in chks
          [emit_if (\<not> jeq org_b org_id) (mdiag_owned ''NEU-1003'' (''organizationId '' @ py_repr org_b
             @ '' != topology '' @ py_repr org_id @ '' for '' @ py_str sid) i b),
           emit_if (\<not> jeq part_b part_id) (mdiag_owned ''NEU-1003'' (''participantId '' @ py_repr part_b
             @ '' != topology '' @ py_repr part_id @ '' for '' @ py_str sid) i b),
           if jget ''lateBindingMode'' slot \<noteq> JStr ''to_be_bound''
           then Inr [mdiag_owned ''NEU-3001'' (''slot '' @ py_str sid @ '' is '' @ py_repr (jget ''lateBindingMode'' slot)
             @ '', not 'to_be_bound' '' @ em_dash @ '' nothing to bind'') i b]
           else check_policy i b slot])"

definition check_binding :: "string list \<Rightarrow> (json \<times> slot_entry) list \<Rightarrow> nat \<Rightarrow> json \<Rightarrow> mdiag list py" where
  "check_binding allowed slots i v =
     (case v of
        JObj b \<Rightarrow> chks
          [no_unknown b allowed (Some i),
           pbind (jdict_get (jget ''slotId'' b) slots) (\<lambda>found.
             case found of
               None \<Rightarrow> Inr [mdiag_owned ''NEU-1003'' (''slotId '' @ py_repr (jget ''slotId'' b)
                 @ '' is not in the binding-topology'') i b]
             | Some en \<Rightarrow> check_owner i b en)]
      | _ \<Rightarrow> Inr [(mdiag ''NEU-1001'' ''binding must be an object'')\<lparr>md_index := Some i\<rparr>])"

definition bound_slot_ids :: "json list \<Rightarrow> json list" where
  "bound_slot_ids bindings = map (\<lambda>b. jget ''slotId'' (as_obj b)) (filter is_obj bindings)"

definition count_of :: "json \<Rightarrow> json list \<Rightarrow> nat" where
  "count_of v vs = length (filter (\<lambda>w. jeq w v) vs)"

definition to_bind :: "(json \<times> slot_entry) list \<Rightarrow> json list" where
  "to_bind slots = map fst (filter (\<lambda>(_, _, _, s). jget ''lateBindingMode'' s = JStr ''to_be_bound'') slots)"

definition check_coverage :: "(json \<times> slot_entry) list \<Rightarrow> json list \<Rightarrow> mdiag list py" where
  "check_coverage slots bound = pbind (jset bound) (\<lambda>ids. chks
     [pbind (jsorted ids) (\<lambda>sids. each sids (\<lambda>sid.
        emit_if (count_of sid bound > 1) ((mdiag ''NEU-1004'' (''slot '' @ py_repr sid @ '' is bound ''
          @ show_nat (count_of sid bound) @ '' times (must be once)''))\<lparr>md_slot := sid\<rparr>))),
      pbind (jsorted (filter (\<lambda>sid. \<not> in_list sid ids) (to_bind slots))) (\<lambda>sids. each sids (\<lambda>sid.
        Inr [(mdiag ''NEU-1004'' (''to_be_bound slot '' @ py_repr sid @ '' is not bound by the manifest''))
          \<lparr>md_slot := sid\<rparr>]))])"

section \<open>The L3 layer\<close>

text \<open>The declared types, the required names and the concepts of an L2 interface.\<close>

definition l2_params :: "json list \<Rightarrow> (string \<times> json) list" where
  "l2_params ps = fold (\<lambda>p params.
     if is_obj p \<and> nonempty_str (jget ''name'' (as_obj p))
     then dict_set (str_of (jget ''name'' (as_obj p))) (jget ''type'' (as_obj p)) params else params) ps []"

definition l2_required :: "json list \<Rightarrow> string list" where
  "l2_required ps = remdups (map (\<lambda>p. str_of (jget ''name'' (as_obj p)))
     (filter (\<lambda>p. is_obj p \<and> nonempty_str (jget ''name'' (as_obj p))
       \<and> jget ''required'' (as_obj p) = JBool True) ps))"

definition l2_concept :: "json \<Rightarrow> string list" where
  "l2_concept c =
     (case c of JStr s \<Rightarrow> [s]
      | JObj d \<Rightarrow> if nonempty_str (jget ''name'' d) then [str_of (jget ''name'' d)] else []
      | _ \<Rightarrow> [])"

record l2_view =
  l2_types :: "(string \<times> json) list"
  l2_needs :: "string list"
  l2_names :: "string list"

definition l2_index :: "json option \<Rightarrow> l2_view py" where
  "l2_index l2 =
     (case l2 of
        Some (JObj d) \<Rightarrow> pbind (iter_or_empty (jget ''parameters'' d)) (\<lambda>ps.
          pbind (iter_or_empty (jget ''concepts'' d)) (\<lambda>cs.
            Inr \<lparr>l2_types = l2_params ps, l2_needs = l2_required ps, l2_names = concat (map l2_concept cs)\<rparr>))
      | _ \<Rightarrow> Inr \<lparr>l2_types = [], l2_needs = [], l2_names = []\<rparr>)"

definition traceable :: "l2_view \<Rightarrow> string list" where
  "traceable l2v = map fst (l2_types l2v) @ l2_names l2v"

definition check_l2_ref :: "obj \<Rightarrow> json option \<Rightarrow> mdiag list py" where
  "check_l2_ref m l2 =
     (let cap = jget ''capability'' m; ref = jget ''l2Ref'' m; rc = jget ''capability'' (as_obj ref);
          lc = (case l2 of Some (JObj d) \<Rightarrow> jget ''capability'' d | _ \<Rightarrow> JNull)
      in chks
        [emit_if (\<not> is_obj ref \<or> \<not> nonempty_str (jget ''artifact'' (as_obj ref)))
           (mdiag ''NEU-1001'' (''an L3 (schemaVersion 2) manifest must declare '' @ sq ''l2Ref.artifact'')),
         guarded (is_obj ref)
           (if \<not> nonempty_str rc
            then Inr [mdiag ''NEU-4005'' ''l2Ref.capability is required and must equal the manifest capability'']
            else emit_if (nonempty_str cap \<and> rc \<noteq> cap) (mdiag ''NEU-4005'' (''l2Ref.capability '' @ py_repr rc
              @ '' != manifest capability '' @ py_repr cap))),
         emit_if (nonempty_str lc \<and> nonempty_str cap \<and> lc \<noteq> cap)
           (mdiag ''NEU-4005'' (''L2 interface capability '' @ py_repr lc @ '' != manifest capability '' @ py_repr cap)),
         emit_if (l2 = None) (mdiag ''NEU-4004'' (''the L2 interface could not be resolved '' @ em_dash
           @ '' L3 parameter bindings are untraceable to L2 (declare a readable 'l2Ref.artifact')''))])"

text \<open>\<open>next((p for p in (profiles.get("profiles") or []) if ...), None)\<close>.\<close>

definition find_profile :: "json option \<Rightarrow> json \<Rightarrow> obj option py" where
  "find_profile profiles pid =
     (case profiles of
        None \<Rightarrow> Inr None
      | Some (JObj cat) \<Rightarrow> pbind (iter_or_empty (jget ''profiles'' cat)) (\<lambda>ps.
          Inr (map_option as_obj (find (\<lambda>p. is_obj p \<and> jeq (jget ''id'' (as_obj p)) pid) ps)))
      | Some _ \<Rightarrow> Inl AttributeError)"

definition check_profile_known :: "json option \<Rightarrow> json \<Rightarrow> obj option \<Rightarrow> mdiag list py" where
  "check_profile_known profiles pid profile = chks
     [emit_if (profiles = None) (mdiag ''NEU-3002'' (''the backend-profile catalog could not be loaded '' @ em_dash
        @ '' a schemaVersion-2 manifest's backendProfile cannot be validated'')),
      emit_if (profiles \<noteq> None \<and> profile = None) (mdiag ''NEU-3002''
        (''backendProfile '' @ py_repr pid @ '' is not in the backend-profile catalog''))]"

text \<open>\<open>set(profile.get("supportedFields") or [])\<close>, \<open>None\<close> without a profile.\<close>

definition supported_fields :: "obj option \<Rightarrow> json list option py" where
  "supported_fields profile =
     (case profile of
        None \<Rightarrow> Inr None
      | Some p \<Rightarrow> pbind (iter_or_empty (jget ''supportedFields'' p)) (\<lambda>vs. pbind (jset vs) (\<lambda>fs. Inr (Some fs))))"

definition runtime_family :: "obj option \<Rightarrow> json" where
  "runtime_family profile = (case profile of None \<Rightarrow> JNull | Some p \<Rightarrow> jget ''runtimeFamily'' p)"

definition check_param :: "l2_view \<Rightarrow> nat \<Rightarrow> json \<Rightarrow> string \<times> json \<Rightarrow> mdiag list py" where
  "check_param l2v i sid item =
     (case item of (name, spec) \<Rightarrow>
        (case map_of (l2_types l2v) name of
           None \<Rightarrow> Inr [mdiag_at ''NEU-4001'' (''parameter '' @ repr_str name @ '' is not declared by L2'') i sid]
         | Some want \<Rightarrow>
             let got = jget ''type'' (as_obj spec)
             in emit_if (want \<noteq> JNull \<and> \<not> jeq got want) (mdiag_at ''NEU-4003'' (''parameter '' @ repr_str name
                  @ '' bound as type '' @ py_repr got @ '' != L2-declared '' @ py_repr want) i sid)))"

definition check_l3_binding ::
    "l2_view \<Rightarrow> json \<Rightarrow> json \<Rightarrow> json list option \<Rightarrow> string list \<Rightarrow> nat \<Rightarrow> json \<Rightarrow> mdiag list py" where
  "check_l3_binding l2v pid family supported hooks i v =
     (case v of
        JObj b \<Rightarrow>
          (let sid = jget ''slotId'' b
           in chks
             [each (as_obj (jget ''parameterBindings'' b)) (check_param l2v i sid),
              pbind (iter_or_empty (jget ''derivedConcepts'' b)) (\<lambda>cs. each cs (\<lambda>c.
                emit_ifp (not_in_strs c (traceable l2v)) (mdiag_at ''NEU-4004'' (''derivedConcept '' @ py_repr c
                  @ '' does not trace to any L2 parameter or concept'') i sid))),
              emit_if (family \<noteq> JNull \<and> jget ''deferred'' b \<noteq> JBool True \<and> \<not> jeq (jget ''runtime'' b) family)
                (mdiag_at ''NEU-3002'' (''runtime '' @ py_repr (jget ''runtime'' b) @ '' does not match backend profile ''
                  @ py_repr pid @ '' runtimeFamily '' @ py_repr family) i sid),
              (case supported of
                 None \<Rightarrow> Inr []
               | Some fs \<Rightarrow> each hooks (\<lambda>f. emit_if (jhas f b \<and> JStr f \<notin> set fs)
                   (mdiag_at ''NEU-3002'' (''field '' @ repr_str f @ '' is not supported by backend profile ''
                     @ py_repr pid) i sid)))])
      | _ \<Rightarrow> Inr [])"

definition bound_params :: "json list \<Rightarrow> string list" where
  "bound_params bindings =
     concat (map (\<lambda>b. jkeys (as_obj (jget ''parameterBindings'' (as_obj b)))) (filter is_obj bindings))"

definition validate_l3 ::
    "obj \<Rightarrow> json list \<Rightarrow> json option \<Rightarrow> json option \<Rightarrow> string list \<Rightarrow> mdiag list py" where
  "validate_l3 m bindings l2 profiles hooks = chks
     [check_l2_ref m l2,
      pbind (l2_index l2) (\<lambda>l2v.
        let pid = jget ''backendProfile'' m
        in pbind (find_profile profiles pid) (\<lambda>profile. chks
             [check_profile_known profiles pid profile,
              pbind (supported_fields profile) (\<lambda>supported. chks
                [each_i bindings (check_l3_binding l2v pid (runtime_family profile) supported hooks),
                 each (sorted_diff (l2_needs l2v) (bound_params bindings)) (\<lambda>name.
                   Inr [mdiag ''NEU-4002'' (''required L2 parameter '' @ repr_str name
                     @ '' is not bound by the manifest'')])])]))]"

definition is_deferred :: "json \<Rightarrow> bool" where
  "is_deferred b \<longleftrightarrow> is_obj b \<and> jget ''deferred'' (as_obj b) = JBool True"

definition manifest_status :: "obj \<Rightarrow> json option \<Rightarrow> mdiag list \<Rightarrow> string py" where
  "manifest_status m profiles diags =
     (if diags \<noteq> [] then Inr ''invalid''
      else if list_ex is_deferred (bindings_of m) then Inr ''deferred''
      else pbind (find_profile profiles (jget ''backendProfile'' m)) (\<lambda>profile.
        case profile of
          None \<Rightarrow> Inr ''complete''
        | Some p \<Rightarrow> Inr (if jget ''maturity'' p = JStr ''simulation-only'' then ''simulation-only'' else ''complete'')))"

section \<open>The whole check and its report\<close>

definition validate_core :: "obj \<Rightarrow> json \<Rightarrow> mdiag list py" where
  "validate_core m topo = chks
     [check_shape m topo,
      check_capability m (as_obj topo),
      pbind (index_slots (as_obj topo)) (\<lambda>slots. chks
        [emit_if (bindings_of m = []) (mdiag ''NEU-1001'' ''bindings must be a non-empty array''),
         each_i (bindings_of m) (check_binding (binding_allowed m) slots),
         check_coverage slots (bound_slot_ids (bindings_of m))])]"

definition manifest_diags ::
    "json \<Rightarrow> json \<Rightarrow> json option \<Rightarrow> json option \<Rightarrow> string list \<Rightarrow> mdiag list py" where
  "manifest_diags v topo l2 profiles hooks =
     (case v of
        JObj m \<Rightarrow> chks
          [validate_core m topo,
           guarded (is_l3 m) (validate_l3 m (bindings_of m) l2 profiles hooks)]
      | _ \<Rightarrow> Inr [mdiag ''NEU-1001'' ''manifest must be a JSON object''])"

text \<open>
  \<open>sorted_diags\<close>: by index, code and slot, an absent index before all and an absent slot as the
  empty text. The sort raises when two slots that decide the order are not of one kind.
\<close>

definition md_slot_key :: "mdiag \<Rightarrow> int \<times> string" where
  "md_slot_key d = (if md_slot d = JNull then (0, []) else (number_key (md_slot d), str_of (md_slot d)))"

definition md_key :: "mdiag \<Rightarrow> int \<times> string \<times> int \<times> string" where
  "md_key d = (case md_index d of None \<Rightarrow> - 1 | Some i \<Rightarrow> int i, md_code d, md_slot_key d)"

definition same_kind :: "mdiag \<Rightarrow> mdiag \<Rightarrow> bool" where
  "same_kind d e \<longleftrightarrow> md_index d = md_index e \<and> md_code d = md_code e \<longrightarrow>
     md_slot d = md_slot e \<or> (is_number (md_slot d) \<longleftrightarrow> is_number (md_slot e))"

definition sorted_diags :: "mdiag list \<Rightarrow> mdiag list py" where
  "sorted_diags ds =
     (if list_all (\<lambda>d. list_all (same_kind d) ds) ds then Inr (sort_key md_key ds) else Inl TypeError)"

definition manifest_report ::
    "json \<Rightarrow> json option \<Rightarrow> mdiag list \<Rightarrow> json py" where
  "manifest_report v profiles ds =
     (let cap = jget ''capability'' (as_obj v)
      in pbind (if is_l3 (as_obj v) then pbind (manifest_status (as_obj v) profiles ds) (\<lambda>s. Inr [(''status'', JStr s)])
                else Inr []) (\<lambda>status.
         pbind (sorted_diags ds) (\<lambda>sds.
           Inr (JObj ([(''schemaVersion'', JInt 1), (''kind'', JStr ''neutrino.binding-manifest-validation''),
             (''ok'', JBool (ds = [])), (''capability'', if nonempty_str cap then cap else JNull),
             (''diagnostics'', JList (map mdiag_json sds))] @ status)))))"

text \<open>The lines \<open>main\<close> prints without \<open>--json\<close>.\<close>

definition manifest_text :: "json \<Rightarrow> json option \<Rightarrow> mdiag list \<Rightarrow> string list py" where
  "manifest_text v profiles ds =
     pbind (if is_l3 (as_obj v) then pbind (manifest_status (as_obj v) profiles ds)
              (\<lambda>s. Inr ('' [status: '' @ s @ '']''))
            else Inr []) (\<lambda>status.
       pbind (sorted_diags ds) (\<lambda>sds.
         Inr (map (\<lambda>d. ''  - '' @ md_code d @ '' '' @ fst (the (map_of taxonomy (md_code d)))
                @ (if truthy (md_slot d) then '' ['' @ py_str (md_slot d) @ '']'' else []) @ '': '' @ md_message d) sds
              @ [if sds = [] then ''binding-manifest check: OK'' @ status
                 else ''binding-manifest check: '' @ show_nat (length sds) @ '' diagnostic(s)'' @ status])))"

text \<open>The run of \<open>main\<close> with \<open>--json\<close>: the report it prints and its exit status.\<close>

definition manifest_main ::
    "json \<Rightarrow> json \<Rightarrow> json option \<Rightarrow> json option \<Rightarrow> string list \<Rightarrow> (json \<times> nat) py" where
  "manifest_main v topo l2 profiles hooks =
     pbind (manifest_diags v topo l2 profiles hooks) (\<lambda>ds.
       pbind (manifest_report v profiles ds) (\<lambda>r. Inr (r, if ds = [] then 0 else 1)))"

end
