(* ===== verification/ManifestProps.thy ===== *)
theory ManifestProps
  imports BindingManifest
begin

text \<open>
  What an accepted binding manifest realizes. \<open>realizes\<close> is the contract in terms of the slots of
  the topology, without index, order or messages; the core check implements it against every
  topology its own gate accepts. The client facts come from the locale \<open>slot_index\<close> through its
  interpretation \<open>topology\<close>.
\<close>

section \<open>The contract\<close>

definition policy_met :: "obj \<Rightarrow> obj \<Rightarrow> bool" where
  "policy_met b slot \<longleftrightarrow>
     in_list (jget ''runtime'' b) (as_list (jget ''allowedRuntimes'' slot)) \<and>
     (\<exists>a l t u. jget ''assurance'' b = JStr a \<and> jget ''minAssurance'' slot = JStr l \<and>
        tier_of a = Some t \<and> tier_of l = Some u \<and> u \<le> t) \<and>
     jget ''binder'' b = jget ''authorizedBinder'' slot"

definition binds :: "obj \<Rightarrow> slot_entry \<Rightarrow> bool" where
  "binds b en \<longleftrightarrow> (case en of (oid, pid, slot) \<Rightarrow>
     jget ''slotId'' b = jget ''slotId'' slot \<and> jget ''organizationId'' b = oid \<and>
     jget ''participantId'' b = pid \<and> jget ''lateBindingMode'' slot = JStr ''to_be_bound'' \<and>
     policy_met b slot)"

definition realizes :: "obj \<Rightarrow> obj \<Rightarrow> bool" where
  "realizes m topo \<longleftrightarrow>
     (\<forall>v \<in> set (bindings_of m). \<exists>b. v = JObj b \<and> (\<exists>en \<in> set (topology_slots topo). binds b en)) \<and>
     distinct (map (\<lambda>v. jget ''slotId'' (as_obj v)) (bindings_of m)) \<and>
     (\<forall>en \<in> set (topology_slots topo). jget ''lateBindingMode'' (snd (snd en)) = JStr ''to_be_bound'' \<longrightarrow>
        (\<exists>b. JObj b \<in> set (bindings_of m) \<and> binds b en))"

text \<open>The parts of acceptance that concern the manifest alone.\<close>

definition well_shaped :: "obj \<Rightarrow> bool" where
  "well_shaped m \<longleftrightarrow>
     set (jkeys m) \<subseteq> set (top_allowed m) \<and> jget ''kind'' m = JStr ''neutrino.binding-manifest'' \<and>
     (eq_int (jget ''schemaVersion'' m) 1 \<or> eq_int (jget ''schemaVersion'' m) 2) \<and> bindings_of m \<noteq> [] \<and>
     (\<forall>b. JObj b \<in> set (bindings_of m) \<longrightarrow> set (jkeys b) \<subseteq> set (binding_allowed m))"

section \<open>The topology side\<close>

lemma jeq_JNull_right: "jeq v JNull \<longleftrightarrow> v = JNull"
  by (cases v) auto

lemma topology_owner:
  assumes "topology_errors topo = Inr []" and "(oid, pid, s) \<in> set (topology_slots topo)"
  shows "oid = JNull \<or> nonempty_str oid"
proof -
  note pass = topology_pass [OF assms(1)]
  obtain org where at: "JObj org \<in> set (organizations_of topo)" "oid = jget ''organizationId'' org"
    using assms(2) unfolding in_topology_slots by blast
  obtain i seen where
    "topology_organization (jget ''capability'' topo) (idx ''organizations'' i) seen (JObj org) = Inr []"
    using each_st_member_pass [OF pass(4) at(1)] .
  then show ?thesis using at(2) by (auto simp: topology_organization_def checks)
qed

lemma jeq_owner: "oid = JNull \<or> nonempty_str oid \<Longrightarrow> jeq v oid \<longleftrightarrow> v = oid"
  by (auto simp: jeq_JNull_right jeq_JStr_right nonempty_str_iff)

lemma accepted_not_malformed:
  assumes "topology_errors topo = Inr []"
  shows "\<not> topology_malformed topo" and "topology_kind_ok (JObj topo)" and "nonempty_str (jget ''capability'' topo)"
proof -
  note pass = topology_pass [OF assms]
  have org: "\<not> organization_malformed org" if "org \<in> set (organizations_of topo)" for org
  proof -
    note org_in = that
    obtain i seen where
      o: "topology_organization (jget ''capability'' topo) (idx ''organizations'' i) seen org = Inr []"
      using each_st_member_pass [OF pass(4) org_in] .
    note org = topology_organization_pass [OF o pass(1)]
    have "is_list (jget ''slots'' (as_obj p))" if "p \<in> set (participants_of org)" for p
      using org(3) [OF that] by (cases "jget ''slots'' (as_obj p)") (simp_all add: slots_of_def)
    then have "\<not> participant_malformed p" if "p \<in> set (participants_of org)" for p
      using that org(3) [OF that] org(4) [OF that] by (auto simp: participant_malformed_def list_ex_iff)
    moreover have "is_list (jget ''participants'' (as_obj org))"
      using org(2) by (cases "jget ''participants'' (as_obj org)") (simp_all add: participants_of_def)
    ultimately show ?thesis using org(1) by (simp add: organization_malformed_def list_ex_iff)
  qed
  with pass(3) show "\<not> topology_malformed topo" by (auto simp: topology_malformed_def list_ex_iff)
  show "topology_kind_ok (JObj topo)"
    using assms by (simp add: topology_errors_def topology_header_def topology_kind_ok_def checks)
  show "nonempty_str (jget ''capability'' topo)" by (rule pass(1))
qed

section \<open>Bindings against the index\<close>

lemma tier_known: "a \<in> set assurance_levels \<longleftrightarrow> (\<exists>t. tier_of a = Some t)"
  by (auto simp: assurance_levels_def tier_of_def split: if_splits)

lemma check_policy_pass:
  assumes "slot_admissible cap oid pid slot" and "oid = JNull \<or> nonempty_str oid"
  shows "check_policy i b slot = Inr [] \<longleftrightarrow> policy_met b slot"
proof -
  obtain l u where l: "jget ''minAssurance'' slot = JStr l" "tier_of l = Some u"
    using assms(1) tier_known by (auto simp: slot_admissible_def)
  obtain rs where rs: "jget ''allowedRuntimes'' slot = JList rs"
    using assms(1) by (auto simp: slot_admissible_def)
  have "jget ''authorizedBinder'' slot = JNull \<or> jget ''authorizedBinder'' slot = oid"
    using assms(1) jget_notin by (auto simp: slot_admissible_def)
  then have bound: "jeq (jget ''binder'' b) (jget ''authorizedBinder'' slot) \<longleftrightarrow>
      jget ''binder'' b = jget ''authorizedBinder'' slot"
    using assms(2) jeq_owner by metis
  have runtime: "in_or_empty (jget ''runtime'' b) (JList rs) = Inr (in_list (jget ''runtime'' b) rs)"
    by (simp add: in_or_empty_def in_list_def)
  have assurance: "(pbind (tier_get (jget ''assurance'' b)) (\<lambda>known. case known of
           None \<Rightarrow> Inr [d] | Some t \<Rightarrow> pbind (tier_get (jget ''minAssurance'' slot)) (\<lambda>least.
             emit_if (t < (case least of None \<Rightarrow> A1 | Some l \<Rightarrow> l)) e)) = Inr []) \<longleftrightarrow>
      (\<exists>a t. jget ''assurance'' b = JStr a \<and> tier_of a = Some t \<and> u \<le> t)" for d e :: mdiag
    by (cases "jget ''assurance'' b") (auto simp: l checks not_less split: option.splits)
  show ?thesis
    unfolding check_policy_def Let_def chks_pass list.set ball_simps assurance
    by (auto simp: runtime bound rs l checks policy_met_def)
qed

lemma check_owner_pass:
  assumes "slot_admissible cap oid pid slot" and "oid = JNull \<or> nonempty_str oid"
    and "jget ''slotId'' b = jget ''slotId'' slot"
  shows "check_owner i b (oid, pid, slot) = Inr [] \<longleftrightarrow> binds b (oid, pid, slot)"
proof -
  have "nonempty_str pid" using assms(1) by (simp add: slot_admissible_def)
  then have part: "jeq (jget ''participantId'' b) pid \<longleftrightarrow> jget ''participantId'' b = pid"
    by (simp add: jeq_owner)
  show ?thesis
    unfolding check_owner_def binds_def Let_def prod.case chks_pass list.set ball_simps
    by (auto simp: part jeq_owner [OF assms(2)] check_policy_pass [OF assms(1,2)] assms(3) emit_if_pass)
qed

lemma check_binding_pass:
  assumes topo: "topology_errors topo = Inr []"
    and slots: "\<And>k en. jlookup k slots = Some en \<longleftrightarrow> en \<in> set (topology_slots topo) \<and> entry_id en = k"
  shows "check_binding allowed slots i v = Inr [] \<longleftrightarrow>
    (\<exists>b. v = JObj b \<and> set (jkeys b) \<subseteq> set allowed \<and> (\<exists>en \<in> set (topology_slots topo). binds b en))"
proof (cases "is_obj v")
  case True
  then obtain b where v: "v = JObj b" by (auto simp: is_obj_iff)
  have owner: "check_owner i b en = Inr [] \<longleftrightarrow> binds b en"
    if "en \<in> set (topology_slots topo)" "entry_id en = jget ''slotId'' b" for en
  proof (cases en)
    case (fields oid pid slot)
    with that have mem: "(oid, pid, slot) \<in> set (topology_slots topo)"
      "jget ''slotId'' b = jget ''slotId'' slot" by (simp_all add: entry_id_def)
    show ?thesis
      unfolding fields
      by (rule check_owner_pass [OF topology_slots_admissible [OF topo mem(1)] topology_owner [OF topo mem(1)] mem(2)])
  qed
  have found: "(pbind (jdict_get (jget ''slotId'' b) slots) (\<lambda>found.
      case found of None \<Rightarrow> Inr [d] | Some en \<Rightarrow> check_owner i b en) = Inr []) \<longleftrightarrow>
      (\<exists>en \<in> set (topology_slots topo). binds b en)" (is "?l \<longleftrightarrow> ?r") for d
  proof
    assume ?l
    then obtain en where "jlookup (jget ''slotId'' b) slots = Some en" "check_owner i b en = Inr []"
      by (auto simp: jdict_get_def checks split: if_splits option.splits)
    with owner slots show ?r by blast
  next
    assume ?r
    then obtain en where en: "en \<in> set (topology_slots topo)" "binds b en" by blast
    then have id: "entry_id en = jget ''slotId'' b" by (auto simp: binds_def entry_id_def split: prod.splits)
    moreover have "hashable (jget ''slotId'' b)"
      using topology.text_ids [OF topo en(1)] id by (auto simp: hashable_def is_str_iff)
    moreover have "jlookup (jget ''slotId'' b) slots = Some en" using en(1) id slots by simp
    ultimately show ?l using en owner by (simp add: jdict_get_def)
  qed
  show ?thesis
    unfolding check_binding_def v json.case chks_pass list.set ball_simps found
    by (auto simp: no_unknown_def checks)
qed (cases v; simp add: check_binding_def)

section \<open>Coverage\<close>

lemma distinct_count_le: "distinct xs \<longleftrightarrow> (\<forall>x \<in> set xs. count_list xs x \<le> 1)"
proof (induction xs)
  case (Cons x xs)
  have "count_list xs x = 0 \<longleftrightarrow> x \<notin> set xs" by (simp add: count_list_0_iff)
  with Cons.IH show ?case by auto
qed simp

lemma count_of_strs: "count_of (JStr t) (map JStr ts) = count_list ts t"
  by (induction ts) (auto simp: count_of_def)

lemma jsorted_strs: "jsorted (map JStr ts) = Inr (map JStr (sort ts))"
proof (cases "length ts \<le> 1")
  case True
  then show ?thesis by (cases ts) (auto simp: jsorted_def)
next
  case False
  then show ?thesis by (simp add: jsorted_def list_all_iff o_def)
qed

lemma check_coverage_pass:
  assumes "to_bind slots = map JStr ks"
  shows "check_coverage slots (map JStr bs) = Inr [] \<longleftrightarrow> distinct bs \<and> set ks \<subseteq> set bs"
proof -
  let ?ids = "rev (fold List.insert bs [])"
  have "set (fold List.insert bs acc) = set bs \<union> set acc" for acc
    by (induction bs arbitrary: acc) auto
  then have ids: "set ?ids = set bs" by simp
  have rest: "filter (\<lambda>sid. \<not> in_list sid (map JStr ?ids)) (map JStr ks) = map JStr (filter (\<lambda>k. k \<notin> set bs) ks)"
    using ids by (induction ks) (auto simp del: set_rev)
  show ?thesis
    unfolding check_coverage_def jset_strs pbind_simps assms rest jsorted_strs chks_pass list.set ball_simps
    using ids by (auto simp: each_pass emit_if_pass count_of_strs not_less distinct_count_le)
qed

lemma bound_ids_strs:
  assumes "\<And>v. v \<in> set vs \<Longrightarrow> \<exists>b t. v = JObj b \<and> jget ''slotId'' b = JStr t"
  shows "bound_slot_ids vs = map JStr (map (\<lambda>v. str_of (jget ''slotId'' (as_obj v))) vs)"
  using assms by (induction vs) (fastforce simp: bound_slot_ids_def)+

text \<open>The core check on an accepted topology is the contract.\<close>

lemma to_bind_strs:
  assumes "topology_errors topo = Inr []" and "set slots = (\<lambda>en. (entry_id en, en)) ` set (topology_slots topo)"
  shows "\<exists>ks. to_bind slots = map JStr ks \<and> set ks = {t. \<exists>en \<in> set (topology_slots topo).
    entry_id en = JStr t \<and> jget ''lateBindingMode'' (snd (snd en)) = JStr ''to_be_bound''}"
proof -
  let ?T = "set (topology_slots topo)"
  have str: "is_str (entry_id en)" if "en \<in> ?T" for en using topology.text_ids [OF assms(1) that] .
  have keys: "set (to_bind slots) =
      entry_id ` {en \<in> ?T. jget ''lateBindingMode'' (snd (snd en)) = JStr ''to_be_bound''}"
    unfolding to_bind_def set_map set_filter assms(2) by force
  have "JStr (str_of k) = k" if "k \<in> set (to_bind slots)" for k
    using that str unfolding keys by (fastforce simp: is_str_iff)
  then have "to_bind slots = map JStr (map str_of (to_bind slots))" by (simp add: map_idI)
  moreover have "set (map str_of (to_bind slots)) = {t. \<exists>en \<in> ?T.
    entry_id en = JStr t \<and> jget ''lateBindingMode'' (snd (snd en)) = JStr ''to_be_bound''}"
    unfolding set_map keys using str by (force simp: is_str_iff image_iff)
  ultimately show ?thesis by blast
qed

lemma all_bindings:
  "(\<forall>i < length vs. \<exists>b. vs ! i = JObj b \<and> P b \<and> Q b) \<longleftrightarrow>
     (\<forall>v \<in> set vs. \<exists>b. v = JObj b \<and> Q b) \<and> (\<forall>b. JObj b \<in> set vs \<longrightarrow> P b)"
  by (fastforce simp: all_set_conv_all_nth in_set_conv_nth)

text \<open>The core check on an accepted topology, as a contract.\<close>

lemma coverage_realizes:
  assumes topo: "topology_errors topo = Inr []"
    and slots: "set slots = (\<lambda>en. (entry_id en, en)) ` set (topology_slots topo)"
    and bound: "\<forall>v \<in> set (bindings_of m). \<exists>b. v = JObj b \<and> (\<exists>en \<in> set (topology_slots topo). binds b en)"
  shows "check_coverage slots (bound_slot_ids (bindings_of m)) = Inr [] \<longleftrightarrow> realizes m topo"
proof -
  let ?T = "set (topology_slots topo)" and ?B = "bindings_of m"
  let ?id = "\<lambda>v. jget ''slotId'' (as_obj v)"
  have str: "\<exists>b t. v = JObj b \<and> jget ''slotId'' b = JStr t" if "v \<in> set ?B" for v
  proof -
    from bspec [OF bound that] obtain b en where "v = JObj b" "en \<in> ?T" "binds b en" by blast
    moreover then have "entry_id en = jget ''slotId'' b" by (auto simp: binds_def entry_id_def split: prod.splits)
    ultimately show ?thesis using topology.text_ids [OF topo] is_str_iff by metis
  qed
  then have ids: "bound_slot_ids ?B = map JStr (map (\<lambda>v. str_of (?id v)) ?B)"
    by (rule bound_ids_strs)
  obtain ks where ks: "to_bind slots = map JStr ks" and ks_set: "set ks = {t. \<exists>en \<in> ?T.
    entry_id en = JStr t \<and> jget ''lateBindingMode'' (snd (snd en)) = JStr ''to_be_bound''}"
    using to_bind_strs [OF topo slots] by blast
  have "?id v = JStr (str_of (?id v))" if "v \<in> set ?B" for v using str [OF that] by auto
  then have "map ?id ?B = map JStr (map (\<lambda>v. str_of (?id v)) ?B)" by simp
  then have "distinct (map ?id ?B) \<longleftrightarrow> distinct (map JStr (map (\<lambda>v. str_of (?id v)) ?B))" by (rule arg_cong)
  then have dist: "distinct (map (\<lambda>v. str_of (?id v)) ?B) \<longleftrightarrow> distinct (map ?id ?B)"
    by (simp only: distinct_map [of JStr] inj_on_def json.inject) simp
  have "set ks \<subseteq> set (map (\<lambda>v. str_of (?id v)) ?B) \<longleftrightarrow>
      (\<forall>en \<in> ?T. jget ''lateBindingMode'' (snd (snd en)) = JStr ''to_be_bound'' \<longrightarrow>
        (\<exists>b. JObj b \<in> set ?B \<and> binds b en))" (is "?l \<longleftrightarrow> ?r")
  proof
    assume ?l
    show ?r
    proof (intro ballI impI)
      fix en assume en: "en \<in> ?T" "jget ''lateBindingMode'' (snd (snd en)) = JStr ''to_be_bound''"
      then obtain t where t: "entry_id en = JStr t" using topology.text_ids [OF topo] is_str_iff by blast
      with en ks_set \<open>?l\<close> obtain v where "v \<in> set ?B" "str_of (?id v) = t" by auto
      moreover then obtain b where b: "v = JObj b" "jget ''slotId'' b = JStr t" using str by fastforce
      ultimately obtain en' where en': "en' \<in> ?T" "binds b en'" using bound by blast
      then have "entry_id en' = entry_id en" using b t by (auto simp: binds_def entry_id_def split: prod.splits)
      then have "en' = en" using topology.slot_unique [OF topo en'(1) en(1)] by blast
      with en' b \<open>v \<in> set ?B\<close> show "\<exists>b. JObj b \<in> set ?B \<and> binds b en" by blast
    qed
  next
    assume ?r
    show ?l
    proof
      fix t assume "t \<in> set ks"
      then obtain en where en: "en \<in> ?T" "entry_id en = JStr t"
        "jget ''lateBindingMode'' (snd (snd en)) = JStr ''to_be_bound''" using ks_set by blast
      then obtain b where b: "JObj b \<in> set ?B" "binds b en" using \<open>?r\<close> by blast
      then have "jget ''slotId'' b = JStr t" using en(2) by (auto simp: binds_def entry_id_def split: prod.splits)
      with b(1) show "t \<in> set (map (\<lambda>v. str_of (?id v)) ?B)" by force
    qed
  qed
  then show ?thesis
    unfolding ids check_coverage_pass [OF ks] dist realizes_def using bound by blast
qed

lemma validate_core_pass:
  assumes topo: "topology_errors topo = Inr []"
  shows "validate_core m (JObj topo) = Inr [] \<longleftrightarrow>
    well_shaped m \<and> jget ''capability'' m = jget ''capability'' topo \<and> realizes m topo"
proof -
  obtain slots where "index_entries [] (topology_slots topo) = Inr slots"
    and look: "\<And>k en. jlookup k slots = Some en \<longleftrightarrow> en \<in> set (topology_slots topo) \<and> entry_id en = k"
    and entries: "set slots = (\<lambda>en. (entry_id en, en)) ` set (topology_slots topo)"
    by (rule topology.index_exact [OF topo]) (rule that)
  then have index: "index_slots topo = Inr slots" by (simp add: index_slots_def)
  note topo_ok = accepted_not_malformed [OF topo]
  have loop: "each_i (bindings_of m) (check_binding (binding_allowed m) slots) = Inr [] \<longleftrightarrow>
      (\<forall>v \<in> set (bindings_of m). \<exists>b. v = JObj b \<and> (\<exists>en \<in> set (topology_slots topo). binds b en)) \<and>
      (\<forall>b. JObj b \<in> set (bindings_of m) \<longrightarrow> set (jkeys b) \<subseteq> set (binding_allowed m))"
    unfolding each_i_pass check_binding_pass [OF topo look] by (rule all_bindings)
  have shape: "check_shape m (JObj topo) = Inr [] \<longleftrightarrow>
      set (jkeys m) \<subseteq> set (top_allowed m) \<and> jget ''kind'' m = JStr ''neutrino.binding-manifest'' \<and>
      (eq_int (jget ''schemaVersion'' m) 1 \<or> eq_int (jget ''schemaVersion'' m) 2)"
    by (auto simp: check_shape_def checks no_unknown_def topo_ok)
  have cap: "check_capability m topo = Inr [] \<longleftrightarrow> jget ''capability'' m = jget ''capability'' topo"
    using topo_ok(3) by (auto simp: check_capability_def checks Let_def)
  have real: "realizes m topo \<Longrightarrow>
      \<forall>v \<in> set (bindings_of m). \<exists>b. v = JObj b \<and> (\<exists>en \<in> set (topology_slots topo). binds b en)"
    by (simp add: realizes_def)
  show ?thesis
    unfolding validate_core_def chks_pass list.set ball_simps as_obj.simps index pbind_simps shape cap loop
      well_shaped_def emit_if_pass
    using coverage_realizes [OF topo entries] real by blast
qed

section \<open>Acceptance of a manifest\<close>

lemma distinct_map_ex1:
  assumes "distinct (map f xs)" and "x \<in> set xs"
  shows "\<exists>!i. i < length xs \<and> f (xs ! i) = f x"
proof -
  obtain i where i: "i < length xs" "xs ! i = x" using assms(2) by (auto simp: in_set_conv_nth)
  have "j = i" if "j < length xs" "f (xs ! j) = f x" for j
    using nth_eq_iff_index_eq [OF assms(1), of j i] that i by simp
  with i show ?thesis by blast
qed

lemma manifest_accepts:
  "(\<exists>r. manifest_main (JObj m) topo l2 profiles hooks = Inr (r, 0)) \<longleftrightarrow>
     validate_core m topo = Inr [] \<and>
     (is_l3 m \<longrightarrow> validate_l3 m (bindings_of m) l2 profiles hooks = Inr [] \<and>
        (\<exists>s. manifest_status m profiles [] = Inr s))"
proof -
  have "(\<exists>r. manifest_main (JObj m) topo l2 profiles hooks = Inr (r, 0)) \<longleftrightarrow>
      manifest_diags (JObj m) topo l2 profiles hooks = Inr [] \<and> (\<exists>r. manifest_report (JObj m) profiles [] = Inr r)"
    by (auto simp: manifest_main_def pbind_Inr_conv split: if_splits)
  also have "(\<exists>r. manifest_report (JObj m) profiles [] = Inr r) \<longleftrightarrow>
      (is_l3 m \<longrightarrow> (\<exists>s. manifest_status m profiles [] = Inr s))"
    by (auto simp: manifest_report_def Let_def pbind_Inr_conv sorted_diags_def)
  also have "manifest_diags (JObj m) topo l2 profiles hooks = Inr [] \<longleftrightarrow>
      validate_core m topo = Inr [] \<and> (is_l3 m \<longrightarrow> validate_l3 m (bindings_of m) l2 profiles hooks = Inr [])"
    by (simp add: manifest_diags_def checks)
  finally show ?thesis by blast
qed

definition binding_doc :: "string \<Rightarrow> (string \<times> json) list \<Rightarrow> json" where
  "binding_doc tier extra = JObj ([(''organizationId'', JStr ''acme''), (''participantId'', JStr ''payer''),
     (''slotId'', JStr ''pay#payer''), (''runtime'', JStr ''cordapp''), (''assurance'', JStr tier),
     (''binder'', JStr ''acme'')] @ extra)"

definition manifest_doc :: "int \<Rightarrow> json list \<Rightarrow> (string \<times> json) list \<Rightarrow> obj" where
  "manifest_doc version bs extra = [(''kind'', JStr ''neutrino.binding-manifest''), (''schemaVersion'', JInt version),
     (''capability'', JStr ''pay''), (''bindings'', JList bs)] @ extra"

definition sample_manifest :: obj where
  "sample_manifest = manifest_doc 1 [binding_doc ''A3'' []] []"

lemma sample_manifest_ok:
  "\<exists>r. manifest_main (JObj sample_manifest) (JObj sample_topology) None None l3_hook_fields = Inr (r, 0)"
  by (rule exI) code_simp

text \<open>C8. On a topology its gate accepts, the check of a core manifest implements the contract: the
  report is ok with exit status 0 iff the manifest is well shaped, names the capability of the
  topology and realizes it, that is, every binding is of a slot to be bound, with the slot's owner,
  an allowed runtime, an assurance tier not below the minimum and the authorized binder, no slot is
  bound twice, and every slot to be bound has a binding.\<close>

theorem manifest_check_implements_contract:
  assumes "topology_main (JObj topo) = Inr (out, 0)" and "\<not> is_l3 m"
  shows "(\<exists>r. manifest_main (JObj m) (JObj topo) l2 profiles hooks = Inr (r, 0)) \<longleftrightarrow>
    well_shaped m \<and> jget ''capability'' m = jget ''capability'' topo \<and> realizes m topo"
proof -
  have "topology_errors topo = Inr []" using assms(1) by (simp add: topology_main_ok)
  then show ?thesis using assms(2) by (simp add: manifest_accepts validate_core_pass)
qed

lemma manifest_check_implements_contract_witness:
  "realizes sample_manifest sample_topology \<and>
   \<not> realizes (manifest_doc 1 [binding_doc ''A1'' []] []) sample_topology"
proof -
  let ?low = "manifest_doc 1 [binding_doc ''A1'' []] []"
  have v1: "\<not> is_l3 sample_manifest" "\<not> is_l3 ?low" by code_simp+
  obtain out where out: "topology_main (JObj sample_topology) = Inr (out, 0)"
    using sample_topology_ok by (simp add: topology_main_ok)
  have "\<exists>r. manifest_main (JObj ?low) (JObj sample_topology) None None l3_hook_fields = Inr (r, 1)"
    by (rule exI) code_simp
  then have "\<nexists>r. manifest_main (JObj ?low) (JObj sample_topology) None None l3_hook_fields = Inr (r, 0)" by auto
  moreover have "well_shaped ?low" "jget ''capability'' ?low = jget ''capability'' sample_topology"
    by (auto simp: well_shaped_def manifest_doc_def binding_doc_def bindings_of_def jget_def jget_or_def jkeys_def
        top_allowed_def binding_allowed_def sample_topology_def topology_doc_def)
  ultimately show ?thesis
    using manifest_check_implements_contract [OF out v1(1)] manifest_check_implements_contract [OF out v1(2)]
      sample_manifest_ok by blast
qed

text \<open>C9. An accepted manifest of either version, on an accepted topology, binds every slot to be
  bound by exactly one of its bindings, which meets the slot's policy, and a binder it names is the
  organization that owns the slot.\<close>

theorem accepted_manifest_binds_once:
  assumes "topology_main (JObj topo) = Inr (out, 0)"
    and "manifest_main (JObj m) (JObj topo) l2 profiles hooks = Inr (r, 0)"
    and "(oid, pid, slot) \<in> set (topology_slots topo)" and "jget ''lateBindingMode'' slot = JStr ''to_be_bound''"
  shows "(\<exists>!i. i < length (bindings_of m) \<and>
      jget ''slotId'' (as_obj (bindings_of m ! i)) = jget ''slotId'' slot) \<and>
    (\<exists>b. JObj b \<in> set (bindings_of m) \<and> binds b (oid, pid, slot) \<and>
      (jget ''binder'' b = JNull \<or> jget ''binder'' b = oid))"
proof -
  have topo: "topology_errors topo = Inr []" using assms(1) by (simp add: topology_main_ok)
  then have real: "realizes m topo"
    using manifest_accepts assms(2) validate_core_pass by blast
  then obtain b where b: "JObj b \<in> set (bindings_of m)" "binds b (oid, pid, slot)"
    using assms(3,4) unfolding realizes_def by fastforce
  then have id: "jget ''slotId'' b = jget ''slotId'' slot" by (simp add: binds_def)
  have "distinct (map (\<lambda>v. jget ''slotId'' (as_obj v)) (bindings_of m))"
    using real by (simp add: realizes_def)
  from distinct_map_ex1 [OF this b(1)] have "\<exists>!i. i < length (bindings_of m) \<and>
      jget ''slotId'' (as_obj (bindings_of m ! i)) = jget ''slotId'' slot" by (simp add: id)
  moreover have "jget ''authorizedBinder'' slot = JNull \<or> jget ''authorizedBinder'' slot = oid"
    using topology_slots_admissible [OF topo assms(3)] jget_notin by (auto simp: slot_admissible_def)
  then have "\<exists>b. JObj b \<in> set (bindings_of m) \<and> binds b (oid, pid, slot) \<and>
      (jget ''binder'' b = JNull \<or> jget ''binder'' b = oid)"
    using b by (auto simp: binds_def policy_met_def)
  ultimately show ?thesis by blast
qed

lemma accepted_manifest_binds_once_witness:
  "\<exists>!i. i < length (bindings_of sample_manifest) \<and>
     jget ''slotId'' (as_obj (bindings_of sample_manifest ! i)) = JStr ''pay#payer''"
proof -
  obtain out where out: "topology_main (JObj sample_topology) = Inr (out, 0)"
    using sample_topology_ok by (simp add: topology_main_ok)
  obtain r where r: "manifest_main (JObj sample_manifest) (JObj sample_topology) None None l3_hook_fields = Inr (r, 0)"
    using sample_manifest_ok by blast
  let ?slot = "snd (snd (hd (topology_slots sample_topology)))"
  have slot: "jget ''slotId'' ?slot = JStr ''pay#payer''" "jget ''lateBindingMode'' ?slot = JStr ''to_be_bound''"
    "(JStr ''acme'', JStr ''payer'', ?slot) \<in> set (topology_slots sample_topology)"
    by (simp_all add: sample_topology_def topology_doc_def org_doc_def topology_slot_doc_def topology_slots_def
        organizations_of_def organization_slots_def participants_of_def participant_slots_def slots_of_def
        jget_def jget_or_def)
  from accepted_manifest_binds_once [OF out r slot(3) slot(2)] show ?thesis by (simp add: slot(1))
qed

section \<open>The L3 layer\<close>

lemma l2_params_declared:
  assumes "map_of (l2_params ps) name = Some want"
  shows "\<exists>p. JObj p \<in> set ps \<and> jget ''name'' p = JStr name \<and> jget ''type'' p = want"
proof -
  have "map_of (fold (\<lambda>p params.
     if is_obj p \<and> nonempty_str (jget ''name'' (as_obj p))
     then dict_set (str_of (jget ''name'' (as_obj p))) (jget ''type'' (as_obj p)) params else params) ps acc) name
     = Some want \<Longrightarrow> (\<exists>p. JObj p \<in> set ps \<and> jget ''name'' p = JStr name \<and> jget ''type'' p = want)
       \<or> map_of acc name = Some want" for acc
  proof (induction ps arbitrary: acc)
    case (Cons p ps)
    from Cons.IH [OF Cons.prems [unfolded fold_Cons o_apply]]
    show ?case by (fastforce simp: is_obj_iff nonempty_str_iff split: if_splits)
  qed simp
  from this [of "[]"] show ?thesis using assms by (simp add: l2_params_def)
qed

lemma validate_l3_pass:
  assumes "validate_l3 m bs (Some (JObj l2)) profiles hooks = Inr []"
  obtains ps cs profile supported where
    "iter_or_empty (jget ''parameters'' l2) = Inr ps" "iter_or_empty (jget ''concepts'' l2) = Inr cs"
    "check_l2_ref m (Some (JObj l2)) = Inr []"
    "find_profile profiles (jget ''backendProfile'' m) = Inr (Some profile)"
    "supported_fields (Some profile) = Inr (Some supported)"
    "\<And>i. i < length bs \<Longrightarrow> check_l3_binding \<lparr>l2_types = l2_params ps, l2_needs = l2_required ps,
       l2_names = concat (map l2_concept cs)\<rparr> (jget ''backendProfile'' m) (runtime_family (Some profile))
       (Some supported) hooks i (bs ! i) = Inr []"
    "set (l2_required ps) \<subseteq> set (bound_params bs)"
proof -
  note pass = assms [unfolded validate_l3_def chks_pass list.set ball_simps Let_def]
  then obtain l2v profile supp where v: "l2_index (Some (JObj l2)) = Inr l2v"
    and f: "find_profile profiles (jget ''backendProfile'' m) = Inr profile"
    and k: "check_profile_known profiles (jget ''backendProfile'' m) profile = Inr []"
    and s: "supported_fields profile = Inr supp"
    and loop: "each_i bs (check_l3_binding l2v (jget ''backendProfile'' m) (runtime_family profile) supp hooks) = Inr []"
    and need: "sorted_diff (l2_needs l2v) (bound_params bs) = []"
    unfolding pbind_Inr_conv chks_pass list.set ball_simps each_pass
    by (auto simp: sorted_diff_Nil_iff)
  obtain q where q: "profile = Some q"
    using k f by (cases profile; cases profiles) (auto simp: check_profile_known_def checks find_profile_def)
  obtain fs where fs: "supp = Some fs" using s q by (auto simp: supported_fields_def pbind_Inr_conv)
  obtain ps cs where "iter_or_empty (jget ''parameters'' l2) = Inr ps" "iter_or_empty (jget ''concepts'' l2) = Inr cs"
    "l2v = \<lparr>l2_types = l2_params ps, l2_needs = l2_required ps, l2_names = concat (map l2_concept cs)\<rparr>"
    using v by (auto simp: l2_index_def pbind_Inr_conv)
  with f s q fs loop need pass show thesis
    by (intro that [of ps cs q fs]) (simp_all add: each_i_pass sorted_diff_Nil_iff)
qed

text \<open>C11. An accepted L3 manifest is traceable to its L2 interface: the interface is for the same
  capability, every required parameter is bound by some binding, every bound parameter is declared
  there and bound at the declared type if there is one, and every derived concept names a parameter
  or a concept of the interface.\<close>

theorem accepted_l3_manifest_traceable:
  assumes "manifest_main (JObj m) topo (Some (JObj l2)) profiles hooks = Inr (r, 0)" and "is_l3 m"
  shows "(nonempty_str (jget ''capability'' l2) \<and> nonempty_str (jget ''capability'' m) \<longrightarrow>
      jget ''capability'' l2 = jget ''capability'' m) \<and>
    (\<exists>ps cs. iter_or_empty (jget ''parameters'' l2) = Inr ps \<and> iter_or_empty (jget ''concepts'' l2) = Inr cs \<and>
      (\<forall>p t. JObj p \<in> set ps \<and> jget ''name'' p = JStr t \<and> t \<noteq> [] \<and> jget ''required'' p = JBool True \<longrightarrow>
        (\<exists>b. JObj b \<in> set (bindings_of m) \<and> jhas t (as_obj (jget ''parameterBindings'' b)))) \<and>
      (\<forall>b t v. JObj b \<in> set (bindings_of m) \<and> (t, v) \<in> set (as_obj (jget ''parameterBindings'' b)) \<longrightarrow>
        (\<exists>p. JObj p \<in> set ps \<and> jget ''name'' p = JStr t \<and>
          (jget ''type'' p = JNull \<or> jeq (jget ''type'' (as_obj v)) (jget ''type'' p)))) \<and>
      (\<forall>b ds c. JObj b \<in> set (bindings_of m) \<and> iter_or_empty (jget ''derivedConcepts'' b) = Inr ds \<and> c \<in> set ds \<longrightarrow>
        (\<exists>t. c = JStr t \<and> (t \<in> fst ` set (l2_params ps) \<or> t \<in> set (concat (map l2_concept cs))))))"
proof -
  have pass: "validate_l3 m (bindings_of m) (Some (JObj l2)) profiles hooks = Inr []"
    using manifest_accepts assms by blast
  from validate_l3_pass [OF pass] obtain ps cs profile supported where
    ps: "iter_or_empty (jget ''parameters'' l2) = Inr ps" and cs: "iter_or_empty (jget ''concepts'' l2) = Inr cs"
    and ref: "check_l2_ref m (Some (JObj l2)) = Inr []"
    and loop: "\<And>i. i < length (bindings_of m) \<Longrightarrow> check_l3_binding \<lparr>l2_types = l2_params ps,
       l2_needs = l2_required ps, l2_names = concat (map l2_concept cs)\<rparr> (jget ''backendProfile'' m)
       (runtime_family (Some profile)) (Some supported) hooks i (bindings_of m ! i) = Inr []"
    and need: "set (l2_required ps) \<subseteq> set (bound_params (bindings_of m))"
    by metis
  let ?v = "\<lparr>l2_types = l2_params ps, l2_needs = l2_required ps, l2_names = concat (map l2_concept cs)\<rparr>"
  have params: "each (as_obj (jget ''parameterBindings'' b)) (check_param ?v i (jget ''slotId'' b)) = Inr []"
    and concepts: "iter_or_empty (jget ''derivedConcepts'' b) = Inr ds \<Longrightarrow> c \<in> set ds \<Longrightarrow>
      \<exists>t \<in> set (traceable ?v). c = JStr t"
    if "i < length (bindings_of m)" "bindings_of m ! i = JObj b" for i b ds c
    using loop [OF that(1)] that(2) by (auto simp: check_l3_binding_def Let_def checks)
  have cap: "jget ''capability'' l2 = jget ''capability'' m"
    if "nonempty_str (jget ''capability'' l2)" "nonempty_str (jget ''capability'' m)"
    using ref that by (simp add: check_l2_ref_def Let_def checks)
  have req: "\<exists>b. JObj b \<in> set (bindings_of m) \<and> jhas t (as_obj (jget ''parameterBindings'' b))"
    if "JObj p \<in> set ps" "jget ''name'' p = JStr t" "t \<noteq> []" "jget ''required'' p = JBool True" for p t
  proof -
    have "t \<in> set (l2_required ps)" using that by (force simp: l2_required_def)
    with need have "t \<in> set (bound_params (bindings_of m))" by blast
    then show ?thesis by (auto simp: bound_params_def is_obj_iff jhas_jkeys)
  qed
  have par: "\<exists>p. JObj p \<in> set ps \<and> jget ''name'' p = JStr t \<and>
      (jget ''type'' p = JNull \<or> jeq (jget ''type'' (as_obj v)) (jget ''type'' p))"
    if "JObj b \<in> set (bindings_of m)" "(t, v) \<in> set (as_obj (jget ''parameterBindings'' b))" for b t v
  proof -
    from that(1) obtain i where "i < length (bindings_of m)" "bindings_of m ! i = JObj b"
      by (auto simp: in_set_conv_nth)
    from params [OF this] that(2) obtain want where "map_of (l2_params ps) t = Some want"
      "want = JNull \<or> jeq (jget ''type'' (as_obj v)) want"
      by (fastforce simp: each_pass check_param_def Let_def emit_if_pass split: option.splits)
    with l2_params_declared [of ps t want] show ?thesis by metis
  qed
  have con: "\<exists>t. c = JStr t \<and> (t \<in> fst ` set (l2_params ps) \<or> t \<in> set (concat (map l2_concept cs)))"
    if "JObj b \<in> set (bindings_of m)" "iter_or_empty (jget ''derivedConcepts'' b) = Inr ds" "c \<in> set ds" for b ds c
  proof -
    from that(1) obtain i where "i < length (bindings_of m)" "bindings_of m ! i = JObj b"
      by (auto simp: in_set_conv_nth)
    from concepts [OF this that(2,3)] show ?thesis by (auto simp: traceable_def)
  qed
  show ?thesis
    by (intro conjI exI [of _ ps] exI [of _ cs] allI impI ps cs; (elim conjE)?)
      (rule cap req par con; assumption)+
qed

definition l2_doc :: obj where
  "l2_doc = [(''capability'', JStr ''pay''), (''parameters'', JList [JObj [(''name'', JStr ''limit''),
     (''type'', JStr ''money''), (''required'', JBool True)]]), (''concepts'', JList [JStr ''Escrow''])]"

definition profile_catalog :: "string \<Rightarrow> json" where
  "profile_catalog maturity = JObj [(''profiles'', JList [JObj [(''id'', JStr ''corda''), (''runtimeFamily'', JStr ''cordapp''),
     (''supportedFields'', JList [JStr ''observability'']), (''maturity'', JStr maturity)]])]"

definition l3_manifest :: "(string \<times> json) list \<Rightarrow> obj" where
  "l3_manifest hooks = manifest_doc 2 [binding_doc ''A3'' ([(''parameterBindings'', JObj [(''limit'',
       JObj [(''type'', JStr ''money'')])]), (''derivedConcepts'', JList [JStr ''Escrow''])] @ hooks)]
     [(''l2Ref'', JObj [(''artifact'', JStr ''l2.json''), (''capability'', JStr ''pay'')]), (''backendProfile'', JStr ''corda'')]"

lemma l3_manifest_ok:
  "\<exists>r. manifest_main (JObj (l3_manifest [(''observability'', JNull)])) (JObj sample_topology) (Some (JObj l2_doc))
     (Some (profile_catalog ''simulation-only'')) l3_hook_fields = Inr (r, 0)"
  by (rule exI) code_simp

lemma accepted_l3_manifest_traceable_witness:
  "\<exists>b. JObj b \<in> set (bindings_of (l3_manifest [(''observability'', JNull)])) \<and>
     jhas ''limit'' (as_obj (jget ''parameterBindings'' b))"
proof -
  let ?m = "l3_manifest [(''observability'', JNull)]"
  let ?p = "[(''name'', JStr ''limit''), (''type'', JStr ''money''), (''required'', JBool True)]"
  have l3: "is_l3 ?m" by code_simp
  obtain r where r: "manifest_main (JObj ?m) (JObj sample_topology) (Some (JObj l2_doc))
      (Some (profile_catalog ''simulation-only'')) l3_hook_fields = Inr (r, 0)" using l3_manifest_ok by blast
  have ps: "iter_or_empty (jget ''parameters'' l2_doc) = Inr [JObj ?p]"
    by (simp add: l2_doc_def jget_def jget_or_def iter_or_empty_def)
  have p: "jget ''name'' ?p = JStr ''limit''" "jget ''required'' ?p = JBool True"
    by (simp_all add: jget_def jget_or_def)
  show ?thesis using accepted_l3_manifest_traceable [OF r l3] p by (auto simp: ps)
qed

text \<open>An accepted L3 manifest fits its backend profile: the profile is one of the catalog, every
  binding that is not deferred runs on the profile's runtime family if it names one, and every hook
  field a binding uses is one the profile supports. The reported status is \<open>deferred\<close> iff some
  binding is deferred, and otherwise \<open>simulation-only\<close> iff that is the profile's maturity.\<close>

theorem accepted_l3_manifest_profile:
  assumes "manifest_main (JObj m) topo (Some (JObj l2)) profiles hooks = Inr (r, 0)" and "is_l3 m"
    and "set hooks = set l3_hook_fields"
  shows "\<exists>profile supported. find_profile profiles (jget ''backendProfile'' m) = Inr (Some profile) \<and>
    supported_fields (Some profile) = Inr (Some supported) \<and>
    (\<forall>b. JObj b \<in> set (bindings_of m) \<longrightarrow>
       (jget ''deferred'' b = JBool True \<or> jget ''runtimeFamily'' profile = JNull \<or>
          jeq (jget ''runtime'' b) (jget ''runtimeFamily'' profile)) \<and>
       (\<forall>f \<in> set l3_hook_fields. jhas f b \<longrightarrow> JStr f \<in> set supported)) \<and>
    jget ''status'' (as_obj r) = JStr
      (if \<exists>b. JObj b \<in> set (bindings_of m) \<and> jget ''deferred'' b = JBool True then ''deferred''
       else if jget ''maturity'' profile = JStr ''simulation-only'' then ''simulation-only'' else ''complete'')"
proof -
  have pass: "validate_l3 m (bindings_of m) (Some (JObj l2)) profiles hooks = Inr []"
    using manifest_accepts assms(1,2) by blast
  from validate_l3_pass [OF pass] obtain l2v profile supported where
    prof: "find_profile profiles (jget ''backendProfile'' m) = Inr (Some profile)"
    and supp: "supported_fields (Some profile) = Inr (Some supported)"
    and loop: "\<And>i. i < length (bindings_of m) \<Longrightarrow> check_l3_binding l2v (jget ''backendProfile'' m)
       (runtime_family (Some profile)) (Some supported) hooks i (bindings_of m ! i) = Inr []"
    by metis
  have each_binding: "(jget ''deferred'' b = JBool True \<or> jget ''runtimeFamily'' profile = JNull \<or>
          jeq (jget ''runtime'' b) (jget ''runtimeFamily'' profile)) \<and>
       (\<forall>f \<in> set l3_hook_fields. jhas f b \<longrightarrow> JStr f \<in> set supported)"
    if "JObj b \<in> set (bindings_of m)" for b
  proof -
    from that obtain i where "i < length (bindings_of m)" "bindings_of m ! i = JObj b"
      by (auto simp: in_set_conv_nth)
    with loop [of i] assms(3) show ?thesis
      by (auto simp: check_l3_binding_def Let_def checks runtime_family_def)
  qed
  have diags: "manifest_diags (JObj m) topo (Some (JObj l2)) profiles hooks = Inr []"
    using assms(1) by (auto simp: manifest_main_def pbind_Inr_conv split: if_splits)
  have report: "manifest_report (JObj m) profiles [] = Inr r"
    using assms(1) diags by (auto simp: manifest_main_def pbind_Inr_conv)
  have "list_ex is_deferred (bindings_of m) \<longleftrightarrow>
      (\<exists>b. JObj b \<in> set (bindings_of m) \<and> jget ''deferred'' b = JBool True)"
    by (auto simp: list_ex_iff is_deferred_def is_obj_iff)
  then have "jget ''status'' (as_obj r) = JStr
      (if \<exists>b. JObj b \<in> set (bindings_of m) \<and> jget ''deferred'' b = JBool True then ''deferred''
       else if jget ''maturity'' profile = JStr ''simulation-only'' then ''simulation-only'' else ''complete'')"
    using report assms(2) prof
    by (auto simp: manifest_report_def manifest_status_def Let_def pbind_Inr_conv sorted_diags_def jget_def
        jget_or_def split: if_splits)
  with prof supp each_binding show ?thesis by blast
qed

lemma accepted_l3_manifest_profile_witness:
  "\<exists>r. manifest_main (JObj (l3_manifest [(''observability'', JNull)])) (JObj sample_topology) (Some (JObj l2_doc))
      (Some (profile_catalog ''simulation-only'')) l3_hook_fields = Inr (r, 0) \<and>
    jget ''status'' (as_obj r) = JStr ''simulation-only''"
proof -
  let ?m = "l3_manifest [(''observability'', JNull)]" and ?c = "profile_catalog ''simulation-only''"
  have l3: "is_l3 ?m" by code_simp
  obtain r where r: "manifest_main (JObj ?m) (JObj sample_topology) (Some (JObj l2_doc)) (Some ?c) l3_hook_fields
      = Inr (r, 0)" using l3_manifest_ok by blast
  have "find_profile (Some ?c) (jget ''backendProfile'' ?m) = Inr (Some profile) \<Longrightarrow>
      jget ''maturity'' profile = JStr ''simulation-only''" for profile
    by (auto simp: find_profile_def profile_catalog_def l3_manifest_def manifest_doc_def jget_def jget_or_def
        iter_or_empty_def)
  moreover have "\<nexists>b. JObj b \<in> set (bindings_of ?m) \<and> jget ''deferred'' b = JBool True"
    by (auto simp: l3_manifest_def manifest_doc_def binding_doc_def bindings_of_def jget_def jget_or_def)
  ultimately have "jget ''status'' (as_obj r) = JStr ''simulation-only''"
    using accepted_l3_manifest_profile [OF r l3 refl] by auto
  with r show ?thesis by blast
qed

section \<open>Order and exceptions\<close>

text \<open>The order of the printed diagnostics is not determined by their sort: two hook fields the
  profile does not support give diagnostics with one sort key, which stay in the order in which the
  set of hook fields was iterated. Two iteration orders of that set, both possible for a Python
  set of texts, give two different reports for the same inputs.\<close>

theorem report_order_depends_on_set_order:
  "mset [''compensation'', ''retryTimeout'', ''observability''] = mset l3_hook_fields \<and>
   mset [''retryTimeout'', ''compensation'', ''observability''] = mset l3_hook_fields \<and>
   manifest_main (JObj (l3_manifest [(''compensation'', JNull), (''retryTimeout'', JNull)])) (JObj sample_topology)
     (Some (JObj l2_doc)) (Some (profile_catalog ''ga'')) [''compensation'', ''retryTimeout'', ''observability''] \<noteq>
   manifest_main (JObj (l3_manifest [(''compensation'', JNull), (''retryTimeout'', JNull)])) (JObj sample_topology)
     (Some (JObj l2_doc)) (Some (profile_catalog ''ga'')) [''retryTimeout'', ''compensation'', ''observability'']"
  by (intro conjI; code_simp)

text \<open>The check is not total on JSON manifests, though its documentation promises a diagnostic
  instead of a traceback: a slot id that is a list ends it with \<open>TypeError\<close> at the lookup, and so do
  two bindings of which one has no slot id and the other an unknown one, when the ids are sorted.
  Each of the two bindings alone is reported.\<close>

theorem manifest_gate_raises:
  "manifest_main (JObj (manifest_doc 1 [JObj [(''slotId'', JList [])]] [])) (JObj sample_topology) None None
     l3_hook_fields = Inl TypeError \<and>
   manifest_main (JObj (manifest_doc 1 [JObj [], JObj [(''slotId'', JStr ''x'')]] [])) (JObj sample_topology) None None
     l3_hook_fields = Inl TypeError \<and>
   (\<exists>r. manifest_main (JObj (manifest_doc 1 [JObj []] [])) (JObj sample_topology) None None l3_hook_fields
      = Inr (r, 1)) \<and>
   (\<exists>r. manifest_main (JObj (manifest_doc 1 [JObj [(''slotId'', JStr ''x'')]] [])) (JObj sample_topology) None None
      l3_hook_fields = Inr (r, 1))"
proof (intro conjI)
  show "manifest_main (JObj (manifest_doc 1 [JObj [(''slotId'', JList [])]] [])) (JObj sample_topology) None None
      l3_hook_fields = Inl TypeError" by code_simp
  show "manifest_main (JObj (manifest_doc 1 [JObj [], JObj [(''slotId'', JStr ''x'')]] [])) (JObj sample_topology) None
      None l3_hook_fields = Inl TypeError" by code_simp
  show "\<exists>r. manifest_main (JObj (manifest_doc 1 [JObj []] [])) (JObj sample_topology) None None l3_hook_fields
      = Inr (r, 1)" by (rule exI) code_simp
  show "\<exists>r. manifest_main (JObj (manifest_doc 1 [JObj [(''slotId'', JStr ''x'')]] [])) (JObj sample_topology) None None
      l3_hook_fields = Inr (r, 1)" by (rule exI) code_simp
qed

end
