(* ===== verification/AgreementIdentity.thy ===== *)
theory AgreementIdentity
  imports Canonical
begin

text \<open>
  \<open>validators/validate_agreement_identity.py\<close>: the shape gate of an agreement identity and the
  recomputation of its digests from the paired capability spec. The digest
  \<open>hashlib.sha256(...).hexdigest()\<close> is the argument \<open>H\<close>; \<open>agreement_main\<close> is the run of \<open>main\<close> on
  documents that could be read, with \<open>None\<close> for a missing \<open>--verify-hashes\<close>. The lemmas on
  \<open>frame\<close> show that the preimage determines its four parts.
\<close>

section \<open>Shape\<close>

definition agreement_domain :: string where
  "agreement_domain = ''neutrino.agreement.v1''"

definition agreement_kind :: string where
  "agreement_kind = ''neutrino.agreement-identity''"

definition known_language_versions :: "string list" where
  "known_language_versions = [''0.1.0'']"

definition artifact_fields :: "string list" where
  "artifact_fields = [''kind'', ''domain'', ''semanticLanguageVersion'', ''capabilityHash'', ''envelope'', ''identity'']"

definition envelope_fields :: "string list" where
  "envelope_fields = [''schemaVersion'', ''consentPolicy'', ''amendmentPolicy'', ''clauseSemanticIds'']"

definition identity_fields :: "string list" where
  "identity_fields = [''agreementHash'']"

definition unknown_keys :: "obj \<Rightarrow> string list \<Rightarrow> string \<Rightarrow> string list py" where
  "unknown_keys d allowed prefix =
     each (jkeys d) (\<lambda>k. emit_if (k \<notin> set allowed) (''unknown field '' @ prefix @ ''.'' @ k))"

definition require_keys :: "obj \<Rightarrow> string list \<Rightarrow> string \<Rightarrow> string list py" where
  "require_keys d allowed prefix =
     each (sorted_diff allowed (jkeys d)) (\<lambda>k. Inr [prefix @ '': missing '' @ sq k])"

text \<open>\<open>isinstance(v, str) and re.match(HEX64, v)\<close>.\<close>

fun hex64_value :: "json \<Rightarrow> bool" where
  "hex64_value (JStr s) = re_dollar hex64_text s"
| "hex64_value _ = False"

fun semver_value :: "json \<Rightarrow> bool" where
  "semver_value (JStr s) = re_dollar semver_text s"
| "semver_value _ = False"

definition check_language :: "obj \<Rightarrow> string list py" where
  "check_language a =
     (let slv = jget ''semanticLanguageVersion'' a
      in if \<not> semver_value slv then Inr [''semanticLanguageVersion must be a MAJOR.MINOR.PATCH string'']
         else emit_if (str_of slv \<notin> set known_language_versions)
           (''semanticLanguageVersion '' @ py_repr slv @ '' is not a known semantic-''
            @ ''language version (unknown version '' @ em_dash @ '' fail closed)''))"

definition check_envelope :: "json \<Rightarrow> string list py" where
  "check_envelope v =
     (case v of
        JObj env \<Rightarrow> chks
          [require_keys env envelope_fields ''envelope'',
           unknown_keys env envelope_fields ''envelope'',
           emit_if (\<not> eq_int (jget ''schemaVersion'' env) 1)
             (''envelope.schemaVersion must be '' @ show_nat 1 @ '' (unknown envelope version)''),
           each [''consentPolicy'', ''amendmentPolicy''] (\<lambda>pol.
             emit_if (jget pol env \<noteq> JNull \<and> \<not> is_obj (jget pol env))
               (''envelope.'' @ pol @ '' must be an object or null'')),
           emit_if (\<not> (is_list (jget ''clauseSemanticIds'' env) \<and>
               list_all nonempty_str (as_list (jget ''clauseSemanticIds'' env))))
             ''envelope.clauseSemanticIds must be an array of non-empty strings'']
      | _ \<Rightarrow> Inr [''envelope must be an object''])"

definition check_agreement_id :: "json \<Rightarrow> string list py" where
  "check_agreement_id v =
     (case v of
        JObj ident \<Rightarrow> chks
          [require_keys ident identity_fields ''identity'',
           unknown_keys ident identity_fields ''identity'',
           emit_if (\<not> hex64_value (jget ''agreementHash'' ident))
             ''identity.agreementHash must be a 64-char lowercase hex string'']
      | _ \<Rightarrow> Inr [''identity must be an object''])"

definition validate_shape :: "json \<Rightarrow> string list py" where
  "validate_shape v =
     (case v of
        JObj a \<Rightarrow> chks
          [require_keys a artifact_fields ''artifact'',
           unknown_keys a artifact_fields ''artifact'',
           emit_if (jget ''kind'' a \<noteq> JStr agreement_kind) (''kind must be '' @ repr_str agreement_kind),
           emit_if (jget ''domain'' a \<noteq> JStr agreement_domain)
             (''domain must be '' @ repr_str agreement_domain @ '' (unknown domain)''),
           check_language a,
           emit_if (\<not> hex64_value (jget ''capabilityHash'' a))
             ''capabilityHash must be a 64-char lowercase hex string'',
           check_envelope (jget ''envelope'' a),
           check_agreement_id (jget ''identity'' a)]
      | _ \<Rightarrow> Inr [''artifact is not a JSON object''])"

section \<open>Digests\<close>

definition spec_non_semantic :: "string list" where
  "spec_non_semantic = [''kind'', ''schemaVersion'', ''identity'', ''sourceMap'', ''targetRequirements'']"

definition spec_core :: "obj \<Rightarrow> json" where
  "spec_core spec = JObj (jwithout spec_non_semantic spec)"

text \<open>\<open>struct.pack(">Q", n)\<close>: eight bytes, the most significant first.\<close>

definition be64 :: "nat \<Rightarrow> string" where
  "be64 n = map (\<lambda>i. char_of (n div 256 ^ (7 - i) mod 256)) [0..<8]"

definition frame :: "string \<Rightarrow> string" where
  "frame b = be64 (length b) @ b"

text \<open>The bytes of the verified semantic core, or the error that is appended.\<close>

definition canonical_capability_bytes :: "(string \<Rightarrow> string) \<Rightarrow> json \<Rightarrow> (string + string) py" where
  "canonical_capability_bytes H v =
     (case v of
        JObj spec \<Rightarrow>
          (let b = compact (spec_core spec); ident = jget ''identity'' spec
           in pbind (if \<not> truthy ident then Inr JNull
                     else case ident of JObj d \<Rightarrow> Inr (jget ''capabilityHash'' d) | _ \<Rightarrow> Inl AttributeError) (\<lambda>declared.
                if \<not> truthy declared then Inr (Inl ''capability-spec has no identity.capabilityHash'')
                else if JStr (H b) \<noteq> declared
                then Inr (Inl (''capability-spec capabilityHash mismatch '' @ em_dash @ '' its semantic ''
                  @ ''core does not hash to the declared identity (tampered)''))
                else Inr (Inr b)))
      | _ \<Rightarrow> Inr (Inl ''capability-spec is not a JSON object''))"

definition agreement_preimage :: "string \<Rightarrow> string \<Rightarrow> json \<Rightarrow> string" where
  "agreement_preimage slv cap env =
     frame agreement_domain @ frame slv @ frame cap @ frame (compact env)"

definition verify_hashes :: "(string \<Rightarrow> string) \<Rightarrow> obj \<Rightarrow> json \<Rightarrow> string list py" where
  "verify_hashes H a spec =
     pbind (canonical_capability_bytes H spec) (\<lambda>r.
       case r of
         Inl e \<Rightarrow> Inr [e]
       | Inr cap \<Rightarrow> chks
           [emit_if (jget ''capabilityHash'' a \<noteq> JStr (H cap))
              ''capabilityHash does not match the paired capability-spec'',
            emit_if (jget ''agreementHash'' (as_obj (jget ''identity'' a)) \<noteq> JStr
                (H (agreement_preimage (str_of (jget ''semanticLanguageVersion'' a)) cap (jget ''envelope'' a))))
              (''agreementHash does not recompute '' @ em_dash @ '' inauthentic identity'')])"

definition agreement_main :: "(string \<Rightarrow> string) \<Rightarrow> json \<Rightarrow> json option \<Rightarrow> (string list \<times> nat) py" where
  "agreement_main H v spec =
     pbind (validate_shape v) (\<lambda>shape.
       pbind (case spec of None \<Rightarrow> Inr [] | Some s \<Rightarrow> guarded (shape = []) (verify_hashes H (as_obj v) s)) (\<lambda>hashes.
         let errs = shape @ hashes
         in if errs \<noteq> []
            then Inr (''[] agreement-identity INVALID:'' # map (\<lambda>e. ''    '' @ e) errs, 1)
            else Inr ([''[] agreement-identity OK: shape valid'' @
                       (if spec \<noteq> None then '' + hashes verified'' else [])], 0)))"

section \<open>The framing\<close>

lemma length_be64 [simp]: "length (be64 n) = 8"
  by (simp add: be64_def)

lemma be64_inject:
  assumes "be64 m = be64 n" and "m < 2 ^ 64" and "n < 2 ^ 64"
  shows "m = n"
proof -
  have byte: "m div 256 ^ (7 - i) mod 256 = n div 256 ^ (7 - i) mod 256" if "i < 8" for i
  proof -
    have "(of_char (be64 m ! i) :: nat) = of_char (be64 n ! i)" using assms(1) by simp
    then show ?thesis using that by (simp add: be64_def)
  qed
  have low: "m div 256 ^ k mod 256 = n div 256 ^ k mod 256" if "k < 8" for k
    using byte [of "7 - k"] that by simp
  have "m mod 256 ^ k = n mod 256 ^ k" if "k \<le> 8" for k
    using that
  proof (induction k)
    case (Suc k)
    have "x mod 256 ^ Suc k = 256 ^ k * (x div 256 ^ k mod 256) + x mod 256 ^ k" for x :: nat
      by (simp only: power_Suc2 mod_mult2_eq)
    with Suc low [of k] show ?case by simp
  qed simp
  from this [of 8] assms(2,3) show ?thesis by simp
qed

lemma frame_prefix:
  assumes "frame a @ x = frame b @ y" and "length a < 2 ^ 64" and "length b < 2 ^ 64"
  shows "a = b \<and> x = y"
proof -
  have "be64 (length a) = be64 (length b)" and rest: "a @ x = b @ y"
    using assms(1) by (simp_all add: frame_def append_eq_append_conv)
  with assms(2,3) be64_inject have "length a = length b" by blast
  with rest show ?thesis by simp
qed

lemma preimage_inject:
  assumes "agreement_preimage s c e = agreement_preimage s' c' e'"
    and "\<forall>x \<in> {s, c, compact e, s', c', compact e'}. length x < 2 ^ 64"
  shows "s = s' \<and> c = c' \<and> compact e = compact e'"
proof -
  have "length agreement_domain < 2 ^ 64" by (simp add: agreement_domain_def)
  then have 1: "frame s @ frame c @ frame (compact e) = frame s' @ frame c' @ frame (compact e')"
    using assms(1) frame_prefix unfolding agreement_preimage_def by blast
  with assms(2) frame_prefix have 2: "s = s'" "frame c @ frame (compact e) = frame c' @ frame (compact e')"
    by (metis insertCI)+
  with assms(2) frame_prefix have 3: "c = c'" "frame (compact e) = frame (compact e')" by (metis insertCI)+
  then have "frame (compact e) @ [] = frame (compact e') @ []" by simp
  with assms(2) frame_prefix have "compact e = compact e'" by (metis insertCI)
  with 2 3 show ?thesis by blast
qed

section \<open>What a verified identity is\<close>

text \<open>What \<open>agreement_main\<close> has checked when it exits with 0 on a paired spec.\<close>

lemma verified_parts:
  assumes "agreement_main H (JObj a) (Some v) = Inr (out, 0)"
  obtains spec slv where "v = JObj spec"
    and "jget ''semanticLanguageVersion'' a = JStr slv" and "slv \<in> set known_language_versions"
    and "jget ''capabilityHash'' a = JStr (H (compact (spec_core spec)))"
    and "jget ''agreementHash'' (as_obj (jget ''identity'' a)) =
      JStr (H (agreement_preimage slv (compact (spec_core spec)) (jget ''envelope'' a)))"
proof -
  have shape: "validate_shape (JObj a) = Inr []" and hashes: "verify_hashes H a v = Inr []"
    using assms by (auto simp: agreement_main_def pbind_Inr_conv guarded_def Let_def split: if_splits)
  have lang: "check_language a = Inr []"
    using shape by (simp add: validate_shape_def checks)
  then obtain slv where slv: "jget ''semanticLanguageVersion'' a = JStr slv" "slv \<in> set known_language_versions"
    by (cases "jget ''semanticLanguageVersion'' a") (auto simp: check_language_def Let_def checks split: if_splits)
  obtain r where r: "canonical_capability_bytes H v = Inr r"
    using hashes by (auto simp: verify_hashes_def pbind_Inr_conv)
  then obtain cap where cap: "canonical_capability_bytes H v = Inr (Inr cap)"
    using hashes by (cases r) (simp_all add: verify_hashes_def)
  then obtain spec where spec: "v = JObj spec" "cap = compact (spec_core spec)"
    by (cases v) (auto simp: canonical_capability_bytes_def Let_def pbind_Inr_conv split: if_splits json.splits)
  have digests: "jget ''capabilityHash'' a = JStr (H cap)"
    "jget ''agreementHash'' (as_obj (jget ''identity'' a)) = JStr (H (agreement_preimage slv cap (jget ''envelope'' a)))"
    using hashes unfolding verify_hashes_def cap pbind_simps sum.case chks_pass list.set ball_simps emit_if_pass slv(1)
      str_of.simps by simp_all
  show thesis by (rule that [OF spec(1) slv digests [unfolded spec(2)]])
qed

definition agreement_doc :: "string \<Rightarrow> json \<Rightarrow> obj" where
  "agreement_doc h clauses =
     [(''kind'', JStr agreement_kind), (''domain'', JStr agreement_domain), (''semanticLanguageVersion'', JStr ''0.1.0''),
      (''capabilityHash'', JStr h), (''envelope'', JObj [(''schemaVersion'', JInt 1), (''consentPolicy'', JNull),
        (''amendmentPolicy'', JNull), (''clauseSemanticIds'', clauses)]),
      (''identity'', JObj [(''agreementHash'', JStr h)])]"

definition paired_spec :: "string \<Rightarrow> json \<Rightarrow> json" where
  "paired_spec h note = JObj [(''procedure'', JStr ''pay''), (''sourceMap'', note),
     (''identity'', JObj [(''capabilityHash'', JStr h)])]"

definition const_hash :: "string \<Rightarrow> string" where
  "const_hash s = replicate 64 (CHR ''a'')"

definition sample_hash :: string where
  "sample_hash = replicate 64 (CHR ''a'')"

lemma sample_agreement_ok:
  "\<exists>out. agreement_main const_hash (JObj (agreement_doc sample_hash (JList []))) (Some (paired_spec sample_hash w))
     = Inr (out, 0)"
proof -
  have "validate_shape (JObj (agreement_doc sample_hash (JList []))) = Inr []" by code_simp
  moreover have "truthy (JStr sample_hash)" by (simp add: sample_hash_def)
  ultimately show ?thesis
    by (simp add: agreement_main_def guarded_def verify_hashes_def canonical_capability_bytes_def paired_spec_def
        Let_def jget_def jget_or_def const_hash_def sample_hash_def agreement_doc_def emit_if_def chks.simps)
qed

text \<open>C12. The agreement hash is the identity of the agreement: two artifacts that verify against their
  paired specs and carry one agreement hash have the same semantic language version, the same
  semantic core of the capability and the same envelope as JSON values, whatever the order of keys.
  The premises are that the hash function does not collide on the two preimages and that the framed
  parts are shorter than \<open>2 ^ 64\<close> bytes; no field boundary can be moved between the parts.\<close>

theorem agreement_hash_identifies_agreement:
  assumes "agreement_main H (JObj a) (Some (JObj s)) = Inr (out, 0)"
    and "agreement_main H (JObj b) (Some (JObj t)) = Inr (out', 0)"
    and "\<forall>v \<in> {JObj a, JObj b, JObj s, JObj t}. wf_json v"
    and "\<forall>v \<in> {spec_core s, spec_core t, jget ''envelope'' a, jget ''envelope'' b}. length (compact v) < 2 ^ 64"
    and "inj_on H {agreement_preimage (str_of (jget ''semanticLanguageVersion'' a)) (compact (spec_core s)) (jget ''envelope'' a),
      agreement_preimage (str_of (jget ''semanticLanguageVersion'' b)) (compact (spec_core t)) (jget ''envelope'' b)}"
    and "jget ''agreementHash'' (as_obj (jget ''identity'' a)) = jget ''agreementHash'' (as_obj (jget ''identity'' b))"
  shows "jget ''semanticLanguageVersion'' a = jget ''semanticLanguageVersion'' b \<and>
    canon (spec_core s) = canon (spec_core t) \<and> canon (jget ''envelope'' a) = canon (jget ''envelope'' b)"
proof -
  obtain u where u: "jget ''semanticLanguageVersion'' a = JStr u" "u \<in> set known_language_versions"
    "jget ''agreementHash'' (as_obj (jget ''identity'' a)) =
      JStr (H (agreement_preimage u (compact (spec_core s)) (jget ''envelope'' a)))"
    using verified_parts [OF assms(1)] by (metis json.inject(6))
  obtain w where w: "jget ''semanticLanguageVersion'' b = JStr w" "w \<in> set known_language_versions"
    "jget ''agreementHash'' (as_obj (jget ''identity'' b)) =
      JStr (H (agreement_preimage w (compact (spec_core t)) (jget ''envelope'' b)))"
    using verified_parts [OF assms(2)] by (metis json.inject(6))
  have "agreement_preimage u (compact (spec_core s)) (jget ''envelope'' a) =
      agreement_preimage w (compact (spec_core t)) (jget ''envelope'' b)"
    using assms(5,6) u w by (auto dest: inj_onD)
  moreover have "length u < 2 ^ 64" "length w < 2 ^ 64"
    using u(2) w(2) by (auto simp: known_language_versions_def)
  ultimately have eq: "u = w" "compact (spec_core s) = compact (spec_core t)"
    "compact (jget ''envelope'' a) = compact (jget ''envelope'' b)"
    using preimage_inject [of u "compact (spec_core s)" "jget ''envelope'' a" w "compact (spec_core t)" "jget ''envelope'' b"]
      assms(4) by simp_all
  have wf: "wf_json (JObj a)" "wf_json (JObj b)" "wf_json (JObj s)" "wf_json (JObj t)"
    using assms(3) by (simp_all del: wf_json.simps(2))
  have "canon (spec_core s) = canon (spec_core t)"
    using canonical.text_inject [OF wf_jwithout [OF wf(3)] wf_jwithout [OF wf(4)]] eq(2) by (simp add: spec_core_def)
  moreover have "canon (jget ''envelope'' a) = canon (jget ''envelope'' b)"
    by (rule canonical.text_inject [OF wf_json_jget [OF wf(1)] wf_json_jget [OF wf(2)] eq(3)])
  ultimately show ?thesis using u(1) w(1) eq(1) by simp
qed

lemma agreement_hash_identifies_agreement_witness:
  "canon (spec_core (as_obj (paired_spec sample_hash (JInt 1)))) = canon (spec_core (as_obj (paired_spec sample_hash JNull))) \<and>
   paired_spec sample_hash (JInt 1) \<noteq> paired_spec sample_hash JNull"
proof -
  let ?a = "agreement_doc sample_hash (JList [])" and ?s = "\<lambda>w. as_obj (paired_spec sample_hash w)"
  have obj: "JObj (?s w) = paired_spec sample_hash w" for w by (simp add: paired_spec_def)
  obtain out where out: "agreement_main const_hash (JObj ?a) (Some (JObj (?s (JInt 1)))) = Inr (out, 0)"
    using sample_agreement_ok obj by metis
  obtain out' where out': "agreement_main const_hash (JObj ?a) (Some (JObj (?s JNull))) = Inr (out', 0)"
    using sample_agreement_ok obj by metis
  have "wf_json (JObj ?a)" "wf_json (JObj (?s (JInt 1)))" "wf_json (JObj (?s JNull))" by code_simp+
  then have wf: "\<forall>v \<in> {JObj ?a, JObj ?a, JObj (?s (JInt 1)), JObj (?s JNull)}. wf_json v" by blast
  have core: "spec_core (?s w) = JObj [(''procedure'', JStr ''pay'')]" for w
    by (simp add: spec_core_def paired_spec_def jwithout_def spec_non_semantic_def)
  have env: "jget ''envelope'' ?a = JObj [(''schemaVersion'', JInt 1), (''consentPolicy'', JNull),
        (''amendmentPolicy'', JNull), (''clauseSemanticIds'', JList [])]"
    by (simp add: agreement_doc_def jget_def jget_or_def)
  have "length (compact (JObj [(''procedure'', JStr ''pay'')])) < 100"
    "length (compact (JObj [(''schemaVersion'', JInt 1), (''consentPolicy'', JNull),
        (''amendmentPolicy'', JNull), (''clauseSemanticIds'', JList [])])) < 100" by code_simp+
  then have "length (compact (JObj [(''procedure'', JStr ''pay'')])) < 2 ^ 64"
    "length (compact (JObj [(''schemaVersion'', JInt 1), (''consentPolicy'', JNull),
        (''amendmentPolicy'', JNull), (''clauseSemanticIds'', JList [])])) < 2 ^ 64"
    using less_trans [where y = 100 and z = "2 ^ 64 :: nat"] by auto
  then have len: "\<forall>v \<in> {spec_core (?s (JInt 1)), spec_core (?s JNull), jget ''envelope'' ?a, jget ''envelope'' ?a}.
      length (compact v) < 2 ^ 64"
    unfolding core env by blast
  have "canon (spec_core (?s (JInt 1))) = canon (spec_core (?s JNull))"
    using agreement_hash_identifies_agreement [OF out out' wf len] by (simp add: core)
  then show ?thesis by (simp add: paired_spec_def)
qed

text \<open>The digest pattern admits one more character than the message says: an artifact whose
  digests are 64 hexadecimal characters and a newline passes the shape gate, since \<open>$\<close> in a pattern
  for \<open>re.match\<close> also matches before a final newline. A space instead is rejected.\<close>

theorem shape_gate_admits_newline:
  "length (sample_hash @ newline) = 65 \<and>
   agreement_main H (JObj (agreement_doc (sample_hash @ newline) (JList []))) None =
     Inr ([''[] agreement-identity OK: shape valid''], 0) \<and>
   (\<exists>out. agreement_main H (JObj (agreement_doc (sample_hash @ '' '') (JList []))) None = Inr (out, 1))"
proof -
  have "validate_shape (JObj (agreement_doc (sample_hash @ newline) (JList []))) = Inr []" by code_simp
  moreover have "\<exists>e es. validate_shape (JObj (agreement_doc (sample_hash @ '' '') (JList []))) = Inr (e # es)"
    by (intro exI, code_simp)
  ultimately show ?thesis
    by (auto simp: agreement_main_def sample_hash_def newline_def)
qed

text \<open>The shape gate itself never raises, and the recomputation raises at most
  \<open>AttributeError\<close>; it does so on a valid artifact paired with a spec whose \<open>identity\<close> is a non-empty
  list, where a missing identity is a reported mismatch.\<close>

theorem agreement_gate_errors:
  "(\<exists>errs. validate_shape v = Inr errs) \<and> raises_only (\<lambda>e. e = AttributeError) (agreement_main H v spec) \<and>
   agreement_main H (JObj (agreement_doc sample_hash (JList []))) (Some (JObj [(''identity'', JList [JNull])]))
     = Inl AttributeError \<and>
   (\<exists>out. agreement_main H (JObj (agreement_doc sample_hash (JList []))) (Some (JObj [])) = Inr (out, 1))"
proof (intro conjI)
  have "outcome (\<lambda>_. False) (\<lambda>_. True) (validate_shape w)" for w
    unfolding validate_shape_def check_language_def check_envelope_def check_agreement_id_def require_keys_def
      unknown_keys_def by (intro outcomes; simp add: list_all_iff)
  then show shape: "\<exists>errs. validate_shape v = Inr errs" for v
    using raises_only_outcome [of "\<lambda>_. False"] by (cases "validate_shape v") (auto simp: raises_only_def)
  have bytes: "raises_only (\<lambda>e. e = AttributeError) (canonical_capability_bytes H w)" for w
    by (auto simp: raises_only_def canonical_capability_bytes_def Let_def pbind_def split: json.splits if_splits)
  then have "outcome (\<lambda>e. e = AttributeError) (\<lambda>_. True) (verify_hashes H a w)" for a w
    by (auto simp: verify_hashes_def split: sum.split intro!: outcomes)
  then have hashes: "raises_only (\<lambda>e. e = AttributeError) (verify_hashes H a w)" for a w
    by (rule raises_only_outcome)
  show "raises_only (\<lambda>e. e = AttributeError) (agreement_main H v spec)"
    unfolding agreement_main_def Let_def guarded_def
    using shape [of v] by (cases spec) (auto intro!: outcomes hashes)
  have ok: "validate_shape (JObj (agreement_doc sample_hash (JList []))) = Inr []" by code_simp
  show "agreement_main H (JObj (agreement_doc sample_hash (JList []))) (Some (JObj [(''identity'', JList [JNull])]))
     = Inl AttributeError"
    by (simp add: agreement_main_def ok guarded_def verify_hashes_def canonical_capability_bytes_def jget_def jget_or_def)
  show "\<exists>out. agreement_main H (JObj (agreement_doc sample_hash (JList []))) (Some (JObj [])) = Inr (out, 1)"
    by (simp add: agreement_main_def ok guarded_def verify_hashes_def canonical_capability_bytes_def jget_def jget_or_def)
qed

end
