(* ===== verification/TranslateRail.thy ===== *)
theory TranslateRail
  imports Canonical PyDyn
begin

text \<open>
  \<open>rails/translate_rail.py\<close>: applying a reviewed translation map. \<open>load_map\<close> refuses a map that is
  not pinned by its hash, \<open>cmd_lower\<close> projects a capability to rail fields and \<open>cmd_lift\<close> interprets a
  rail status. Documents are JSON values on which every indexing, \<open>get\<close> and iteration may raise, as in
  the code; the digest is the argument \<open>H\<close>. \<open>rail_main\<close> is the run of \<open>main\<close> after the arguments and the
  files were read: the printed line, the exit status and the written result.
\<close>

section \<open>Loading the map\<close>

definition map_body :: "obj \<Rightarrow> json" where
  "map_body m = JObj (jwithout [''translationMapHash''] m)"

definition map_hash :: "(string \<Rightarrow> string) \<Rightarrow> obj \<Rightarrow> string" where
  "map_hash H m = H (compact (map_body m))"

definition load_map :: "(string \<Rightarrow> string) \<Rightarrow> json \<Rightarrow> obj py" where
  "load_map H v =
     pbind (py_items v) (\<lambda>m.
       if jget ''kind'' m \<noteq> JStr ''neutrino.translation-map''
       then Inl (RailError ''not a neutrino.translation-map'')
       else if \<not> nonempty_str (jget ''translationMapHash'' m)
       then Inl (RailError ''translation map is not hash-pinned (translationMapHash missing); refusing to apply'')
       else if jget ''translationMapHash'' m \<noteq> JStr (map_hash H m)
       then Inl (RailError ''translationMapHash mismatch; refusing to apply a tampered map'')
       else Inr m)"

section \<open>Paths\<close>

fun walk :: "json \<Rightarrow> string list \<Rightarrow> json" where
  "walk cur [] = cur"
| "walk (JObj d) (seg # segs) = (case map_of d seg of None \<Rightarrow> JNull | Some w \<Rightarrow> walk w segs)"
| "walk _ (seg # segs) = JNull"

definition get_path :: "json \<Rightarrow> json \<Rightarrow> json py" where
  "get_path v path =
     (case path of JStr p \<Rightarrow> Inr (walk v (split_at (CHR ''/'') p)) | _ \<Rightarrow> Inl AttributeError)"

section \<open>Lower\<close>

definition unique_input :: "json \<Rightarrow> string \<Rightarrow> string \<Rightarrow> json py" where
  "unique_input typed ty carry =
     pbind (py_iter typed) (\<lambda>ts.
       pbind (filter_py (\<lambda>t. pbind (py_get t ''type'') (\<lambda>v. Inr (v = JStr ty))) ts) (\<lambda>sel.
         pbind (map_py (\<lambda>t. py_key t ''name'') sel) (\<lambda>names.
           case names of
             [n] \<Rightarrow> Inr (JObj [(''slot'', n), (''type'', JStr ty)])
           | _ \<Rightarrow> Inl (RailError (''capability has '' @ show_nat (length names) @ '' '' @ sq ty
               @ '' inputs; cannot carry '' @ carry)))))"

definition unique_entry :: "json \<Rightarrow> string \<Rightarrow> string \<Rightarrow> json py" where
  "unique_entry entries kind carry =
     pbind (py_iter entries) (\<lambda>es.
       pbind (filter_py (\<lambda>e. pbind (py_get e ''kind'') (\<lambda>v. Inr (v = JStr kind))) es) (\<lambda>ents.
         case ents of
           [e] \<Rightarrow>
             pbind (py_get e ''owner'') (\<lambda>role.
               pbind (py_get e ''party'') (\<lambda>party.
                 pbind (if truthy party then py_get party ''input'' else Inr JNull) (\<lambda>slot.
                   Inr (JObj [(''role'', role), (''slot'', slot)]))))
         | _ \<Rightarrow> Inl (RailError (''capability has '' @ show_nat (length ents) @ '' '' @ sq kind
             @ '' entries; cannot carry '' @ carry))))"

definition resolve_carry :: "json \<Rightarrow> json \<Rightarrow> json py" where
  "resolve_carry carry cap =
     pbind (py_get_or cap ''typedInputs'' (JList [])) (\<lambda>typed.
       pbind (py_get_or cap ''entries'' (JList [])) (\<lambda>entries.
         if carry = JStr ''value.amount'' then unique_input typed ''money'' ''value.amount''
         else if carry = JStr ''value.currency'' then unique_input typed ''currency'' ''value.currency''
         else if carry = JStr ''party.debtor'' then unique_entry entries ''debit'' ''party.debtor''
         else if carry = JStr ''party.creditor'' then unique_entry entries ''credit'' ''party.creditor''
         else Inl (RailError (''unsupported lower carries '' @ sq (py_str carry) @ '' for this capability shape''))))"

definition lower_field :: "json \<Rightarrow> json \<Rightarrow> obj py" where
  "lower_field cap rule =
     pbind (py_key rule ''to'') (\<lambda>to.
       pbind (py_key rule ''carries'') (\<lambda>carries.
         pbind (resolve_carry carries cap) (\<lambda>source.
           pbind (py_key rule ''lossiness'') (\<lambda>loss.
             Inr [(''railField'', to), (''carries'', carries), (''source'', source), (''lossiness'', loss)]))))"

definition two_keys :: "string \<Rightarrow> string \<Rightarrow> string \<Rightarrow> string \<Rightarrow> json \<Rightarrow> json py" where
  "two_keys out1 key1 out2 key2 v =
     pbind (py_key v key1) (\<lambda>a. pbind (py_key v key2) (\<lambda>b. Inr (JObj [(out1, a), (out2, b)])))"

definition keyed_list :: "obj \<Rightarrow> string \<Rightarrow> json list py" where
  "keyed_list m k = pbind (jindex k m) py_iter"

definition cmd_lower :: "obj \<Rightarrow> json \<Rightarrow> json py" where
  "cmd_lower m cap =
     pbind (keyed_list m ''lower'') (\<lambda>rules.
     pbind (map_py (lower_field cap) rules) (\<lambda>fields.
     pbind (jindex ''rail'' m) (\<lambda>rail.
     pbind (pbind (jindex ''profiles'' m) (\<lambda>ps. py_key ps ''lower'')) (\<lambda>profile.
     pbind (py_get cap ''capability'') (\<lambda>capability.
     pbind (pbind (keyed_list m ''preservesAs'') (map_py (two_keys ''railField'' ''field'' ''extension'' ''extension'')))
       (\<lambda>ext.
     pbind (pbind (keyed_list m ''rejects'') (map_py (two_keys ''railField'' ''field'' ''reason'' ''reason''))) (\<lambda>rej.
     pbind (jsorted (map (jget ''railField'') (filter (\<lambda>f. jget ''lossiness'' f \<noteq> JStr ''lossless'') fields))) (\<lambda>lossy.
       Inr (JObj [(''kind'', JStr ''neutrino.rail-projection''), (''rail'', rail), (''profile'', profile),
         (''capability'', capability), (''fields'', JList (map JObj fields)), (''extensionData'', JList ext),
         (''rejected'', JList rej), (''lossyFields'', JList lossy)])))))))))"

section \<open>Lift\<close>

record lifted =
  lf_state :: json
  lf_correlation :: json
  lf_diagnostics :: "json list"
  lf_extension :: obj
  lf_lossy :: "string list"

definition no_lift :: lifted where
  "no_lift = \<lparr>lf_state = JNull, lf_correlation = JNull, lf_diagnostics = [], lf_extension = [], lf_lossy = []\<rparr>"

definition check_reject :: "json \<Rightarrow> json \<Rightarrow> unit \<Rightarrow> unit py" where
  "check_reject status r u =
     pbind (py_key r ''field'') (\<lambda>field.
       pbind (get_path status field) (\<lambda>raw.
         if raw = JNull then Inr ()
         else pbind (py_key r ''reason'') (\<lambda>reason.
           Inl (RailError (''rail field '' @ sq (py_str field) @ '' is present but declared rejected: ''
             @ py_str reason)))))"

text \<open>The status code of a field through the reviewed code list.\<close>

definition lift_code :: "json \<Rightarrow> json \<Rightarrow> json py" where
  "lift_code rule raw =
     pbind (py_key rule ''codeList'') (\<lambda>codes.
       pbind (py_in raw codes) (\<lambda>known.
         if \<not> known then Inl (RailError (''status code '' @ py_repr raw
           @ '' is not in the reviewed code-list; refusing to interpret''))
         else py_item codes raw))"

definition lift_rule :: "json \<Rightarrow> json \<Rightarrow> lifted \<Rightarrow> lifted py" where
  "lift_rule status rule out =
     pbind (py_key rule ''from'') (\<lambda>from_path.
     pbind (get_path status from_path) (\<lambda>raw.
       if raw = JNull then Inr out
       else pbind (py_key rule ''lossiness'') (\<lambda>loss.
         let out = (if loss \<noteq> JStr ''lossless'' then out\<lparr>lf_lossy := lf_lossy out @ [str_of from_path]\<rparr> else out)
         in pbind (py_key rule ''to'') (\<lambda>to.
              if to = JStr ''evidence.runtimeState''
              then pbind (lift_code rule raw) (\<lambda>state.
                Inr (out\<lparr>lf_state := state, lf_extension := dict_set (str_of from_path) raw (lf_extension out)\<rparr>))
              else if to = JStr ''evidence.correlationId'' then Inr (out\<lparr>lf_correlation := raw\<rparr>)
              else if to = JStr ''diagnostics.reasonCode''
              then Inr (out\<lparr>lf_diagnostics := lf_diagnostics out @ [JObj [(''reasonCode'', raw)]]\<rparr>)
              else if to = JStr ''diagnostics.additionalInfo''
              then Inr (out\<lparr>lf_diagnostics := lf_diagnostics out @ [JObj [(''additionalInfo'', raw)]]\<rparr>)
              else Inr out))))"

definition lift_state :: "obj \<Rightarrow> json \<Rightarrow> lifted py" where
  "lift_state m status =
     pbind (pbind (keyed_list m ''rejects'') (\<lambda>rs. fold_py (check_reject status) rs ())) (\<lambda>_.
       pbind (keyed_list m ''liftStatus'') (\<lambda>rules. fold_py (lift_rule status) rules no_lift))"

definition cmd_lift :: "obj \<Rightarrow> json \<Rightarrow> json py" where
  "cmd_lift m status =
     pbind (jindex ''rail'' m) (\<lambda>rail.
     pbind (pbind (jindex ''profiles'' m) (\<lambda>ps. py_key ps ''liftStatus'')) (\<lambda>profile.
     pbind (lift_state m status) (\<lambda>out.
       Inr (JObj [(''kind'', JStr ''neutrino.runtime-evidence-interpretation''), (''rail'', rail), (''profile'', profile),
         (''runtimeState'', lf_state out), (''correlationId'', lf_correlation out),
         (''diagnostics'', JList (lf_diagnostics out)), (''extensionData'', JObj (lf_extension out)),
         (''lossyFields'', JList (map JStr (sort (lf_lossy out))))]))))"

section \<open>The command\<close>

datatype rail_cmd = Lower | Lift

fun run_cmd :: "rail_cmd \<Rightarrow> obj \<Rightarrow> json \<Rightarrow> json py" where
  "run_cmd Lower m doc = cmd_lower m doc"
| "run_cmd Lift m doc = cmd_lift m doc"

fun cmd_name :: "rail_cmd \<Rightarrow> string" where
  "cmd_name Lower = ''lower''"
| "cmd_name Lift = ''lift''"

text \<open>A \<open>RailError\<close> ends with status 1 and a \<open>ValueError\<close> with 2; any other exception is not caught.\<close>

definition rail_main :: "(string \<Rightarrow> string) \<Rightarrow> rail_cmd \<Rightarrow> json \<Rightarrow> json \<Rightarrow> string \<Rightarrow> (string \<times> nat \<times> json option) py" where
  "rail_main H cmd v doc out =
     (case pbind (load_map H v) (\<lambda>m. run_cmd cmd m doc) of
        Inl (RailError msg) \<Rightarrow> Inr (''mapping error: '' @ msg, 1, None)
      | Inl e \<Rightarrow> Inl e
      | Inr result \<Rightarrow> Inr (cmd_name cmd @ '': wrote '' @ out, 0, Some result))"

end
