(* ===== verification/RailProps.thy ===== *)
theory RailProps
  imports TranslateRail
begin

text \<open>
  What an application of a translation map guarantees: the map is the pinned one, a lift fails closed
  on exactly the rejected fields and the unreviewed codes, and a lowering takes each value from the
  one input or entry that can carry it.
\<close>

section \<open>The pin\<close>

lemma load_map_pass:
  "load_map H v = Inr m \<longleftrightarrow> v = JObj m \<and> jget ''kind'' m = JStr ''neutrino.translation-map'' \<and>
     jget ''translationMapHash'' m = JStr (map_hash H m) \<and> map_hash H m \<noteq> []"
  by (cases v) (auto simp: load_map_def)

lemma rail_main_ok:
  "rail_main H cmd v doc out = Inr (msg, 0, Some res) \<longleftrightarrow>
     (\<exists>m. load_map H v = Inr m \<and> run_cmd cmd m doc = Inr res) \<and> msg = cmd_name cmd @ '': wrote '' @ out"
  by (auto simp: rail_main_def pbind_def split: sum.split exn.split)

lemma canon_without:
  assumes "distinct (map fst a)" and "distinct (map fst b)" and "map_of a k = map_of b k"
    and "canon (JObj (jwithout [k] a)) = canon (JObj (jwithout [k] b))"
  shows "canon (JObj a) = canon (JObj b)"
proof -
  have dist: "distinct (map fst (jwithout [k] a))" "distinct (map fst (jwithout [k] b))"
    using assms(1,2) by (simp_all add: jwithout_def distinct_map_filter)
  have rest: "map_option canon (map_of (jwithout [k] a) i) = map_option canon (map_of (jwithout [k] b) i)" for i
    using canon_obj_iff [OF dist] assms(4) by blast
  have "map_option canon (map_of a i) = map_option canon (map_of b i)" for i
    using rest [of i] assms(3) by (cases "i = k") (simp_all add: map_of_jwithout)
  then show ?thesis using canon_obj_iff [OF assms(1,2)] by blast
qed

text \<open>C16. Only the pinned map drives a translation: when two maps with one \<open>translationMapHash\<close> are
  both applied, they are the same JSON value up to the order of keys, unless the hash function
  collides on their canonical texts. So a map cannot be changed under a kept pin.\<close>

theorem applied_maps_are_pinned:
  assumes "rail_main H cmd (JObj a) doc out = Inr (msg, 0, Some res)"
    and "rail_main H cmd' (JObj b) doc' out' = Inr (msg', 0, Some res')"
    and "wf_json (JObj a)" and "wf_json (JObj b)"
    and "inj_on H {compact (map_body a), compact (map_body b)}"
    and "jget ''translationMapHash'' a = jget ''translationMapHash'' b"
  shows "canon (JObj a) = canon (JObj b)"
proof -
  have ha: "jget ''translationMapHash'' a = JStr (map_hash H a)"
    and hb: "jget ''translationMapHash'' b = JStr (map_hash H b)"
    using assms(1,2) by (auto simp: rail_main_ok load_map_pass)
  then have "H (compact (map_body a)) = H (compact (map_body b))" using assms(6) by (simp add: map_hash_def)
  then have "canon (map_body a) = canon (map_body b)"
    by (rule canonical.tamper [where H = H, rotated 3])
      (use assms(3-5) wf_jwithout in \<open>simp_all add: map_body_def del: wf_json.simps(2)\<close>)
  then have body: "canon (JObj (jwithout [''translationMapHash''] a)) = canon (JObj (jwithout [''translationMapHash''] b))"
    by (simp only: map_body_def)
  have "map_of a ''translationMapHash'' = map_of b ''translationMapHash''"
    using ha hb assms(6) by (auto simp: jget_def jget_or_def split: option.splits)
  moreover have "distinct (map fst a)" "distinct (map fst b)" using assms(3,4) by simp_all
  ultimately show ?thesis using canon_without body by blast
qed

section \<open>Lift\<close>

text \<open>The shape of the rules of a reviewed map.\<close>

definition reject_ok :: "json \<Rightarrow> bool" where
  "reject_ok r \<longleftrightarrow> is_obj r \<and> is_str (jget ''field'' (as_obj r)) \<and> jhas ''reason'' (as_obj r)"

definition lift_rule_ok :: "json \<Rightarrow> bool" where
  "lift_rule_ok r \<longleftrightarrow> is_obj r \<and> is_str (jget ''from'' (as_obj r)) \<and> jhas ''to'' (as_obj r) \<and>
     jhas ''lossiness'' (as_obj r) \<and>
     (jget ''to'' (as_obj r) = JStr ''evidence.runtimeState'' \<longrightarrow> is_obj (jget ''codeList'' (as_obj r)))"

text \<open>The value of the field a rule reads.\<close>

definition rule_raw :: "json \<Rightarrow> string \<Rightarrow> json \<Rightarrow> json" where
  "rule_raw status k r = walk status (split_at (CHR ''/'') (str_of (jget k (as_obj r))))"

definition code_reviewed :: "json \<Rightarrow> json \<Rightarrow> bool" where
  "code_reviewed status r \<longleftrightarrow>
     (jget ''to'' (as_obj r) = JStr ''evidence.runtimeState'' \<longrightarrow> rule_raw status ''from'' r \<noteq> JNull \<longrightarrow>
        (\<exists>s. rule_raw status ''from'' r = JStr s \<and> jhas s (as_obj (jget ''codeList'' (as_obj r)))))"

lemma jindex_typed: "jget k d \<noteq> JNull \<Longrightarrow> jindex k d = Inr (jget k d)"
  by (rule jindex_has) (rule jget_not_null)

lemma check_reject_pass:
  assumes "reject_ok r"
  shows "check_reject status r u = Inr () \<longleftrightarrow> rule_raw status ''field'' r = JNull"
    and "raises_only (\<lambda>e. \<exists>msg. e = RailError msg) (check_reject status r u)"
proof -
  obtain d f where r: "r = JObj d" "jget ''field'' d = JStr f" "jindex ''reason'' d = Inr (jget ''reason'' d)"
    using assms jindex_has by (auto simp: reject_ok_def is_obj_iff is_str_iff)
  then have "jindex ''field'' d = Inr (JStr f)" using jindex_typed [of "''field''" d] by simp
  with r show "check_reject status r u = Inr () \<longleftrightarrow> rule_raw status ''field'' r = JNull"
    "raises_only (\<lambda>e. \<exists>msg. e = RailError msg) (check_reject status r u)"
    by (auto simp: check_reject_def get_path_def rule_raw_def raises_only_def)
qed

lemma lift_rule_pass:
  assumes "lift_rule_ok r"
  shows "(\<exists>out'. lift_rule status r out = Inr out') \<longleftrightarrow> code_reviewed status r"
proof -
  obtain d f where r: "r = JObj d" "jget ''from'' d = JStr f"
    and keys: "jindex ''to'' d = Inr (jget ''to'' d)" "jindex ''lossiness'' d = Inr (jget ''lossiness'' d)"
    using assms jindex_has by (auto simp: lift_rule_ok_def is_obj_iff is_str_iff)
  have src: "jindex ''from'' d = Inr (JStr f)" using jindex_typed [of "''from''" d] r(2) by simp
  show ?thesis
  proof (cases "jget ''to'' d = JStr ''evidence.runtimeState''")
    case True
    then obtain codes where codes: "jget ''codeList'' d = JObj codes"
      using assms r by (auto simp: lift_rule_ok_def is_obj_iff)
    then have "jindex ''codeList'' d = Inr (JObj codes)" using jindex_typed [of "''codeList''" d] by simp
    then have "(\<exists>st. lift_code r raw = Inr st) \<longleftrightarrow> (\<exists>s. raw = JStr s \<and> jhas s codes)" for raw
      using r(1) by (cases raw) (auto simp: lift_code_def jhas_jkeys jindex_has)
    with True r codes keys src show ?thesis
      by (auto simp: lift_rule_def get_path_def code_reviewed_def rule_raw_def Let_def pbind_Inr_conv)
  next
    case False
    with r keys src show ?thesis
      by (auto simp: lift_rule_def get_path_def code_reviewed_def rule_raw_def Let_def)
  qed
qed

lemma fold_py_returns:
  assumes "\<And>x s. x \<in> set xs \<Longrightarrow> (\<exists>t. f x s = Inr t) \<longleftrightarrow> P x"
  shows "(\<exists>t. fold_py f xs s = Inr t) \<longleftrightarrow> (\<forall>x \<in> set xs. P x)"
  using assms
proof (induction xs arbitrary: s)
  case (Cons x xs)
  have head: "(\<exists>t. f x s = Inr t) \<longleftrightarrow> P x" by (rule Cons.prems) simp
  have tail: "(\<exists>t. fold_py f xs u = Inr t) \<longleftrightarrow> (\<forall>x \<in> set xs. P x)" for u
    by (rule Cons.IH) (simp add: Cons.prems)
  show ?case using head tail by (auto simp: pbind_Inr_conv)
qed simp

text \<open>A lift fails closed on exactly what the map does not cover: with a map whose rules are
  complete, the interpretation of a status succeeds iff no rejected field has a value and every
  status code that is present is a text in the reviewed code list of its rule.\<close>

theorem lift_succeeds_iff_reviewed:
  assumes "jget ''rejects'' m = JList rejects" and "jget ''liftStatus'' m = JList rules"
    and "\<forall>r \<in> set rejects. reject_ok r" and "\<forall>r \<in> set rules. lift_rule_ok r"
  shows "(\<exists>out. lift_state m status = Inr out) \<longleftrightarrow>
    (\<forall>r \<in> set rejects. rule_raw status ''field'' r = JNull) \<and> (\<forall>r \<in> set rules. code_reviewed status r)"
proof -
  have lists: "keyed_list m ''rejects'' = Inr rejects" "keyed_list m ''liftStatus'' = Inr rules"
    using jindex_typed [of "''rejects''" m] jindex_typed [of "''liftStatus''" m] assms(1,2)
    by (simp_all add: keyed_list_def)
  have "(\<exists>u. fold_py (check_reject status) rejects () = Inr u) \<longleftrightarrow>
      (\<forall>r \<in> set rejects. rule_raw status ''field'' r = JNull)"
    by (rule fold_py_returns) (use assms(3) check_reject_pass(1) in auto)
  moreover have "(\<exists>out. fold_py (lift_rule status) rules no_lift = Inr out) \<longleftrightarrow>
      (\<forall>r \<in> set rules. code_reviewed status r)"
    by (rule fold_py_returns) (use assms(4) lift_rule_pass in auto)
  ultimately show ?thesis by (auto simp: lift_state_def lists pbind_Inr_conv)
qed

text \<open>
  What an interpretation holds, for any map: the rules that count are those whose field has a value in the
  status. Each part is read off them.
\<close>

definition rule_path :: "json \<Rightarrow> string" where
  "rule_path r = str_of (jget ''from'' (as_obj r))"

definition present_rules :: "json \<Rightarrow> json list \<Rightarrow> json list" where
  "present_rules status rules = filter (\<lambda>r. rule_raw status ''from'' r \<noteq> JNull) rules"

definition rules_to :: "string \<Rightarrow> json \<Rightarrow> json list \<Rightarrow> json list" where
  "rules_to target status rules = filter (\<lambda>r. jget ''to'' (as_obj r) = JStr target) (present_rules status rules)"

text \<open>The diagnostics a rule adds.\<close>

definition rule_diagnostics :: "json \<Rightarrow> json \<Rightarrow> json list" where
  "rule_diagnostics status r =
     (if jget ''to'' (as_obj r) = JStr ''diagnostics.reasonCode'' then [JObj [(''reasonCode'', rule_raw status ''from'' r)]]
      else if jget ''to'' (as_obj r) = JStr ''diagnostics.additionalInfo''
      then [JObj [(''additionalInfo'', rule_raw status ''from'' r)]] else [])"

definition lifted_state :: "json \<Rightarrow> json list \<Rightarrow> json \<Rightarrow> bool" where
  "lifted_state status rules state \<longleftrightarrow>
     (let rs = rules_to ''evidence.runtimeState'' status rules
      in (\<forall>r \<in> set rs. \<exists>v. lift_code r (rule_raw status ''from'' r) = Inr v)
         \<and> (if rs = [] then state = JNull else lift_code (last rs) (rule_raw status ''from'' (last rs)) = Inr state))"

definition lifted_from :: "json \<Rightarrow> json list \<Rightarrow> lifted \<Rightarrow> bool" where
  "lifted_from status rules out \<longleftrightarrow>
     lifted_state status rules (lf_state out)
     \<and> lf_correlation out =
         (let rs = rules_to ''evidence.correlationId'' status rules
          in if rs = [] then JNull else rule_raw status ''from'' (last rs))
     \<and> lf_diagnostics out = concat (map (rule_diagnostics status) (present_rules status rules))
     \<and> (\<forall>k. map_of (lf_extension out) k =
           (if k \<in> rule_path ` set (rules_to ''evidence.runtimeState'' status rules)
            then Some (walk status (split_at (CHR ''/'') k)) else None))
     \<and> lf_lossy out = map rule_path (filter (\<lambda>r. jget ''lossiness'' (as_obj r) \<noteq> JStr ''lossless'') (present_rules status rules))"

lemma rules_to_snoc:
  "present_rules status (rules @ [r]) = present_rules status rules @ (if rule_raw status ''from'' r = JNull then [] else [r])"
  "rules_to target status (rules @ [r]) = rules_to target status rules
     @ (if rule_raw status ''from'' r \<noteq> JNull \<and> jget ''to'' (as_obj r) = JStr target then [r] else [])"
  by (simp_all add: present_rules_def rules_to_def)

lemma lift_rule_step:
  assumes step: "lift_rule status r out = Inr out'" and from_rules: "lifted_from status rules out"
  shows "lifted_from status (rules @ [r]) out'"
proof -
  obtain d from_path raw where r: "r = JObj d" "map_of d ''from'' = Some from_path" "get_path status from_path = Inr raw"
    using step by (auto simp: lift_rule_def pbind_Inr_conv py_key_obj)
  then obtain p where p: "from_path = JStr p" "walk status (split_at (CHR ''/'') p) = raw"
    by (cases from_path) (auto simp: get_path_def)
  have raw: "rule_raw status ''from'' r = raw" "rule_path r = p"
    using r p by (simp_all add: rule_raw_def rule_path_def jget_in)
  show ?thesis
  proof (cases "raw = JNull")
    case True
    with step r p from_rules raw show ?thesis
      by (auto simp: lift_rule_def jindex_def lifted_from_def lifted_state_def rules_to_snoc Let_def)
  next
    case False
    obtain loss target where keys: "map_of d ''lossiness'' = Some loss" "map_of d ''to'' = Some target"
      using step r p False by (auto simp: lift_rule_def pbind_Inr_conv jindex_def Let_def split: option.splits)
    then have get: "jget ''lossiness'' d = loss" "jget ''to'' d = target" by (simp_all add: jget_in)
    define base where "base = (if loss \<noteq> JStr ''lossless'' then out\<lparr>lf_lossy := lf_lossy out @ [p]\<rparr> else out)"
    have "(if target = JStr ''evidence.runtimeState''
        then pbind (lift_code r raw) (\<lambda>state. Inr (base\<lparr>lf_state := state, lf_extension := dict_set p raw (lf_extension base)\<rparr>))
        else if target = JStr ''evidence.correlationId'' then Inr (base\<lparr>lf_correlation := raw\<rparr>)
        else if target = JStr ''diagnostics.reasonCode''
        then Inr (base\<lparr>lf_diagnostics := lf_diagnostics base @ [JObj [(''reasonCode'', raw)]]\<rparr>)
        else if target = JStr ''diagnostics.additionalInfo''
        then Inr (base\<lparr>lf_diagnostics := lf_diagnostics base @ [JObj [(''additionalInfo'', raw)]]\<rparr>)
        else Inr base) = Inr out'"
      using step r p False keys by (simp add: lift_rule_def jindex_def Let_def base_def split del: if_split cong: if_cong)
    then consider (state) st where "target = JStr ''evidence.runtimeState''" "lift_code r raw = Inr st"
        "out' = base\<lparr>lf_state := st, lf_extension := dict_set p raw (lf_extension base)\<rparr>"
      | (correlation) "target = JStr ''evidence.correlationId''" "out' = base\<lparr>lf_correlation := raw\<rparr>"
      | (reason) "target = JStr ''diagnostics.reasonCode''" "out' = base\<lparr>lf_diagnostics := lf_diagnostics base @ [JObj [(''reasonCode'', raw)]]\<rparr>"
      | (info) "target = JStr ''diagnostics.additionalInfo''" "out' = base\<lparr>lf_diagnostics := lf_diagnostics base @ [JObj [(''additionalInfo'', raw)]]\<rparr>"
      | (other) "target \<notin> {JStr ''evidence.runtimeState'', JStr ''evidence.correlationId'', JStr ''diagnostics.reasonCode'',
          JStr ''diagnostics.additionalInfo''}" "out' = base"
      by (auto simp: pbind_Inr_conv split: if_splits)
    note cases = this
    have base: "lf_state base = lf_state out" "lf_correlation base = lf_correlation out" "lf_diagnostics base = lf_diagnostics out"
      "lf_extension base = lf_extension out" "lf_lossy base = lf_lossy out @ (if loss \<noteq> JStr ''lossless'' then [p] else [])"
      by (simp_all add: base_def)
    have here: "rule_raw status ''from'' (JObj d) = raw" "rule_path (JObj d) = p" using raw by (simp_all add: r(1))
    have ext: "map_of (dict_set p raw (lf_extension out)) k = (if k = p then Some (walk status (split_at (CHR ''/'') k)) else map_of (lf_extension out) k)"
      for k using p(2) by simp
    note snoc = lifted_from_def lifted_state_def Let_def rules_to_snoc rule_diagnostics_def here get r(1) base ext
    from cases show ?thesis
    proof cases
      case state
      with from_rules False p(2) show ?thesis by (auto simp add: snoc)
    next
      case correlation
      with from_rules False show ?thesis by (simp add: snoc)
    next
      case reason
      with from_rules False show ?thesis by (simp add: snoc)
    next
      case info
      with from_rules False show ?thesis by (simp add: snoc)
    next
      case other
      with from_rules False show ?thesis by (simp add: snoc)
    qed
  qed
qed

lemma lift_rules_prefix:
  "fold_py (lift_rule status) rules out = Inr out' \<Longrightarrow> lifted_from status front out \<Longrightarrow> lifted_from status (front @ rules) out'"
proof (induction rules arbitrary: front out)
  case (Cons r rules)
  obtain mid where "lift_rule status r out = Inr mid" and rest: "fold_py (lift_rule status) rules mid = Inr out'"
    using Cons.prems(1) by (auto simp: pbind_Inr_conv)
  then have "lifted_from status (front @ [r]) mid" using lift_rule_step Cons.prems(2) by blast
  from Cons.IH [OF rest this] show ?case by simp
qed simp

text \<open>C15. Nothing in an interpretation is invented, and nothing the map reads is left out, for whatever map.
  The rules that count are those whose field has a value in the status. The runtime state is the reviewed
  code of the last of them for the state, or null, and every one of their codes is reviewed; the correlation
  id is the value of the last rule for it, or null; the diagnostics are the values of the rules for a reason
  code or for additional information, in order; the extension data hold exactly the status values at the
  paths of the rules for the state; the lossy fields are the sorted paths of the rules not marked lossless.
  Rail and profile are those of the map, and no rejected field has a value.\<close>

theorem lift_result_from_status:
  assumes "cmd_lift m status = Inr res"
  shows "\<exists>rules rejects out profiles. keyed_list m ''liftStatus'' = Inr rules \<and> keyed_list m ''rejects'' = Inr rejects
    \<and> lifted_from status rules out \<and> jget ''profiles'' m = JObj profiles
    \<and> res = JObj [(''kind'', JStr ''neutrino.runtime-evidence-interpretation''), (''rail'', jget ''rail'' m),
         (''profile'', jget ''liftStatus'' profiles), (''runtimeState'', lf_state out), (''correlationId'', lf_correlation out),
         (''diagnostics'', JList (lf_diagnostics out)), (''extensionData'', JObj (lf_extension out)),
         (''lossyFields'', JList (map JStr (sort (lf_lossy out))))]
    \<and> (\<forall>r \<in> set rejects. \<exists>d. r = JObj d \<and> get_path status (jget ''field'' d) = Inr JNull)"
proof -
  obtain rail profile ps out where m: "jindex ''rail'' m = Inr rail" "jindex ''profiles'' m = Inr ps" "py_key ps ''liftStatus'' = Inr profile"
    and lift: "lift_state m status = Inr out"
    and res: "res = JObj [(''kind'', JStr ''neutrino.runtime-evidence-interpretation''), (''rail'', rail), (''profile'', profile),
      (''runtimeState'', lf_state out), (''correlationId'', lf_correlation out), (''diagnostics'', JList (lf_diagnostics out)),
      (''extensionData'', JObj (lf_extension out)), (''lossyFields'', JList (map JStr (sort (lf_lossy out))))]"
    using assms by (auto simp: cmd_lift_def pbind_Inr_conv)
  obtain profiles where ps: "ps = JObj profiles" "jget ''liftStatus'' profiles = profile"
    using m(3) by (auto simp: py_key_obj jget_in)
  have "jget ''rail'' m = rail" "jget ''profiles'' m = ps"
    using m(1,2) by (auto simp: jindex_def jget_in split: option.splits)
  note from_map = this ps
  obtain rejects rules where lists: "keyed_list m ''rejects'' = Inr rejects" "keyed_list m ''liftStatus'' = Inr rules"
    and rej: "fold_py (check_reject status) rejects () = Inr ()"
    and run: "fold_py (lift_rule status) rules no_lift = Inr out"
    using lift by (auto simp: lift_state_def pbind_Inr_conv)
  have "lifted_from status [] no_lift"
    by (simp add: lifted_from_def lifted_state_def no_lift_def rules_to_def present_rules_def)
  from lift_rules_prefix [OF run this] have "lifted_from status rules out" by simp
  moreover have "\<exists>d. r = JObj d \<and> get_path status (jget ''field'' d) = Inr JNull" if "r \<in> set rejects" for r
  proof -
    have "check_reject status r () = Inr ()"
      using rej that by (induction rejects) (auto simp: pbind_Inr_conv)
    then obtain d f where "r = JObj d" "map_of d ''field'' = Some f" "get_path status f = Inr JNull"
      by (auto simp: check_reject_def pbind_Inr_conv py_key_obj split: if_splits)
    then show ?thesis by (simp add: jget_in)
  qed
  ultimately show ?thesis
    using lists res from_map by (intro exI [of _ rules] exI [of _ rejects] exI [of _ out] exI [of _ profiles]) simp
qed

section \<open>Lower\<close>

lemma unique_input_result:
  assumes "unique_input (JList ts) ty carry = Inr src"
  shows "\<exists>n. src = JObj [(''slot'', n), (''type'', JStr ty)] \<and>
    (\<exists>d. filter (\<lambda>t. jget ''type'' (as_obj t) = JStr ty) ts = [JObj d] \<and> jget ''name'' d = n)"
proof -
  obtain sel names where sel: "filter_py (\<lambda>t. pbind (py_get t ''type'') (\<lambda>v. Inr (v = JStr ty))) ts = Inr sel"
    and names: "map_py (\<lambda>t. py_key t ''name'') sel = Inr names"
    and src: "(case names of [n] \<Rightarrow> Inr (JObj [(''slot'', n), (''type'', JStr ty)])
      | _ \<Rightarrow> Inl (RailError (''capability has '' @ show_nat (length names) @ '' '' @ sq ty @ '' inputs; cannot carry '' @ carry)))
      = Inr src"
    using assms by (auto simp: unique_input_def pbind_Inr_conv)
  obtain n where n: "names = [n]" "src = JObj [(''slot'', n), (''type'', JStr ty)]"
    using src by (auto split: list.splits)
  then obtain t where t: "sel = [t]" "py_key t ''name'' = Inr n" using names by (auto simp: map_py_Inr list_all2_Cons2)
  then obtain d where d: "t = JObj d" "jget ''name'' d = n" by (auto simp: py_key_obj jget_in)
  have "(pbind (py_get t ''type'') (\<lambda>v. Inr (v = JStr ty)) = Inr True) = (jget ''type'' (as_obj t) = JStr ty)"
    if "t \<in> set ts" for t
    using sel that by (auto simp: filter_py_Inr pbind_Inr_conv py_get_obj)
  then have "filter (\<lambda>t. pbind (py_get t ''type'') (\<lambda>v. Inr (v = JStr ty)) = Inr True) ts =
      filter (\<lambda>t. jget ''type'' (as_obj t) = JStr ty) ts" by (intro filter_cong) simp_all
  then have "filter (\<lambda>t. jget ''type'' (as_obj t) = JStr ty) ts = sel"
    using sel unfolding filter_py_Inr by simp
  with n t d show ?thesis by simp
qed

text \<open>C19. A lowered field that carries the amount or the currency names the only input of the
  capability that can: the capability has exactly one typed input of that type, and the projection
  points at its name. There is one projected field per rule of the map, in the map's order.\<close>

theorem lower_fields_have_unique_source:
  assumes "cmd_lower m (JObj cap) = Inr res" and "jget ''typedInputs'' cap = JList ts"
  shows "\<exists>rules fields. keyed_list m ''lower'' = Inr rules \<and> jget ''fields'' (as_obj res) = JList (map JObj fields) \<and>
    list_all2 (\<lambda>r f. jget ''railField'' f = jget ''to'' (as_obj r) \<and>
      (\<forall>(carry, ty) \<in> {(''value.amount'', ''money''), (''value.currency'', ''currency'')}.
         jget ''carries'' (as_obj r) = JStr carry \<longrightarrow>
         (\<exists>d. filter (\<lambda>t. jget ''type'' (as_obj t) = JStr ty) ts = [JObj d] \<and>
            jget ''source'' f = JObj [(''slot'', jget ''name'' d), (''type'', JStr ty)]))) rules fields"
proof -
  obtain rules fields where rules: "keyed_list m ''lower'' = Inr rules"
    and fields: "map_py (lower_field (JObj cap)) rules = Inr fields"
    and res: "jget ''fields'' (as_obj res) = JList (map JObj fields)"
    using assms(1) by (auto simp: cmd_lower_def pbind_Inr_conv jget_def jget_or_def)
  have typed: "jget_or ''typedInputs'' (JList []) cap = JList ts"
    using assms(2) by (auto simp: jget_def jget_or_def split: option.splits)
  have field: "jget ''railField'' f = jget ''to'' (as_obj r) \<and>
      (\<forall>(carry, ty) \<in> {(''value.amount'', ''money''), (''value.currency'', ''currency'')}.
         jget ''carries'' (as_obj r) = JStr carry \<longrightarrow>
         (\<exists>d. filter (\<lambda>t. jget ''type'' (as_obj t) = JStr ty) ts = [JObj d] \<and>
            jget ''source'' f = JObj [(''slot'', jget ''name'' d), (''type'', JStr ty)]))"
    if f: "lower_field (JObj cap) r = Inr f" for r f
  proof -
    obtain d a c s l where r: "r = JObj d" "map_of d ''to'' = Some a" "map_of d ''carries'' = Some c"
      "resolve_carry c (JObj cap) = Inr s"
      "f = [(''railField'', a), (''carries'', c), (''source'', s), (''lossiness'', l)]"
      using f by (auto simp: lower_field_def pbind_Inr_conv py_key_obj)
    have "\<exists>d. filter (\<lambda>t. jget ''type'' (as_obj t) = JStr ty) ts = [JObj d] \<and>
        s = JObj [(''slot'', jget ''name'' d), (''type'', JStr ty)]"
      if "unique_input (JList ts) ty carry = Inr s" for ty carry
      using unique_input_result [OF that] by auto
    with r typed show ?thesis by (auto simp: jget_in resolve_carry_def jget_def jget_or_def)
  qed
  have "list_all2 (\<lambda>r f. lower_field (JObj cap) r = Inr f) rules fields" using fields by (simp add: map_py_Inr)
  then show ?thesis
    by (intro exI [of _ rules] exI [of _ fields] conjI rules res) (erule list_all2_mono, rule field)
qed

section \<open>A sample map\<close>

definition pin :: "string \<Rightarrow> string" where
  "pin s = ''abc''"

definition sample_rules :: "json list" where
  "sample_rules = [JObj [(''from'', JStr ''Sts/Cd''), (''to'', JStr ''evidence.runtimeState''), (''lossiness'', JStr ''lossless''),
     (''codeList'', JObj [(''ACSC'', JStr ''settled''), (''RJCT'', JStr ''failed'')])]]"

definition sample_rejects :: "json list" where
  "sample_rejects = [JObj [(''field'', JStr ''Sts/Chrgs''), (''reason'', JStr ''charges are not modelled'')]]"

definition sample_map :: "json \<Rightarrow> obj" where
  "sample_map rail = [(''kind'', JStr ''neutrino.translation-map''), (''rail'', rail),
     (''profiles'', JObj [(''lower'', JStr ''pacs.009''), (''liftStatus'', JStr ''pacs.002'')]),
     (''lower'', JList [JObj [(''to'', JStr ''Amt''), (''carries'', JStr ''value.amount''), (''lossiness'', JStr ''lossless'')]]),
     (''liftStatus'', JList sample_rules), (''preservesAs'', JList []), (''rejects'', JList sample_rejects),
     (''translationMapHash'', JStr ''abc'')]"

definition status_doc :: "json \<Rightarrow> (string \<times> json) list \<Rightarrow> json" where
  "status_doc code extra = JObj [(''Sts'', JObj ([(''Cd'', code)] @ extra))]"

definition sample_cap :: obj where
  "sample_cap = [(''typedInputs'', JList [JObj [(''name'', JStr ''amount''), (''type'', JStr ''money'')]])]"

lemma sample_lists:
  "jget ''rejects'' (sample_map rail) = JList sample_rejects" "jget ''liftStatus'' (sample_map rail) = JList sample_rules"
  "keyed_list (sample_map rail) ''rejects'' = Inr sample_rejects"
  "keyed_list (sample_map rail) ''liftStatus'' = Inr sample_rules"
  by (simp_all add: sample_map_def jget_def jget_or_def keyed_list_def jindex_def)

lemma applied_maps_are_pinned_witness:
  "canon (JObj (sample_map (JStr ''iso''))) = canon (JObj (rev (sample_map (JStr ''iso''))))"
proof -
  let ?a = "sample_map (JStr ''iso'')"
  obtain x where x: "rail_main pin Lift (JObj ?a) (status_doc (JStr ''ACSC'') []) [] = Inr (''lift: wrote '', 0, Some x)"
  proof -
    have "\<exists>x. rail_main pin Lift (JObj ?a) (status_doc (JStr ''ACSC'') []) [] = Inr (''lift: wrote '', 0, Some x)"
      by (rule exI) code_simp
    then show thesis using that by blast
  qed
  have "\<exists>y. rail_main pin Lift (JObj (rev ?a)) (status_doc (JStr ''ACSC'') []) [] = Inr (''lift: wrote '', 0, Some y)"
    by (rule exI) code_simp
  then obtain y where y: "rail_main pin Lift (JObj (rev ?a)) (status_doc (JStr ''ACSC'') []) [] =
      Inr (''lift: wrote '', 0, Some y)" by blast
  have wf: "wf_json (JObj ?a)" "wf_json (JObj (rev ?a))" by code_simp+
  have "compact (map_body ?a) = compact (map_body (rev ?a))" by code_simp
  then have inj: "inj_on pin {compact (map_body ?a), compact (map_body (rev ?a))}" by simp
  have "jget ''translationMapHash'' ?a = jget ''translationMapHash'' (rev ?a)" by code_simp
  from applied_maps_are_pinned [OF x y wf inj this] show ?thesis .
qed

lemma lift_succeeds_iff_reviewed_witness:
  "(\<exists>out. lift_state (sample_map (JStr [])) (status_doc (JStr ''ACSC'') []) = Inr out) \<and>
   (\<nexists>out. lift_state (sample_map (JStr [])) (status_doc (JStr ''XXXX'') []) = Inr out) \<and>
   (\<nexists>out. lift_state (sample_map (JStr [])) (status_doc (JStr ''ACSC'') [(''Chrgs'', JInt 1)]) = Inr out)"
proof -
  have ok: "\<forall>r \<in> set sample_rejects. reject_ok r" "\<forall>r \<in> set sample_rules. lift_rule_ok r"
    by (simp_all add: sample_rejects_def sample_rules_def reject_ok_def lift_rule_ok_def jget_def jget_or_def jhas_def)
  note iff = lift_succeeds_iff_reviewed [OF sample_lists(1,2) ok]
  show ?thesis
    unfolding iff
    by (simp add: sample_rejects_def sample_rules_def rule_raw_def code_reviewed_def status_doc_def jget_def jget_or_def jhas_def)
qed

lemma lift_result_from_status_witness:
  "\<exists>out. cmd_lift (sample_map (JStr ''iso'')) (status_doc (JStr ''ACSC'') []) = Inr out \<and>
     jget ''runtimeState'' (as_obj out) = JStr ''settled'' \<and> jget ''correlationId'' (as_obj out) = JNull"
proof -
  have "\<exists>out. cmd_lift (sample_map (JStr ''iso'')) (status_doc (JStr ''ACSC'') []) = Inr out" by (rule exI) code_simp
  then obtain out where run: "cmd_lift (sample_map (JStr ''iso'')) (status_doc (JStr ''ACSC'') []) = Inr out" by blast
  from lift_result_from_status [OF run] obtain res where res: "lifted_from (status_doc (JStr ''ACSC'') []) sample_rules res"
    and state: "jget ''runtimeState'' (as_obj out) = lf_state res" "jget ''correlationId'' (as_obj out) = lf_correlation res"
    by (auto simp: sample_lists jget_def jget_or_def)
  have "lf_state res = JStr ''settled'' \<and> lf_correlation res = JNull"
    using res by (simp add: lifted_from_def lifted_state_def rules_to_def present_rules_def sample_rules_def rule_raw_def
        status_doc_def jget_def jget_or_def lift_code_def jindex_def jkeys_def)
  with run state show ?thesis by simp
qed

lemma lower_fields_have_unique_source_witness:
  "\<exists>res f. cmd_lower (sample_map (JStr ''iso'')) (JObj sample_cap) = Inr res \<and>
     jget ''fields'' (as_obj res) = JList [JObj f] \<and>
     jget ''source'' f = JObj [(''slot'', JStr ''amount''), (''type'', JStr ''money'')]"
proof -
  let ?m = "sample_map (JStr ''iso'')"
  let ?rule = "[(''to'', JStr ''Amt''), (''carries'', JStr ''value.amount''), (''lossiness'', JStr ''lossless'')]"
  have "\<exists>res. cmd_lower ?m (JObj sample_cap) = Inr res" by (rule exI) code_simp
  then obtain res where res: "cmd_lower ?m (JObj sample_cap) = Inr res" by blast
  have ts: "jget ''typedInputs'' sample_cap = JList [JObj [(''name'', JStr ''amount''), (''type'', JStr ''money'')]]"
    by (simp add: sample_cap_def jget_def jget_or_def)
  have rules: "keyed_list ?m ''lower'' = Inr [JObj ?rule]"
    by (simp add: keyed_list_def sample_map_def jindex_def)
  have carries: "jget ''carries'' ?rule = JStr ''value.amount''" by (simp add: jget_def jget_or_def)
  from lower_fields_have_unique_source [OF res ts] rules carries res show ?thesis
    by (auto simp: list_all2_Cons1 jget_def jget_or_def)
qed

text \<open>A null field is treated as an absent one: a status whose rejected field is present with the
  value null is lifted, and so is one whose status code is null, which leaves the runtime state null
  without an error. A present value in the same places ends with a mapping error and status 1.\<close>

theorem null_fields_are_lifted:
  "(\<exists>out. lift_state (sample_map rail) (status_doc JNull [(''Chrgs'', JNull)]) = Inr out \<and> lf_state out = JNull) \<and>
   (\<exists>msg. lift_state (sample_map rail) (status_doc JNull [(''Chrgs'', JInt 1)]) = Inl (RailError msg)) \<and>
   (\<exists>msg. lift_state (sample_map rail) (status_doc (JStr ''XXXX'') []) = Inl (RailError msg))"
  by (simp add: lift_state_def sample_lists sample_rejects_def sample_rules_def check_reject_def lift_rule_def
      lift_code_def get_path_def status_doc_def jget_def jget_or_def jindex_def jkeys_def no_lift_def Let_def)

end
