(* ===== verification/TranslationMap.thy ===== *)
theory TranslationMap
  imports RailProps
begin

text \<open>
  \<open>src/scripts/rails/validate_translation_map.py\<close>: the review of a translation map before it may drive
  \<open>translate_rail.py\<close>. \<open>tm_main\<close> is \<open>main\<close> on a document that was read: the printed lines and the exit
  status. A checker returns the messages it appends to \<open>errors\<close>. The last section joins the review with
  the application of the map.
\<close>

section \<open>Vocabulary\<close>

text \<open>The sets in sorted order, as the messages show them.\<close>

definition lossiness_values :: "string list" where
  "lossiness_values = [''lossless'', ''lossy-preserved-in-extensionData'', ''unsupported'']"

definition lower_carries :: "string list" where
  "lower_carries = [''evidence.correlationId'', ''party.creditor'', ''party.debtor'', ''value.amount'', ''value.currency'']"

definition lift_targets :: "string list" where
  "lift_targets = [''diagnostics.additionalInfo'', ''diagnostics.reasonCode'', ''evidence.correlationId'',
     ''evidence.runtimeState'']"

definition map_fields :: "string list" where
  "map_fields = [''kind'', ''rail'', ''version'', ''profiles'', ''provenance'', ''lower'', ''liftStatus'',
     ''preservesAs'', ''rejects'']"

section \<open>Checks\<close>

definition tm_need :: "obj \<Rightarrow> string \<Rightarrow> string \<Rightarrow> string list py" where
  "tm_need d k w = emit_if (\<not> jhas k d) (w @ '': missing '' @ sq k)"

definition tm_no_unknown :: "obj \<Rightarrow> string list \<Rightarrow> string \<Rightarrow> string list py" where
  "tm_no_unknown d allowed w = each (jkeys d) (\<lambda>k. emit_if (k \<notin> set allowed) (w @ '': unknown field '' @ sq k))"

definition tm_texts :: "obj \<Rightarrow> string list \<Rightarrow> string \<Rightarrow> string list py" where
  "tm_texts d ks w = each ks (\<lambda>k. emit_if (\<not> nonempty_str (jget k d)) (w @ '': '' @ sq k @ '' must be a non-empty string''))"

definition tm_header :: "obj \<Rightarrow> string list py" where
  "tm_header d =
     chks [each map_fields (\<lambda>k. tm_need d k ''map''),
       tm_no_unknown d (map_fields @ [''translationMapHash'']) ''map'',
       emit_if (jget ''kind'' d \<noteq> JStr ''neutrino.translation-map'')
         (''map: kind must be '' @ sq ''neutrino.translation-map''),
       tm_texts d [''rail'', ''version''] ''map'']"

definition tm_profiles :: "obj \<Rightarrow> string list py" where
  "tm_profiles d =
     (case jget_or ''profiles'' (JObj []) d of
        JObj prof \<Rightarrow>
          chks [tm_no_unknown prof [''lower'', ''liftStatus''] ''profiles'',
            tm_texts prof [''lower'', ''liftStatus''] ''profiles'']
      | _ \<Rightarrow> Inr [''map: profiles must be an object''])"

definition tm_provenance :: "obj \<Rightarrow> string list py" where
  "tm_provenance d =
     (case jget_or ''provenance'' (JObj []) d of
        JObj prov \<Rightarrow>
          chks [tm_no_unknown prov [''source'', ''standardVersion'', ''reviewer'', ''status''] ''provenance'',
            tm_texts prov [''source'', ''standardVersion'', ''reviewer''] ''provenance'',
            emit_if (jget ''status'' prov \<noteq> JStr ''accepted'')
              (''provenance.status must be '' @ sq ''accepted'' @ '' for a reviewed map'')]
      | _ \<Rightarrow> Inr [''map: provenance must be an object''])"

definition tm_arrays :: "obj \<Rightarrow> string list py" where
  "tm_arrays d =
     each [''lower'', ''liftStatus'', ''preservesAs'', ''rejects''] (\<lambda>k.
       emit_if (jhas k d \<and> \<not> is_list (jget k d)) (''map: '' @ sq k @ '' must be an array''))"

text \<open>A loop over a section: an element that is not an object is reported and skipped.\<close>

definition tm_section :: "obj \<Rightarrow> string \<Rightarrow> (obj \<Rightarrow> string \<Rightarrow> string list py) \<Rightarrow> string list py" where
  "tm_section d sec f =
     each_i (as_list (jget sec d)) (\<lambda>i v.
       case v of JObj m \<Rightarrow> f m (idx sec i) | _ \<Rightarrow> Inr [idx sec i @ '': must be an object''])"

definition tm_lossiness :: "obj \<Rightarrow> string \<Rightarrow> string \<Rightarrow> string list py" where
  "tm_lossiness m noun w =
     pbind (in_strs (jget ''lossiness'' m) lossiness_values) (\<lambda>known.
       if \<not> known then Inr [w @ '': lossiness must be one of '' @ repr_strs lossiness_values]
       else emit_if (jget ''lossiness'' m = JStr ''unsupported'')
         (w @ '': an active '' @ noun @ '' mapping cannot be '' @ sq ''unsupported'' @ '' (use '' @ sq ''rejects'' @ '')''))"

definition tm_lower :: "obj \<Rightarrow> string \<Rightarrow> string list py" where
  "tm_lower m w =
     chks [tm_no_unknown m [''carries'', ''to'', ''lossiness''] w,
       emit_ifp (not_in_strs (jget ''carries'' m) lower_carries)
         (w @ '': carries must be one of '' @ repr_strs lower_carries),
       emit_if (\<not> nonempty_str (jget ''to'' m)) (w @ '': '' @ sq ''to'' @ '' (rail field) must be a non-empty string''),
       tm_lossiness m ''lower'' w]"

definition tm_code_list :: "obj \<Rightarrow> string \<Rightarrow> string list py" where
  "tm_code_list m w =
     (let cl = jget ''codeList'' m
      in if jget ''to'' m = JStr ''evidence.runtimeState''
         then emit_if (\<not> is_obj cl \<or> \<not> truthy cl \<or> \<not> list_all (\<lambda>(k, v). nonempty_str v) (as_obj cl))
           (w @ '': evidence.runtimeState requires a non-empty codeList with non-empty values'')
         else emit_if (jhas ''codeList'' m) (w @ '': codeList only applies to evidence.runtimeState''))"

definition tm_lift :: "obj \<Rightarrow> string \<Rightarrow> string list py" where
  "tm_lift m w =
     chks [tm_no_unknown m [''from'', ''to'', ''codeList'', ''lossiness''] w,
       emit_if (\<not> nonempty_str (jget ''from'' m)) (w @ '': '' @ sq ''from'' @ '' (rail field) must be a non-empty string''),
       emit_ifp (not_in_strs (jget ''to'' m) lift_targets)
         (w @ '': '' @ sq ''to'' @ '' must be one of '' @ repr_strs lift_targets),
       tm_lossiness m ''lift'' w,
       tm_code_list m w]"

definition tm_preserve :: "obj \<Rightarrow> string \<Rightarrow> string list py" where
  "tm_preserve m w =
     chks [tm_no_unknown m [''field'', ''extension'', ''lossiness''] w,
       emit_if (\<not> nonempty_str (jget ''field'' m) \<or> \<not> nonempty_str (jget ''extension'' m))
         (w @ '': '' @ sq ''field'' @ '' and '' @ sq ''extension'' @ '' must be non-empty strings''),
       emit_if (jget ''lossiness'' m \<noteq> JStr ''lossy-preserved-in-extensionData'')
         (w @ '': lossiness must be '' @ sq ''lossy-preserved-in-extensionData'')]"

definition tm_reject :: "obj \<Rightarrow> string \<Rightarrow> string list py" where
  "tm_reject m w =
     chks [tm_no_unknown m [''field'', ''reason''] w,
       emit_if (\<not> nonempty_str (jget ''field'' m) \<or> \<not> nonempty_str (jget ''reason'' m))
         (w @ '': '' @ sq ''field'' @ '' and '' @ sq ''reason'' @ '' must be non-empty strings'')]"

text \<open>The pin: 64 lowercase hexadecimal digits that are the digest of the map without them.\<close>

definition lower_hex_64 :: "json \<Rightarrow> bool" where
  "lower_hex_64 v = (case v of JStr s \<Rightarrow> length s = 64 \<and> list_all (\<lambda>c. c \<in> set ''0123456789abcdef'') s | _ \<Rightarrow> False)"

definition tm_pin :: "(string \<Rightarrow> string) \<Rightarrow> obj \<Rightarrow> string list py" where
  "tm_pin H d =
     (let embedded = jget ''translationMapHash'' d
      in if \<not> lower_hex_64 embedded
         then Inr [''translationMapHash is required (64-char lowercase hex) '' @ em_dash @ '' a reviewed map must be hash-pinned'']
         else emit_if (embedded \<noteq> JStr (map_hash H d))
           (''translationMapHash '' @ str_of embedded @ '' != computed '' @ map_hash H d))"

definition tm_errors :: "(string \<Rightarrow> string) \<Rightarrow> obj \<Rightarrow> string list py" where
  "tm_errors H d =
     chks [tm_header d, tm_profiles d, tm_provenance d, tm_arrays d,
       tm_section d ''lower'' tm_lower, tm_section d ''liftStatus'' tm_lift,
       tm_section d ''preservesAs'' tm_preserve, tm_section d ''rejects'' tm_reject,
       tm_pin H d]"

definition tm_main :: "(string \<Rightarrow> string) \<Rightarrow> json \<Rightarrow> (string list \<times> nat) py" where
  "tm_main H v =
     (case v of
        JObj d \<Rightarrow>
          pbind (tm_errors H d) (\<lambda>errors.
            if errors \<noteq> []
            then Inr (map (\<lambda>e. ''  - '' @ e) errors
                @ [''translation-map check: '' @ show_nat (length errors) @ '' problem(s)''], 1)
            else (let n = (\<lambda>k. show_nat (length (as_list (jget k d))))
              in Inr ([''translation-map check: OK ('' @ n ''lower'' @ '' lower, '' @ n ''liftStatus'' @ '' lift, ''
                @ n ''preservesAs'' @ '' preserve, '' @ n ''rejects'' @ '' reject)''], 0)))
      | _ \<Rightarrow> Inr ([''error: top-level must be an object''], 1))"

section \<open>What a reviewed map provides\<close>

lemma tm_section_pass:
  assumes "tm_section d sec f = Inr []" and "v \<in> set (as_list (jget sec d))"
  shows "\<exists>m w. v = JObj m \<and> f m w = Inr []"
proof -
  obtain i where "(case v of JObj m \<Rightarrow> f m (idx sec i) | _ \<Rightarrow> Inr [idx sec i @ '': must be an object'']) = Inr []"
    using each_i_passD [OF assms(1) [unfolded tm_section_def] assms(2)] by blast
  then show ?thesis by (cases v) auto
qed

lemma tm_lossiness_pass: "tm_lossiness m noun w = Inr [] \<Longrightarrow> is_str (jget ''lossiness'' m)"
  by (cases "jget ''lossiness'' m") (auto simp: tm_lossiness_def)

lemma is_str_has: "is_str (jget k d) \<Longrightarrow> jhas k d"
  by (rule jget_not_null) auto

lemma tm_reject_ok: "tm_reject m w = Inr [] \<Longrightarrow> reject_ok (JObj m)"
  by (auto simp: tm_reject_def chks_pass emit_if_pass reject_ok_def nonempty_str_iff intro!: is_str_has)

lemma tm_lift_ok: "tm_lift m w = Inr [] \<Longrightarrow> lift_rule_ok (JObj m)"
  unfolding tm_lift_def chks_pass list.set ball_simps
  by (auto simp: emit_if_pass emit_ifp_pass not_in_strs_False lift_rule_ok_def nonempty_str_iff tm_code_list_def Let_def
      intro!: is_str_has dest!: tm_lossiness_pass)

lemma tm_main_accepts:
  assumes "tm_main H v = Inr (lines, 0)"
  obtains m where "v = JObj m" and "tm_errors H m = Inr []"
  using assms by (auto simp: tm_main_def pbind_Inr_conv Let_def split: json.splits if_splits)

lemma reviewed_map_loads:
  assumes "tm_errors H m = Inr []"
  shows "load_map H (JObj m) = Inr m"
  using assms unfolding tm_errors_def chks_pass list.set ball_simps
  by (auto simp: load_map_pass tm_header_def chks_pass emit_if_pass tm_pin_def Let_def lower_hex_64_def split: if_splits)

lemma reviewed_map_list:
  assumes "tm_errors H m = Inr []" and "k \<in> {''lower'', ''liftStatus'', ''preservesAs'', ''rejects''}"
  shows "\<exists>vs. jget k m = JList vs"
proof -
  have head: "tm_header m = Inr []" and arr: "tm_arrays m = Inr []"
    using assms(1) by (simp_all add: tm_errors_def chks_pass)
  have "jhas k m"
    using head assms(2) by (auto simp: tm_header_def chks_pass each_pass tm_need_def emit_if_pass map_fields_def)
  then show ?thesis
    using arr assms(2) by (auto simp: tm_arrays_def each_pass emit_if_pass is_list_iff)
qed

lemma reviewed_map_rejects:
  assumes "tm_errors H m = Inr []"
  shows "\<exists>rejects. jget ''rejects'' m = JList rejects \<and> (\<forall>r \<in> set rejects. reject_ok r)"
proof -
  have sec: "tm_section m ''rejects'' tm_reject = Inr []" using assms by (simp add: tm_errors_def chks_pass)
  obtain vs where vs: "jget ''rejects'' m = JList vs" using reviewed_map_list [OF assms] by blast
  have "reject_ok r" if "r \<in> set vs" for r
    using tm_section_pass [OF sec, of r] that tm_reject_ok by (auto simp: vs)
  with vs show ?thesis by blast
qed

lemma reviewed_map_rules:
  assumes "tm_errors H m = Inr []"
  shows "\<exists>rules. jget ''liftStatus'' m = JList rules \<and> (\<forall>r \<in> set rules. lift_rule_ok r)"
proof -
  have sec: "tm_section m ''liftStatus'' tm_lift = Inr []" using assms by (simp add: tm_errors_def chks_pass)
  obtain vs where vs: "jget ''liftStatus'' m = JList vs" using reviewed_map_list [OF assms] by blast
  have "lift_rule_ok r" if "r \<in> set vs" for r
    using tm_section_pass [OF sec, of r] that tm_lift_ok by (auto simp: vs)
  with vs show ?thesis by blast
qed

lemma reviewed_map_rail:
  assumes "tm_errors H m = Inr []"
  shows "jhas ''rail'' m" and "jhas ''profiles'' m"
  using assms by (auto simp: tm_errors_def tm_header_def chks_pass each_pass tm_need_def emit_if_pass map_fields_def)

lemma reviewed_map_profile:
  assumes "tm_errors H m = Inr []" and "k \<in> {''lower'', ''liftStatus''}"
  shows "\<exists>p. pbind (jindex ''profiles'' m) (\<lambda>ps. py_key ps k) = Inr p"
proof -
  have "tm_profiles m = Inr []" using assms(1) by (simp add: tm_errors_def chks_pass)
  then obtain ps where ps: "map_of m ''profiles'' = Some (JObj ps)" "tm_texts ps [''lower'', ''liftStatus''] ''profiles'' = Inr []"
    using reviewed_map_rail [OF assms(1)]
    by (auto simp: tm_profiles_def chks_pass jhas_map_of jget_or_def split: json.splits)
  then have "is_str (jget k ps)" using assms(2) by (auto simp: tm_texts_def each_pass emit_if_pass nonempty_str_iff)
  then have "jindex k ps = Inr (jget k ps)" by (intro jindex_has is_str_has)
  then show ?thesis using ps(1) by (simp add: jindex_def)
qed

section \<open>The review and the rail together\<close>

lemma reviewed_cmd_lift:
  assumes "tm_errors H m = Inr []"
  shows "\<exists>f. cmd_lift m status = pbind (lift_state m status) (\<lambda>x. Inr (f x))"
proof -
  obtain rail where rail: "jindex ''rail'' m = Inr rail" using reviewed_map_rail(1) [OF assms] jindex_has by blast
  obtain p where p: "pbind (jindex ''profiles'' m) (\<lambda>ps. py_key ps ''liftStatus'') = Inr p"
    using reviewed_map_profile [OF assms] by blast
  show ?thesis unfolding cmd_lift_def rail p pbind_simps by (rule exI, rule refl)
qed

lemma reviewed_lift_runs:
  assumes "tm_errors H m = Inr []"
  shows "(\<exists>msg res. rail_main H Lift (JObj m) status out = Inr (msg, 0, Some res)) \<longleftrightarrow> (\<exists>x. lift_state m status = Inr x)"
    and "rail_main H Lift (JObj m) status out = Inl e \<Longrightarrow> lift_state m status = Inl e"
proof -
  obtain f where run: "cmd_lift m status = pbind (lift_state m status) (\<lambda>x. Inr (f x))"
    using reviewed_cmd_lift [OF assms] by blast
  show "(\<exists>msg res. rail_main H Lift (JObj m) status out = Inr (msg, 0, Some res)) \<longleftrightarrow> (\<exists>x. lift_state m status = Inr x)"
    by (simp add: rail_main_ok reviewed_map_loads [OF assms] run pbind_Inr_conv)
  show "lift_state m status = Inl e" if "rail_main H Lift (JObj m) status out = Inl e"
    using that by (cases "lift_state m status")
      (auto simp: rail_main_def reviewed_map_loads [OF assms] run split: exn.splits)
qed

text \<open>C36. The review is enough for the rail: a map the review accepts is loaded, and its run on a status
  ends with 0 iff no rejected field of the map has a value and every status code that is present is a
  text in the reviewed code list of its rule.\<close>

theorem reviewed_map_lifts:
  assumes "tm_main H v = Inr (lines, 0)"
  shows "\<exists>m rejects rules. v = JObj m \<and> load_map H v = Inr m
    \<and> jget ''rejects'' m = JList rejects \<and> jget ''liftStatus'' m = JList rules
    \<and> (\<forall>status out. (\<exists>msg res. rail_main H Lift v status out = Inr (msg, 0, Some res)) \<longleftrightarrow>
         (\<forall>r \<in> set rejects. rule_raw status ''field'' r = JNull) \<and> (\<forall>r \<in> set rules. code_reviewed status r))"
proof -
  obtain m where m: "v = JObj m" "tm_errors H m = Inr []" using assms by (rule tm_main_accepts)
  obtain rejects where rejects: "jget ''rejects'' m = JList rejects" "\<forall>r \<in> set rejects. reject_ok r"
    using reviewed_map_rejects [OF m(2)] by blast
  obtain rules where rules: "jget ''liftStatus'' m = JList rules" "\<forall>r \<in> set rules. lift_rule_ok r"
    using reviewed_map_rules [OF m(2)] by blast
  show ?thesis
    using m(1) reviewed_map_loads [OF m(2)] rejects(1) rules(1) reviewed_lift_runs(1) [OF m(2)]
      lift_succeeds_iff_reviewed [OF rejects(1) rules(1) rejects(2) rules(2)] by auto
qed

text \<open>The exceptions of a lift: only a status code that is a list or an object is not caught.\<close>

definition lift_failure :: "json \<Rightarrow> json list \<Rightarrow> exn \<Rightarrow> bool" where
  "lift_failure status rules e \<longleftrightarrow>
     (\<exists>msg. e = RailError msg)
     \<or> (e = TypeError \<and> (\<exists>r \<in> set rules. jget ''to'' (as_obj r) = JStr ''evidence.runtimeState''
          \<and> \<not> hashable (rule_raw status ''from'' r)))"

lemma lift_rule_failure:
  assumes "lift_rule_ok r" and "r \<in> set rules"
  shows "raises_only (lift_failure status rules) (lift_rule status r x)"
proof -
  obtain d f where r: "r = JObj d" "jget ''from'' d = JStr f"
    and keys: "jindex ''to'' d = Inr (jget ''to'' d)" "jindex ''lossiness'' d = Inr (jget ''lossiness'' d)"
    using assms(1) jindex_has by (auto simp: lift_rule_ok_def is_obj_iff is_str_iff)
  have src: "jindex ''from'' d = Inr (JStr f)" using jindex_typed [of "''from''" d] r(2) by simp
  let ?raw = "walk status (split_at (CHR ''/'') f)"
  have raw: "rule_raw status ''from'' r = ?raw" by (simp add: rule_raw_def r)
  have code: "raises_only (lift_failure status rules) (lift_code r ?raw)"
    if to: "jget ''to'' d = JStr ''evidence.runtimeState''"
  proof -
    obtain cl where "jindex ''codeList'' d = Inr (JObj cl)"
      using assms(1) to jindex_typed [of "''codeList''" d] by (auto simp: lift_rule_ok_def r is_obj_iff)
    moreover have "lift_failure status rules TypeError" if "\<not> hashable ?raw"
      unfolding lift_failure_def using assms(2) to that raw by (metis as_obj.simps(1) r(1))
    moreover have "lift_failure status rules (RailError msg)" for msg by (simp add: lift_failure_def)
    ultimately show ?thesis
      by (cases ?raw) (auto simp: lift_code_def r raises_only_def hashable_def jindex_has jhas_jkeys)
  qed
  show ?thesis
    using code by (auto simp: lift_rule_def r keys src get_path_def Let_def raises_only_def pbind_def split: sum.splits)
qed

lemma reviewed_lift_failure:
  assumes "tm_errors H m = Inr []" and "lift_state m status = Inl e"
  shows "lift_failure status (as_list (jget ''liftStatus'' m)) e"
proof -
  obtain rejects where rejects: "jget ''rejects'' m = JList rejects" "\<forall>r \<in> set rejects. reject_ok r"
    using reviewed_map_rejects [OF assms(1)] by blast
  obtain rules where rules: "jget ''liftStatus'' m = JList rules" "\<forall>r \<in> set rules. lift_rule_ok r"
    using reviewed_map_rules [OF assms(1)] by blast
  have "raises_only (lift_failure status rules) (check_reject status r u)" if "r \<in> set rejects" for r u
    by (rule raises_only_mono [OF check_reject_pass(2)]) (use that rejects(2) in \<open>auto simp: lift_failure_def\<close>)
  then have "raises_only (lift_failure status rules) (fold_py (check_reject status) rejects ())"
    by (rule raises_only_fold_py)
  moreover have "raises_only (lift_failure status rules) (fold_py (lift_rule status) rules no_lift)"
    by (rule raises_only_fold_py) (use rules(2) lift_rule_failure in blast)
  ultimately show ?thesis
    using assms(2) rejects(1) rules(1) jindex_typed [of "''rejects''" m] jindex_typed [of "''liftStatus''" m]
    by (auto simp: lift_state_def keyed_list_def raises_only_def pbind_def split: sum.splits)
qed

text \<open>C37. With a reviewed map a lift ends without a traceback: \<open>rail_main\<close> gives a result or a mapping
  error. The one exception that is not caught is a \<open>TypeError\<close>, for a status code that is a list or an
  object.\<close>

theorem reviewed_lift_outcome:
  assumes "tm_main H (JObj m) = Inr (lines, 0)" and "rail_main H Lift (JObj m) status out = Inl e"
  shows "e = TypeError \<and> (\<exists>r \<in> set (as_list (jget ''liftStatus'' m)).
    jget ''to'' (as_obj r) = JStr ''evidence.runtimeState'' \<and> \<not> hashable (rule_raw status ''from'' r))"
proof -
  have pass: "tm_errors H m = Inr []" using tm_main_accepts [OF assms(1)] by blast
  have "lift_state m status = Inl e" by (rule reviewed_lift_runs(2) [OF pass assms(2)])
  then have "lift_failure status (as_list (jget ''liftStatus'' m)) e" by (rule reviewed_lift_failure [OF pass])
  moreover have "\<nexists>msg. e = RailError msg" using assms(2) by (auto simp: rail_main_def split: sum.splits exn.splits)
  ultimately show ?thesis by (auto simp: lift_failure_def)
qed

section \<open>A reviewed map\<close>

definition pin_64 :: "string \<Rightarrow> string" where
  "pin_64 s = concat (replicate 16 ''00af'')"

definition reviewed_map :: obj where
  "reviewed_map =
    [(''kind'', JStr ''neutrino.translation-map''), (''rail'', JStr ''iso20022''), (''version'', JStr ''1''),
     (''profiles'', JObj [(''lower'', JStr ''pacs.009''), (''liftStatus'', JStr ''pacs.002'')]),
     (''provenance'', JObj [(''source'', JStr ''s''), (''standardVersion'', JStr ''2019''), (''reviewer'', JStr ''r''),
        (''status'', JStr ''accepted'')]),
     (''lower'', JList [JObj [(''carries'', JStr ''evidence.correlationId''), (''to'', JStr ''EndToEndId''),
        (''lossiness'', JStr ''lossless'')]]),
     (''liftStatus'', JList sample_rules), (''preservesAs'', JList []), (''rejects'', JList sample_rejects),
     (''translationMapHash'', JStr (pin_64 []))]"

lemma reviewed_map_accepted: "\<exists>lines. tm_main pin_64 (JObj reviewed_map) = Inr (lines, 0)"
  by (rule exI) code_simp

lemma reviewed_map_lifts_witness:
  "(\<exists>msg res. rail_main pin_64 Lift (JObj reviewed_map) (status_doc (JStr ''ACSC'') []) [] = Inr (msg, 0, Some res))
   \<and> (\<nexists>msg res. rail_main pin_64 Lift (JObj reviewed_map) (status_doc (JStr ''XXXX'') []) [] = Inr (msg, 0, Some res))"
proof -
  obtain lines where "tm_main pin_64 (JObj reviewed_map) = Inr (lines, 0)" using reviewed_map_accepted by blast
  from reviewed_map_lifts [OF this] have
    iff: "\<forall>status out. (\<exists>msg res. rail_main pin_64 Lift (JObj reviewed_map) status out = Inr (msg, 0, Some res)) \<longleftrightarrow>
      (\<forall>r \<in> set sample_rejects. rule_raw status ''field'' r = JNull) \<and> (\<forall>r \<in> set sample_rules. code_reviewed status r)"
    by (auto simp: reviewed_map_def jget_def jget_or_def)
  show ?thesis
    unfolding iff [rule_format]
    by (simp add: sample_rejects_def sample_rules_def rule_raw_def code_reviewed_def status_doc_def jget_def jget_or_def jhas_def)
qed

lemma reviewed_lift_outcome_witness:
  "rail_main pin_64 Lift (JObj reviewed_map) (status_doc (JList []) []) [] = Inl TypeError
   \<and> (\<exists>r \<in> set (as_list (jget ''liftStatus'' reviewed_map)). \<not> hashable (rule_raw (status_doc (JList []) []) ''from'' r))"
proof -
  obtain lines where ok: "tm_main pin_64 (JObj reviewed_map) = Inr (lines, 0)" using reviewed_map_accepted by blast
  have "rail_main pin_64 Lift (JObj reviewed_map) (status_doc (JList []) []) [] = Inl TypeError" by code_simp
  with reviewed_lift_outcome [OF ok this] show ?thesis by blast
qed

text \<open>The review accepts a lower rule that carries the correlation id, but the rail can carry it for no
  capability.\<close>

lemma correlation_never_lowered:
  assumes "\<exists>r \<in> set rules. jget ''carries'' (as_obj r) = JStr ''evidence.correlationId''"
    and "jget ''lower'' m = JList rules"
  shows "\<nexists>res. cmd_lower m cap = Inr res"
proof -
  obtain r where r: "r \<in> set rules" "jget ''carries'' (as_obj r) = JStr ''evidence.correlationId''" using assms(1) by blast
  have "\<nexists>f. lower_field cap r = Inr f"
  proof
    assume "\<exists>f. lower_field cap r = Inr f"
    then obtain d c s where "r = JObj d" "map_of d ''carries'' = Some c" "resolve_carry c cap = Inr s"
      by (auto simp: lower_field_def pbind_Inr_conv py_key_obj)
    then show False using r(2) by (auto simp: jget_in resolve_carry_def pbind_Inr_conv)
  qed
  then have "\<nexists>fields. map_py (lower_field cap) rules = Inr fields"
    using r(1) by (auto simp: map_py_Inr in_set_conv_nth list_all2_conv_all_nth)
  then show ?thesis
    using assms(2) jindex_typed [of "''lower''" m] by (auto simp: cmd_lower_def keyed_list_def pbind_Inr_conv)
qed

end
