(* ===== verification/ExpandDialect.thy ===== *)
theory ExpandDialect
  imports Canonical PyDyn
begin

text \<open>
  \<open>domain/expand_dialect.py\<close>: the expansion of a hash-pinned dialect template into core source, with
  the manifest that traces it. \<open>render_neu\<close> is the generator: first the gate over every rendered
  field, then the lines with the source span of each construct. \<open>build_manifest\<close> is the manifest and
  \<open>expand_main\<close> the run of \<open>main\<close>. The dialect is a JSON value on which lookups may raise; the digest
  is the argument \<open>H\<close>.
\<close>

section \<open>The gate on rendered fields\<close>

definition ident_start :: "char \<Rightarrow> bool" where
  "ident_start c \<longleftrightarrow> is_alpha c \<or> c = CHR ''_''"

definition ident_char :: "char \<Rightarrow> bool" where
  "ident_char c \<longleftrightarrow> ident_start c \<or> is_digit c"

definition ident_text :: "string \<Rightarrow> bool" where
  "ident_text s \<longleftrightarrow> s \<noteq> [] \<and> ident_start (hd s) \<and> list_all ident_char (tl s)"

definition ledger_text :: "string \<Rightarrow> bool" where
  "ledger_text s \<longleftrightarrow> s \<noteq> [] \<and> ident_start (hd s) \<and> list_all (\<lambda>c. ident_char c \<or> c = CHR ''.'') (tl s)"

definition input_types :: "string list" where
  "input_types = [''string'', ''party'', ''money'', ''currency'', ''number'', ''evidence'']"

definition expect :: "bool \<Rightarrow> string \<Rightarrow> unit py" where
  "expect b msg = (if b then Inr () else Inl (ExpansionError msg))"

definition check_ident :: "json \<Rightarrow> string \<Rightarrow> unit py" where
  "check_ident v what = expect (is_str v \<and> re_dollar ident_text (str_of v))
     (what @ '' '' @ py_repr v @ '' is not a valid identifier (anti-injection gate)'')"

definition check_ledger :: "json \<Rightarrow> string \<Rightarrow> unit py" where
  "check_ledger v what = expect (is_str v \<and> re_dollar ledger_text (str_of v))
     (what @ '' '' @ py_repr v @ '' is not a valid ledger path (anti-injection gate)'')"

definition dialect_body :: "obj \<Rightarrow> json" where
  "dialect_body d = JObj (jwithout [''domainDialectHash''] d)"

section \<open>Operands\<close>

definition inputs_typed :: "obj \<Rightarrow> string \<Rightarrow> string list" where
  "inputs_typed required ty = map fst (filter (\<lambda>(n, t). t = JStr ty) required)"

definition unique_typed :: "json \<Rightarrow> string \<Rightarrow> string \<Rightarrow> string py" where
  "unique_typed required ty what =
     pbind (py_items required) (\<lambda>d.
       case inputs_typed d ty of
         [n] \<Rightarrow> Inr n
       | names \<Rightarrow> Inl (ExpansionError (''template needs exactly one '' @ sq ty @ '' input for '' @ what @ '', found ''
           @ (if names = [] then ''none'' else repr_strs names))))"

record leg_operands =
  op_amount :: string
  op_currency :: string
  op_key :: string

definition leg_operands_of :: "json \<Rightarrow> leg_operands py" where
  "leg_operands_of template =
     pbind (py_get_or template ''requiredInputs'' (JObj [])) (\<lambda>required.
     pbind (unique_typed required ''money'' ''the leg amount'') (\<lambda>a.
     pbind (unique_typed required ''currency'' ''the leg currency'') (\<lambda>c.
     pbind (unique_typed required ''string'' ''the idempotency key'') (\<lambda>k.
       Inr \<lparr>op_amount = a, op_currency = c, op_key = k\<rparr>))))"

definition party_input :: "obj \<Rightarrow> json \<Rightarrow> string py" where
  "party_input required role =
     (let name = py_str role @ ''_id''
      in if jget name required \<noteq> JStr ''party''
         then Inl (ExpansionError (''expected a '' @ sq ''party'' @ '' input named '' @ sq name @ '' for role ''
           @ sq (py_str role)))
         else Inr name)"

text \<open>\<open>d.get(k)\<close> for a key that may be any value.\<close>

definition get_any :: "obj \<Rightarrow> json \<Rightarrow> json py" where
  "get_any d k = (if \<not> hashable k then Inl TypeError else Inr (if is_str k then jget (str_of k) d else JNull))"

section \<open>The checks before any line is written\<close>

definition gate_participant :: "string \<times> json \<Rightarrow> unit \<Rightarrow> unit py" where
  "gate_participant item u =
     pbind (check_ident (JStr (fst item)) ''participant name'') (\<lambda>_.
       pbind (if truthy (snd item) then py_get_or (snd item) ''role'' (JStr []) else Inr (JStr [])) (\<lambda>role.
         check_ident role ''participant role''))"

definition gate_input :: "string \<times> json \<Rightarrow> unit \<Rightarrow> unit py" where
  "gate_input item u =
     pbind (check_ident (JStr (fst item)) ''input name'') (\<lambda>_.
       pbind (in_strs (snd item) input_types) (\<lambda>ok.
         expect ok (''input '' @ repr_str (fst item) @ '' has unsupported type '' @ py_repr (snd item))))"

definition gate_obligation :: "obj \<Rightarrow> json \<Rightarrow> unit \<Rightarrow> unit py" where
  "gate_obligation participants ob u =
     pbind (py_items ob) (\<lambda>d.
     pbind (expect (jget ''kind'' d \<in> {JStr ''debit'', JStr ''credit''})
       (''obligation '' @ py_repr (jget ''name'' d) @ '' has invalid kind '' @ py_repr (jget ''kind'' d))) (\<lambda>_.
     pbind (check_ident (jget_or ''name'' (JStr []) d) ''obligation name'') (\<lambda>_.
     pbind (check_ledger (jget_or ''ledger'' (JStr []) d) ''ledger'') (\<lambda>_.
     pbind (get_any participants (jget ''participant'' d)) (\<lambda>part.
     pbind (expect (is_obj part) (''obligation '' @ py_repr (jget ''name'' d) @ '' names unknown participant ''
       @ py_repr (jget ''participant'' d))) (\<lambda>_.
       check_ident (jget_or ''role'' (JStr []) (as_obj part)) ''participant role''))))))"

section \<open>Emission\<close>

text \<open>The list \<open>lines\<close> and the dictionary \<open>spans\<close>.\<close>

record emitted =
  em_lines :: "string list"
  em_spans :: "(string \<times> nat \<times> nat) list"

definition emit :: "string list \<Rightarrow> emitted \<Rightarrow> emitted" where
  "emit ls e = e\<lparr>em_lines := em_lines e @ ls\<rparr>"

text \<open>A block of lines whose span is recorded for a construct.\<close>

definition emit_construct :: "string \<Rightarrow> string list \<Rightarrow> emitted \<Rightarrow> emitted" where
  "emit_construct c ls e =
     \<lparr>em_lines = em_lines e @ ls,
      em_spans = dict_set c (length (em_lines e) + 1, length (em_lines e) + length ls) (em_spans e)\<rparr>"

definition header_lines :: "string \<Rightarrow> string \<Rightarrow> string \<Rightarrow> string list" where
  "header_lines domain version template_id =
     [''// Generated from the '' @ domain @ ''@'' @ version @ '' domain dialect (template: '' @ template_id @ '').'',
      ''// DO NOT EDIT '' @ em_dash @ '' regenerate with scripts/domain/expand_dialect.py. Every construct traces'',
      ''// to a domain term + mapping-graph edge in the .expansion.json sidecar.'',
      []]"

definition start_procedure :: "string \<Rightarrow> string \<Rightarrow> emitted \<Rightarrow> emitted" where
  "start_procedure procedure trigger e =
     \<lparr>em_lines = em_lines e @ [''procedure '' @ procedure @ '' {'', ''    trigger '' @ trigger, []],
      em_spans = dict_set (''procedure '' @ procedure) (length (em_lines e) + 1, length (em_lines e) + 1) (em_spans e)\<rparr>"

definition participant_lines :: "string \<Rightarrow> string \<Rightarrow> string list" where
  "participant_lines name role =
     [''    participant '' @ name @ '' {'', ''        role = '' @ dq role, ''    }'']"

definition emit_participant :: "string \<times> json \<Rightarrow> emitted \<Rightarrow> emitted py" where
  "emit_participant item e =
     pbind (py_key (snd item) ''role'') (\<lambda>role.
       Inr (emit_construct (''participant '' @ fst item) (participant_lines (fst item) (py_str role)) e))"

definition input_line :: "string \<times> json \<Rightarrow> string" where
  "input_line item = ''    input '' @ fst item @ '' : '' @ py_str (snd item)"

definition leg_lines :: "string \<Rightarrow> string \<Rightarrow> string \<Rightarrow> string \<Rightarrow> string \<Rightarrow> string \<Rightarrow> leg_operands \<Rightarrow> string list" where
  "leg_lines kind name ledger role participant party ops =
     [''    '' @ kind @ '' '' @ name @ '' {'',
      ''        ledger = '' @ dq ledger,
      ''        owner = '' @ dq role,
      ''        participant = '' @ dq participant,
      ''        party = %'' @ party,
      ''        amount = %'' @ op_amount ops,
      ''        currency = %'' @ op_currency ops,
      ''        idempotency_key = %'' @ op_key ops,
      ''    }'']"

definition emit_obligation :: "obj \<Rightarrow> obj \<Rightarrow> leg_operands \<Rightarrow> json \<Rightarrow> emitted \<Rightarrow> emitted py" where
  "emit_obligation participants required ops ob e =
     pbind (py_key ob ''participant'') (\<lambda>pid.
     pbind (get_any participants pid) (\<lambda>part.
     if part = JNull then pbind (py_key ob ''name'') (\<lambda>name. Inl (ExpansionError (''obligation '' @ sq (py_str name)
       @ '' names unknown participant '' @ sq (py_str pid))))
     else
     pbind (py_key part ''role'') (\<lambda>role.
     pbind (party_input required role) (\<lambda>party.
     pbind (py_key ob ''kind'') (\<lambda>kind.
     pbind (py_key ob ''name'') (\<lambda>name.
     pbind (py_key ob ''ledger'') (\<lambda>ledger.
       Inr (emit_construct (py_str kind @ '' '' @ py_str name)
         (leg_lines (py_str kind) (py_str name) (py_str ledger) (py_str role) (py_str pid) party ops)
         (emit [[]] e)))))))))"

definition has_kind :: "string \<Rightarrow> json list \<Rightarrow> bool" where
  "has_kind k obs = list_ex (\<lambda>o'. jget ''kind'' (as_obj o') = JStr k) obs"

definition closing_lines :: "json list \<Rightarrow> string list" where
  "closing_lines obs =
     (if has_kind ''debit'' obs \<and> has_kind ''credit'' obs then [[], ''    assert balanced''] else []) @ [''}'', []]"

definition emit_body ::
    "string \<Rightarrow> string \<Rightarrow> obj \<Rightarrow> obj \<Rightarrow> json list \<Rightarrow> leg_operands \<Rightarrow> emitted \<Rightarrow> emitted py" where
  "emit_body procedure trigger required participants obs ops e0 =
     (let e1 = start_procedure procedure trigger e0
      in pbind (fold_py emit_participant participants e1) (\<lambda>e2.
           let e3 = emit ((if participants \<noteq> [] then [[]] else []) @ map input_line required) e2
           in pbind (fold_py (emit_obligation participants required ops) obs e3) (\<lambda>e4.
                Inr (emit (closing_lines obs) e4))))"

definition find_template :: "json \<Rightarrow> string \<Rightarrow> json py" where
  "find_template dialect template_id =
     pbind (py_get_or dialect ''templates'' (JObj [])) (\<lambda>ts.
     pbind (py_get ts template_id) (\<lambda>template.
       if template = JNull then Inl (ExpansionError (''template '' @ sq template_id @ '' not found in dialect''))
       else pbind (py_get template ''expandsTo'') (\<lambda>k.
         if k \<noteq> JStr ''procedure''
         then Inl (ExpansionError (''only templates that expandsTo '' @ sq ''procedure'' @ '' are supported''))
         else Inr template)))"

text \<open>The lines and the spans; the text is the lines joined by newlines.\<close>

definition render_neu :: "json \<Rightarrow> string \<Rightarrow> string \<Rightarrow> string \<Rightarrow> emitted py" where
  "render_neu dialect template_id procedure trigger =
     pbind (find_template dialect template_id) (\<lambda>template.
     pbind (py_get_or template ''requiredInputs'' (JObj [])) (\<lambda>req.
     pbind (py_get_or template ''participants'' (JObj [])) (\<lambda>parts.
     pbind (py_get_or template ''obligations'' (JList [])) (\<lambda>obl.
     pbind (leg_operands_of template) (\<lambda>ops.
     pbind (check_ident (JStr procedure) ''procedure name'') (\<lambda>_.
     pbind (check_ident (JStr trigger) ''trigger'') (\<lambda>_.
     pbind (py_items parts) (\<lambda>participants.
     pbind (py_items req) (\<lambda>required.
     pbind (fold_py gate_participant participants ()) (\<lambda>_.
     pbind (fold_py gate_input required ()) (\<lambda>_.
     pbind (py_iter obl) (\<lambda>obs.
     pbind (fold_py (gate_obligation participants) obs ()) (\<lambda>_.
     pbind (py_key dialect ''domain'') (\<lambda>domain.
     pbind (py_key dialect ''version'') (\<lambda>version.
       emit_body procedure trigger required participants obs ops
         \<lparr>em_lines = header_lines (py_str domain) (py_str version) template_id, em_spans = []\<rparr>)))))))))))))))"

definition neu_text :: "emitted \<Rightarrow> string" where
  "neu_text e = join newline (em_lines e)"

section \<open>The manifest\<close>

definition graph_edges :: "json \<Rightarrow> json list py" where
  "graph_edges dialect =
     pbind (py_get_or dialect ''mappingGraph'' (JObj [])) (\<lambda>g.
       pbind (py_get_or g ''edges'' (JList [])) py_iter)"

text \<open>The keys of \<open>_edges_by_id\<close>.\<close>

definition edge_ids :: "json \<Rightarrow> json list py" where
  "edge_ids dialect =
     pbind (graph_edges dialect) (\<lambda>es. pbind (map_py (\<lambda>e. py_key e ''id'') es) jset)"

fun term_by_role :: "obj \<Rightarrow> json \<Rightarrow> (json \<times> json) py" where
  "term_by_role [] role = Inr (JNull, JNull)"
| "term_by_role ((name, term) # ts) role =
     pbind (py_get term ''role'') (\<lambda>r. if jeq r role then Inr (JStr name, term) else term_by_role ts role)"

definition find_term :: "json \<Rightarrow> json \<Rightarrow> (json \<times> json) py" where
  "find_term dialect role =
     pbind (py_get_or dialect ''terms'' (JObj [])) (\<lambda>ts. pbind (py_items ts) (\<lambda>d. term_by_role d role))"

definition sorted_refs :: "json \<Rightarrow> json list py" where
  "sorted_refs v = pbind (py_get_or v ''provenanceRefs'' (JList [])) (\<lambda>refs. pbind (py_iter refs) jsorted)"

definition term_edges_of :: "json \<Rightarrow> json list py" where
  "term_edges_of term = (if truthy term then sorted_refs term else Inr [])"

text \<open>The edges of the graph of one type that start at a concept.\<close>

definition edges_from :: "json \<Rightarrow> string \<Rightarrow> json \<Rightarrow> json list py" where
  "edges_from dialect ty concept =
     pbind (py_key dialect ''mappingGraph'') (\<lambda>g. pbind (py_key g ''edges'') (\<lambda>v. pbind (py_iter v) (\<lambda>es.
       filter_py (\<lambda>e. pbind (py_key e ''type'') (\<lambda>t.
         if t = JStr ty
         then pbind (py_key e ''from'') (\<lambda>f. Inr (f = JStr (''concept:'' @ py_str concept)))
         else Inr False)) es)))"

definition expand_edges :: "json \<Rightarrow> json \<Rightarrow> json list py" where
  "expand_edges dialect concept =
     pbind (edges_from dialect ''expandsTo'' concept) (\<lambda>es. pbind (map_py (\<lambda>e. py_key e ''id'') es) jsorted)"

definition span_json :: "(string \<times> nat \<times> nat) list \<Rightarrow> string \<Rightarrow> json py" where
  "span_json spans c =
     (case map_of spans c of
        None \<Rightarrow> Inl KeyError
      | Some (s, e) \<Rightarrow> Inr (JObj [(''startLine'', JInt (int s)), (''endLine'', JInt (int e))]))"

text \<open>What the loops collect: the constructs, the grouping, the lower provenance and the set \<open>used\<close>.\<close>

record manifest_state =
  ms_constructs :: "json list"
  ms_grouping :: "json list"
  ms_lower :: "json list"
  ms_used :: "json list"

text \<open>\<open>used.update(vs)\<close>.\<close>

definition use_edges :: "json list \<Rightarrow> manifest_state \<Rightarrow> manifest_state py" where
  "use_edges vs st = pbind (jset (ms_used st @ vs)) (\<lambda>us. Inr (st\<lparr>ms_used := us\<rparr>))"

definition add_construct :: "string \<Rightarrow> obj \<Rightarrow> json list \<Rightarrow> (string \<times> nat \<times> nat) list \<Rightarrow> manifest_state \<Rightarrow> manifest_state py" where
  "add_construct c extra edges spans st =
     pbind (span_json spans c) (\<lambda>span.
       Inr (st\<lparr>ms_constructs := ms_constructs st @
         [JObj ([(''construct'', JStr c)] @ extra @ [(''edges'', JList edges), (''sourceSpan'', span)])]\<rparr>))"

definition manifest_participant ::
    "json \<Rightarrow> string \<Rightarrow> (string \<times> nat \<times> nat) list \<Rightarrow> string \<times> json \<Rightarrow> manifest_state \<Rightarrow> manifest_state py" where
  "manifest_participant dialect cap spans item st =
     (case item of (pname, pdef) \<Rightarrow>
        pbind (py_key pdef ''role'') (\<lambda>role.
        pbind (find_term dialect role) (\<lambda>(term_name, term).
        pbind (term_edges_of term) (\<lambda>term_edges.
          if term_edges = [] then Inl (ExpansionError (''participant role '' @ py_repr role
            @ '' has no backing term (cannot trace)''))
          else pbind (use_edges term_edges st) (\<lambda>st.
            pbind (add_construct (''participant '' @ pname) [(''participantTerm'', term_name)] term_edges spans st) (\<lambda>st.
            pbind (py_get pdef ''org'') (\<lambda>org.
              Inr (st\<lparr>ms_grouping := ms_grouping st @ [JObj [(''organizationId'', org), (''participantId'', JStr pname),
                (''role'', role), (''slotId'', JStr (cap @ ''#'' @ pname)), (''termEdges'', JList term_edges)]]\<rparr>))))))))"

definition manifest_lower :: "json \<Rightarrow> json \<Rightarrow> manifest_state \<Rightarrow> manifest_state py" where
  "manifest_lower concept le st =
     pbind (py_key le ''id'') (\<lambda>eid.
     pbind (use_edges [eid] st) (\<lambda>st.
     pbind (py_key le ''to'') (\<lambda>to.
     pbind (py_get_or le ''provenance'' (JObj [])) (\<lambda>prov.
     pbind (py_get prov ''source'') (\<lambda>src.
     pbind (py_get le ''lossiness'') (\<lambda>loss.
       Inr (st\<lparr>ms_lower := ms_lower st @ [JObj [(''concept'', concept), (''edge'', eid), (''railField'', to),
         (''source'', src), (''lossiness'', loss)]]\<rparr>)))))))"

definition manifest_obligation ::
    "json \<Rightarrow> obj \<Rightarrow> (string \<times> nat \<times> nat) list \<Rightarrow> json \<Rightarrow> manifest_state \<Rightarrow> manifest_state py" where
  "manifest_obligation dialect participants spans ob st =
     pbind (py_key ob ''participant'') (\<lambda>pid.
     pbind (py_item (JObj participants) pid) (\<lambda>pdef.
     pbind (py_key pdef ''role'') (\<lambda>role.
     pbind (find_term dialect role) (\<lambda>(term_name, term).
     pbind (term_edges_of term) (\<lambda>term_edges.
     pbind (py_key ob ''name'') (\<lambda>name.
     pbind (expand_edges dialect name) (\<lambda>exp_edges.
     pbind (pbind (jset (term_edges @ exp_edges)) jsorted) (\<lambda>c_edges.
     pbind (use_edges c_edges st) (\<lambda>st.
     pbind (py_key ob ''kind'') (\<lambda>kind.
     pbind (add_construct (py_str kind @ '' '' @ py_str name) [(''participantTerm'', term_name)] c_edges spans st) (\<lambda>st.
     pbind (edges_from dialect ''lowersTo'' name) (\<lambda>les.
       fold_py (manifest_lower name) les st))))))))))))"

definition build_manifest ::
    "(string \<Rightarrow> string) \<Rightarrow> json \<Rightarrow> string \<Rightarrow> string \<Rightarrow> string \<Rightarrow> string \<Rightarrow> (string \<times> nat \<times> nat) list \<Rightarrow> json py" where
  "build_manifest H dialect template_id procedure text basename spans =
     pbind (pbind (py_key dialect ''templates'') (\<lambda>ts. py_key ts template_id)) (\<lambda>template.
     pbind (edge_ids dialect) (\<lambda>edges.
     pbind (py_get_or template ''participants'' (JObj [])) (\<lambda>parts.
     pbind (pbind (py_get_or template ''provenanceRefs'' (JList [])) (\<lambda>v. pbind (py_iter v) jset)) (\<lambda>used0.
     pbind (sorted_refs template) (\<lambda>refs.
     pbind (add_construct (''procedure '' @ procedure) [(''fromTemplate'', JStr template_id)] refs spans
       \<lparr>ms_constructs = [], ms_grouping = [], ms_lower = [], ms_used = used0\<rparr>) (\<lambda>st1.
     pbind (py_items parts) (\<lambda>participants.
     pbind (fold_py (manifest_participant dialect (''coordinate.'' @ procedure) spans) participants st1) (\<lambda>st2.
     pbind (pbind (py_get_or template ''obligations'' (JList [])) py_iter) (\<lambda>obs.
     pbind (fold_py (manifest_obligation dialect participants spans) obs st2) (\<lambda>st3.
     pbind (jsorted (filter (\<lambda>eid. \<not> in_list eid edges) (ms_used st3))) (\<lambda>missing.
       if missing \<noteq> [] then Inl (ExpansionError (''manifest references edge ids absent from the dialect: ''
         @ py_str (JList missing)))
       else
     pbind (py_key dialect ''domain'') (\<lambda>domain.
     pbind (py_key dialect ''version'') (\<lambda>version.
     pbind (py_get dialect ''domainDialectHash'') (\<lambda>pinned.
     pbind (jsorted (ms_used st3)) (\<lambda>edges_used.
       Inr (JObj [(''kind'', JStr ''neutrino.dialect-expansion-manifest''), (''schemaVersion'', JInt 1),
         (''dialect'', JObj [(''domain'', domain), (''version'', version), (''domainDialectHash'', pinned)]),
         (''template'', JObj [(''id'', JStr template_id), (''version'', version)]),
         (''generated'', JObj [(''path'', JStr basename), (''sourceHash'', JStr (H text))]),
         (''constructs'', JList (ms_constructs st3)), (''grouping'', JList (ms_grouping st3)),
         (''edgesUsed'', JList edges_used), (''lowerProvenance'', JList (ms_lower st3))]))))))))))))))))"

section \<open>The command\<close>

text \<open>The text of a message with the pinned value, and the two written outputs on success.\<close>

definition expand_dialect ::
    "(string \<Rightarrow> string) \<Rightarrow> json \<Rightarrow> string \<Rightarrow> string \<Rightarrow> string \<Rightarrow> string \<Rightarrow> (string \<times> json) py" where
  "expand_dialect H v template_id procedure_arg trigger basename =
     pbind (py_items v) (\<lambda>d.
       if jget ''kind'' d \<noteq> JStr ''neutrino.domain-dialect'' then Inl (ExpansionError ''not a neutrino.domain-dialect'')
       else let digest = H (compact (dialect_body d))
            in if jget ''domainDialectHash'' d \<noteq> JStr digest
               then Inl (ExpansionError (''dialect hash mismatch (embedded '' @ py_str (jget ''domainDialectHash'' d)
                 @ '' != computed '' @ digest @ ''); refusing to expand''))
               else let procedure = (if procedure_arg = [] then template_id else procedure_arg)
                    in pbind (render_neu v template_id procedure trigger) (\<lambda>e.
                         pbind (build_manifest H v template_id procedure (neu_text e) basename (em_spans e)) (\<lambda>m.
                           Inr (neu_text e, m))))"

definition expand_main ::
    "(string \<Rightarrow> string) \<Rightarrow> json \<Rightarrow> string \<Rightarrow> string \<Rightarrow> string \<Rightarrow> string \<Rightarrow> (nat \<times> string option \<times> (string \<times> json) option) py" where
  "expand_main H v template_id procedure_arg trigger basename =
     (case expand_dialect H v template_id procedure_arg trigger basename of
        Inl (ExpansionError msg) \<Rightarrow> Inr (1, Some (''expansion error: '' @ msg), None)
      | Inl e \<Rightarrow> Inl e
      | Inr out \<Rightarrow> Inr (0, None, Some out))"

end
