(* ===== verification/DomainDialect.thy ===== *)
theory DomainDialect
  imports SpecExpr ExpandDialect
begin

text \<open>
  \<open>domain/validate_domain_dialect.py\<close>: the gate a reviewed domain dialect has to pass before
  \<open>expand_dialect.py\<close> may expand it. \<open>dialect_validate\<close> is the structural validator \<open>V.validate\<close>,
  \<open>crossref_diagnostics\<close> resolves the references over the mapping graph, and \<open>dialect_main\<close> is the
  run of \<open>main\<close> on a loaded document: its exit status, the report, the sorted diagnostics and the
  normalized document. Reading the file (JSON or YAML) and writing the outputs are not modelled.
\<close>

section \<open>Vocabulary\<close>

definition dialect_layers :: "string list" where
  "dialect_layers = [''L1'', ''L2'', ''L3'', ''L4'']"

definition edge_types :: "string list" where
  "edge_types = [''cites'', ''expandsTo'', ''lowersTo'', ''liftsFrom'', ''preservesAs'', ''rejects'']"

definition edge_directions :: "string list" where
  "edge_directions = [''expand'', ''lower'', ''lift'', ''preserve'', ''reject'']"

definition lossiness_kinds :: "string list" where
  "lossiness_kinds = [''lossless'', ''lossy-preserved-in-extensionData'', ''unsupported'']"

definition node_kinds :: "string list" where
  "node_kinds = [''sourceField'', ''capabilityConcept'', ''coreConstruct'', ''railField'', ''extensionField'']"

definition obligation_kinds :: "string list" where
  "obligation_kinds = [''debit'', ''credit'']"

definition provenance_status :: "string list" where
  "provenance_status = [''proposed'', ''accepted'', ''rejected'']"

definition core_value_types :: "string list" where
  "core_value_types = input_types @ [''decimal'', ''int'', ''integer'', ''uint'', ''timestamp'', ''time'']"

definition reserved_core :: "string list" where
  "reserved_core =
     [''procedure'', ''agreement'', ''participant'', ''input'', ''compute'', ''debit'', ''credit'',
      ''allow'', ''assert'', ''trigger'', ''version'',
      ''role'', ''org'', ''capabilities'', ''binding'', ''bind_runtimes'', ''bind_min_assurance'',
      ''ledger'', ''owner'', ''party'', ''amount'', ''currency'', ''idempotency_key'',
      ''between'', ''with'', ''and'', ''as'', ''balanced''] @ core_value_types"

section \<open>The helpers of the class V\<close>

definition dd_err :: "string \<Rightarrow> string \<Rightarrow> diagnostic" where
  "dd_err loc msg = diag ''dialect.schema'' (loc @ '': '' @ msg)"

text \<open>\<open>if self.obj(loc, val, required, allowed): body\<close>.\<close>

definition dd_obj :: "string \<Rightarrow> json \<Rightarrow> string list \<Rightarrow> string list \<Rightarrow> (obj \<Rightarrow> diags) \<Rightarrow> diags" where
  "dd_obj loc v required allowed body =
     (case v of
        JObj d \<Rightarrow>
          chks [Inr (map (\<lambda>k. dd_err loc (''missing required field '' @ sq k)) (filter (\<lambda>k. \<not> jhas k d) required)),
                Inr (map (\<lambda>k. dd_err loc (''unknown field '' @ sq k)) (key_diff d allowed)),
                body d]
      | _ \<Rightarrow> Inr [dd_err loc ''must be an object''])"

definition dd_nonempty :: "string \<Rightarrow> json \<Rightarrow> diags" where
  "dd_nonempty loc v = emit_if (\<not> nonempty_str v) (dd_err loc ''must be a non-empty string'')"

definition dd_enum :: "string \<Rightarrow> json \<Rightarrow> string list \<Rightarrow> diags" where
  "dd_enum loc v choices =
     emit_ifp (not_in_strs v choices) (dd_err loc (''must be one of '' @ repr_strs (sort choices)))"

definition dd_str_list :: "string \<Rightarrow> json \<Rightarrow> diags" where
  "dd_str_list loc v =
     emit_if (\<not> (is_list v \<and> list_all nonempty_str (as_list v))) (dd_err loc ''must be an array of non-empty strings'')"

definition dd_provenance :: "string \<Rightarrow> json \<Rightarrow> diags" where
  "dd_provenance loc v =
     dd_obj loc v [''source'', ''status''] [''source'', ''standardVersion'', ''excerptHash'', ''reviewer'', ''status'']
       (\<lambda>d. chks [dd_nonempty (loc @ ''.source'') (jget ''source'' d),
                  dd_enum (loc @ ''.status'') (jget ''status'' d) provenance_status])"

definition dd_rail_entry :: "string \<Rightarrow> json \<Rightarrow> diags" where
  "dd_rail_entry loc v =
     dd_obj loc v [''lossiness''] [''field'', ''concept'', ''lossiness'']
       (\<lambda>d. dd_enum (loc @ ''.lossiness'') (jget ''lossiness'' d) lossiness_kinds)"

text \<open>\<open>for name, x in self.map_of(loc, val).items(): body\<close>.\<close>

definition dd_map :: "string \<Rightarrow> json \<Rightarrow> (string \<Rightarrow> json \<Rightarrow> diags) \<Rightarrow> diags" where
  "dd_map loc v body =
     (case v of
        JNull \<Rightarrow> Inr []
      | JObj d \<Rightarrow> each d (\<lambda>(k, x). body k x)
      | _ \<Rightarrow> Inr [dd_err loc ''must be an object''])"

text \<open>\<open>if k in d: body(d[k])\<close>, and \<open>for i, x in enumerate(val or []): body\<close>.\<close>

definition dd_if_has :: "string \<Rightarrow> obj \<Rightarrow> (json \<Rightarrow> diags) \<Rightarrow> diags" where
  "dd_if_has k d body = guarded (jhas k d) (body (jget k d))"

definition dd_enumerate :: "json \<Rightarrow> (nat \<Rightarrow> json \<Rightarrow> diags) \<Rightarrow> diags" where
  "dd_enumerate v body = pbind (iter_or_empty v) (\<lambda>xs. each_i xs body)"

section \<open>The structural validator\<close>

definition dialect_fields :: "string list" where
  "dialect_fields = [''kind'', ''domain'', ''version'', ''capabilitySpecVersion'', ''terms'', ''templates'',
     ''translationMaps'', ''mappingGraph'', ''domainDialectHash'']"

definition spec_version_text :: "string \<Rightarrow> bool" where
  "spec_version_text s \<longleftrightarrow> s \<noteq> [] \<and> hd s = CHR ''v'' \<and> digits_text (tl s)"

definition dd_header :: "obj \<Rightarrow> diags" where
  "dd_header d = chks [
     emit_if (jget ''kind'' d \<noteq> JStr ''neutrino.domain-dialect'')
       (dd_err ''kind'' (''must be '' @ sq ''neutrino.domain-dialect'')),
     dd_nonempty ''domain'' (jget ''domain'' d),
     emit_if (\<not> (is_str (jget ''version'' d) \<and> re_dollar semver_text (str_of (jget ''version'' d))))
       (dd_err ''version'' ''must be a semantic version X.Y.Z''),
     dd_if_has ''capabilitySpecVersion'' d (\<lambda>v.
       emit_if (\<not> (is_str v \<and> re_dollar spec_version_text (str_of v)))
         (dd_err ''capabilitySpecVersion'' ''must match ^v[0-9]+$'')),
     dd_if_has ''domainDialectHash'' d (\<lambda>v.
       emit_if (\<not> (is_str v \<and> re_dollar hex64_text (str_of v)))
         (dd_err ''domainDialectHash'' ''must be a 64-char lowercase hex sha256''))]"

definition dd_term :: "string \<Rightarrow> json \<Rightarrow> diags" where
  "dd_term name t =
     (let loc = ''terms.'' @ name
      in dd_obj loc t [''layer''] [''layer'', ''role'', ''aliases'', ''provenanceRefs''] (\<lambda>d. chks [
           dd_enum (loc @ ''.layer'') (jget ''layer'' d) dialect_layers,
           dd_if_has ''role'' d (dd_nonempty (loc @ ''.role'')),
           dd_if_has ''aliases'' d (dd_str_list (loc @ ''.aliases'')),
           dd_if_has ''provenanceRefs'' d (dd_str_list (loc @ ''.provenanceRefs''))]))"

definition dd_obligation :: "string \<Rightarrow> nat \<Rightarrow> json \<Rightarrow> diags" where
  "dd_obligation loc i ob =
     (let oloc = idx (loc @ ''.obligations'') i
      in dd_obj oloc ob [''name'', ''participant'', ''kind'', ''ledger''] [''name'', ''participant'', ''kind'', ''ledger'']
           (\<lambda>d. chks [
             dd_nonempty (oloc @ ''.name'') (jget ''name'' d),
             dd_nonempty (oloc @ ''.participant'') (jget ''participant'' d),
             dd_enum (oloc @ ''.kind'') (jget ''kind'' d) obligation_kinds,
             dd_nonempty (oloc @ ''.ledger'') (jget ''ledger'' d)]))"

definition dd_template :: "string \<Rightarrow> json \<Rightarrow> diags" where
  "dd_template name t =
     (let loc = ''templates.'' @ name
      in dd_obj loc t [''layer'', ''expandsTo'']
           [''layer'', ''expandsTo'', ''provenanceRefs'', ''participants'', ''requiredInputs'', ''obligations''] (\<lambda>d. chks [
           dd_enum (loc @ ''.layer'') (jget ''layer'' d) dialect_layers,
           dd_nonempty (loc @ ''.expandsTo'') (jget ''expandsTo'' d),
           dd_if_has ''provenanceRefs'' d (dd_str_list (loc @ ''.provenanceRefs'')),
           dd_map (loc @ ''.participants'') (jget ''participants'' d) (\<lambda>pname p.
             dd_obj (loc @ ''.participants.'' @ pname) p [''role''] [''role'']
               (\<lambda>pd. dd_nonempty (loc @ ''.participants.'' @ pname @ ''.role'') (jget ''role'' pd))),
           dd_map (loc @ ''.requiredInputs'') (jget ''requiredInputs'' d) (\<lambda>iname ity.
             dd_enum (loc @ ''.requiredInputs.'' @ iname) ity input_types),
           emit_if (jhas ''obligations'' d \<and> \<not> is_list (jget ''obligations'' d))
             (dd_err (loc @ ''.obligations'') ''must be an array''),
           dd_enumerate (jget ''obligations'' d) (dd_obligation loc)]))"

definition dd_extension :: "string \<Rightarrow> string \<Rightarrow> json \<Rightarrow> diags" where
  "dd_extension loc ename ed =
     (let eloc = loc @ ''.extensionData.'' @ ename
      in dd_obj eloc ed [''preserve'', ''reason''] [''preserve'', ''reason''] (\<lambda>d. chks [
           emit_if (\<not> is_bool (jget ''preserve'' d)) (dd_err (eloc @ ''.preserve'') ''must be a boolean''),
           dd_nonempty (eloc @ ''.reason'') (jget ''reason'' d)]))"

definition dd_translation_map :: "string \<Rightarrow> json \<Rightarrow> diags" where
  "dd_translation_map name m =
     (let loc = ''translationMaps.'' @ name
      in dd_obj loc m [''provenance''] [''provenance'', ''lower'', ''lift'', ''extensionData''] (\<lambda>d. chks [
           dd_provenance (loc @ ''.provenance'') (jget ''provenance'' d),
           each [''lower'', ''lift''] (\<lambda>side.
             dd_map (loc @ ''.'' @ side) (jget side d) (\<lambda>fname fe.
               dd_rail_entry (loc @ ''.'' @ side @ ''.'' @ fname) fe)),
           dd_map (loc @ ''.extensionData'') (jget ''extensionData'' d) (dd_extension loc)]))"

definition dd_node :: "nat \<Rightarrow> json \<Rightarrow> diags" where
  "dd_node i n =
     (let loc = idx ''mappingGraph.nodes'' i
      in dd_obj loc n [''id'', ''layer'', ''kind''] [''id'', ''layer'', ''kind''] (\<lambda>d. chks [
           dd_nonempty (loc @ ''.id'') (jget ''id'' d),
           dd_enum (loc @ ''.layer'') (jget ''layer'' d) dialect_layers,
           dd_enum (loc @ ''.kind'') (jget ''kind'' d) node_kinds]))"

definition dd_edge :: "nat \<Rightarrow> json \<Rightarrow> diags" where
  "dd_edge i e =
     (let loc = idx ''mappingGraph.edges'' i
      in dd_obj loc e [''id'', ''type'', ''from'', ''to'', ''provenance'']
           [''id'', ''type'', ''from'', ''to'', ''direction'', ''lossiness'', ''provenance''] (\<lambda>d. chks [
           dd_nonempty (loc @ ''.id'') (jget ''id'' d),
           dd_enum (loc @ ''.type'') (jget ''type'' d) edge_types,
           dd_nonempty (loc @ ''.from'') (jget ''from'' d),
           dd_nonempty (loc @ ''.to'') (jget ''to'' d),
           dd_if_has ''direction'' d (\<lambda>v. dd_enum (loc @ ''.direction'') v edge_directions),
           dd_if_has ''lossiness'' d (\<lambda>v. dd_enum (loc @ ''.lossiness'') v lossiness_kinds),
           dd_provenance (loc @ ''.provenance'') (jget ''provenance'' d)]))"

definition dd_graph :: "json \<Rightarrow> diags" where
  "dd_graph g =
     dd_obj ''mappingGraph'' g [''nodes'', ''edges''] [''nodes'', ''edges''] (\<lambda>d. chks [
       emit_if (\<not> is_list (jget ''nodes'' d)) (dd_err ''mappingGraph.nodes'' ''must be an array''),
       dd_enumerate (jget ''nodes'' d) dd_node,
       emit_if (\<not> is_list (jget ''edges'' d)) (dd_err ''mappingGraph.edges'' ''must be an array''),
       dd_enumerate (jget ''edges'' d) dd_edge])"

text \<open>The names and aliases that would redefine a construct of the core language.\<close>

definition redefines :: "string \<Rightarrow> diagnostic" where
  "redefines msg = diag ''dialect.redefines_core'' msg"

definition dd_reserved_term :: "string \<Rightarrow> json \<Rightarrow> diags" where
  "dd_reserved_term name t = chks [
     emit_if (name \<in> set reserved_core)
       (redefines (''terms.'' @ name @ '': term name redefines core construct '' @ sq name)),
     guarded (is_obj t) (pbind (iter_or_empty (jget ''aliases'' (as_obj t))) (\<lambda>as. each as (\<lambda>a.
       emit_ifp (in_strs a reserved_core)
         (redefines (''terms.'' @ name @ ''.aliases: alias '' @ sq (py_str a) @ '' redefines core construct'')))))]"

definition dd_reserved_template :: "string \<Rightarrow> diags" where
  "dd_reserved_template name =
     emit_if (name \<in> set reserved_core)
       (redefines (''templates.'' @ name @ '': template name redefines core construct '' @ sq name))"

definition dialect_validate :: "json \<Rightarrow> diags" where
  "dialect_validate v =
     dd_obj ''(root)'' v [''kind'', ''domain'', ''version'', ''mappingGraph''] dialect_fields (\<lambda>d. chks [
       dd_header d,
       dd_map ''terms'' (jget ''terms'' d) dd_term,
       dd_map ''templates'' (jget ''templates'' d) dd_template,
       dd_map ''translationMaps'' (jget ''translationMaps'' d) dd_translation_map,
       dd_graph (jget ''mappingGraph'' d),
       dd_map ''terms'' (jget ''terms'' d) dd_reserved_term,
       dd_map ''templates'' (jget ''templates'' d) (\<lambda>name _. dd_reserved_template name)])"

section \<open>Cross-references\<close>

text \<open>\<open>v.get(k) or {}\<close> followed by \<open>.get(j)\<close>.\<close>

definition get_status :: "json \<Rightarrow> json py" where
  "get_status e = pbind (py_get e ''provenance'') (\<lambda>p. py_get (if truthy p then p else JObj []) ''status'')"

record crossrefs =
  cr_nodes :: "json list"
  cr_edges :: "json list"
  cr_status :: "(json \<times> json) list"
  cr_out :: "diagnostic list"

definition cr_emit :: "bool \<Rightarrow> string \<Rightarrow> string \<Rightarrow> crossrefs \<Rightarrow> crossrefs" where
  "cr_emit b code msg st = (if b then st\<lparr>cr_out := cr_out st @ [diag code msg]\<rparr> else st)"

definition crossref_node :: "json \<Rightarrow> crossrefs \<Rightarrow> crossrefs py" where
  "crossref_node n st =
     pbind (py_get n ''id'') (\<lambda>nid.
       if \<not> hashable nid then Inl TypeError
       else let st = cr_emit (in_list nid (cr_nodes st)) ''dialect.duplicate_id''
                       (''duplicate mappingGraph node id: '' @ py_str nid) st
            in Inr (st\<lparr>cr_nodes := nid # cr_nodes st\<rparr>))"

definition crossref_end :: "json \<Rightarrow> json \<Rightarrow> string \<Rightarrow> crossrefs \<Rightarrow> crossrefs py" where
  "crossref_end e eid end st =
     pbind (py_get e end) (\<lambda>v.
       if \<not> hashable v then Inl TypeError
       else Inr (cr_emit (\<not> in_list v (cr_nodes st)) ''dialect.dangling_edge_ref''
         (''edge '' @ py_str eid @ '': '' @ sq end @ '' references unknown node id: '' @ py_str v) st))"

definition crossref_edge :: "json \<Rightarrow> crossrefs \<Rightarrow> crossrefs py" where
  "crossref_edge e st =
     pbind (py_get e ''id'') (\<lambda>eid.
       if \<not> hashable eid then Inl TypeError
       else let st = cr_emit (in_list eid (cr_edges st)) ''dialect.duplicate_id''
                       (''duplicate mappingGraph edge id: '' @ py_str eid) st
            in pbind (get_status e) (\<lambda>status.
                 fold_py (crossref_end e eid) [''from'', ''to'']
                   (st\<lparr>cr_edges := eid # cr_edges st, cr_status := jdict_set eid status (cr_status st)\<rparr>)))"

text \<open>\<open>d.get(r)\<close> on the dictionary of statuses, after \<open>r\<close> has been hashed.\<close>

definition status_of :: "json \<Rightarrow> crossrefs \<Rightarrow> json" where
  "status_of r st = (case jlookup r (cr_status st) of None \<Rightarrow> JNull | Some s \<Rightarrow> s)"

definition crossref_ref :: "string \<Rightarrow> string \<Rightarrow> json \<Rightarrow> json \<Rightarrow> crossrefs \<Rightarrow> crossrefs py" where
  "crossref_ref kind name layer r st =
     (let here = kind @ '' '' @ sq name @ '': provenanceRef '' @ sq (py_str r)
      in if \<not> hashable r then Inl TypeError
         else if \<not> in_list r (cr_edges st)
         then Inr (cr_emit True ''dialect.unknown_provenance_ref'' (here @ '' is not a mappingGraph edge id'') st)
         else Inr (cr_emit (layer = JStr ''L2'' \<and> status_of r st \<noteq> JStr ''accepted'')
           ''dialect.unaccepted_provenance''
           (here @ '' has status '' @ sq (py_str (status_of r st))
             @ '' (reviewed L2 vocabulary requires accepted provenance)'') st))"

definition crossref_item :: "string \<Rightarrow> string \<times> json \<Rightarrow> crossrefs \<Rightarrow> crossrefs py" where
  "crossref_item kind item st =
     (case item of (name, v) \<Rightarrow>
        pbind (py_get v ''provenanceRefs'') (\<lambda>refs.
        pbind (py_get v ''layer'') (\<lambda>layer.
          let st = cr_emit (layer = JStr ''L2'' \<and> \<not> truthy refs) ''dialect.missing_provenance''
                (kind @ '' '' @ sq name @ '' is L2 but has no provenanceRefs (mapping-graph edge)'') st
          in pbind (iter_or_empty refs) (\<lambda>rs. fold_py (crossref_ref kind name layer) rs st))))"

definition crossref_map :: "string \<times> json \<Rightarrow> crossrefs \<Rightarrow> crossrefs py" where
  "crossref_map item st =
     (case item of (name, m) \<Rightarrow>
        pbind (if is_obj m then get_status m else Inr JNull) (\<lambda>status.
          Inr (cr_emit (status \<noteq> JStr ''accepted'') ''dialect.unaccepted_provenance''
            (''translationMap '' @ sq name @ '': provenance status '' @ sq (py_str status)
              @ '' (a reviewed dialect requires accepted translation-map provenance)'') st)))"

definition crossref_state :: "obj \<Rightarrow> crossrefs py" where
  "crossref_state d =
     (let graph = jget_or ''mappingGraph'' (JObj []) d
      in pbind (pbind (py_get_or graph ''nodes'' (JList [])) py_iter) (\<lambda>nodes.
         pbind (fold_py crossref_node nodes \<lparr>cr_nodes = [], cr_edges = [], cr_status = [], cr_out = []\<rparr>) (\<lambda>st1.
         pbind (pbind (py_get_or graph ''edges'' (JList [])) py_iter) (\<lambda>edges.
         pbind (fold_py crossref_edge edges st1) (\<lambda>st2.
         pbind (fold_py (crossref_item ''term'') (as_obj (jget ''terms'' d)) st2) (\<lambda>st3.
         pbind (fold_py (crossref_item ''template'') (as_obj (jget ''templates'' d)) st3) (\<lambda>st4.
           fold_py crossref_map (as_obj (jget ''translationMaps'' d)) st4)))))))"

definition dd_key :: "diagnostic \<Rightarrow> string \<times> string" where
  "dd_key d = (dcode d, dmessage d)"

definition crossref_diagnostics :: "obj \<Rightarrow> diags" where
  "crossref_diagnostics d = pbind (crossref_state d) (\<lambda>st. Inr (sort_key dd_key (cr_out st)))"

section \<open>The command\<close>

text \<open>The diagnostics in the order of \<open>main\<close>, with the digest.\<close>

definition hash_diags :: "string \<Rightarrow> json \<Rightarrow> diagnostic list" where
  "hash_diags digest embedded =
     (if embedded \<noteq> JNull \<and> embedded \<noteq> JStr digest
      then [diag ''dialect.hash_mismatch'' (''embedded domainDialectHash '' @ py_str embedded @ '' != computed '' @ digest)]
      else [])"

definition dialect_diags :: "(string \<Rightarrow> string) \<Rightarrow> json \<Rightarrow> (diagnostic list \<times> string option) py" where
  "dialect_diags H v =
     (case v of
        JObj d \<Rightarrow>
          pbind (dialect_validate v) (\<lambda>ds.
          let shape = sort_key dmessage ds
          in pbind (if list_ex (\<lambda>x. dcode x = ''dialect.schema'') shape then Inr [] else crossref_diagnostics d) (\<lambda>xs.
             let digest = H (compact (dialect_body d))
             in Inr (shape @ xs @ hash_diags digest (jget ''domainDialectHash'' d), Some digest)))
      | _ \<Rightarrow> Inr ([diag ''dialect.schema'' ''top-level artifact must be a JSON object''], None))"

definition count_section :: "json \<Rightarrow> string \<Rightarrow> int py" where
  "count_section v k = (case v of JObj d \<Rightarrow> py_len (jget_or k (JObj []) d) | _ \<Rightarrow> Inr 0)"

definition count_graph :: "json \<Rightarrow> string \<Rightarrow> int py" where
  "count_graph v k =
     (case v of
        JObj d \<Rightarrow> pbind (py_get_or (jget_or ''mappingGraph'' (JObj []) d) k (JList [])) py_len
      | _ \<Rightarrow> Inr 0)"

definition dialect_counts :: "json \<Rightarrow> (string \<times> int) list py" where
  "dialect_counts v =
     pbind (count_section v ''terms'') (\<lambda>a.
     pbind (count_section v ''templates'') (\<lambda>b.
     pbind (count_section v ''translationMaps'') (\<lambda>c.
     pbind (count_graph v ''nodes'') (\<lambda>n.
     pbind (count_graph v ''edges'') (\<lambda>e.
       Inr [(''terms'', a), (''templates'', b), (''translationMaps'', c), (''nodes'', n), (''edges'', e)])))))"

record dialect_result =
  dr_exit :: nat
  dr_ok :: bool
  dr_domain :: json
  dr_version :: json
  dr_digest :: "string option"
  dr_counts :: "(string \<times> int) list"
  dr_diagnostics :: "diagnostic list"
  dr_normalized :: "json option"

definition dialect_main :: "(string \<Rightarrow> string) \<Rightarrow> json \<Rightarrow> dialect_result py" where
  "dialect_main H v =
     pbind (dialect_diags H v) (\<lambda>(ds, digest).
     let ok = (filter (\<lambda>x. dseverity x = ''error'') ds = [])
     in pbind (dialect_counts v) (\<lambda>counts.
        Inr \<lparr>dr_exit = (if ok then 0 else 1), dr_ok = ok,
             dr_domain = jget ''domain'' (as_obj v), dr_version = jget ''version'' (as_obj v),
             dr_digest = digest, dr_counts = counts, dr_diagnostics = sort_key dd_key ds,
             dr_normalized = (if ok \<and> is_obj v then Some v else None)\<rparr>))"

end
