(* ===== verification/DialectProps.thy ===== *)
theory DialectProps
  imports DomainDialect
begin

text \<open>
  What the dialect gate promises: in an accepted dialect the mapping graph is closed and its ids are
  unique, reviewed vocabulary rests on accepted edges, and no name of the core language is taken.
\<close>

section \<open>Passing the structural checks\<close>

lemma dd_obj_pass [checks]:
  "dd_obj loc v required allowed body = Inr [] \<longleftrightarrow>
     (\<exists>d. v = JObj d \<and> (\<forall>k \<in> set required. jhas k d) \<and> (\<forall>k. jhas k d \<longrightarrow> k \<in> set allowed) \<and> body d = Inr [])"
  by (cases v) (auto simp: dd_obj_def checks filter_empty_conv key_diff_Nil_iff)

lemma dd_map_pass [checks]:
  "dd_map loc v body = Inr [] \<longleftrightarrow> v = JNull \<or> (\<exists>d. v = JObj d \<and> (\<forall>(k, x) \<in> set d. body k x = Inr []))"
  by (cases v) (auto simp: dd_map_def checks)

lemma dd_small_pass [checks]:
  "dd_nonempty loc v = Inr [] \<longleftrightarrow> nonempty_str v"
  "dd_enum loc v choices = Inr [] \<longleftrightarrow> (\<exists>s \<in> set choices. v = JStr s)"
  "dd_str_list loc v = Inr [] \<longleftrightarrow> is_list v \<and> list_all nonempty_str (as_list v)"
  "dd_if_has k d body1 = Inr [] \<longleftrightarrow> (jhas k d \<longrightarrow> body1 (jget k d) = Inr [])"
  by (auto simp: dd_nonempty_def dd_enum_def dd_str_list_def dd_if_has_def checks)

lemma dd_enumerate_pass [checks]:
  "dd_enumerate v body = Inr [] \<longleftrightarrow>
     (\<exists>xs. iter_or_empty v = Inr xs \<and> (\<forall>i < length xs. body i (xs ! i) = Inr []))"
  by (simp add: dd_enumerate_def checks)

text \<open>The parts of the mapping graph, and the id of a part.\<close>

definition graph_part :: "string \<Rightarrow> obj \<Rightarrow> json list" where
  "graph_part k d = as_list (jget k (as_obj (jget ''mappingGraph'' d)))"

definition part_id :: "json \<Rightarrow> string" where
  "part_id v = str_of (jget ''id'' (as_obj v))"

definition edge_status :: "json \<Rightarrow> json" where
  "edge_status e = jget ''status'' (as_obj (jget ''provenance'' (as_obj e)))"

definition part_ok :: "json \<Rightarrow> bool" where
  "part_ok v \<longleftrightarrow> (\<exists>d s. v = JObj d \<and> jget ''id'' d = JStr s)"

definition edge_ok :: "json \<Rightarrow> bool" where
  "edge_ok v \<longleftrightarrow> (\<exists>d s a b p. v = JObj d \<and> jget ''id'' d = JStr s \<and> jget ''from'' d = JStr a \<and>
     jget ''to'' d = JStr b \<and> jget ''provenance'' d = JObj p \<and> jhas ''status'' p)"

lemma graph_shape:
  assumes "dd_graph (jget ''mappingGraph'' d) = Inr []"
  obtains g where "jget ''mappingGraph'' d = JObj g"
    and "jget ''nodes'' g = JList (graph_part ''nodes'' d)" "jget ''edges'' g = JList (graph_part ''edges'' d)"
    and "\<forall>n \<in> set (graph_part ''nodes'' d). part_ok n" "\<forall>e \<in> set (graph_part ''edges'' d). edge_ok e"
proof -
  from assms obtain g where g: "jget ''mappingGraph'' d = JObj g"
    and l: "is_list (jget ''nodes'' g)" "is_list (jget ''edges'' g)"
    and n: "dd_enumerate (jget ''nodes'' g) dd_node = Inr []" "dd_enumerate (jget ''edges'' g) dd_edge = Inr []"
    by (auto simp: dd_graph_def dd_obj_pass chks_pass emit_if_pass)
  then have nodes: "jget ''nodes'' g = JList (graph_part ''nodes'' d)"
    and edges: "jget ''edges'' g = JList (graph_part ''edges'' d)"
    by (auto simp: graph_part_def is_list_iff)
  have "part_ok v" if "v \<in> set (graph_part ''nodes'' d)" for v
  proof -
    from that n(1) obtain i where "dd_node i v = Inr []"
      unfolding nodes by (auto simp: dd_enumerate_pass in_set_conv_nth)
    then show ?thesis
      by (auto simp: dd_node_def Let_def dd_obj_pass chks_pass dd_small_pass part_ok_def nonempty_str_iff)
  qed
  moreover have "edge_ok v" if "v \<in> set (graph_part ''edges'' d)" for v
  proof -
    from that n(2) obtain i where "dd_edge i v = Inr []"
      unfolding edges by (auto simp: dd_enumerate_pass in_set_conv_nth)
    then show ?thesis
      by (auto simp: dd_edge_def Let_def dd_obj_pass chks_pass dd_small_pass edge_ok_def nonempty_str_iff
          dd_provenance_def)
  qed
  ultimately show thesis using that [OF g nodes edges] by blast
qed

text \<open>The items of a section, each an object whose references are texts.\<close>

definition section_items :: "string \<Rightarrow> obj \<Rightarrow> (string \<times> json) list" where
  "section_items k d = as_obj (jget k d)"

definition item_ok :: "json \<Rightarrow> bool" where
  "item_ok v \<longleftrightarrow> (\<exists>t rs. v = JObj t \<and> (jget ''provenanceRefs'' t = JList (map JStr rs) \<or>
     jget ''provenanceRefs'' t = JNull \<and> rs = []))"

lemma refs_shape:
  assumes "dd_if_has ''provenanceRefs'' t (dd_str_list w) = Inr []"
  shows "\<exists>rs. jget ''provenanceRefs'' t = JList (map JStr rs) \<or> jget ''provenanceRefs'' t = JNull \<and> rs = []"
proof (cases "jhas ''provenanceRefs'' t")
  case True
  with assms obtain xs where "jget ''provenanceRefs'' t = JList xs" "list_all nonempty_str xs"
    by (auto simp: dd_small_pass is_list_iff)
  with nonempty_strs_map(1) [of xs] show ?thesis by metis
qed (simp add: jget_notin)

lemma term_item_ok: "dd_term name v = Inr [] \<Longrightarrow> item_ok v"
  by (auto simp: dd_term_def Let_def dd_obj_pass chks_pass item_ok_def dest: refs_shape)

lemma template_item_ok: "dd_template name v = Inr [] \<Longrightarrow> item_ok v"
  by (auto simp: dd_template_def Let_def dd_obj_pass chks_pass item_ok_def dest: refs_shape)

section \<open>Quiet folds\<close>

lemma cr_emit_quiet: "cr_out (cr_emit b c m st) = [] \<longleftrightarrow> \<not> b \<and> cr_out st = []"
  by (simp add: cr_emit_def)

lemma cr_emit_skip: "\<not> b \<Longrightarrow> cr_emit b c m st = st"
  by (simp add: cr_emit_def)

lemma cr_emit_fields [simp]:
  "cr_nodes (cr_emit b c m st) = cr_nodes st" "cr_edges (cr_emit b c m st) = cr_edges st"
  "cr_status (cr_emit b c m st) = cr_status st"
  by (simp_all add: cr_emit_def)

text \<open>A loop whose quiet steps leave the state as it is.\<close>

lemma fold_quiet:
  assumes "fold_py f xs s = Inr t" and "cr_out t = []"
    and "\<And>x s t. x \<in> set xs \<Longrightarrow> f x s = Inr t \<Longrightarrow> cr_out t = [] \<Longrightarrow> t = s \<and> P x s"
  shows "t = s \<and> (\<forall>x \<in> set xs. P x s)"
  using assms
proof (induction xs arbitrary: s)
  case (Cons x xs)
  then obtain u where u: "f x s = Inr u" "fold_py f xs u = Inr t" by (auto simp: pbind_Inr_conv)
  have "t = u \<and> (\<forall>x \<in> set xs. P x u)"
    by (rule Cons.IH [OF u(2) Cons.prems(2)]) (rule Cons.prems(3), simp_all)
  moreover from this have "u = s \<and> P x s"
    using Cons.prems(3) [OF _ u(1)] Cons.prems(2) by simp
  ultimately show ?case by simp
qed simp

lemma node_quiet:
  assumes "part_ok n" and "crossref_node n s = Inr t" and "cr_out t = []"
  shows "cr_out s = [] \<and> t = s\<lparr>cr_nodes := JStr (part_id n) # cr_nodes s\<rparr> \<and> JStr (part_id n) \<notin> set (cr_nodes s)"
proof -
  obtain d i where n: "n = JObj d" "jget ''id'' d = JStr i" using assms(1) by (auto simp: part_ok_def)
  show ?thesis
    using assms(2,3) by (cases "JStr i \<in> set (cr_nodes s)")
      (auto simp: n crossref_node_def hashable_def Let_def part_id_def cr_emit_def)
qed

lemma nodes_quiet:
  assumes "fold_py crossref_node ns s = Inr t" and "cr_out t = []" and "\<forall>n \<in> set ns. part_ok n"
  shows "cr_out s = [] \<and> t = s\<lparr>cr_nodes := rev (map (JStr \<circ> part_id) ns) @ cr_nodes s\<rparr> \<and>
    distinct (map part_id ns) \<and> (\<forall>n \<in> set ns. JStr (part_id n) \<notin> set (cr_nodes s))"
  using assms
proof (induction ns arbitrary: s)
  case (Cons n ns)
  then obtain u where u: "crossref_node n s = Inr u" "fold_py crossref_node ns u = Inr t"
    by (auto simp: pbind_Inr_conv)
  from Cons.IH [OF u(2)] Cons.prems(2,3)
  have t: "cr_out u = []" "t = u\<lparr>cr_nodes := rev (map (JStr \<circ> part_id) ns) @ cr_nodes u\<rparr>"
    "distinct (map part_id ns)" "\<forall>n \<in> set ns. JStr (part_id n) \<notin> set (cr_nodes u)" by auto
  have "cr_out s = [] \<and> u = s\<lparr>cr_nodes := JStr (part_id n) # cr_nodes s\<rparr> \<and> JStr (part_id n) \<notin> set (cr_nodes s)"
    using Cons.prems(3) u(1) t(1) by (intro node_quiet) simp_all
  with t show ?case by auto
qed simp

text \<open>One edge, with the ends it names.\<close>

definition edge_ends :: "json \<Rightarrow> string list" where
  "edge_ends e = [str_of (jget ''from'' (as_obj e)), str_of (jget ''to'' (as_obj e))]"

lemma end_quiet:
  assumes "crossref_end (JObj d) eid en s = Inr t" and "cr_out t = []" and "jget en d = JStr v"
  shows "t = s \<and> JStr v \<in> set (cr_nodes s)"
  using assms by (auto simp: crossref_end_def hashable_def cr_emit_def split: if_splits)

lemma edge_quiet:
  assumes "edge_ok e" and "crossref_edge e s = Inr t" and "cr_out t = []"
  shows "cr_out s = [] \<and>
    t = s\<lparr>cr_edges := JStr (part_id e) # cr_edges s,
          cr_status := jdict_set (JStr (part_id e)) (edge_status e) (cr_status s)\<rparr> \<and>
    JStr (part_id e) \<notin> set (cr_edges s) \<and> JStr ` set (edge_ends e) \<subseteq> set (cr_nodes s)"
proof -
  from assms(1) obtain d i a b p where e: "e = JObj d" "jget ''id'' d = JStr i" "jget ''from'' d = JStr a"
    "jget ''to'' d = JStr b" "jget ''provenance'' d = JObj p" "jhas ''status'' p" by (auto simp: edge_ok_def)
  then have st: "get_status e = Inr (edge_status e)"
    by (auto simp: get_status_def edge_status_def jhas_map_of)
  let ?s = "(cr_emit (JStr i \<in> set (cr_edges s)) ''dialect.duplicate_id''
      (''duplicate mappingGraph edge id: '' @ py_str (JStr i)) s)
    \<lparr>cr_edges := JStr i # cr_edges s, cr_status := jdict_set (JStr i) (edge_status e) (cr_status s)\<rparr>"
  have id: "py_get e ''id'' = Inr (JStr i)" by (simp add: e)
  have "fold_py (crossref_end e (JStr i)) [''from'', ''to''] ?s = Inr t"
    using assms(2) unfolding crossref_edge_def id by (simp add: hashable_def Let_def st del: fold_py.simps)
  then obtain u where u: "crossref_end e (JStr i) ''from'' ?s = Inr u" "crossref_end e (JStr i) ''to'' u = Inr t"
    by (auto simp: pbind_Inr_conv)
  from end_quiet [OF u(2) [unfolded e(1)] assms(3) e(4)] have t: "t = u" "JStr b \<in> set (cr_nodes u)" by simp_all
  from end_quiet [OF u(1) [unfolded e(1)] _ e(3)] assms(3) t(1) have u': "u = ?s" "JStr a \<in> set (cr_nodes ?s)" by (simp_all add: e(1))
  with assms(3) t have "cr_out ?s = []" by simp
  with t u' show ?thesis
    by (auto simp: cr_emit_def part_id_def edge_ends_def e split: if_splits)
qed

lemma edges_quiet:
  assumes "fold_py crossref_edge es s = Inr t" and "cr_out t = []" and "\<forall>e \<in> set es. edge_ok e"
  shows "cr_out s = [] \<and> cr_nodes t = cr_nodes s \<and>
    cr_edges t = rev (map (JStr \<circ> part_id) es) @ cr_edges s \<and>
    distinct (map part_id es) \<and> (\<forall>e \<in> set es. JStr (part_id e) \<notin> set (cr_edges s)) \<and>
    (\<forall>e \<in> set es. jlookup (JStr (part_id e)) (cr_status t) = Some (edge_status e)) \<and>
    (\<forall>a. a \<notin> part_id ` set es \<longrightarrow> jlookup (JStr a) (cr_status t) = jlookup (JStr a) (cr_status s)) \<and>
    (\<forall>e \<in> set es. JStr ` set (edge_ends e) \<subseteq> set (cr_nodes s))"
  using assms
proof (induction es arbitrary: s)
  case (Cons e es)
  then obtain u where u: "crossref_edge e s = Inr u" "fold_py crossref_edge es u = Inr t"
    by (auto simp: pbind_Inr_conv)
  have t: "cr_out u = []" "cr_nodes t = cr_nodes u" "cr_edges t = rev (map (JStr \<circ> part_id) es) @ cr_edges u"
    "distinct (map part_id es)" "\<forall>e \<in> set es. JStr (part_id e) \<notin> set (cr_edges u)"
    "\<forall>e \<in> set es. jlookup (JStr (part_id e)) (cr_status t) = Some (edge_status e)"
    "\<forall>a. a \<notin> part_id ` set es \<longrightarrow> jlookup (JStr a) (cr_status t) = jlookup (JStr a) (cr_status u)"
    "\<forall>e \<in> set es. JStr ` set (edge_ends e) \<subseteq> set (cr_nodes u)"
    using Cons.IH [OF u(2) Cons.prems(2)] Cons.prems(3) by auto
  have s: "cr_out s = []"
    "u = s\<lparr>cr_edges := JStr (part_id e) # cr_edges s,
           cr_status := jdict_set (JStr (part_id e)) (edge_status e) (cr_status s)\<rparr>"
    "JStr (part_id e) \<notin> set (cr_edges s)" "JStr ` set (edge_ends e) \<subseteq> set (cr_nodes s)"
    using edge_quiet [OF _ u(1) t(1)] Cons.prems(3) by simp_all
  have new: "part_id e \<notin> part_id ` set es" using t(5) by (auto simp: s(2))
  have "cr_nodes u = cr_nodes s" "cr_edges u = JStr (part_id e) # cr_edges s"
    and look: "jlookup (JStr a) (cr_status u) = (if a = part_id e then Some (edge_status e) else jlookup (JStr a) (cr_status s))" for a
    by (simp_all add: s(2))
  with s(1,3,4) t new show ?case by auto
qed simp

text \<open>An item of vocabulary whose references are resolved, and accepted where it is of layer L2.\<close>

definition item_refs :: "json \<Rightarrow> json list" where
  "item_refs v = as_list (jget ''provenanceRefs'' (as_obj v))"

definition is_l2 :: "json \<Rightarrow> bool" where
  "is_l2 v \<longleftrightarrow> jget ''layer'' (as_obj v) = JStr ''L2''"

definition ref_grounded :: "json \<Rightarrow> crossrefs \<Rightarrow> json \<Rightarrow> bool" where
  "ref_grounded v st r \<longleftrightarrow> r \<in> set (cr_edges st) \<and> (is_l2 v \<longrightarrow> status_of r st = JStr ''accepted'')"

definition item_grounded :: "string \<times> json \<Rightarrow> crossrefs \<Rightarrow> bool" where
  "item_grounded item st \<longleftrightarrow>
     (is_l2 (snd item) \<longrightarrow> item_refs (snd item) \<noteq> []) \<and> (\<forall>r \<in> set (item_refs (snd item)). ref_grounded (snd item) st r)"

lemma ref_quiet:
  assumes "crossref_ref kind name (jget ''layer'' d) (JStr r) s = Inr t" and "cr_out t = []"
  shows "t = s \<and> ref_grounded (JObj d) s (JStr r)"
  using assms
  by (auto simp: crossref_ref_def Let_def hashable_def cr_emit_def ref_grounded_def is_l2_def split: if_splits)

lemma item_quiet:
  assumes "item_ok (snd item)" and "crossref_item kind item s = Inr t" and "cr_out t = []"
  shows "t = s \<and> item_grounded item s"
proof -
  obtain name v where nv: "item = (name, v)" by (cases item)
  with assms(1) obtain d rs where v: "v = JObj d"
    and rs: "jget ''provenanceRefs'' d = JList (map JStr rs) \<or> jget ''provenanceRefs'' d = JNull \<and> rs = []"
    by (auto simp: item_ok_def)
  define s' where "s' = cr_emit (jget ''layer'' d = JStr ''L2'' \<and> \<not> truthy (jget ''provenanceRefs'' d)) ''dialect.missing_provenance''
    (kind @ '' '' @ sq name @ '' is L2 but has no provenanceRefs (mapping-graph edge)'') s"
  have "iter_or_empty (jget ''provenanceRefs'' d) = Inr (map JStr rs)" using rs by auto
  with assms(2) have fold: "fold_py (crossref_ref kind name (jget ''layer'' d)) (map JStr rs) s' = Inr t"
    by (simp add: crossref_item_def nv v Let_def s'_def)
  have refs: "item_refs v = map JStr rs" using rs by (auto simp: item_refs_def v)
  have "t = s' \<and> (\<forall>r \<in> set (map JStr rs). ref_grounded v s' r)"
    by (rule fold_quiet [OF fold assms(3)]) (auto simp: v dest: ref_quiet)
  moreover from this assms(3) have "cr_out s' = []" by simp
  then have "s' = s" "\<not> (jget ''layer'' d = JStr ''L2'' \<and> \<not> truthy (jget ''provenanceRefs'' d))"
    by (auto simp: s'_def cr_emit_def split: if_splits)
  ultimately show ?thesis using rs by (auto simp: item_grounded_def nv refs [unfolded v] v is_l2_def)
qed

lemma items_quiet:
  assumes "fold_py (crossref_item kind) items s = Inr t" and "cr_out t = []"
    and "\<And>name v. (name, v) \<in> set items \<Longrightarrow> item_ok v \<and> Q name v"
  shows "t = s \<and> (\<forall>x \<in> set items. item_grounded x s)"
proof (rule fold_quiet [OF assms(1,2)])
  fix x s t
  assume x: "x \<in> set items" "crossref_item kind x s = Inr t" "cr_out t = []"
  have "item_ok (snd x)" using assms(3) [of "fst x" "snd x"] x(1) by simp
  then show "t = s \<and> item_grounded x s" using x(2,3) by (rule item_quiet)
qed

definition map_accepted :: "string \<times> json \<Rightarrow> bool" where
  "map_accepted item \<longleftrightarrow> jget ''status'' (as_obj (jget ''provenance'' (as_obj (snd item)))) = JStr ''accepted''"

lemma map_quiet:
  assumes "crossref_map item s = Inr t" and "cr_out t = []"
  shows "t = s \<and> map_accepted item"
  using assms
  by (cases item; cases "snd item")
    (auto simp: crossref_map_def pbind_Inr_conv cr_emit_def get_status_def py_get_obj map_accepted_def split: if_splits)

section \<open>Accepted dialects\<close>

text \<open>Every diagnostic is an error, so an exit status of 0 means that there is none.\<close>

lemma errs_dd [simp]: "dseverity (dd_err l m) = ''error''" "dseverity (redefines m) = ''error''"
  by (simp_all add: dd_err_def redefines_def)

lemma errors_dd_obj [outcomes]: "(\<And>d. errors_only (body d)) \<Longrightarrow> errors_only (dd_obj l v r a body)"
  unfolding dd_obj_def by (intro outcomes) (auto simp: list_all_iff)

lemma errors_dd_map [outcomes]: "(\<And>k x. errors_only (body k x)) \<Longrightarrow> errors_only (dd_map l v body)"
  unfolding dd_map_def by (intro outcomes) (auto simp: list_all_iff split: prod.splits)

lemma errors_dd_small [outcomes]:
  "errors_only (dd_nonempty l v)" "errors_only (dd_enum l v cs)" "errors_only (dd_str_list l v)"
  "(\<And>x. errors_only (body x)) \<Longrightarrow> errors_only (dd_if_has k d body)"
  "(\<And>i x. errors_only (body2 i x)) \<Longrightarrow> errors_only (dd_enumerate v body2)"
  unfolding dd_nonempty_def dd_enum_def dd_str_list_def dd_if_has_def dd_enumerate_def
  by (auto intro!: outcomes)

lemma errors_parts [outcomes]:
  "errors_only (dd_header d)" "errors_only (dd_term n v)" "errors_only (dd_template n v)"
  "errors_only (dd_translation_map n v)" "errors_only (dd_graph v)"
  "errors_only (dd_reserved_term n v)" "errors_only (dd_reserved_template n)"
  unfolding dd_header_def dd_term_def dd_template_def dd_translation_map_def dd_graph_def dd_reserved_term_def
    dd_reserved_template_def dd_obligation_def dd_provenance_def dd_rail_entry_def dd_extension_def dd_node_def
    dd_edge_def Let_def
  by (intro outcomes; simp)+

lemma errors_dialect_validate: "errors_only (dialect_validate v)"
  unfolding dialect_validate_def by (intro outcomes)

lemma crossref_errors:
  assumes "crossref_state d = Inr st"
  shows "list_all errs (cr_out st)"
proof -
  let ?I = "\<lambda>s. list_all errs (cr_out s)"
  have emit: "?I s \<Longrightarrow> ?I (cr_emit b c m s)" for s b c m by (simp add: cr_emit_def)
  have node: "?I s \<Longrightarrow> crossref_node n s = Inr t \<Longrightarrow> ?I t" for n s t
    by (auto simp: crossref_node_def pbind_Inr_conv Let_def emit split: if_splits)
  have ends: "?I s \<Longrightarrow> crossref_end e i en s = Inr t \<Longrightarrow> ?I t" for e i en s t
    by (auto simp: crossref_end_def pbind_Inr_conv emit split: if_splits)
  have edge: "?I s \<Longrightarrow> crossref_edge e s = Inr t \<Longrightarrow> ?I t" for e s t
    by (auto simp: crossref_edge_def pbind_Inr_conv Let_def split: if_splits
        elim!: ends [rotated] intro!: emit)
  have ref: "?I s \<Longrightarrow> crossref_ref k n l r s = Inr t \<Longrightarrow> ?I t" for k n l r s t
    by (auto simp: crossref_ref_def Let_def emit split: if_splits)
  have item: "?I s \<Longrightarrow> crossref_item k it s = Inr t \<Longrightarrow> ?I t" for k it s t
    by (auto simp: crossref_item_def pbind_Inr_conv Let_def split: prod.splits
        elim!: fold_py_invariant [where I = ?I] ref [rotated] intro!: emit)
  have map: "?I s \<Longrightarrow> crossref_map it s = Inr t \<Longrightarrow> ?I t" for it s t
    by (auto simp: crossref_map_def pbind_Inr_conv emit split: prod.splits)
  from assms obtain nodes edges s1 s2 s3 s4 where
    f: "fold_py crossref_node nodes \<lparr>cr_nodes = [], cr_edges = [], cr_status = [], cr_out = []\<rparr> = Inr s1"
      "fold_py crossref_edge edges s1 = Inr s2"
      "fold_py (crossref_item ''term'') (as_obj (jget ''terms'' d)) s2 = Inr s3"
      "fold_py (crossref_item ''template'') (as_obj (jget ''templates'' d)) s3 = Inr s4"
      "fold_py crossref_map (as_obj (jget ''translationMaps'' d)) s4 = Inr st"
    unfolding crossref_state_def Let_def pbind_Inr_conv by blast
  have "?I s1" by (rule fold_py_invariant [OF f(1)]) (auto intro: node)
  then have "?I s2" by (rule fold_py_invariant [OF f(2), where I = ?I]) (rule edge)
  then have "?I s3" by (rule fold_py_invariant [OF f(3), where I = ?I]) (rule item)
  then have "?I s4" by (rule fold_py_invariant [OF f(4), where I = ?I]) (rule item)
  then show ?thesis by (rule fold_py_invariant [OF f(5), where I = ?I]) (rule map)
qed

lemma dialect_diags_errors:
  assumes "dialect_diags H v = Inr (ds, x)"
  shows "list_all errs ds"
proof (cases v)
  case (JObj d)
  with assms obtain as bs where "dialect_validate v = Inr as"
    and cr: "bs = [] \<or> crossref_diagnostics d = Inr bs"
    and ds: "ds = sort_key dmessage as @ bs @ hash_diags (H (compact (dialect_body d))) (jget ''domainDialectHash'' d)"
    by (auto simp: dialect_diags_def pbind_Inr_conv Let_def split: if_splits)
  then have "list_all errs as" using errors_dialect_validate [of v] by (simp add: outcome_def)
  moreover have "list_all errs bs"
    using cr crossref_errors by (auto simp: crossref_diagnostics_def pbind_Inr_conv list_all_iff)
  ultimately show ?thesis by (auto simp: ds hash_diags_def list_all_iff)
qed (use assms in \<open>auto simp: dialect_diags_def\<close>)

lemma dialect_accepted:
  assumes "dialect_main H v = Inr r" and "dr_exit r = 0"
  obtains d st where "v = JObj d" and "dialect_validate v = Inr []" and "crossref_state d = Inr st" and "cr_out st = []"
    and "jget ''domainDialectHash'' d = JNull \<or> jget ''domainDialectHash'' d = JStr (H (compact (dialect_body d)))"
    and "dr_digest r = Some (H (compact (dialect_body d)))" and "dr_normalized r = Some v"
proof -
  from assms(1) obtain ds x where ds: "dialect_diags H v = Inr (ds, x)"
    and r: "dr_exit r = (if filter (\<lambda>x. dseverity x = ''error'') ds = [] then 0 else 1)" "dr_digest r = x"
      "dr_normalized r = (if filter (\<lambda>x. dseverity x = ''error'') ds = [] \<and> is_obj v then Some v else None)"
    by (auto simp: dialect_main_def pbind_Inr_conv Let_def)
  have "filter (\<lambda>x. dseverity x = ''error'') ds = ds"
    using dialect_diags_errors [OF ds] by (simp add: list_all_iff)
  with r assms(2) have nil: "ds = []" by (auto split: if_splits)
  with ds obtain d where v: "v = JObj d" by (cases v) (auto simp: dialect_diags_def)
  with ds nil have "dialect_validate v = Inr []" "crossref_diagnostics d = Inr []"
    "hash_diags (H (compact (dialect_body d))) (jget ''domainDialectHash'' d) = []" "x = Some (H (compact (dialect_body d)))"
    by (auto simp: dialect_diags_def pbind_Inr_conv Let_def split: if_splits)
  with v r nil that show thesis
    by (auto simp: crossref_diagnostics_def pbind_Inr_conv hash_diags_def split: if_splits)
qed

lemma validate_parts:
  assumes "dialect_validate (JObj d) = Inr []"
  shows "dd_graph (jget ''mappingGraph'' d) = Inr []"
    and "\<And>name v. (name, v) \<in> set (section_items ''terms'' d) \<Longrightarrow> item_ok v \<and> dd_reserved_term name v = Inr []"
    and "\<And>name v. (name, v) \<in> set (section_items ''templates'' d) \<Longrightarrow> item_ok v \<and> dd_reserved_template name = Inr []"
proof -
  have parts: "dd_graph (jget ''mappingGraph'' d) = Inr []"
    "dd_map ''terms'' (jget ''terms'' d) dd_term = Inr []"
    "dd_map ''templates'' (jget ''templates'' d) dd_template = Inr []"
    "dd_map ''terms'' (jget ''terms'' d) dd_reserved_term = Inr []"
    "dd_map ''templates'' (jget ''templates'' d) (\<lambda>name _. dd_reserved_template name) = Inr []"
    using assms by (simp_all add: dialect_validate_def dd_obj_pass chks_pass)
  then show "dd_graph (jget ''mappingGraph'' d) = Inr []" by simp
  show "item_ok v \<and> dd_reserved_term name v = Inr []" if "(name, v) \<in> set (section_items ''terms'' d)" for name v
  proof -
    have "dd_term name v = Inr []" "dd_reserved_term name v = Inr []"
      using parts that by (auto simp: dd_map_pass section_items_def)
    then show ?thesis by (blast dest: term_item_ok)
  qed
  show "item_ok v \<and> dd_reserved_template name = Inr []" if "(name, v) \<in> set (section_items ''templates'' d)" for name v
  proof -
    have "dd_template name v = Inr []" "dd_reserved_template name = Inr []"
      using parts that by (auto simp: dd_map_pass section_items_def)
    then show ?thesis by (blast dest: template_item_ok)
  qed
qed

text \<open>The mapping graph is closed: ids are unique and the ends of an edge are nodes.\<close>

definition graph_closed :: "obj \<Rightarrow> bool" where
  "graph_closed d \<longleftrightarrow>
     (let nodes = map part_id (graph_part ''nodes'' d); edges = graph_part ''edges'' d
      in distinct nodes \<and> distinct (map part_id edges) \<and> list_all (\<lambda>e. set (edge_ends e) \<subseteq> set nodes) edges)"

text \<open>An item of vocabulary rests on edges of the graph, on accepted ones where it is of layer L2.\<close>

definition rests_on_edges :: "obj \<Rightarrow> json \<Rightarrow> bool" where
  "rests_on_edges d v \<longleftrightarrow> (is_l2 v \<longrightarrow> item_refs v \<noteq> []) \<and>
     (\<forall>r \<in> set (item_refs v). \<exists>e \<in> set (graph_part ''edges'' d).
        r = JStr (part_id e) \<and> (is_l2 v \<longrightarrow> edge_status e = JStr ''accepted''))"

lemma crossrefs_closed:
  assumes "dialect_validate (JObj d) = Inr []" and "crossref_state d = Inr st" and "cr_out st = []"
  shows "graph_closed d"
    and "\<And>sec item. sec \<in> {''terms'', ''templates''} \<Longrightarrow> item \<in> set (section_items sec d) \<Longrightarrow> rests_on_edges d (snd item)"
    and "\<And>item. item \<in> set (section_items ''translationMaps'' d) \<Longrightarrow> map_accepted item"
proof -
  let ?s0 = "\<lparr>cr_nodes = [], cr_edges = [], cr_status = [], cr_out = []\<rparr>"
  let ?nodes = "graph_part ''nodes'' d" and ?edges = "graph_part ''edges'' d"
  note parts = validate_parts [OF assms(1)]
  obtain g where g: "jget ''mappingGraph'' d = JObj g" "jget ''nodes'' g = JList ?nodes" "jget ''edges'' g = JList ?edges"
    and ok: "\<forall>n \<in> set ?nodes. part_ok n" "\<forall>e \<in> set ?edges. edge_ok e"
    using graph_shape [OF parts(1)] by blast
  then have "jget_or ''mappingGraph'' (JObj []) d = JObj g" "jget_or ''nodes'' (JList []) g = JList ?nodes"
    "jget_or ''edges'' (JList []) g = JList ?edges"
    by (auto simp: jget_def jget_or_def split: option.splits)
  with assms(2) obtain s1 s2 s3 s4 where
    f: "fold_py crossref_node ?nodes ?s0 = Inr s1" "fold_py crossref_edge ?edges s1 = Inr s2"
      "fold_py (crossref_item ''term'') (section_items ''terms'' d) s2 = Inr s3"
      "fold_py (crossref_item ''template'') (section_items ''templates'' d) s3 = Inr s4"
      "fold_py crossref_map (section_items ''translationMaps'' d) s4 = Inr st"
    by (auto simp: crossref_state_def pbind_Inr_conv section_items_def)
  have m: "st = s4 \<and> (\<forall>x \<in> set (section_items ''translationMaps'' d). map_accepted x)"
    by (rule fold_quiet [OF f(5) assms(3)]) (auto dest: map_quiet)
  have t: "s4 = s3 \<and> (\<forall>x \<in> set (section_items ''templates'' d). item_grounded x s3)"
    by (rule items_quiet [OF f(4)]) (use m assms(3) in simp, rule parts(3))
  have u: "s3 = s2 \<and> (\<forall>x \<in> set (section_items ''terms'' d). item_grounded x s2)"
    by (rule items_quiet [OF f(3)]) (use m t assms(3) in simp, rule parts(2))
  have q: "cr_out s2 = []" using m t u assms(3) by simp
  note e = edges_quiet [OF f(2) q ok(2)]
  note n = nodes_quiet [OF f(1) _ ok(1)]
  have sub: "A \<subseteq> f ` B" if "JStr ` A \<subseteq> set (rev (map (JStr \<circ> f) xs))" "B = set xs" for A B f and xs :: "json list"
    using that by auto
  have "set (edge_ends x) \<subseteq> part_id ` set ?nodes" if "x \<in> set ?edges" for x
    using e n that by (intro sub) auto
  then show "graph_closed d"
    using e n by (auto simp: graph_closed_def Let_def list_all_iff)
  show "map_accepted item" if "item \<in> set (section_items ''translationMaps'' d)" for item
    using m that by blast
  have edges: "cr_edges s2 = rev (map (JStr \<circ> part_id) ?edges)" using e n by auto
  have "status_of (JStr (part_id x)) s2 = edge_status x" if "x \<in> set ?edges" for x
    using e that by (simp add: status_of_def)
  then have grounded: "rests_on_edges d (snd x)" if "item_grounded x s2" for x
    using that by (fastforce simp: item_grounded_def rests_on_edges_def ref_grounded_def edges)
  show "rests_on_edges d (snd item)" if "sec \<in> {''terms'', ''templates''}" "item \<in> set (section_items sec d)" for sec item
    using that t u grounded [of item] by auto
qed

text \<open>A vocabulary item that takes no name of the core language.\<close>

definition no_reserved_name :: "string \<times> json \<Rightarrow> bool" where
  "no_reserved_name item \<longleftrightarrow> fst item \<notin> set reserved_core \<and>
     list_all (\<lambda>a. a \<notin> JStr ` set reserved_core) (as_list (jget ''aliases'' (as_obj (snd item))))"

lemma reserved_term_pass:
  assumes "dd_reserved_term name v = Inr []" and "item_ok v"
  shows "no_reserved_name (name, v)"
proof -
  obtain d where v: "v = JObj d" using assms(2) by (auto simp: item_ok_def)
  from assms(1) obtain as where "name \<notin> set reserved_core" and as: "iter_or_empty (jget ''aliases'' d) = Inr as"
    "\<forall>a \<in> set as. in_strs a reserved_core = Inr False"
    by (auto simp: dd_reserved_term_def v checks simp del: in_strs_True)
  moreover have "as_list (jget ''aliases'' d) = [] \<or> as_list (jget ''aliases'' d) = as"
    using as(1) by (cases "jget ''aliases'' d") auto
  ultimately show ?thesis by (auto simp: no_reserved_name_def v list_all_iff)
qed

text \<open>C20. In a dialect the gate accepts, the mapping graph is closed (unique ids, every edge between
  declared nodes), every reference of a term or template names an edge, an L2 item has references and
  all of them are accepted edges, translation maps are accepted, no term, template or term alias
  takes a name of the core language, and an embedded digest is the digest of the document.\<close>

theorem accepted_dialect_grounded:
  assumes "dialect_main H v = Inr r" and "dr_exit r = 0"
  shows "\<exists>d. v = JObj d \<and> graph_closed d
    \<and> (\<forall>sec \<in> {''terms'', ''templates''}. \<forall>item \<in> set (section_items sec d).
         fst item \<notin> set reserved_core \<and> rests_on_edges d (snd item))
    \<and> (\<forall>item \<in> set (section_items ''terms'' d). no_reserved_name item)
    \<and> (\<forall>item \<in> set (section_items ''translationMaps'' d). map_accepted item)
    \<and> (jget ''domainDialectHash'' d \<noteq> JNull \<longrightarrow> jget ''domainDialectHash'' d = JStr (H (compact (dialect_body d))))"
proof -
  obtain d st where v: "v = JObj d" and ok: "dialect_validate v = Inr []" "crossref_state d = Inr st" "cr_out st = []"
    and h: "jget ''domainDialectHash'' d = JNull \<or> jget ''domainDialectHash'' d = JStr (H (compact (dialect_body d)))"
    using dialect_accepted [OF assms] by blast
  note parts = validate_parts [OF ok(1) [unfolded v]] and closed = crossrefs_closed [OF ok(1) [unfolded v] ok(2,3)]
  have terms: "no_reserved_name item" if "item \<in> set (section_items ''terms'' d)" for item
    using parts(2) [of "fst item" "snd item"] that reserved_term_pass [of "fst item" "snd item"] by simp
  have "fst item \<notin> set reserved_core" if "item \<in> set (section_items ''templates'' d)" for item
    using parts(3) [of "fst item" "snd item"] that by (simp add: dd_reserved_template_def checks)
  with terms have "fst item \<notin> set reserved_core" if "sec \<in> {''terms'', ''templates''}" "item \<in> set (section_items sec d)"
    for sec item using that terms [of item] by (cases "sec = ''terms''") (simp_all add: no_reserved_name_def)
  with v h closed terms show ?thesis by blast
qed

text \<open>A small accepted dialect: one L2 term and one L2 template on two accepted edges.\<close>

definition accepted_edge :: "string \<Rightarrow> string \<Rightarrow> string \<Rightarrow> string \<Rightarrow> json" where
  "accepted_edge i ty a b = JObj [(''id'', JStr i), (''type'', JStr ty), (''from'', JStr a), (''to'', JStr b),
     (''provenance'', JObj [(''source'', JStr ''spec''), (''status'', JStr ''accepted'')])]"

definition graph_node :: "string \<Rightarrow> string \<Rightarrow> json" where
  "graph_node i k = JObj [(''id'', JStr i), (''layer'', JStr ''L2''), (''kind'', JStr k)]"

definition small_dialect :: "json \<Rightarrow> obj" where
  "small_dialect ref =
     [(''kind'', JStr ''neutrino.domain-dialect''), (''domain'', JStr ''pay''), (''version'', JStr ''1.0.0''),
      (''terms'', JObj [(''payer'', JObj [(''layer'', JStr ''L2''), (''role'', JStr ''payer''),
         (''provenanceRefs'', JList [ref])])]),
      (''mappingGraph'', JObj [(''nodes'', JList [graph_node ''s'' ''sourceField'', graph_node ''c'' ''capabilityConcept'']),
         (''edges'', JList [accepted_edge ''e1'' ''cites'' ''s'' ''c''])])]"

definition exit_of :: "'a py \<Rightarrow> ('a \<Rightarrow> nat) \<Rightarrow> nat option" where
  "exit_of m f = (case m of Inl _ \<Rightarrow> None | Inr x \<Rightarrow> Some (f x))"

lemma small_dialect_ok: "exit_of (dialect_main (\<lambda>_. []) (JObj (small_dialect (JStr ''e1'')))) dr_exit = Some 0"
  by code_simp

lemma accepted_dialect_grounded_witness:
  "rests_on_edges (small_dialect (JStr ''e1'')) (snd (hd (section_items ''terms'' (small_dialect (JStr ''e1'')))))"
proof -
  obtain r where "dialect_main (\<lambda>_. []) (JObj (small_dialect (JStr ''e1''))) = Inr r" "dr_exit r = 0"
    using small_dialect_ok by (auto simp: exit_of_def split: sum.splits)
  from accepted_dialect_grounded [OF this]
  show ?thesis by (auto simp: section_items_def small_dialect_def jget_def jget_or_def)
qed

text \<open>The gate raises an uncaught \<open>TypeError\<close>, and writes no report, for an otherwise accepted dialect
  in which an optional section is null: validation treats null as absent, the count of the report does not.\<close>

theorem dialect_gate_raises_on_null_section:
  "dialect_diags (\<lambda>_. []) (JObj ((''templates'', JNull) # small_dialect (JStr ''e1''))) = Inr ([], Some [])
   \<and> dialect_main (\<lambda>_. []) (JObj ((''templates'', JNull) # small_dialect (JStr ''e1''))) = Inl TypeError"
  by code_simp

end
