(* ===== verification/ObservationBinding.thy ===== *)
theory ObservationBinding
  imports SpecProps PyDyn
begin

text \<open>
  \<open>validators/validate_observation_binding.py\<close>: the contract that binds the attestation policies of a
  capability spec to observers and public keys. \<open>ob_validate\<close> is \<open>validate_binding\<close>,
  \<open>ob_cross_validate\<close> is \<open>cross_validate_spec\<close> and \<open>ob_run\<close> is \<open>run\<close>; \<open>ob_main\<close> adds the exit
  status. An absent \<open>--spec\<close> and a spec document \<open>null\<close> are both Python's \<open>None\<close>, here \<open>JNull\<close>.
  Reading the files, the printed form and the self-test are not modelled.
\<close>

section \<open>Shape helpers\<close>

definition ob_assurance :: "string list" where
  "ob_assurance = [''A1'', ''A2'', ''A3'', ''A4'']"

definition ob_independence :: "string list" where
  "ob_independence = [''independent'', ''correlated'']"

definition ob_source_types :: "string list" where
  "ob_source_types = [''mock'']"

definition ob_error :: "string \<Rightarrow> diagnostic" where
  "ob_error m = diag ''binding.schema'' m"

definition safe_text :: "string \<Rightarrow> bool" where
  "safe_text s \<longleftrightarrow> s \<noteq> [] \<and> list_all (\<lambda>c. is_alpha c \<or> is_digit c \<or> c \<in> set ''._-'') s"

definition safe_ident :: "json \<Rightarrow> bool" where
  "safe_ident v \<longleftrightarrow> nonempty_str v \<and> re_dollar safe_text (str_of v) \<and> str_of v \<notin> {''.'', ''..''}"

definition address_text :: "string \<Rightarrow> bool" where
  "address_text s \<longleftrightarrow> length s = 42 \<and> starts_with ''0x'' s \<and>
     list_all (\<lambda>c. is_hex c \<or> (65 \<le> (of_char c :: nat) \<and> (of_char c :: nat) \<le> 70)) (drop 2 s)"

text \<open>The diagnostics of unknown and missing keys, and \<open>if _exact_object(...): body\<close>.\<close>

definition ob_keys :: "obj \<Rightarrow> string list \<Rightarrow> string list \<Rightarrow> string \<Rightarrow> diagnostic list" where
  "ob_keys d allowed required w =
     map (\<lambda>k. ob_error (w @ '': unknown field '' @ sq k)) (sorted_diff (jkeys d) allowed)
     @ map (\<lambda>k. ob_error (w @ '': missing '' @ sq k)) (sorted_diff required (jkeys d))"

definition ob_exact :: "json \<Rightarrow> string list \<Rightarrow> string \<Rightarrow> (obj \<Rightarrow> diags) \<Rightarrow> diags" where
  "ob_exact v allowed w body =
     (case v of
        JObj d \<Rightarrow> (if ob_keys d allowed allowed w = [] then body d else Inr (ob_keys d allowed allowed w))
      | _ \<Rightarrow> Inr [ob_error (w @ '': must be an object'')])"

section \<open>The binding\<close>

definition ob_source :: "json \<Rightarrow> string \<Rightarrow> diags" where
  "ob_source v w = ob_exact v [''type'', ''id'', ''claimField''] w (\<lambda>d. chks [
     emit_ifp (not_in_strs (jget ''type'' d) ob_source_types)
       (diag ''binding.unsupported_source'' (w @ ''.type '' @ sq (py_str (jget ''type'' d))
         @ '' is not a supported source descriptor (expected one of: '' @ repr_strs ob_source_types @ '')'')),
     emit_if (\<not> safe_ident (jget ''id'' d)) (ob_error (w @ ''.id must be a safe identifier'')),
     emit_if (\<not> nonempty_str (jget ''claimField'' d)) (ob_error (w @ ''.claimField must be a non-empty string''))])"

definition ob_domain :: "json \<Rightarrow> string \<Rightarrow> diags" where
  "ob_domain v w = ob_exact v [''chainId'', ''verifyingContract''] w (\<lambda>d. chks [
     emit_if (\<not> is_int_from 1 (jget ''chainId'' d)) (ob_error (w @ ''.chainId must be a positive integer (EIP-155 id)'')),
     emit_if (\<not> (is_str (jget ''verifyingContract'' d) \<and> re_dollar address_text (str_of (jget ''verifyingContract'' d))))
       (ob_error (w @ ''.verifyingContract must be a 0x-prefixed 20-byte address''))])"

definition ob_member :: "json \<Rightarrow> string \<Rightarrow> diags" where
  "ob_member m w = ob_exact m [''id'', ''publicKey''] w (\<lambda>d. chks [
     emit_if (\<not> safe_ident (jget ''id'' d)) (ob_error (w @ ''.id must be a safe identifier'')),
     emit_if (\<not> nonempty_str (jget ''publicKey'' d))
       (diag ''binding.missing_public_key'' (w @ ''.publicKey must be a non-empty public key''))])"

text \<open>The loop over the members, in the set \<open>seen_ids\<close>.\<close>

definition member_named :: "json \<Rightarrow> bool" where
  "member_named m \<longleftrightarrow> is_obj m \<and> nonempty_str (jget ''id'' (as_obj m))"

definition member_id :: "json \<Rightarrow> string" where
  "member_id m = str_of (jget ''id'' (as_obj m))"

definition see_member :: "json \<Rightarrow> string list \<Rightarrow> string list" where
  "see_member m seen = (if member_named m then List.insert (member_id m) seen else seen)"

definition ob_member_step :: "string \<Rightarrow> json \<Rightarrow> nat \<Rightarrow> string list \<Rightarrow> json \<Rightarrow> diags" where
  "ob_member_step w ref j seen m =
     (let mw = idx (w @ ''.members'') j
      in chks [
        ob_member m mw,
        emit_if (member_named m \<and> member_id m \<in> set seen)
          (diag ''binding.duplicate_observer''
             (mw @ ''.id '' @ sq (member_id m) @ '' is not unique within '' @ sq (py_str ref)))])"

definition ob_members :: "string \<Rightarrow> json \<Rightarrow> json \<Rightarrow> diags" where
  "ob_members w ref members =
     (if \<not> is_list members \<or> as_list members = [] then Inr [ob_error (w @ ''.members must be a non-empty array'')]
      else each_st (ob_member_step w ref) see_member 0 [] (as_list members))"

text \<open>One observer set, in the set \<open>seen_refs\<close>.\<close>

definition set_ref :: "json \<Rightarrow> string" where
  "set_ref s = str_of (jget ''ref'' (as_obj s))"

definition see_ref :: "json \<Rightarrow> string list \<Rightarrow> string list" where
  "see_ref s seen = (if is_obj s \<and> safe_ident (jget ''ref'' (as_obj s)) then List.insert (set_ref s) seen else seen)"

definition ob_set :: "nat \<Rightarrow> string list \<Rightarrow> json \<Rightarrow> diags" where
  "ob_set i seen s =
     (let w = idx ''observerSets'' i
      in case s of
        JObj d \<Rightarrow>
          (let ref = jget ''ref'' d
           in chks [
             Inr (ob_keys d [''ref'', ''source'', ''members'', ''domain'', ''assurance'', ''independence'']
               [''ref'', ''source'', ''members''] w),
             guarded (jhas ''domain'' d) (ob_domain (jget ''domain'' d) (w @ ''.domain'')),
             (if \<not> safe_ident ref then Inr [ob_error (w @ ''.ref must be a safe identifier'')]
              else emit_if (str_of ref \<in> set seen)
                (diag ''binding.duplicate_observer_set'' (w @ ''.ref '' @ sq (str_of ref) @ '' is bound more than once''))),
             ob_source (jget ''source'' d) (w @ ''.source''),
             guarded (jhas ''assurance'' d) (emit_ifp (not_in_strs (jget ''assurance'' d) ob_assurance)
               (diag ''binding.observer_assurance_invalid'' (w @ ''.assurance must be one of '' @ repr_strs ob_assurance))),
             guarded (jhas ''independence'' d) (emit_ifp (not_in_strs (jget ''independence'' d) ob_independence)
               (diag ''binding.observer_independence_invalid''
                 (w @ ''.independence must be one of '' @ repr_strs (sort ob_independence)))),
             ob_members w ref (jget ''members'' d)])
      | _ \<Rightarrow> Inr [ob_error (w @ '': must be an object'')])"

definition ob_validate :: "json \<Rightarrow> diags" where
  "ob_validate binding =
     ob_exact binding [''kind'', ''schemaVersion'', ''observerSets''] ''observation-binding'' (\<lambda>d.
       let sets = jget ''observerSets'' d
       in chks [
         emit_if (jget ''kind'' d \<noteq> JStr ''neutrino.observation-binding'')
           (ob_error (''kind must be '' @ sq ''neutrino.observation-binding'')),
         emit_if (\<not> eq_int (jget ''schemaVersion'' d) 1) (ob_error ''schemaVersion must be 1''),
         (if \<not> is_list sets \<or> as_list sets = [] then Inr [ob_error ''observerSets must be a non-empty array'']
          else each_st ob_set see_ref 0 [] (as_list sets))])"

section \<open>The spec\<close>

text \<open>\<open>bound\<close>: the last observer set of each reference.\<close>

definition ob_bind :: "json \<Rightarrow> (string \<times> obj) list \<Rightarrow> (string \<times> obj) list" where
  "ob_bind s bound =
     (case s of
        JObj d \<Rightarrow> (if nonempty_str (jget ''ref'' d) \<and> is_list (jget ''members'' d)
                   then dict_set (str_of (jget ''ref'' d)) d bound else bound)
      | _ \<Rightarrow> bound)"

definition ob_bound :: "json \<Rightarrow> (string \<times> obj) list py" where
  "ob_bound binding =
     pbind (pbind (py_get binding ''observerSets'') iter_or_empty) (\<lambda>sets. Inr (fold ob_bind sets []))"

text \<open>\<open>isinstance(v, int)\<close> admits the booleans, whose values are 0 and 1.\<close>

fun int_instance :: "json \<Rightarrow> int option" where
  "int_instance (JInt i) = Some i"
| "int_instance (JBool b) = Some (if b then 1 else 0)"
| "int_instance _ = None"

definition ob_threshold :: "json \<Rightarrow> json option" where
  "ob_threshold q =
     (case q of
        JObj d \<Rightarrow> (if int_instance (jget ''threshold'' d) \<noteq> None then Some (jget ''threshold'' d) else None)
      | _ \<Rightarrow> None)"

definition ob_same_field :: "string \<Rightarrow> obj \<Rightarrow> obj \<Rightarrow> string \<Rightarrow> string \<times> string \<Rightarrow> diags" where
  "ob_same_field w os s ref fc =
     (case fc of (field, code) \<Rightarrow>
        emit_if (jhas field os \<and> \<not> jeq (jget field s) (jget field os))
          (diag code (w @ '' observer-set '' @ sq ref @ '' declares '' @ field @ '' ''
             @ py_repr (jget field os) @ '' but the binding supplies '' @ py_repr (jget field s))))"

definition ob_feasible :: "string \<Rightarrow> json option \<Rightarrow> string \<Rightarrow> obj \<Rightarrow> diags" where
  "ob_feasible w m ref s =
     pbind (py_len_or_empty (jget ''members'' s)) (\<lambda>n.
       case m of
         None \<Rightarrow> Inr []
       | Some t \<Rightarrow> emit_if (the (int_instance t) > n)
           (diag ''binding.quorum_infeasible'' (w @ '' observer-set '' @ sq ref @ '' requires a quorum of M='' @ py_str t
             @ '' but the binding supplies only N='' @ show_int n @ '' observers '' @ em_dash @ '' M-of-N is infeasible'')))"

definition ob_attestation :: "(string \<times> obj) list \<Rightarrow> nat \<Rightarrow> json \<Rightarrow> diags" where
  "ob_attestation bound i a =
     (case a of
        JObj d \<Rightarrow>
          (let w = idx ''attestations'' i; os = as_obj (jget ''observerSet'' d); ref = jget ''ref'' os
           in if \<not> nonempty_str ref then Inr []
              else case map_of bound (str_of ref) of
                None \<Rightarrow> Inr [diag ''binding.unbound_observer_set''
                  (w @ '' observer-set '' @ sq (str_of ref) @ '' has no entry in the binding'')]
              | Some s \<Rightarrow> chks [
                  ob_feasible w (ob_threshold (jget ''quorum'' d)) (str_of ref) s,
                  each [(''assurance'', ''binding.observer_assurance_mismatch''),
                        (''independence'', ''binding.observer_independence_mismatch'')] (ob_same_field w os s (str_of ref))])
      | _ \<Rightarrow> Inr [])"

definition ob_cross_validate :: "json \<Rightarrow> json \<Rightarrow> diags" where
  "ob_cross_validate binding spec =
     (case spec of
        JObj d \<Rightarrow>
          pbind (ob_bound binding) (\<lambda>bound.
          pbind (iter_or_empty (jget ''attestations'' d)) (\<lambda>as. each_i as (ob_attestation bound)))
      | _ \<Rightarrow> Inr [ob_error ''capability-spec must be an object''])"

definition ob_run :: "json \<Rightarrow> json \<Rightarrow> diags" where
  "ob_run binding spec =
     pbind (ob_validate binding) (\<lambda>out.
       if spec \<noteq> JNull \<and> \<not> list_ex (\<lambda>d. dseverity d = ''error'') out
       then pbind (ob_cross_validate binding spec) (\<lambda>ds. Inr (out @ ds)) else Inr out)"

definition ob_main :: "json \<Rightarrow> json \<Rightarrow> (nat \<times> diagnostic list) py" where
  "ob_main binding spec =
     pbind (ob_run binding spec) (\<lambda>ds. Inr (if list_ex (\<lambda>d. dseverity d = ''error'') ds then 1 else 0, ds))"

end
