(* ===== verification/ObservationProps.thy ===== *)
theory ObservationProps
  imports ObservationBinding
begin

text \<open>
  What an accepted observation binding promises for an accepted capability spec: every attestation
  finds the one observer set it names, with enough distinct observers for its quorum.
\<close>

lemma ob_keys_Nil: "ob_keys d allowed required w = [] \<longleftrightarrow>
    (\<forall>k. jhas k d \<longrightarrow> k \<in> set allowed) \<and> (\<forall>k \<in> set required. jhas k d)"
  by (auto simp: ob_keys_def sorted_diff_Nil_iff jhas_jkeys)

lemma ob_exact_pass [checks]:
  "ob_exact v allowed w body = Inr [] \<longleftrightarrow>
     (\<exists>d. v = JObj d \<and> (\<forall>k. jhas k d \<longleftrightarrow> k \<in> set allowed) \<and> body d = Inr [])"
  by (cases v) (auto simp: ob_exact_def ob_keys_Nil)

lemma ob_exactD: "ob_exact v allowed w body = Inr [] \<Longrightarrow> \<exists>d. v = JObj d \<and> body d = Inr []"
  by (auto simp: ob_exact_pass)

lemma safe_identD: "safe_ident v \<Longrightarrow> \<exists>s. v = JStr s \<and> s \<noteq> []"
  by (auto simp: safe_ident_def nonempty_str_iff)

text \<open>Accepted members: their ids are distinct and their keys are there.\<close>

definition member_ok :: "json \<Rightarrow> bool" where
  "member_ok m \<longleftrightarrow> (\<exists>d. m = JObj d \<and> nonempty_str (jget ''id'' d) \<and> nonempty_str (jget ''publicKey'' d))"

lemma members_pass:
  assumes "ob_members w ref members = Inr []"
  shows "\<exists>ms. members = JList ms \<and> ms \<noteq> [] \<and> list_all member_ok ms \<and> distinct (map member_id ms)"
proof -
  from assms obtain ms where ms: "members = JList ms" "ms \<noteq> []"
    and loop: "each_st (ob_member_step w ref) see_member 0 [] ms = Inr []"
    by (auto simp: ob_members_def is_list_iff split: if_splits)
  have ok: "member_ok m" if "ob_member m mw = Inr []" for m mw
    using ob_exactD [OF that [unfolded ob_member_def]]
    by (auto simp: member_ok_def chks_pass emit_if_pass dest: safe_identD)
  have step: "member_ok m \<and> (member_named m \<longrightarrow> member_id m \<notin> set s)" if "ob_member_step w ref i s m = Inr []" for i s m
    using that ok by (simp add: ob_member_step_def Let_def chks_pass emit_if_pass) blast
  have "list_all member_ok ms"
    unfolding list_all_iff using each_st_member_pass [OF loop] step by blast
  moreover have "fold see_member ms [] = rev (concat (map (\<lambda>m. [member_id m]) ms)) @ [] \<and>
      distinct (rev (concat (map (\<lambda>m. [member_id m]) ms)) @ [])"
  proof (rule each_st_collects [OF loop])
    fix i s m
    assume m: "ob_member_step w ref i s m = Inr []" and s: "distinct s"
    from step [OF m] have "member_ok m" "member_named m \<longrightarrow> member_id m \<notin> set s" by simp_all
    moreover from this have "member_named m" by (auto simp: member_ok_def member_named_def)
    ultimately show "see_member m s = rev [member_id m] @ s \<and> distinct (rev [member_id m] @ s)"
      using s by (simp add: see_member_def)
  qed simp
  then have "distinct (map member_id ms)" by simp
  ultimately show ?thesis using ms by blast
qed

text \<open>Accepted sets: distinct references and accepted members.\<close>

definition set_ok :: "json \<Rightarrow> bool" where
  "set_ok s \<longleftrightarrow> (\<exists>d ms. s = JObj d \<and> nonempty_str (jget ''ref'' d) \<and> jget ''members'' d = JList ms \<and>
     list_all member_ok ms \<and> distinct (map member_id ms))"

lemma ob_set_pass:
  assumes "ob_set i seen s = Inr []"
  shows "set_ok s" and "is_obj s" and "safe_ident (jget ''ref'' (as_obj s))" and "set_ref s \<notin> set seen"
proof -
  from assms obtain d where s: "s = JObj d" by (cases s) (auto simp: ob_set_def)
  from assms have safe: "safe_ident (jget ''ref'' d)" and new: "str_of (jget ''ref'' d) \<notin> set seen"
    and "\<exists>w. ob_members w (jget ''ref'' d) (jget ''members'' d) = Inr []"
    by (auto simp: ob_set_def s Let_def chks_pass emit_if_pass split: if_splits)
  then show "set_ok s" using members_pass by (fastforce simp: set_ok_def s dest: safe_identD)
  from safe new show "is_obj s" "safe_ident (jget ''ref'' (as_obj s))" "set_ref s \<notin> set seen"
    by (simp_all add: s set_ref_def)
qed

lemma ob_validate_pass:
  assumes "ob_validate binding = Inr []"
  obtains b sets where "binding = JObj b" and "jget ''observerSets'' b = JList sets"
    and "list_all set_ok sets" and "distinct (map set_ref sets)"
proof -
  from assms obtain b sets where b: "binding = JObj b" "jget ''observerSets'' b = JList sets"
    and loop: "each_st ob_set see_ref 0 [] sets = Inr []"
    by (auto simp: ob_validate_def ob_exact_pass Let_def chks_pass is_list_iff split: if_splits)
  have "list_all set_ok sets"
    unfolding list_all_iff using each_st_member_pass [OF loop] ob_set_pass(1) by blast
  moreover have "fold see_ref sets [] = rev (concat (map (\<lambda>s. [set_ref s]) sets)) @ [] \<and>
      distinct (rev (concat (map (\<lambda>s. [set_ref s]) sets)) @ [])"
    by (rule each_st_collects [OF loop]) (simp_all add: see_ref_def ob_set_pass)
  ultimately show thesis using that [OF b] by simp
qed

text \<open>The index of the sets by their references.\<close>

lemma ob_bound_sets:
  assumes "list_all set_ok sets" and "map_of (fold ob_bind sets bound) r = Some d"
  shows "JObj d \<in> set sets \<and> set_ref (JObj d) = r \<or> map_of bound r = Some d"
  using assms
proof (induction sets arbitrary: bound)
  case (Cons s sets)
  from Cons.prems(1) obtain e where s: "s = JObj e" "ob_bind (JObj e) bound = dict_set (set_ref (JObj e)) e bound"
    by (auto simp: set_ok_def ob_bind_def set_ref_def)
  have "JObj d \<in> set sets \<and> set_ref (JObj d) = r \<or> map_of (ob_bind s bound) r = Some d"
    by (rule Cons.IH) (use Cons.prems in simp_all)
  then show ?case by (auto simp: s split: if_splits)
qed simp

text \<open>An attestation of an accepted spec.\<close>

lemma attestation_pass:
  assumes "validate_attestation i a = Inr []"
  obtains d q os m where "a = JObj d" and "jget ''quorum'' d = JObj q" and "jget ''threshold'' q = JInt m" and "1 \<le> m"
    and "jget ''observerSet'' d = JObj os" and "nonempty_str (jget ''ref'' os)"
proof -
  from assms obtain d where a: "a = JObj d"
    and q: "if_exact (jget ''quorum'' d) [''threshold''] (idx ''attestations'' i @ ''.quorum'')
      (emit_if (\<not> is_int_from 1 (jget ''threshold'' (as_obj (jget ''quorum'' d))))
        (schema_error (idx ''attestations'' i @ ''.quorum.threshold (M) must be a positive integer''))) = Inr []"
    and os: "validate_observer_set (jget ''observerSet'' d) (idx ''attestations'' i) = Inr []"
    by (auto simp: validate_attestation_def Let_def if_exact_pass [where ks = "[_, _, _, _, _, _]"] chks_pass)
  from q obtain qd where "jget ''quorum'' d = JObj qd" and "is_int_from 1 (jget ''threshold'' qd)"
    by (auto simp: if_exact_pass emit_if_pass)
  moreover from this obtain m where "jget ''threshold'' qd = JInt m" "1 \<le> m"
    by (cases "jget ''threshold'' qd") auto
  moreover from os obtain od where "jget ''observerSet'' d = JObj od" "nonempty_str (jget ''ref'' od)"
    by (cases "jget ''observerSet'' d") (auto simp: validate_observer_set_def chks_pass emit_if_pass)
  ultimately show thesis using a that by blast
qed

lemma accepted_attestation:
  assumes "validate H (JObj spec) = Inr []" and "jget ''attestations'' spec = JList as" and "a \<in> set as"
  obtains d q os m where "a = JObj d" and "jget ''quorum'' d = JObj q" and "jget ''threshold'' q = JInt m" and "1 \<le> m"
    and "jget ''observerSet'' d = JObj os" and "nonempty_str (jget ''ref'' os)"
proof -
  have "jhas ''attestations'' spec" using assms(2) jget_not_null by fastforce
  with assms obtain i where "validate_attestation i a = Inr []"
    by (auto simp: validate_pass sections_pass validate_attestations_def each_i_pass in_set_conv_nth)
  then obtain d q os m where "a = JObj d" "jget ''quorum'' d = JObj q" "jget ''threshold'' q = JInt m" "1 \<le> m"
    "jget ''observerSet'' d = JObj os" "nonempty_str (jget ''ref'' os)"
    by (rule attestation_pass)
  with that show thesis by blast
qed

section \<open>Quorums\<close>

text \<open>What one attestation finds: the only set of its reference, with enough members.\<close>

definition quorum_bound :: "json list \<Rightarrow> obj \<Rightarrow> int \<Rightarrow> bool" where
  "quorum_bound sets os m \<longleftrightarrow>
     (\<exists>s ms. JObj s \<in> set sets \<and> jget ''ref'' s = jget ''ref'' os
       \<and> (\<forall>t. t \<in> set sets \<and> set_ref t = set_ref (JObj s) \<longrightarrow> t = JObj s)
       \<and> jget ''members'' s = JList ms \<and> list_all member_ok ms \<and> distinct (map member_id ms)
       \<and> m \<le> int (length ms)
       \<and> (\<forall>f \<in> {''assurance'', ''independence''}. jhas f os \<longrightarrow> jeq (jget f s) (jget f os)))"

lemma ob_attestation_pass:
  assumes "ob_attestation bound i (JObj d) = Inr []" and "jget ''quorum'' d = JObj q" and "jget ''threshold'' q = JInt m"
    and "jget ''observerSet'' d = JObj os" and "nonempty_str (jget ''ref'' os)"
  obtains s n where "map_of bound (str_of (jget ''ref'' os)) = Some s"
    and "py_len_or_empty (jget ''members'' s) = Inr n" and "m \<le> n"
    and "\<forall>f \<in> {''assurance'', ''independence''}. jhas f os \<longrightarrow> jeq (jget f s) (jget f os)"
proof -
  obtain s where s: "map_of bound (str_of (jget ''ref'' os)) = Some s"
    using assms(1,4,5) by (auto simp: ob_attestation_def Let_def split: option.splits)
  have t: "ob_threshold (jget ''quorum'' d) = Some (JInt m)"
    using assms(2,3) by (simp add: ob_threshold_def)
  from assms(1) have "\<exists>w. ob_feasible w (Some (JInt m)) (str_of (jget ''ref'' os)) s = Inr []"
    and same: "\<forall>fc \<in> {(''assurance'', ''binding.observer_assurance_mismatch''),
        (''independence'', ''binding.observer_independence_mismatch'')}. \<exists>w r. ob_same_field w os s r fc = Inr []"
    by (auto simp: ob_attestation_def Let_def assms(4,5) s t chks_pass each_pass)
  then obtain n where n: "py_len_or_empty (jget ''members'' s) = Inr n" "m \<le> n"
    by (auto simp: ob_feasible_def pbind_Inr_conv emit_if_pass)
  from same have "\<forall>f \<in> {''assurance'', ''independence''}. jhas f os \<longrightarrow> jeq (jget f s) (jget f os)"
    by (auto simp: ob_same_field_def emit_if_pass)
  with s n that show thesis by blast
qed

text \<open>C21. When the spec validator accepts a capability spec and the observation binding passes against it,
  every attestation of the spec can reach its quorum: the observer set it names is bound exactly once,
  its M is at most the number of observers bound there, these have pairwise distinct ids and a public
  key each, and an assurance or independence the spec declares is the one the binding supplies.\<close>

theorem accepted_binding_quorums_feasible:
  assumes "validate H (JObj spec) = Inr []" and "ob_run binding (JObj spec) = Inr []"
    and "jget ''attestations'' spec = JList as" and "a \<in> set as"
  shows "\<exists>b sets d q os m. binding = JObj b \<and> jget ''observerSets'' b = JList sets \<and> a = JObj d
    \<and> jget ''quorum'' d = JObj q \<and> jget ''threshold'' q = JInt m \<and> 1 \<le> m
    \<and> jget ''observerSet'' d = JObj os \<and> quorum_bound sets os m"
proof -
  obtain d q os m where a: "a = JObj d" "jget ''quorum'' d = JObj q" "jget ''threshold'' q = JInt m" "1 \<le> m"
    "jget ''observerSet'' d = JObj os" "nonempty_str (jget ''ref'' os)"
    by (rule accepted_attestation [OF assms(1,3,4)])
  from assms(2) have ok: "ob_validate binding = Inr []" and cross: "ob_cross_validate binding (JObj spec) = Inr []"
    by (auto simp: ob_run_def pbind_Inr_conv split: if_splits)
  from ob_validate_pass [OF ok] obtain b sets where b: "binding = JObj b" "jget ''observerSets'' b = JList sets"
    and sets: "list_all set_ok sets" "distinct (map set_ref sets)" by blast
  have "each_i as (ob_attestation (fold ob_bind sets [])) = Inr []"
    using cross by (simp add: ob_cross_validate_def ob_bound_def b assms(3))
  then obtain i where "ob_attestation (fold ob_bind sets []) i a = Inr []"
    using assms(4) by (auto simp: each_i_pass in_set_conv_nth)
  from ob_attestation_pass [OF this [unfolded a(1)] a(2,3,5,6)] obtain s n
    where s: "map_of (fold ob_bind sets []) (str_of (jget ''ref'' os)) = Some s"
      and n: "py_len_or_empty (jget ''members'' s) = Inr n" "m \<le> n"
      and same: "\<forall>f \<in> {''assurance'', ''independence''}. jhas f os \<longrightarrow> jeq (jget f s) (jget f os)" by blast
  from ob_bound_sets [OF sets(1) s] have mem: "JObj s \<in> set sets" "set_ref (JObj s) = str_of (jget ''ref'' os)" by simp_all
  with sets(1) obtain ms where ms: "jget ''members'' s = JList ms" "list_all member_ok ms" "distinct (map member_id ms)"
    and "nonempty_str (jget ''ref'' s)" by (auto simp: list_all_iff set_ok_def)
  with mem(2) a(6) have ref: "jget ''ref'' s = jget ''ref'' os" by (auto simp: set_ref_def nonempty_str_iff)
  have "t = JObj s" if "t \<in> set sets" "set_ref t = set_ref (JObj s)" for t
    using sets(2) mem(1) that by (auto simp: distinct_map dest: inj_onD)
  moreover have "m \<le> int (length ms)"
    using n ms(1) by (auto simp: py_len_or_empty_def split: if_splits)
  ultimately have "quorum_bound sets os m"
    unfolding quorum_bound_def using mem(1) ref ms same by blast
  with a b show ?thesis by blast
qed

definition sample_attestation :: "int \<Rightarrow> json" where
  "sample_attestation m = JObj [(''input'', JStr ''proof''), (''quorum'', JObj [(''threshold'', JInt m)]),
     (''observerSet'', JObj [(''ref'', JStr ''oracles''), (''role'', JNull)]),
     (''canonicalization'', JObj [(''mode'', JStr ''exact''), (''tolerance'', JNull)]),
     (''timeout'', JNull), (''fallback'', JStr ''abort'')]"

definition attested_spec :: obj where
  "attested_spec = dict_set ''schemaVersion'' (JInt (expected_version [(''attestations'', JList [sample_attestation 2])]))
     (sample_spec @ [(''attestations'', JList [sample_attestation 2])])"

definition sample_member :: "string \<Rightarrow> string \<Rightarrow> json" where
  "sample_member i k = JObj [(''id'', JStr i), (''publicKey'', JStr k)]"

definition sample_binding :: "json list \<Rightarrow> json" where
  "sample_binding ms = JObj [(''kind'', JStr ''neutrino.observation-binding''), (''schemaVersion'', JInt 1),
     (''observerSets'', JList [JObj [(''ref'', JStr ''oracles''),
        (''source'', JObj [(''type'', JStr ''mock''), (''id'', JStr ''m''), (''claimField'', JStr ''value'')]),
        (''members'', JList ms)]])]"

lemma attested_sections: "sections attested_spec = Inr []"
  by code_simp

lemma attested_ok: "validate zero_hash (JObj attested_spec) = Inr []"
proof -
  have "jget ''identity'' attested_spec = jget ''identity'' sample_spec" by code_simp
  moreover have "jget_or ''identity'' (JObj []) attested_spec = jget ''identity'' attested_spec" by code_simp
  moreover have "jget_or ''identity'' (JObj []) sample_spec = jget ''identity'' sample_spec" by code_simp
  ultimately have "check_hashes zero_hash attested_spec = Inr []"
    using sample_hashes(1) unfolding check_hashes_pass by (simp add: zero_hash_def)
  then show ?thesis by (simp add: validate_pass attested_sections)
qed

lemma accepted_binding_quorums_feasible_witness:
  "quorum_bound (as_list (jget ''observerSets'' (as_obj (sample_binding [sample_member ''a'' ''k1'', sample_member ''b'' ''k2'']))))
     [(''ref'', JStr ''oracles''), (''role'', JNull)] 2"
proof -
  let ?b = "sample_binding [sample_member ''a'' ''k1'', sample_member ''b'' ''k2'']"
  have run: "ob_run ?b (JObj attested_spec) = Inr []" by code_simp
  have att: "jget ''attestations'' attested_spec = JList [sample_attestation 2]" by code_simp
  from accepted_binding_quorums_feasible [OF attested_ok run att, of "sample_attestation 2"]
  show ?thesis by (auto simp: sample_attestation_def jget_def jget_or_def)
qed

text \<open>The ids of the observers have to be distinct, their public keys do not: a quorum of two is accepted
  over two members that share one key, although the quorum is counted by key.\<close>

theorem shared_key_quorum_accepted:
  "ob_main (sample_binding [sample_member ''a'' ''k'', sample_member ''b'' ''k'']) (JObj attested_spec) = Inr (0, [])
   \<and> jget ''attestations'' attested_spec = JList [sample_attestation 2]"
  by code_simp

end
