(* ===== verification/ParticipantView.thy ===== *)
theory ParticipantView
  imports SpecProps ObservationBinding
begin

text \<open>
  \<open>validators/validate_participant_view.py\<close>: the check of a per-participant projection of a capability
  spec. \<open>pv_validate\<close> is \<open>validate\<close>, \<open>pv_cross_check\<close> is \<open>_cross_check\<close> on a loaded spec and \<open>pv_main\<close>
  the verdict of \<open>main\<close>. The pattern \<open>\d\<close> matches every decimal digit of Unicode: \<open>U\<close> is the digit value
  the Unicode database gives to a character outside ASCII. The text of a caught exception is not part of
  a message here. Reading the files and writing the reports are not modelled.
\<close>

section \<open>Shape\<close>

definition pv_top_fields :: "string list" where
  "pv_top_fields = [''kind'', ''schemaVersion'', ''procedure'', ''dslVersion'', ''capability'',
     ''participant'', ''visibleOperations'', ''requiredInputs'',
     ''permittedCounterparties'', ''evidenceObligations'', ''provenance'']"

definition pv_error :: "string \<Rightarrow> diagnostic" where
  "pv_error m = diag ''view.schema'' m"

definition span_ok :: "json \<Rightarrow> bool" where
  "span_ok s \<longleftrightarrow> is_obj s \<and> same_keys (as_obj s) [''line'', ''column'']
     \<and> is_int_from 1 (jget ''line'' (as_obj s)) \<and> is_int_from 1 (jget ''column'' (as_obj s))"

text \<open>\<open>if _obj(out, val, name, required, optional): body\<close>.\<close>

definition pv_obj :: "json \<Rightarrow> string \<Rightarrow> string list \<Rightarrow> string list \<Rightarrow> (obj \<Rightarrow> diags) \<Rightarrow> diags" where
  "pv_obj v name required optional body =
     (case v of
        JObj d \<Rightarrow>
          (let missing = sorted_diff required (jkeys d); extra = sorted_diff (jkeys d) (required @ optional)
           in chks [
             emit_if (missing \<noteq> []) (pv_error (name @ '' is missing '' @ repr_strs missing)),
             emit_if (extra \<noteq> []) (pv_error (name @ '' has unexpected keys '' @ repr_strs extra)),
             guarded (missing = []) (body d)])
      | _ \<Rightarrow> Inr [pv_error (name @ '' must be an object'')])"

definition str_list :: "json \<Rightarrow> bool" where
  "str_list v \<longleftrightarrow> is_list v \<and> list_all is_str (as_list v)"

definition all_strs :: "string list \<Rightarrow> obj \<Rightarrow> bool" where
  "all_strs ks d \<longleftrightarrow> list_all (\<lambda>k. is_str (jget k d)) ks"

definition pv_capability :: "json \<Rightarrow> diags" where
  "pv_capability v = pv_obj v ''capability'' [''capabilityHash'', ''specVersion''] [] (\<lambda>d. chks [
     emit_if (\<not> (is_str (jget ''capabilityHash'' d) \<and> hex64_text (str_of (jget ''capabilityHash'' d))))
       (diag ''view.bad_hash'' ''capability.capabilityHash must be a 64-char lowercase hex sha256''),
     emit_if (\<not> is_str (jget ''specVersion'' d)) (pv_error ''capability.specVersion must be a string'')])"

definition pv_participant :: "json \<Rightarrow> diags" where
  "pv_participant v = pv_obj v ''participant'' [''name'', ''role'', ''slotId''] [''org''] (\<lambda>d. chks [
     each [''name'', ''role'', ''slotId''] (\<lambda>k.
       emit_if (\<not> nonempty_str (jget k d)) (pv_error (''participant.'' @ k @ '' must be a non-empty string''))),
     emit_if (jhas ''org'' d \<and> \<not> is_str (jget ''org'' d)) (pv_error ''participant.org must be a string'')])"

definition pv_list :: "json \<Rightarrow> string \<Rightarrow> (json \<Rightarrow> diags) \<Rightarrow> diags" where
  "pv_list v name body =
     (if is_list v then each (as_list v) body else Inr [pv_error (name @ '' must be an array'')])"

definition pv_input :: "json \<Rightarrow> diags" where
  "pv_input v = pv_obj v ''requiredInputs item'' [''name'', ''type'', ''specPath''] [''source''] (\<lambda>d. chks [
     emit_if (\<not> all_strs [''name'', ''type'', ''specPath''] d) (pv_error ''requiredInputs name/type/specPath must be strings''),
     emit_if (jhas ''source'' d \<and> \<not> span_ok (jget ''source'' d)) (pv_error ''requiredInputs.source must be { line, column }'')])"

definition pv_counterparty :: "json \<Rightarrow> diags" where
  "pv_counterparty v = pv_obj v ''permittedCounterparties item'' [''org''] [''role''] (\<lambda>d. chks [
     emit_if (\<not> nonempty_str (jget ''org'' d)) (pv_error ''permittedCounterparties.org must be a non-empty string''),
     emit_if (jhas ''role'' d \<and> \<not> is_str (jget ''role'' d)) (pv_error ''permittedCounterparties.role must be a string'')])"

definition pv_binding :: "json \<Rightarrow> diags" where
  "pv_binding v = pv_obj v ''binding'' [''mode'', ''runtimes''] [''minAssurance'', ''authorizedBinder''] (\<lambda>d. chks [
     emit_if (jget ''mode'' d \<noteq> JStr ''to_be_bound'') (pv_error (''binding.mode must be '' @ sq ''to_be_bound'')),
     emit_if (\<not> str_list (jget ''runtimes'' d)) (pv_error ''binding.runtimes must be an array of strings''),
     each [''minAssurance'', ''authorizedBinder''] (\<lambda>k.
       emit_if (jhas k d \<and> \<not> is_str (jget k d)) (pv_error (''binding.'' @ k @ '' must be a string'')))])"

definition pv_obligation :: "json \<Rightarrow> diags" where
  "pv_obligation v =
     pv_obj v ''evidenceObligations item'' [''leg'', ''kind'', ''ledger'', ''specPath''] [''source''] (\<lambda>d. chks [
       emit_if (\<not> all_strs [''leg'', ''kind'', ''ledger'', ''specPath''] d)
         (pv_error ''evidenceObligations leg/kind/ledger/specPath must be strings''),
       emit_if (jhas ''source'' d \<and> \<not> span_ok (jget ''source'' d))
         (pv_error ''evidenceObligations.source must be { line, column }'')])"

definition pv_provenance :: "json \<Rightarrow> diags" where
  "pv_provenance v = pv_obj v ''provenance'' [''derivedFrom'', ''specContract''] [] (\<lambda>d. chks [
     emit_if (\<not> is_str (jget ''derivedFrom'' d)) (pv_error ''provenance.derivedFrom must be a string''),
     pv_obj (jget ''specContract'' d) ''provenance.specContract'' [''kind'', ''schemaVersion''] [] (\<lambda>pc.
       emit_if (jget ''kind'' pc \<noteq> JStr ''neutrino.capability-spec'' \<or> int_instance (jget ''schemaVersion'' pc) = None)
         (pv_error ''provenance.specContract must be the capability-spec kind + integer schemaVersion''))])"

definition pv_fields :: "obj \<Rightarrow> diagnostic list" where
  "pv_fields view =
     map (\<lambda>k. diag ''view.missing_field'' (''missing required field '' @ sq k)) (sorted_diff pv_top_fields (jkeys view))
     @ map (\<lambda>k. diag ''view.unknown_field'' (''unknown field '' @ sq k))
         (sorted_diff (jkeys view) (pv_top_fields @ [''binding'']))"

definition pv_body :: "obj \<Rightarrow> diags" where
  "pv_body view = chks [
     emit_if (jget ''schemaVersion'' view \<noteq> JStr ''0.2.0'')
       (diag ''view.schema_version'' (''unsupported schemaVersion '' @ py_repr (jget ''schemaVersion'' view))),
     emit_if (jget ''kind'' view \<noteq> JStr ''neutrino.participant-view'')
       (pv_error (''kind must be '' @ sq ''neutrino.participant-view'')),
     each [''procedure'', ''dslVersion''] (\<lambda>k.
       emit_if (\<not> nonempty_str (jget k view)) (pv_error (k @ '' must be a non-empty string''))),
     pv_capability (jget ''capability'' view),
     pv_participant (jget ''participant'' view),
     emit_if (\<not> str_list (jget ''visibleOperations'' view)) (pv_error ''visibleOperations must be an array of strings''),
     pv_list (jget ''requiredInputs'' view) ''requiredInputs'' pv_input,
     pv_list (jget ''permittedCounterparties'' view) ''permittedCounterparties'' pv_counterparty,
     guarded (jhas ''binding'' view) (pv_binding (jget ''binding'' view)),
     pv_list (jget ''evidenceObligations'' view) ''evidenceObligations'' pv_obligation,
     pv_provenance (jget ''provenance'' view)]"

definition pv_validate :: "json \<Rightarrow> diags" where
  "pv_validate v =
     (case v of
        JObj view \<Rightarrow> (if pv_fields view \<noteq> [] then Inr (pv_fields view) else pv_body view)
      | _ \<Rightarrow> Inr [pv_error ''top-level must be a JSON object''])"

section \<open>The spec the view projects\<close>

text \<open>\<open>_idx\<close>: the conversion of more than 4300 digits raises.\<close>

definition pv_idx :: "(string \<Rightarrow> nat option) \<Rightarrow> string \<Rightarrow> string \<Rightarrow> nat option py" where
  "pv_idx U pp prefix =
     (if \<not> starts_with (prefix @ ''['') pp \<or> last pp \<noteq> CHR '']'' then Inr None
      else let ds = map (char_digit U) (utf8_chars (butlast (drop (length prefix + 1) pp)))
           in if ds = [] \<or> None \<in> set ds then Inr None
              else if length ds > 4300 then Inl ValueError
              else Inr (Some (foldl (\<lambda>n x. 10 * n + the x) 0 ds)))"

record spec_view =
  sv_hash :: json
  sv_version :: json
  sv_inputs :: json
  sv_effects :: json
  sv_smap :: "(json \<times> json) list"
  sv_ops :: "json list"

definition pv_smap :: "json list \<Rightarrow> (json \<times> json) list py" where
  "pv_smap es =
     fold_py (\<lambda>e m. pbind (py_key e ''specPath'') (\<lambda>k.
       if hashable k then Inr (jdict_set k e m) else Inl TypeError)) es []"

definition pv_ops :: "json list \<Rightarrow> json list py" where
  "pv_ops ts =
     fold_py (\<lambda>t ops. pbind (py_key t ''name'') (\<lambda>n.
       if \<not> hashable n then Inl TypeError else Inr (if in_list n ops then ops else ops @ [n]))) ts []"

definition pv_spec :: "json \<Rightarrow> spec_view py" where
  "pv_spec spec =
     pbind (pbind (py_key spec ''identity'') (\<lambda>i. py_key i ''capabilityHash'')) (\<lambda>h.
     pbind (py_key spec ''schemaVersion'') (\<lambda>ver.
     pbind (py_key spec ''inputs'') (\<lambda>ins.
     pbind (py_key spec ''effects'') (\<lambda>effs.
     pbind (pbind (pbind (py_key spec ''sourceMap'') py_iter) pv_smap) (\<lambda>sm.
     pbind (pbind (pbind (pbind (py_key spec ''lifecycle'') (\<lambda>lc. py_key lc ''transitions'')) py_iter) pv_ops) (\<lambda>ops.
       Inr \<lparr>sv_hash = h, sv_version = ver, sv_inputs = ins, sv_effects = effs, sv_smap = sm, sv_ops = ops\<rparr>))))))"

definition pv_path :: "spec_view \<Rightarrow> json \<Rightarrow> diags" where
  "pv_path sv item =
     pbind (py_key item ''specPath'') (\<lambda>pp.
       if \<not> hashable pp then Inl TypeError
       else case jlookup pp (sv_smap sv) of
         None \<Rightarrow> Inr [diag ''view.unresolved_path''
           (''specPath '' @ sq (py_str pp) @ '' does not resolve in the spec sourceMap'')]
       | Some e \<Rightarrow>
           (if jhas ''source'' (as_obj item)
            then pbind (py_get e ''source'') (\<lambda>src. emit_if (\<not> jeq (jget ''source'' (as_obj item)) src)
              (diag ''view.unresolved_path'' (''source for '' @ sq (py_str pp) @ '' does not match the spec (''
                @ py_str (jget ''source'' (as_obj item)) @ '' != '' @ py_str src @ '')'')))
            else Inr []))"

text \<open>The fields of an item beside the fields of the element of the spec at its index.\<close>

definition pv_differs :: "(string \<times> string) list \<Rightarrow> obj \<Rightarrow> json \<Rightarrow> bool py" where
  "pv_differs pairs item x =
     fold_py (\<lambda>(a, b) r. if r then Inr True else pbind (py_get x b) (\<lambda>w. Inr (\<not> jeq (jget a item) w))) pairs False"

definition pv_texts :: "string list \<Rightarrow> json \<Rightarrow> string py" where
  "pv_texts ks x = pbind (map_py (py_get x) ks) (\<lambda>vs. Inr (join ''/'' (map py_str vs)))"

definition pv_value ::
    "(string \<Rightarrow> nat option) \<Rightarrow> string \<Rightarrow> string \<Rightarrow> string \<Rightarrow> (string \<times> string) list \<Rightarrow> json \<Rightarrow> json \<Rightarrow> diags" where
  "pv_value U prefix section label pairs elems item =
     (let d = as_obj item; pp = jget ''specPath'' d
      in pbind (pv_idx U (str_of pp) prefix) (\<lambda>i.
         pbind (case i of None \<Rightarrow> Inr True | Some n \<Rightarrow> pbind (py_len elems) (\<lambda>l. Inr (int n \<ge> l))) (\<lambda>out.
           if out then Inr [diag ''view.unresolved_path'' (section @ '' specPath '' @ py_str pp @ '' out of range'')]
           else pbind (py_item elems (JInt (int (the i)))) (\<lambda>x.
             pbind (pv_differs pairs d x) (\<lambda>differs.
               if \<not> differs then Inr []
               else pbind (pv_texts (map snd pairs) x) (\<lambda>t.
                 Inr [diag ''view.contract_mismatch''
                   (label @ '' '' @ join ''/'' (map (\<lambda>(a, _). py_str (jget a d)) pairs) @ '' != spec.''
                     @ idx prefix (the i) @ '' '' @ t)]))))))"

definition pv_input_pairs :: "(string \<times> string) list" where
  "pv_input_pairs = [(''name'', ''name''), (''type'', ''type'')]"

definition pv_effect_pairs :: "(string \<times> string) list" where
  "pv_effect_pairs = [(''leg'', ''name''), (''kind'', ''kind''), (''ledger'', ''ledger'')]"

definition pv_cross_body :: "(string \<Rightarrow> nat option) \<Rightarrow> obj \<Rightarrow> spec_view \<Rightarrow> diags" where
  "pv_cross_body U view sv =
     (let cap = jget ''capabilityHash'' (as_obj (jget ''capability'' view));
          ver = jget ''schemaVersion'' (as_obj (jget ''specContract'' (as_obj (jget ''provenance'' view))));
          vis = jget ''visibleOperations'' view;
          ins = as_list (jget ''requiredInputs'' view); obs = as_list (jget ''evidenceObligations'' view)
      in chks [
        emit_if (\<not> jeq cap (sv_hash sv)) (diag ''view.hash_mismatch''
          (''capability.capabilityHash does not match the referenced spec ('' @ py_str cap @ '' != ''
            @ py_str (sv_hash sv) @ '')'')),
        emit_if (\<not> jeq ver (sv_version sv)) (diag ''view.contract_mismatch''
          (''provenance.specContract.schemaVersion '' @ py_str ver @ '' != spec '' @ py_str (sv_version sv))),
        emit_if (\<not> jeq vis (JList (sv_ops sv))) (diag ''view.contract_mismatch''
          (''visibleOperations '' @ py_str vis @ '' != spec lifecycle ops '' @ py_str (JList (sv_ops sv)))),
        each (ins @ obs) (pv_path sv),
        each ins (pv_value U ''inputs'' ''requiredInputs'' ''requiredInputs'' pv_input_pairs (sv_inputs sv)),
        each obs (pv_value U ''effects'' ''evidenceObligations'' ''evidenceObligation'' pv_effect_pairs (sv_effects sv))])"

definition pv_cross_check :: "(string \<Rightarrow> nat option) \<Rightarrow> obj \<Rightarrow> json \<Rightarrow> diags" where
  "pv_cross_check U view spec =
     (case pv_spec spec of
        Inl e \<Rightarrow> (if e \<in> {ValueError, KeyError, TypeError}
                  then Inr [diag ''view.io'' ''cannot read spec for cross-check: ''] else Inl e)
      | Inr sv \<Rightarrow> pv_cross_body U view sv)"

text \<open>The diagnostics, and the report: its participant is read even from a rejected view.\<close>

definition pv_run :: "(string \<Rightarrow> nat option) \<Rightarrow> json \<Rightarrow> json option \<Rightarrow> diags" where
  "pv_run U v spec =
     pbind (pv_validate v) (\<lambda>ds.
       case (v, spec) of
         (JObj view, Some s) \<Rightarrow> (if ds = [] then pv_cross_check U view s else Inr ds)
       | _ \<Rightarrow> Inr ds)"

definition pv_main :: "(string \<Rightarrow> nat option) \<Rightarrow> json \<Rightarrow> json option \<Rightarrow> (nat \<times> json \<times> diagnostic list) py" where
  "pv_main U v spec =
     pbind (pv_run U v spec) (\<lambda>ds.
     pbind (case v of JObj view \<Rightarrow> py_get (jget_or ''participant'' (JObj []) view) ''name'' | _ \<Rightarrow> Inr JNull) (\<lambda>p.
       Inr (if list_ex (\<lambda>d. dseverity d = ''error'') ds then 1 else 0, p, ds)))"

end
