(* ===== verification/ViewProps.thy ===== *)
theory ViewProps
  imports ParticipantView
begin

text \<open>
  What an accepted participant view promises: it is a projection of the capability spec it was checked
  against. The values of each item are those of the spec element its path names.
\<close>

lemma pv_obj_pass [checks]:
  "pv_obj v name required optional body = Inr [] \<longleftrightarrow>
     (\<exists>d. v = JObj d \<and> (\<forall>k \<in> set required. jhas k d) \<and> (\<forall>k. jhas k d \<longrightarrow> k \<in> set (required @ optional)) \<and> body d = Inr [])"
  by (cases v) (auto simp: pv_obj_def Let_def chks_pass emit_if_pass guarded_pass sorted_diff_Nil_iff jhas_jkeys)

lemma pv_objD: "pv_obj v name required optional body = Inr [] \<Longrightarrow> \<exists>d. v = JObj d \<and> body d = Inr []"
  by (auto simp: pv_obj_pass)

lemma pv_list_pass [checks]:
  "pv_list v name body = Inr [] \<longleftrightarrow> (\<exists>xs. v = JList xs \<and> (\<forall>x \<in> set xs. body x = Inr []))"
  by (auto simp: pv_list_def each_pass is_list_iff)

text \<open>The fields of an accepted item are texts.\<close>

definition text_fields :: "string list \<Rightarrow> json \<Rightarrow> bool" where
  "text_fields ks v \<longleftrightarrow> (\<exists>d. v = JObj d \<and> list_all (\<lambda>k. is_str (jget k d)) ks)"

lemma pv_item_fields:
  "pv_input v = Inr [] \<Longrightarrow> text_fields [''name'', ''type'', ''specPath''] v"
  "pv_obligation v = Inr [] \<Longrightarrow> text_fields [''leg'', ''kind'', ''ledger'', ''specPath''] v"
  unfolding pv_input_def pv_obligation_def
  by (drule pv_objD, auto simp: text_fields_def chks_pass emit_if_pass all_strs_def)+

lemma pv_accepted_shape:
  assumes "pv_validate v = Inr []"
  obtains view ins obs vis cap where "v = JObj view" and "jget ''requiredInputs'' view = JList ins"
    and "jget ''evidenceObligations'' view = JList obs"
    and "\<forall>x \<in> set ins. text_fields [''name'', ''type'', ''specPath''] x"
    and "\<forall>x \<in> set obs. text_fields [''leg'', ''kind'', ''ledger'', ''specPath''] x"
    and "jget ''visibleOperations'' view = JList (map JStr vis)"
    and "jget ''capabilityHash'' (as_obj (jget ''capability'' view)) = JStr cap"
    and "nonempty_str (jget ''name'' (as_obj (jget ''participant'' view)))"
proof -
  from assms obtain view where v: "v = JObj view" and body: "pv_body view = Inr []"
    by (cases v) (auto simp: pv_validate_def split: if_splits)
  note pass = body [unfolded pv_body_def chks_pass list.set ball_simps]
  from pass obtain ins obs where lists: "jget ''requiredInputs'' view = JList ins" "\<forall>x \<in> set ins. pv_input x = Inr []"
    "jget ''evidenceObligations'' view = JList obs" "\<forall>x \<in> set obs. pv_obligation x = Inr []"
    by (auto simp: pv_list_pass)
  from pass have "str_list (jget ''visibleOperations'' view)" by (simp add: emit_if_pass)
  then obtain vs where vs: "jget ''visibleOperations'' view = JList vs" "list_all is_str vs"
    by (auto simp: str_list_def is_list_iff)
  have "vs = map JStr (map str_of vs)" using vs(2) by (induction vs) (auto simp: is_str_iff)
  with vs(1) have vis: "jget ''visibleOperations'' view = JList (map JStr (map str_of vs))" by metis
  from pass have "pv_capability (jget ''capability'' view) = Inr []" by simp
  from pv_objD [OF this [unfolded pv_capability_def]] obtain cap
    where cap: "jget ''capabilityHash'' (as_obj (jget ''capability'' view)) = JStr cap"
    by (auto simp: chks_pass emit_if_pass is_str_iff)
  from pass have "pv_participant (jget ''participant'' view) = Inr []" by simp
  from pv_objD [OF this [unfolded pv_participant_def]]
  have name: "nonempty_str (jget ''name'' (as_obj (jget ''participant'' view)))"
    by (auto simp: chks_pass each_pass emit_if_pass)
  show thesis
    by (rule that [OF v lists(1,3) _ _ vis cap name]) (use lists pv_item_fields in auto)
qed

section \<open>Paths and values\<close>

lemma pv_smap_lookup:
  assumes "pv_smap es = Inr m" and "jlookup (JStr p) m = Some e"
  shows "\<exists>d. e = JObj d \<and> e \<in> set es \<and> jget ''specPath'' d = JStr p"
proof -
  have "\<forall>p e. jlookup (JStr p) m = Some e \<longrightarrow> (\<exists>d. e = JObj d \<and> e \<in> set es \<and> jget ''specPath'' d = JStr p)"
    by (rule fold_py_invariant [OF assms(1) [unfolded pv_smap_def]])
      (auto simp: pbind_Inr_conv py_key_obj jget_in split: if_splits)
  with assms(2) show ?thesis by blast
qed

text \<open>An item of a view that stands for the element of a list its path names.\<close>

definition projects :: "(string \<Rightarrow> nat option) \<Rightarrow> string \<Rightarrow> (string \<times> string) list \<Rightarrow> json list \<Rightarrow> json \<Rightarrow> bool" where
  "projects U prefix pairs xs item \<longleftrightarrow>
     (\<exists>d path i x. item = JObj d \<and> jget ''specPath'' d = JStr path \<and> pv_idx U path prefix = Inr (Some i)
       \<and> i < length xs \<and> xs ! i = JObj x \<and> (\<forall>(a, b) \<in> set pairs. jget a d = jget b x))"

lemma differs_same:
  assumes "pv_differs pairs d x = Inr False" and "\<forall>(a, b) \<in> set pairs. is_str (jget a d)" and "pairs \<noteq> []"
  shows "\<exists>e. x = JObj e \<and> (\<forall>(a, b) \<in> set pairs. jget a d = jget b e)"
proof -
  have sticky: "fold_py (\<lambda>(a, b) r. if r then Inr True else pbind (py_get x b) (\<lambda>w. Inr (\<not> jeq (jget a d) w))) ps True = Inr True"
    for ps by (induction ps) auto
  have "\<forall>(a, b) \<in> set ps. \<exists>e. x = JObj e \<and> jget a d = jget b e"
    if "fold_py (\<lambda>(a, b) r. if r then Inr True else pbind (py_get x b) (\<lambda>w. Inr (\<not> jeq (jget a d) w))) ps False = Inr False"
      and "\<forall>(a, b) \<in> set ps. is_str (jget a d)" for ps
    using that
  proof (induction ps)
    case (Cons p ps)
    obtain a b where p: "p = (a, b)" by (cases p)
    with Cons.prems(1) obtain w where w: "py_get x b = Inr w"
      and f: "fold_py (\<lambda>(a, b) r. if r then Inr True else pbind (py_get x b) (\<lambda>w. Inr (\<not> jeq (jget a d) w))) ps
        (\<not> jeq (jget a d) w) = Inr False"
      by (auto simp: pbind_Inr_conv)
    then have "jeq (jget a d) w" using sticky by (cases "jeq (jget a d) w") auto
    with Cons w f show ?case by (auto simp: p is_str_iff py_get_obj)
  qed simp
  from this [OF assms(1) [unfolded pv_differs_def] assms(2)] assms(3) show ?thesis
    by (cases pairs) (auto split: prod.splits)
qed

lemma pv_value_projects:
  assumes "pv_value U prefix section label pairs (JList xs) item = Inr []"
    and "text_fields (''specPath'' # map fst pairs) item" and "pairs \<noteq> []"
  shows "projects U prefix pairs xs item"
proof -
  from assms(2) obtain d path where item: "item = JObj d" "jget ''specPath'' d = JStr path"
    and strs: "\<forall>(a, b) \<in> set pairs. is_str (jget a d)"
    by (auto simp: text_fields_def is_str_iff list_all_iff case_prod_beta)
  from assms(1) obtain n where i: "pv_idx U path prefix = Inr (Some n)"
    by (cases "pv_idx U path prefix") (auto simp: pv_value_def item split: option.splits)
  with assms(1) have n: "n < length xs"
    by (auto simp: pv_value_def item split: if_splits)
  with assms(1) i have "\<exists>d'. pv_differs pairs d (xs ! n) = Inr d' \<and> (d' \<longrightarrow> False)"
    by (auto simp: pv_value_def item pbind_Inr_conv list_index_def Let_def split: if_splits)
  then have "pv_differs pairs d (xs ! n) = Inr False" by auto
  from differs_same [OF this strs assms(3)] i n item show ?thesis
    unfolding projects_def by blast
qed

section \<open>Accepted views\<close>

lemma errors_pv [outcomes]:
  "(\<And>d. errors_only (body d)) \<Longrightarrow> errors_only (pv_obj v name required optional body)"
  "(\<And>x. errors_only (body1 x)) \<Longrightarrow> errors_only (pv_list v name body1)"
  unfolding pv_obj_def pv_list_def Let_def by (intro outcomes; simp add: pv_error_def)+

lemma errors_pv_validate: "errors_only (pv_validate v)"
  unfolding pv_validate_def pv_body_def pv_capability_def pv_participant_def pv_input_def pv_counterparty_def
    pv_binding_def pv_obligation_def pv_provenance_def
  by (intro outcomes; simp add: pv_error_def pv_fields_def list_all_iff image_iff; fastforce)

lemma errors_pv_cross: "errors_only (pv_cross_check U view spec)"
proof -
  have "errors_only (pv_cross_body U view sv)" for sv
    unfolding pv_cross_body_def pv_path_def pv_value_def Let_def by (intro outcomes; simp)
  then show ?thesis
    unfolding pv_cross_check_def by (cases "pv_spec spec") (auto simp: outcome_def)
qed

lemma errors_pv_run: "errors_only (pv_run U v spec)"
  unfolding pv_run_def
proof (rule outcome_pbind)
  fix ds
  assume "pv_validate v = Inr ds"
  then have "errors_only (Inr ds)" using errors_pv_validate [of v] by simp
  then show "errors_only (case (v, spec) of
      (JObj view, Some s) \<Rightarrow> (if ds = [] then pv_cross_check U view s else Inr ds) | _ \<Rightarrow> Inr ds)"
    by (cases v; cases spec) (simp_all add: errors_pv_cross)
qed (rule raises_any)

text \<open>An item whose path is in the source map of the spec, with the span recorded there.\<close>

definition mapped :: "json list \<Rightarrow> json \<Rightarrow> bool" where
  "mapped smap item \<longleftrightarrow>
     (\<exists>d path e. item = JObj d \<and> jget ''specPath'' d = JStr path \<and> JObj e \<in> set smap \<and> jget ''specPath'' e = JStr path
       \<and> (jhas ''source'' d \<longrightarrow> jeq (jget ''source'' d) (jget ''source'' e)))"

lemma pv_path_mapped:
  assumes "pv_path sv item = Inr []" and "pv_smap es = Inr (sv_smap sv)"
    and "item = JObj d" and "jget ''specPath'' d = JStr path"
  shows "mapped es item"
proof -
  have "jhas ''specPath'' d" using assms(4) by (intro jget_not_null) simp
  with assms(3,4) have key: "jindex ''specPath'' d = Inr (JStr path)"
    by (auto simp: jhas_map_of jget_in jindex_def)
  with assms(1) obtain e where e: "jlookup (JStr path) (sv_smap sv) = Some e"
    by (auto simp: pv_path_def assms(3) hashable_def split: option.splits)
  from pv_smap_lookup [OF assms(2) e] obtain x where x: "e = JObj x" "e \<in> set es" "jget ''specPath'' x = JStr path" by blast
  from assms(1) have "jhas ''source'' d \<longrightarrow> jeq (jget ''source'' d) (jget ''source'' x)"
    by (auto simp: pv_path_def key hashable_def e x(1) assms(3) emit_if_pass)
  with x assms(3,4) show ?thesis unfolding mapped_def by blast
qed

lemma pv_main_accepts:
  assumes "pv_main U v (Some s) = Inr (0, p, ds)"
  obtains view sv where "v = JObj view" and "pv_validate v = Inr []" and "pv_spec s = Inr sv" and "pv_cross_body U view sv = Inr []"
proof -
  from assms have run: "pv_run U v (Some s) = Inr ds" and "\<not> list_ex errs ds"
    by (auto simp: pv_main_def pbind_Inr_conv split: if_splits)
  with errors_only_none [OF errors_pv_run run] have "ds = []" by blast
  with run obtain view where v: "v = JObj view" and ok: "pv_validate v = Inr []" and c: "pv_cross_check U view s = Inr []"
    by (cases v) (auto simp: pv_run_def pbind_Inr_conv pv_validate_def split: if_splits)
  from c obtain sv where "pv_spec s = Inr sv" "pv_cross_body U view sv = Inr []"
    by (auto simp: pv_cross_check_def split: sum.splits if_splits)
  with v ok that show thesis by blast
qed

lemma pv_spec_parts:
  assumes "pv_spec (JObj spec) = Inr sv"
  shows "\<exists>ident zs lc ts. jget ''identity'' spec = JObj ident \<and> jget ''capabilityHash'' ident = sv_hash sv
    \<and> jget ''inputs'' spec = sv_inputs sv \<and> jget ''effects'' spec = sv_effects sv
    \<and> py_iter (jget ''sourceMap'' spec) = Inr zs \<and> pv_smap zs = Inr (sv_smap sv)
    \<and> jget ''lifecycle'' spec = JObj lc \<and> py_iter (jget ''transitions'' lc) = Inr ts \<and> pv_ops ts = Inr (sv_ops sv)"
  using assms unfolding pv_spec_def pbind_Inr_conv py_key_obj
  by (elim exE conjE) (auto simp: jget_in)

lemma jindex_get: "jindex k d = Inr v \<Longrightarrow> jget k d = v"
  by (auto simp: jindex_def jget_in split: option.splits)

text \<open>C22. A view the gate accepts against an accepted capability spec is a projection of it: its capability
  digest is the digest of the spec's semantic core; every required input and every evidence obligation
  has a path in the spec's source map, with the span recorded there; the path names an existing input
  (effect) of the spec, whose name and type (name, kind and ledger) are those of the item; and the
  visible operations are the operation names of the lifecycle, in their order.\<close>

theorem accepted_view_projects_spec:
  assumes "validate H (JObj spec) = Inr []" and "pv_main U v (Some (JObj spec)) = Inr (0, p, ds)"
  shows "\<exists>view ins effs smap. v = JObj view \<and> jget ''inputs'' spec = JList ins \<and> jget ''effects'' spec = JList effs
    \<and> jget ''sourceMap'' spec = JList smap
    \<and> jget ''capabilityHash'' (as_obj (jget ''capability'' view)) = JStr (H (compact (semantic_core spec)))
    \<and> (\<forall>item \<in> set (as_list (jget ''requiredInputs'' view)). projects U ''inputs'' pv_input_pairs ins item \<and> mapped smap item)
    \<and> (\<forall>item \<in> set (as_list (jget ''evidenceObligations'' view)). projects U ''effects'' pv_effect_pairs effs item \<and> mapped smap item)
    \<and> (\<exists>lc ts ops. jget ''lifecycle'' spec = JObj lc \<and> py_iter (jget ''transitions'' lc) = Inr ts \<and> pv_ops ts = Inr ops
         \<and> jeq (jget ''visibleOperations'' view) (JList ops))"
proof -
  obtain view sv where v: "v = JObj view" and ok: "pv_validate v = Inr []" and sv: "pv_spec (JObj spec) = Inr sv"
    and cross: "pv_cross_body U view sv = Inr []" by (rule pv_main_accepts [OF assms(2)])
  obtain view' ins obs vis cap where v': "v = JObj view'"
    and view': "jget ''requiredInputs'' view' = JList ins" "jget ''evidenceObligations'' view' = JList obs"
    "\<forall>x \<in> set ins. text_fields [''name'', ''type'', ''specPath''] x"
    "\<forall>x \<in> set obs. text_fields [''leg'', ''kind'', ''ledger'', ''specPath''] x"
    "jget ''capabilityHash'' (as_obj (jget ''capability'' view')) = JStr cap"
    by (rule pv_accepted_shape [OF ok])
  have "view' = view" using v v' by simp
  note view = view' [unfolded this]
  have sec: "sections spec = Inr []" using assms(1) by (simp add: validate_pass)
  obtain xs ys zs where spec: "jget ''inputs'' spec = JList xs" "jget ''effects'' spec = JList ys" "jget ''sourceMap'' spec = JList zs"
    using accepted_array [OF sec, of "''inputs''"] accepted_array [OF sec, of "''effects''"]
      accepted_array [OF sec, of "''sourceMap''"] by auto
  obtain ident where id: "jget ''identity'' spec = JObj ident"
    and hash: "jget ''capabilityHash'' ident = JStr (H (compact (semantic_core spec)))"
    by (rule accepted_identity [OF assms(1)])
  from pv_spec_parts [OF sv] obtain ident' xs' ys' zs' lc tv ts where p: "jget ''identity'' spec = JObj ident'"
    "jget ''capabilityHash'' ident' = sv_hash sv" "jget ''inputs'' spec = sv_inputs sv" "jget ''effects'' spec = sv_effects sv"
    "py_iter (jget ''sourceMap'' spec) = Inr zs'" "pv_smap zs' = Inr (sv_smap sv)" "jget ''lifecycle'' spec = JObj lc"
    "py_iter (jget ''transitions'' lc) = Inr ts" "pv_ops ts = Inr (sv_ops sv)" by blast
  note pass = cross [unfolded pv_cross_body_def Let_def chks_pass list.set ball_simps emit_if_pass view as_list.simps each_pass]
  have hashes: "cap = H (compact (semantic_core spec))" using pass p(1,2) id hash by simp
  have sm: "pv_smap zs = Inr (sv_smap sv)" using p(5,6) spec(3) by simp
  have item: "projects U pre pairs es item \<and> mapped zs item"
    if "text_fields (''specPath'' # map fst pairs) item" "pairs \<noteq> []" "pv_path sv item = Inr []"
      "pv_value U pre sect label pairs (JList es) item = Inr []" for pre pairs es item sect label
  proof -
    from that(1) obtain d path where "item = JObj d" "jget ''specPath'' d = JStr path"
      by (auto simp: text_fields_def is_str_iff)
    with that(3) sm have "mapped zs item" by (rule pv_path_mapped)
    with pv_value_projects [OF that(4,1,2)] show ?thesis by blast
  qed
  have "projects U ''inputs'' pv_input_pairs xs x \<and> mapped zs x" if x: "x \<in> set ins" for x
  proof -
    have "pv_value U ''inputs'' ''requiredInputs'' ''requiredInputs'' pv_input_pairs (JList xs) x = Inr []" "pv_path sv x = Inr []"
      using x pass spec(1) p(3) by simp_all
    with item [of pv_input_pairs x] x view(3) show ?thesis by (auto simp: pv_input_pairs_def text_fields_def)
  qed
  moreover have "projects U ''effects'' pv_effect_pairs ys x \<and> mapped zs x" if x: "x \<in> set obs" for x
  proof -
    have "pv_value U ''effects'' ''evidenceObligations'' ''evidenceObligation'' pv_effect_pairs (JList ys) x = Inr []"
      "pv_path sv x = Inr []"
      using x pass spec(2) p(4) by simp_all
    with item [of pv_effect_pairs x] x view(4) show ?thesis by (auto simp: pv_effect_pairs_def text_fields_def)
  qed
  moreover have "jeq (jget ''visibleOperations'' view) (JList (sv_ops sv))" using pass by simp
  ultimately show ?thesis
    using v spec view(1,2,5) hashes p(7,8,9) by (metis as_list.simps(1))
qed

text \<open>A spec whose source map names its input and its effect, and the view of one participant.\<close>

definition map_entry :: "string \<Rightarrow> string \<Rightarrow> json" where
  "map_entry path construct = JObj [(''specPath'', JStr path), (''construct'', JStr construct), (''source'', JNull)]"

definition viewed_spec :: obj where
  "viewed_spec = spec_doc (JObj sample_lifecycle) [map_entry ''inputs[0]'' ''input'', map_entry ''effects[0]'' ''effect'']"

definition field_of :: "string \<Rightarrow> string \<Rightarrow> json" where
  "field_of sec k = jget k (as_obj (hd (as_list (jget sec viewed_spec))))"

definition sample_view :: "json \<Rightarrow> json" where
  "sample_view participant = JObj
     [(''kind'', JStr ''neutrino.participant-view''), (''schemaVersion'', JStr ''0.2.0''), (''procedure'', JStr ''p''),
      (''dslVersion'', JStr ''1''),
      (''capability'', JObj [(''capabilityHash'', JStr (zero_hash [])), (''specVersion'', JStr ''1'')]),
      (''participant'', participant),
      (''visibleOperations'', JList [jget ''name'' (as_obj (lc_arrow ''open'' ''done''))]),
      (''requiredInputs'', JList [JObj [(''name'', field_of ''inputs'' ''name''), (''type'', field_of ''inputs'' ''type''),
         (''specPath'', JStr ''inputs[0]'')]]),
      (''permittedCounterparties'', JList []),
      (''evidenceObligations'', JList [JObj [(''leg'', field_of ''effects'' ''name''), (''kind'', field_of ''effects'' ''kind''),
         (''ledger'', field_of ''effects'' ''ledger''), (''specPath'', JStr ''effects[0]'')]]),
      (''provenance'', JObj [(''derivedFrom'', JStr ''spec''), (''specContract'', JObj [(''kind'', JStr ''neutrino.capability-spec''),
         (''schemaVersion'', jget ''schemaVersion'' viewed_spec)])])]"

definition sample_participant :: json where
  "sample_participant = JObj [(''name'', JStr ''payer''), (''role'', JStr ''payer''), (''slotId'', JStr ''s'')]"

lemma viewed_ok: "validate zero_hash (JObj viewed_spec) = Inr []"
proof -
  have "sections viewed_spec = Inr []" by code_simp
  moreover have "check_hashes zero_hash viewed_spec = Inr []"
    by (simp add: check_hashes_def viewed_spec_def spec_doc_def jget_or_def jget_def Let_def checks zero_hash_def)
  ultimately show ?thesis by (simp add: validate_pass)
qed

lemma accepted_view_projects_spec_witness:
  "projects (\<lambda>_. None) ''inputs'' pv_input_pairs (as_list (jget ''inputs'' viewed_spec))
     (JObj [(''name'', field_of ''inputs'' ''name''), (''type'', field_of ''inputs'' ''type''), (''specPath'', JStr ''inputs[0]'')])"
proof -
  have ok: "pv_main (\<lambda>_. None) (sample_view sample_participant) (Some (JObj viewed_spec)) = Inr (0, JStr ''payer'', [])"
    by code_simp
  from accepted_view_projects_spec [OF viewed_ok ok]
  show ?thesis by (auto simp: sample_view_def jget_def jget_or_def)
qed

text \<open>A view whose participant is not an object gets its diagnostics from \<open>validate\<close>, but \<open>main\<close> then reads
  the name of the participant for the report and raises an uncaught \<open>AttributeError\<close>: no report is written.\<close>

theorem view_gate_raises_on_participant:
  "pv_validate (sample_view (JStr ''payer'')) = Inr [pv_error ''participant must be an object'']
   \<and> pv_main U (sample_view (JStr ''payer'')) None = Inl AttributeError"
proof -
  have "pv_validate (sample_view (JStr ''payer'')) = Inr [pv_error ''participant must be an object'']" by code_simp
  then show ?thesis
    by (simp add: pv_main_def pv_run_def sample_view_def jget_or_def py_get_def)
qed

end
