(* ===== verification/DomainSemantics.thy ===== *)
theory DomainSemantics
  imports Canonical
begin

text \<open>
  \<open>domain/validate_l2_domain_semantics_v2.py\<close> and its v3: the executable reduction graph of a domain.
  \<open>ds_shape\<close> is \<open>validate_shape\<close>, \<open>ds_semantics\<close> is \<open>validate_semantics\<close>, \<open>ds_body\<close> is
  \<open>_canonical_body\<close>, \<open>ds_validate\<close> is \<open>validate\<close> for both versions and \<open>ds_canonical\<close> the document
  \<open>canonicalize\<close> prints. The checks cannot raise: every diagnostic list is a plain list.
  \<open>validate_semantics\<close> runs only on artifacts of the right shape, where a field it reads is a text;
  \<open>ds_text\<close> reads it. The digest is the argument \<open>H\<close>; printing, reading files and the self-tests are
  not modelled.
\<close>

section \<open>Shape\<close>

definition ds_fail :: "string \<Rightarrow> string \<Rightarrow> string" where
  "ds_fail code msg = ''['' @ code @ ''] '' @ msg"

definition shape_fail :: "string \<Rightarrow> string" where
  "shape_fail msg = ds_fail ''l2v2.shape'' msg"

text \<open>The kinds of field in a specification: \<open>str\<close>, \<open>sha256\<close>, \<open>semver\<close> and \<open>enum:...\<close>.\<close>

datatype field_kind = FStr | FSha | FSemver | FEnum "string list"

definition ds_when :: "bool \<Rightarrow> string \<Rightarrow> string list" where
  "ds_when b msg = (if b then [msg] else [])"

fun check_field :: "string \<Rightarrow> field_kind \<Rightarrow> json \<Rightarrow> string list" where
  "check_field w FStr v = ds_when (\<not> nonempty_str v) (shape_fail (w @ '' must be a non-empty string''))"
| "check_field w FSha v =
     ds_when (\<not> (nonempty_str v \<and> re_dollar hex64_text (str_of v))) (shape_fail (w @ '' is not a 64-char lowercase sha256''))"
| "check_field w FSemver v =
     ds_when (\<not> (nonempty_str v \<and> re_dollar semver_text (str_of v))) (shape_fail (w @ '' is not a semantic version''))"
| "check_field w (FEnum allowed) v =
     ds_when (v \<notin> JStr ` set allowed) (shape_fail (w @ '' '' @ sq (py_str v) @ '' is not one of '' @ join ''/'' allowed))"

definition check_object :: "string \<Rightarrow> string list \<Rightarrow> (string \<times> field_kind) list \<Rightarrow> json \<Rightarrow> string list" where
  "check_object path required spec v =
     (case v of
        JObj d \<Rightarrow>
          map (\<lambda>f. shape_fail (path @ '' is missing required '' @ sq f)) (filter (\<lambda>f. \<not> jhas f d) required)
          @ concat (map (\<lambda>(k, x). case map_of spec k of
              None \<Rightarrow> [shape_fail (path @ '' has unknown property '' @ sq k)]
            | Some kind \<Rightarrow> check_field (path @ ''.'' @ k) kind x) d)
      | _ \<Rightarrow> [shape_fail (path @ '' is not an object'')])"

definition check_array :: "obj \<Rightarrow> string \<Rightarrow> string list \<Rightarrow> (string \<times> field_kind) list \<Rightarrow> string list" where
  "check_array root field required spec =
     (case jget field root of
        JList xs \<Rightarrow> concat (map (\<lambda>(i, v). check_object (idx field i) required spec v) (enumerate 0 xs))
      | _ \<Rightarrow> [shape_fail (field @ '' must be an array'')])"

definition ds_kind :: string where
  "ds_kind = ''neutrino.l2-domain-semantics''"

definition ds_required :: "string list" where
  "ds_required = [''kind'', ''schemaVersion'', ''domain'', ''version'', ''implements'', ''l1Features'', ''concepts'',
     ''reductions'', ''failureModes'', ''invariants'', ''provenance'', ''domainSemanticsHash'']"

definition ds_optional :: "string list" where
  "ds_optional = [''coverage'', ''imports'']"

definition ds_arrays :: "string list" where
  "ds_arrays = [''l1Features'', ''concepts'', ''reductions'', ''failureModes'', ''invariants'', ''provenance'', ''imports'']"

definition feature_spec :: "(string \<times> field_kind) list" where
  "feature_spec = [(''name'', FStr), (''kind'', FEnum [''primitive'', ''obligation''])]"

definition concept_spec :: "(string \<times> field_kind) list" where
  "concept_spec = [(''name'', FStr), (''kind'', FEnum [''state'', ''action'', ''concept'']),
     (''classification'', FEnum [''executable'', ''descriptive''])]"

definition reduction_spec :: "(string \<times> field_kind) list" where
  "reduction_spec = [(''id'', FStr), (''from'', FStr), (''to'', FStr),
     (''relation'', FEnum [''expands'', ''discharges'', ''protects'', ''failure'']),
     (''lossiness'', FEnum [''lossless'', ''lossy_preserved'', ''unsupported''])]"

definition provenance_spec :: "(string \<times> field_kind) list" where
  "provenance_spec = [(''subject'', FStr), (''source'', FStr), (''status'', FEnum [''proposed'', ''accepted'', ''rejected'']),
     (''standardVersion'', FStr), (''excerptHash'', FSha), (''reviewer'', FStr)]"

definition ds_records :: "obj \<Rightarrow> string list" where
  "ds_records a =
     check_array a ''l1Features'' [''name'', ''kind''] feature_spec
     @ check_array a ''concepts'' [''name'', ''kind'', ''classification''] concept_spec
     @ check_array a ''reductions'' [''id'', ''from'', ''to'', ''relation'', ''lossiness''] reduction_spec
     @ check_array a ''failureModes'' [''name''] [(''name'', FStr), (''compensation'', FStr)]
     @ check_array a ''invariants'' [''name'', ''predicate''] [(''name'', FStr), (''predicate'', FStr), (''onFailure'', FStr)]
     @ check_array a ''provenance'' [''subject'', ''source'', ''status''] provenance_spec
     @ (if jhas ''imports'' a
        then check_array a ''imports'' [''capability'', ''version''] [(''capability'', FStr), (''version'', FSemver)] else [])"

definition intake_fields :: "string list" where
  "intake_fields = [''semanticProfileVersion'', ''reductionSemanticsVersion'']"

definition ds_intake :: "json \<Rightarrow> string list" where
  "ds_intake v =
     (case v of
        JObj iv \<Rightarrow>
          map (\<lambda>k. shape_fail (''intakeVersioning has an unknown property '' @ sq k)) (key_diff iv intake_fields)
          @ concat (map (\<lambda>f. ds_when (\<not> (case jget f iv of JInt i \<Rightarrow> 1 \<le> i | _ \<Rightarrow> False))
              (shape_fail (''intakeVersioning.'' @ f @ '' must be a positive integer''))) intake_fields)
      | _ \<Rightarrow> [shape_fail ''intakeVersioning must be an object''])"

definition ds_header :: "int \<Rightarrow> obj \<Rightarrow> string list" where
  "ds_header ver a =
     ds_when (jget ''kind'' a \<noteq> JStr ds_kind) (ds_fail ''l2v2.identity'' (''kind must be '' @ sq ds_kind))
     @ ds_when (\<not> eq_int (jget ''schemaVersion'' a) ver) (ds_fail ''l2v2.identity'' (''schemaVersion must be '' @ show_int ver))
     @ concat (map (\<lambda>f. ds_when (\<not> nonempty_str (jget f a)) (shape_fail (f @ '' must be a non-empty string'')))
         [''domain'', ''implements''])
     @ ds_when (\<not> (nonempty_str (jget ''version'' a) \<and> re_dollar semver_text (str_of (jget ''version'' a))))
         (shape_fail ''version is not a semantic version'')
     @ ds_when (jhas ''coverage'' a \<and> jget ''coverage'' a \<notin> {JStr ''full'', JStr ''partial''})
         (shape_fail ''coverage is not one of full/partial'')
     @ ds_when (\<not> (nonempty_str (jget ''domainSemanticsHash'' a) \<and> re_dollar hex64_text (str_of (jget ''domainSemanticsHash'' a))))
         (shape_fail ''domainSemanticsHash is not a 64-char lowercase sha256'')"

definition ds_shape :: "int \<Rightarrow> bool \<Rightarrow> obj \<Rightarrow> string list" where
  "ds_shape ver intake a =
     (let required = ds_required @ (if intake then [''intakeVersioning''] else [])
      in map (\<lambda>f. shape_fail (''missing required '' @ sq f)) (filter (\<lambda>f. \<not> jhas f a) required)
         @ map (\<lambda>k. shape_fail (''unknown top-level property '' @ sq k)) (key_diff a (required @ ds_optional))
         @ ds_header ver a @ ds_records a
         @ (if intake \<and> jhas ''intakeVersioning'' a then ds_intake (jget ''intakeVersioning'' a) else []))"

section \<open>The cross-record contract\<close>

definition ds_text :: "string \<Rightarrow> json \<Rightarrow> string" where
  "ds_text k v = str_of (jget k (as_obj v))"

definition ds_items :: "string \<Rightarrow> obj \<Rightarrow> json list" where
  "ds_items k a = as_list (jget k a)"

definition ds_names :: "string \<Rightarrow> string \<Rightarrow> obj \<Rightarrow> string list" where
  "ds_names sec k a = map (ds_text k) (ds_items sec a)"

text \<open>\<open>concepts\<close>: the last record of each name, in the order of the first.\<close>

definition concept_map :: "obj \<Rightarrow> (string \<times> json) list" where
  "concept_map a = fold (\<lambda>c m. dict_set (ds_text ''name'' c) c m) (ds_items ''concepts'' a) []"

text \<open>(1) One namespace for concepts, edges, features and failure modes.\<close>

fun ds_collisions :: "string list \<Rightarrow> (string \<times> string) list \<Rightarrow> string list" where
  "ds_collisions seen [] = []"
| "ds_collisions seen ((what, nm) # xs) =
     ds_when (nm \<in> set seen) (ds_fail ''l2v2.identity'' (what @ '' identifier '' @ sq nm @ '' collides with another record''))
     @ ds_collisions (nm # seen) xs"

definition ds_identifiers :: "obj \<Rightarrow> (string \<times> string) list" where
  "ds_identifiers a =
     map (Pair ''concept'') (ds_names ''concepts'' ''name'' a)
     @ map (Pair ''reduction edge'') (ds_names ''reductions'' ''id'' a)
     @ map (Pair ''L1 feature'') (ds_names ''l1Features'' ''name'' a)
     @ map (Pair ''failure mode'') (ds_names ''failureModes'' ''name'' a)"

text \<open>(2) Endpoints, the descriptive/executable restriction and traceability.\<close>

definition l1_relations :: "string list" where
  "l1_relations = [''expands'', ''discharges'', ''protects'']"

definition executable_relations :: "string list" where
  "executable_relations = [''expands'', ''discharges'']"

definition supported_lossiness :: "string list" where
  "supported_lossiness = [''lossless'', ''lossy_preserved'']"

definition classification_of :: "obj \<Rightarrow> string \<Rightarrow> json" where
  "classification_of a nm =
     (case map_of (concept_map a) nm of None \<Rightarrow> JNull | Some c \<Rightarrow> jget ''classification'' (as_obj c))"

definition ds_reduction :: "obj \<Rightarrow> json \<Rightarrow> string list" where
  "ds_reduction a r =
     (let frm = ds_text ''from'' r; to = ds_text ''to'' r; rel = ds_text ''relation'' r
      in ds_when (frm \<notin> fst ` set (concept_map a))
           (ds_fail ''l2v2.reference'' (''reduction edge from undeclared concept '' @ sq frm))
         @ (if rel = ''failure''
            then ds_when (to \<notin> set (ds_names ''failureModes'' ''name'' a))
              (ds_fail ''l2v2.reference'' (''failure edge targets undeclared failure mode '' @ sq to))
            else ds_when (to \<notin> set (ds_names ''l1Features'' ''name'' a))
              (ds_fail ''l2v2.reference'' (''reduction edge targets undeclared L1 feature '' @ sq to)))
         @ ds_when (rel \<in> set executable_relations \<and> classification_of a frm = JStr ''descriptive'')
             (ds_fail ''l2v2.classification'' (''descriptive concept '' @ sq frm @ '' cannot drive an executable ''
               @ rel @ '' reduction'')))"

definition supported_edge :: "obj \<Rightarrow> json \<Rightarrow> bool" where
  "supported_edge a r \<longleftrightarrow> ds_text ''relation'' r \<in> set l1_relations \<and> ds_text ''lossiness'' r \<in> set supported_lossiness
     \<and> ds_text ''from'' r \<in> fst ` set (concept_map a)"

definition ds_traced :: "obj \<Rightarrow> string list" where
  "ds_traced a = map (ds_text ''from'') (filter (supported_edge a) (ds_items ''reductions'' a))"

definition ds_traceability :: "obj \<Rightarrow> string list" where
  "ds_traceability a =
     concat (map (\<lambda>(cname, _). ds_when (cname \<notin> set (ds_traced a))
       (ds_fail ''l2v2.traceability'' (''concept '' @ sq cname @ '' has no supported reduction to a declared L1 feature'')))
       (concept_map a))"

text \<open>(3) Provenance, (4) failure modes of invariants and (5) imports.\<close>

definition accepted_subjects :: "obj \<Rightarrow> string list" where
  "accepted_subjects a =
     map (ds_text ''subject'') (filter (\<lambda>p. ds_text ''status'' p = ''accepted'') (ds_items ''provenance'' a))"

definition ds_provenance :: "obj \<Rightarrow> string list" where
  "ds_provenance a =
     concat (map (\<lambda>p. ds_when (ds_text ''subject'' p \<notin> fst ` set (concept_map a)
         \<and> ds_text ''subject'' p \<notin> set (ds_names ''reductions'' ''id'' a))
       (ds_fail ''l2v2.reference'' (''provenance subject '' @ sq (ds_text ''subject'' p)
         @ '' resolves to no declared concept or edge''))) (ds_items ''provenance'' a))
     @ concat (map (\<lambda>r. ds_when (ds_text ''relation'' r \<in> set executable_relations
         \<and> ds_text ''id'' r \<notin> set (accepted_subjects a))
       (ds_fail ''l2v2.provenance'' (''executable reduction edge '' @ sq (ds_text ''id'' r) @ '' has no accepted provenance'')))
       (ds_items ''reductions'' a))"

definition ds_invariants :: "obj \<Rightarrow> string list" where
  "ds_invariants a =
     concat (map (\<lambda>inv. let f = jget ''onFailure'' (as_obj inv) in
       ds_when (f \<noteq> JNull \<and> str_of f \<notin> set (ds_names ''failureModes'' ''name'' a))
         (ds_fail ''l2v2.reference'' (''invariant on_failure references undeclared failure mode '' @ sq (py_str f))))
       (ds_items ''invariants'' a))"

fun ds_imports :: "string list \<Rightarrow> json list \<Rightarrow> string list" where
  "ds_imports seen [] = []"
| "ds_imports seen (imp # xs) =
     (let cap = ds_text ''capability'' imp
      in ds_when (cap \<in> set seen) (ds_fail ''l2v2.identity'' (''duplicate import of capability '' @ sq cap))
         @ ds_imports (cap # seen) xs)"

definition ds_semantics :: "obj \<Rightarrow> string list" where
  "ds_semantics a =
     ds_collisions [] (ds_identifiers a)
     @ concat (map (ds_reduction a) (ds_items ''reductions'' a))
     @ ds_traceability a
     @ ds_provenance a
     @ ds_invariants a
     @ ds_imports [] (ds_items ''imports'' a)"

section \<open>The digest\<close>

text \<open>Each array sorted by the canonical text of its records, the hash removed.\<close>

definition sort_field :: "string \<Rightarrow> obj \<Rightarrow> obj" where
  "sort_field k d = (case jget k d of JList xs \<Rightarrow> dict_set k (JList (sort_key compact xs)) d | _ \<Rightarrow> d)"

definition ds_body :: "obj \<Rightarrow> obj" where
  "ds_body a = fold sort_field ds_arrays (jwithout [''domainSemanticsHash''] a)"

definition ds_hash :: "(string \<Rightarrow> string) \<Rightarrow> obj \<Rightarrow> string" where
  "ds_hash H body = H (compact (JObj body))"

definition ds_hash_check :: "(string \<Rightarrow> string) \<Rightarrow> obj \<Rightarrow> string list" where
  "ds_hash_check H a =
     (let h = jget ''domainSemanticsHash'' a
      in if nonempty_str h \<and> re_dollar hex64_text (str_of h)
         then ds_when (ds_hash H (ds_body a) \<noteq> str_of h)
           (ds_fail ''l2v2.hash'' (''domainSemanticsHash '' @ str_of h @ '' != recomputed '' @ ds_hash H (ds_body a)))
         else [])"

definition ds_validate :: "(string \<Rightarrow> string) \<Rightarrow> int \<Rightarrow> bool \<Rightarrow> json \<Rightarrow> string list" where
  "ds_validate H ver intake v =
     (case v of
        JObj a \<Rightarrow>
          (let shape = ds_shape ver intake a
           in shape @ (if shape = [] then ds_semantics a else []) @ ds_hash_check H a)
      | _ \<Rightarrow> [shape_fail ''artifact root is not an object''])"

definition ds_validate_v2 :: "(string \<Rightarrow> string) \<Rightarrow> json \<Rightarrow> string list" where
  "ds_validate_v2 H v = ds_validate H 2 False v"

definition ds_validate_v3 :: "(string \<Rightarrow> string) \<Rightarrow> json \<Rightarrow> string list" where
  "ds_validate_v3 H v = ds_validate H 3 True v"

definition ds_canonical :: "(string \<Rightarrow> string) \<Rightarrow> obj \<Rightarrow> obj" where
  "ds_canonical H a = dict_set ''domainSemanticsHash'' (JStr (ds_hash H (ds_body a))) (ds_body a)"

definition ds_main :: "(string \<Rightarrow> string) \<Rightarrow> json \<Rightarrow> nat \<times> string list" where
  "ds_main H v = (let ds = ds_validate_v2 H v in if ds = [] then (0, [''ok'']) else (1, ds))"

definition ds_main_v3 :: "(string \<Rightarrow> string) \<Rightarrow> json \<Rightarrow> nat \<times> string list" where
  "ds_main_v3 H v = (let ds = ds_validate_v3 H v in (if ds = [] then 0 else 1, ds))"

end
