(* ===== verification/SemanticsProps.thy ===== *)
theory SemanticsProps
  imports DomainSemantics
begin

text \<open>
  What the domain-semantics gate promises: an accepted reduction graph is closed and traceable, its hash
  identifies it up to the order of its records, and re-emitting the canonical form changes nothing.
\<close>

section \<open>Passing the checks\<close>

lemma ds_when_Nil [simp]: "ds_when b msg = [] \<longleftrightarrow> \<not> b"
  by (simp add: ds_when_def)

lemma concat_map_Nil: "concat (map f xs) = [] \<longleftrightarrow> (\<forall>x \<in> set xs. f x = [])"
  by (induction xs) auto

lemma ds_collisions_Nil:
  "ds_collisions seen xs = [] \<longleftrightarrow> distinct (map snd xs) \<and> set (map snd xs) \<inter> set seen = {}"
  by (induction seen xs rule: ds_collisions.induct) auto

lemma ds_imports_Nil:
  "ds_imports seen xs = [] \<longleftrightarrow> distinct (map (ds_text ''capability'') xs) \<and> ds_text ''capability'' ` set xs \<inter> set seen = {}"
  by (induction seen xs rule: ds_imports.induct) (auto simp: Let_def)

lemma fold_dict_keys: "fst ` set (fold (\<lambda>c m. dict_set (f c) (g c) m) xs m) = f ` set xs \<union> fst ` set m"
  by (induction xs arbitrary: m) auto

lemma fold_dict_new:
  assumes "k \<notin> f ` set xs"
  shows "map_of (fold (\<lambda>c m. dict_set (f c) (g c) m) xs m) k = map_of m k"
  using assms by (induction xs arbitrary: m) auto

lemma fold_dict_distinct:
  assumes "distinct (map f xs)" and "c \<in> set xs"
  shows "map_of (fold (\<lambda>c m. dict_set (f c) (g c) m) xs m) (f c) = Some (g c)"
  using assms by (induction xs arbitrary: m) (auto simp: fold_dict_new)

lemma concept_map_keys: "fst ` set (concept_map a) = ds_text ''name'' ` set (ds_items ''concepts'' a)"
  by (simp add: concept_map_def fold_dict_keys)

section \<open>The reduction graph\<close>

text \<open>Every identifier is unique, every edge leads from a declared concept to a declared feature or failure
  mode, an executable edge is accepted and its concept is not descriptive.\<close>

definition edge_sound :: "obj \<Rightarrow> json \<Rightarrow> bool" where
  "edge_sound a r \<longleftrightarrow>
     (\<exists>c \<in> set (ds_items ''concepts'' a). ds_text ''name'' c = ds_text ''from'' r
        \<and> (ds_text ''relation'' r \<in> set executable_relations \<longrightarrow> jget ''classification'' (as_obj c) \<noteq> JStr ''descriptive''))
     \<and> ds_text ''to'' r \<in> set (ds_names (if ds_text ''relation'' r = ''failure'' then ''failureModes'' else ''l1Features'') ''name'' a)
     \<and> (ds_text ''relation'' r \<in> set executable_relations \<longrightarrow>
         (\<exists>p \<in> set (ds_items ''provenance'' a). ds_text ''subject'' p = ds_text ''id'' r \<and> ds_text ''status'' p = ''accepted''))"

text \<open>A concept with an edge of supported lossiness to a feature of L1.\<close>

definition concept_traced :: "obj \<Rightarrow> json \<Rightarrow> bool" where
  "concept_traced a c \<longleftrightarrow>
     (\<exists>r \<in> set (ds_items ''reductions'' a). ds_text ''from'' r = ds_text ''name'' c \<and> ds_text ''relation'' r \<in> set l1_relations
        \<and> ds_text ''lossiness'' r \<in> set supported_lossiness \<and> ds_text ''to'' r \<in> set (ds_names ''l1Features'' ''name'' a))"

definition graph_sound :: "obj \<Rightarrow> bool" where
  "graph_sound a \<longleftrightarrow>
     distinct (map snd (ds_identifiers a))
     \<and> (\<forall>r \<in> set (ds_items ''reductions'' a). edge_sound a r)
     \<and> (\<forall>c \<in> set (ds_items ''concepts'' a). concept_traced a c)
     \<and> (\<forall>p \<in> set (ds_items ''provenance'' a).
          ds_text ''subject'' p \<in> set (ds_names ''concepts'' ''name'' a) \<union> set (ds_names ''reductions'' ''id'' a))
     \<and> (\<forall>i \<in> set (ds_items ''invariants'' a). jget ''onFailure'' (as_obj i) \<noteq> JNull \<longrightarrow>
          ds_text ''onFailure'' i \<in> set (ds_names ''failureModes'' ''name'' a))
     \<and> distinct (map (ds_text ''capability'') (ds_items ''imports'' a))"

lemma ds_semantics_sound:
  assumes "ds_semantics a = []"
  shows "graph_sound a"
proof -
  have col: "ds_collisions [] (ds_identifiers a) = []" and imp: "ds_imports [] (ds_items ''imports'' a) = []"
    and red: "\<And>r. r \<in> set (ds_items ''reductions'' a) \<Longrightarrow> ds_reduction a r = []"
    and trace: "ds_traceability a = []" and prov: "ds_provenance a = []" and inv: "ds_invariants a = []"
    using assms by (auto simp: ds_semantics_def)
  have dist: "distinct (map snd (ds_identifiers a))" using col by (simp add: ds_collisions_Nil)
  then have "distinct (ds_names ''concepts'' ''name'' a)" by (simp add: ds_identifiers_def comp_def)
  then have cls: "classification_of a (ds_text ''name'' c) = jget ''classification'' (as_obj c)"
    if "c \<in> set (ds_items ''concepts'' a)" for c
    using fold_dict_distinct [OF _ that, of "ds_text ''name''" "\<lambda>c. c" "[]"]
    by (simp add: classification_of_def concept_map_def ds_names_def)
  have executable: "\<exists>p \<in> set (ds_items ''provenance'' a). ds_text ''subject'' p = ds_text ''id'' r \<and> ds_text ''status'' p = ''accepted''"
    if "r \<in> set (ds_items ''reductions'' a)" "ds_text ''relation'' r \<in> set executable_relations" for r
  proof -
    have "ds_text ''id'' r \<in> set (accepted_subjects a)" using prov that by (auto simp: ds_provenance_def)
    then show ?thesis by (auto simp: accepted_subjects_def)
  qed
  have edges: "edge_sound a r" if r: "r \<in> set (ds_items ''reductions'' a)" for r
  proof -
    note pass = red [OF r, unfolded ds_reduction_def Let_def append_is_Nil_conv ds_when_Nil]
    from pass obtain c where c: "c \<in> set (ds_items ''concepts'' a)" "ds_text ''name'' c = ds_text ''from'' r"
      by (auto simp: concept_map_keys)
    with pass cls [OF c(1)] executable [OF r] show ?thesis
      unfolding edge_sound_def by (auto split: if_splits)
  qed
  have "concept_traced a c" if c: "c \<in> set (ds_items ''concepts'' a)" for c
  proof -
    have "ds_text ''name'' c \<in> fst ` set (concept_map a)" using c by (simp add: concept_map_keys)
    then obtain v where "(ds_text ''name'' c, v) \<in> set (concept_map a)" by auto
    with trace have "ds_text ''name'' c \<in> set (ds_traced a)" by (fastforce simp: ds_traceability_def)
    then obtain r where r: "r \<in> set (ds_items ''reductions'' a)" "supported_edge a r" "ds_text ''from'' r = ds_text ''name'' c"
      by (auto simp: ds_traced_def)
    with edges [OF r(1)] show ?thesis
      unfolding concept_traced_def edge_sound_def supported_edge_def
      by (intro bexI [of _ r]) (auto simp: l1_relations_def split: if_splits)
  qed
  moreover have "ds_text ''subject'' p \<in> set (ds_names ''concepts'' ''name'' a) \<union> set (ds_names ''reductions'' ''id'' a)"
    if "p \<in> set (ds_items ''provenance'' a)" for p
    using prov that by (auto simp: ds_provenance_def concept_map_keys ds_names_def)
  moreover have "jget ''onFailure'' (as_obj i) \<noteq> JNull \<longrightarrow> ds_text ''onFailure'' i \<in> set (ds_names ''failureModes'' ''name'' a)"
    if "i \<in> set (ds_items ''invariants'' a)" for i
    using inv that by (auto simp: ds_invariants_def Let_def ds_text_def)
  ultimately show ?thesis
    unfolding graph_sound_def using dist edges imp by (simp add: ds_imports_Nil)
qed

section \<open>The canonical body\<close>

fun sorted_value :: "json \<Rightarrow> json" where
  "sorted_value (JList xs) = JList (sort_key compact xs)"
| "sorted_value v = v"

lemma sort_field_map_of:
  "map_of (sort_field k d) j = (if j = k then map_option sorted_value (map_of d k) else map_of d j)"
proof (cases "map_of d k")
  case None
  then have "sort_field k d = d" by (simp add: sort_field_def jget_def jget_or_def)
  with None show ?thesis by simp
next
  case (Some v)
  then show ?thesis by (cases v) (auto simp: sort_field_def jget_in)
qed

lemma sort_fields_map_of:
  assumes "distinct ks"
  shows "map_of (fold sort_field ks d) j = (if j \<in> set ks then map_option sorted_value (map_of d j) else map_of d j)"
  using assms by (induction ks arbitrary: d) (auto simp: sort_field_map_of)

lemma ds_body_map_of:
  "map_of (ds_body a) j = (if j = ''domainSemanticsHash'' then None
     else if j \<in> set ds_arrays then map_option sorted_value (map_of a j) else map_of a j)"
proof -
  have "distinct ds_arrays" by (simp add: ds_arrays_def)
  from sort_fields_map_of [OF this] show ?thesis
    by (simp add: ds_body_def map_of_jwithout ds_arrays_def)
qed

lemma wf_sort_field: "wf_json (JObj d) \<Longrightarrow> wf_json (JObj (sort_field k d))"
proof (cases "jget k d")
  case (JList xs)
  assume wf: "wf_json (JObj d)"
  from wf_json_jget [OF this, of k] have "wf_json (JList (sort_key compact xs))"
    by (simp add: JList list_all_iff)
  from wf_dict_set [OF wf this] show ?thesis by (simp add: sort_field_def JList)
qed (simp_all add: sort_field_def)

lemma wf_ds_body: "wf_json (JObj a) \<Longrightarrow> wf_json (JObj (ds_body a))"
proof -
  have "wf_json (JObj d) \<Longrightarrow> wf_json (JObj (fold sort_field ks d))" for ks d
    by (induction ks arbitrary: d) (simp_all add: wf_sort_field del: wf_json.simps)
  then show "wf_json (JObj a) \<Longrightarrow> wf_json (JObj (ds_body a))"
    unfolding ds_body_def by (blast intro: wf_jwithout)
qed

text \<open>Two lists sorted by their texts agree iff they hold the same records, up to order.\<close>

lemma sorted_canon_iff:
  assumes "list_all wf_json xs" and "list_all wf_json ys"
  shows "map canon (sort_key compact xs) = map canon (sort_key compact ys) \<longleftrightarrow>
    image_mset canon (mset xs) = image_mset canon (mset ys)"
proof
  assume "map canon (sort_key compact xs) = map canon (sort_key compact ys)"
  then have "mset (map canon (sort_key compact xs)) = mset (map canon (sort_key compact ys))" by (rule arg_cong)
  then show "image_mset canon (mset xs) = image_mset canon (mset ys)" by simp
next
  assume eq: "image_mset canon (mset xs) = image_mset canon (mset ys)"
  have sorted: "map canon (sort_key compact zs) = sort_key enc (map canon zs)" for zs
    by (rule sort_key_map_commute [symmetric]) (simp add: compact_enc_canon)
  have "inj_on enc (set (map canon xs))"
    using assms(1) by (auto simp: inj_on_def list_all_iff compact_enc_canon [symmetric] intro: compact_inject)
  with eq show "map canon (sort_key compact xs) = map canon (sort_key compact ys)"
    unfolding sorted by (intro sorted_by_key_perm) simp_all
qed

text \<open>The value of a field: the records of an array without their order, any other value up to key order.\<close>

definition field_value :: "string \<Rightarrow> json \<Rightarrow> json multiset + json" where
  "field_value k v = (if k \<in> set ds_arrays \<and> is_list v then Inl (image_mset canon (mset (as_list v))) else Inr (canon v))"

definition same_domain :: "obj \<Rightarrow> obj \<Rightarrow> bool" where
  "same_domain a b \<longleftrightarrow> (\<forall>k. k \<noteq> ''domainSemanticsHash'' \<longrightarrow>
     map_option (field_value k) (map_of a k) = map_option (field_value k) (map_of b k))"

lemma sorted_value_iff:
  assumes "wf_json v" and "wf_json w" and "k \<in> set ds_arrays"
  shows "canon (sorted_value v) = canon (sorted_value w) \<longleftrightarrow> field_value k v = field_value k w"
  using assms sorted_canon_iff by (cases v; cases w) (auto simp: field_value_def)

lemma canon_body_iff:
  assumes "wf_json (JObj a)" and "wf_json (JObj b)"
  shows "canon (JObj (ds_body a)) = canon (JObj (ds_body b)) \<longleftrightarrow> same_domain a b"
proof -
  have dist: "distinct (map fst (ds_body a))" "distinct (map fst (ds_body b))"
    using wf_ds_body assms by auto
  have wf: "wf_json v" if "map_of a k = Some v \<or> map_of b k = Some v" for k v
    using that assms wf_json_item by (metis map_of_SomeD)
  have field: "map_option canon (map_of (ds_body a) k) = map_option canon (map_of (ds_body b) k) \<longleftrightarrow>
      map_option (field_value k) (map_of a k) = map_option (field_value k) (map_of b k)"
    if k: "k \<noteq> ''domainSemanticsHash''" for k
  proof (cases "k \<in> set ds_arrays")
    case True
    with k wf [of k] show ?thesis
      by (cases "map_of a k"; cases "map_of b k") (simp_all add: ds_body_map_of sorted_value_iff)
  next
    case False
    with k show ?thesis
      by (cases "map_of a k"; cases "map_of b k") (simp_all add: ds_body_map_of field_value_def)
  qed
  have hash: "map_of (ds_body x) ''domainSemanticsHash'' = None" for x by (simp add: ds_body_map_of)
  show ?thesis
    unfolding canon_obj_iff [OF dist] same_domain_def using field hash by metis
qed

lemma ds_accepted:
  assumes "ds_validate H ver intake (JObj a) = []"
  shows "ds_shape ver intake a = []" and "ds_semantics a = []"
    and "jget ''domainSemanticsHash'' a = JStr (ds_hash H (ds_body a))"
proof -
  show shape: "ds_shape ver intake a = []" and "ds_semantics a = []"
    using assms by (simp_all add: ds_validate_def Let_def split: if_splits)
  have "ds_hash_check H a = []" using assms by (simp add: ds_validate_def Let_def)
  moreover have "nonempty_str (jget ''domainSemanticsHash'' a) \<and> re_dollar hex64_text (str_of (jget ''domainSemanticsHash'' a))"
    using shape by (simp add: ds_shape_def Let_def ds_header_def)
  ultimately show "jget ''domainSemanticsHash'' a = JStr (ds_hash H (ds_body a))"
    by (auto simp: ds_hash_check_def Let_def nonempty_str_iff)
qed

section \<open>Properties\<close>

text \<open>C23. An accepted domain-semantics artifact, of version 2 or 3, is a closed and traceable reduction graph:
  all identifiers are distinct; every edge leads from a declared concept to a declared L1 feature (a
  failure edge to a declared failure mode); an executable edge has accepted provenance and starts at a
  concept that is not descriptive; every concept has an edge of supported lossiness to an L1 feature;
  provenance subjects and failure references resolve, and no capability is imported twice.\<close>

theorem accepted_semantics_sound:
  assumes "ds_validate H ver intake v = []"
  shows "\<exists>a. v = JObj a \<and> graph_sound a \<and> jget ''domainSemanticsHash'' a = JStr (ds_hash H (ds_body a))"
proof -
  obtain a where a: "v = JObj a" using assms by (cases v) (simp_all add: ds_validate_def)
  note acc = ds_accepted [OF assms [unfolded a]]
  from ds_semantics_sound [OF acc(2)] acc(3) a show ?thesis by blast
qed

text \<open>C24. Two accepted artifacts declare one hash iff they have the same fields, each array with the same
  records in whatever order: the order of records does not change the hash, and any other change does,
  unless the hash function collides on the two canonical texts.\<close>

theorem semantics_hash_identifies_records:
  assumes "ds_validate H ver intake (JObj a) = []" and "ds_validate H ver' intake' (JObj b) = []"
    and "wf_json (JObj a)" and "wf_json (JObj b)"
    and "inj_on H {compact (JObj (ds_body a)), compact (JObj (ds_body b))}"
  shows "jget ''domainSemanticsHash'' a = jget ''domainSemanticsHash'' b \<longleftrightarrow> same_domain a b"
proof -
  have "jget ''domainSemanticsHash'' a = jget ''domainSemanticsHash'' b \<longleftrightarrow>
      H (compact (JObj (ds_body a))) = H (compact (JObj (ds_body b)))"
    using ds_accepted(3) [OF assms(1)] ds_accepted(3) [OF assms(2)] by (simp add: ds_hash_def)
  also have "\<dots> \<longleftrightarrow> canon (JObj (ds_body a)) = canon (JObj (ds_body b))"
    using canonical.tamper [OF wf_ds_body wf_ds_body assms(5)] assms(3,4) canonical.digest_stable by blast
  also have "\<dots> \<longleftrightarrow> same_domain a b" by (rule canon_body_iff [OF assms(3,4)])
  finally show ?thesis .
qed

lemma sort_field_sorted: "map_of d k = map_option sorted_value (map_of d k) \<Longrightarrow> sort_field k d = d"
proof -
  have same: "map_of d k = Some v \<Longrightarrow> dict_set k v d = d" for v
    by (induction k v d rule: dict_set.induct) (auto split: if_splits)
  assume fixed: "map_of d k = map_option sorted_value (map_of d k)"
  show ?thesis
  proof (cases "jget k d")
    case (JList xs)
    then have "map_of d k = Some (JList xs)" by (auto simp: jget_def jget_or_def split: option.splits)
    with fixed same show ?thesis by (simp add: sort_field_def JList)
  qed (simp_all add: sort_field_def)
qed

lemma sorted_value_idem: "sorted_value (sorted_value v) = sorted_value v"
  by (cases v) (simp_all add: sort_key_id_if_sorted)

lemma ds_body_canonical: "ds_body (ds_canonical H a) = ds_body a"
proof -
  have fold_id: "fold sort_field ks d = d" if "\<forall>k \<in> set ks. sort_field k d = d" for ks d
    using that by (induction ks) simp_all
  have drop: "jwithout [k] (dict_set k v d) = d" if "map_of d k = None" for k v and d :: obj
    using that by (induction k v d rule: dict_set.induct) (auto simp: jwithout_def split: if_splits)
  have "sort_field k (ds_body a) = ds_body a" if "k \<in> set ds_arrays" for k
    by (rule sort_field_sorted) (auto simp: ds_body_map_of that sorted_value_idem option.map_comp comp_def)
  then have "fold sort_field ds_arrays (ds_body a) = ds_body a" by (intro fold_id) blast
  then show ?thesis
    unfolding ds_canonical_def ds_body_def [of "dict_set _ _ _"] by (simp add: drop ds_body_map_of)
qed

text \<open>C25. Re-emission is a round trip: the canonical form of a canonical form is itself, its recorded hash
  passes the check, and it holds the same records and fields as the artifact it was made from; for an
  accepted artifact the recorded hash is the one it declared.\<close>

theorem canonicalize_idempotent:
  "ds_canonical H (ds_canonical H a) = ds_canonical H a
   \<and> ds_hash_check H (ds_canonical H a) = []
   \<and> same_domain (ds_canonical H a) a
   \<and> (ds_validate H ver intake (JObj a) = [] \<longrightarrow>
        jget ''domainSemanticsHash'' (ds_canonical H a) = jget ''domainSemanticsHash'' a)"
proof -
  have again: "dict_set k v (dict_set k v d) = dict_set k v d" for k v and d :: obj
    by (induction k v d rule: dict_set.induct) auto
  have hash: "jget ''domainSemanticsHash'' (ds_canonical H a) = JStr (ds_hash H (ds_body a))"
    by (simp add: ds_canonical_def jget_in)
  have one: "ds_canonical H (ds_canonical H a) = ds_canonical H a"
    unfolding ds_canonical_def [of H "ds_canonical H a"] ds_body_canonical by (simp add: ds_canonical_def)
  have "field_value k (sorted_value v) = field_value k v" if "k \<in> set ds_arrays" for k v
    using that by (cases v) (auto simp: field_value_def)
  then have "same_domain (ds_canonical H a) a"
    by (auto simp: same_domain_def ds_canonical_def ds_body_map_of option.map_comp comp_def)
  moreover have "ds_hash_check H (ds_canonical H a) = []"
    by (simp add: ds_hash_check_def Let_def hash ds_body_canonical)
  ultimately show ?thesis using one hash ds_accepted(3) by metis
qed

text \<open>A small artifact whose two L1 features come in either order.\<close>

definition zeros :: "string \<Rightarrow> string" where
  "zeros s = replicate 64 (CHR ''0'')"

definition feature :: "string \<Rightarrow> json" where
  "feature n = JObj [(''name'', JStr n), (''kind'', JStr ''primitive'')]"

definition small_domain :: "json list \<Rightarrow> obj" where
  "small_domain features =
     [(''kind'', JStr ds_kind), (''schemaVersion'', JInt 2), (''domain'', JStr ''d''), (''version'', JStr ''1.0.0''),
      (''implements'', JStr ''c''), (''l1Features'', JList features),
      (''concepts'', JList [JObj [(''name'', JStr ''x''), (''kind'', JStr ''state''), (''classification'', JStr ''executable'')]]),
      (''reductions'', JList [JObj [(''id'', JStr ''e''), (''from'', JStr ''x''), (''to'', JStr ''f''),
         (''relation'', JStr ''expands''), (''lossiness'', JStr ''lossless'')]]),
      (''failureModes'', JList []), (''invariants'', JList []),
      (''provenance'', JList [JObj [(''subject'', JStr ''e''), (''source'', JStr ''s''), (''status'', JStr ''accepted'')]]),
      (''domainSemanticsHash'', JStr (zeros []))]"

lemma small_domain_accepted:
  "ds_validate zeros 2 False (JObj (small_domain [feature ''f'', feature ''g''])) = []"
  "ds_validate zeros 2 False (JObj (small_domain [feature ''g'', feature ''f''])) = []"
  by code_simp+

lemma accepted_semantics_sound_witness:
  "\<exists>a. JObj (small_domain [feature ''f'', feature ''g'']) = JObj a \<and> graph_sound a
     \<and> jget ''domainSemanticsHash'' a = JStr (ds_hash zeros (ds_body a))"
  by (rule accepted_semantics_sound [OF small_domain_accepted(1)])

lemma semantics_hash_identifies_records_witness:
  "same_domain (small_domain [feature ''f'', feature ''g'']) (small_domain [feature ''g'', feature ''f''])"
proof -
  have wf: "wf_json (JObj (small_domain [feature ''f'', feature ''g'']))"
    "wf_json (JObj (small_domain [feature ''g'', feature ''f'']))" by code_simp+
  have "compact (JObj (ds_body (small_domain [feature ''f'', feature ''g'']))) =
    compact (JObj (ds_body (small_domain [feature ''g'', feature ''f''])))" by code_simp
  then have "inj_on zeros {compact (JObj (ds_body (small_domain [feature ''f'', feature ''g'']))),
    compact (JObj (ds_body (small_domain [feature ''g'', feature ''f''])))}" by simp
  from semantics_hash_identifies_records [OF small_domain_accepted wf this]
  show ?thesis by (simp add: small_domain_def jget_def jget_or_def)
qed

lemma canonicalize_idempotent_witness:
  "jget ''domainSemanticsHash'' (ds_canonical zeros (small_domain [feature ''g'', feature ''f''])) = JStr (zeros [])"
proof -
  have "jget ''domainSemanticsHash'' (small_domain [feature ''g'', feature ''f'']) = JStr (zeros [])"
    by (simp add: small_domain_def jget_def jget_or_def)
  with canonicalize_idempotent [of zeros "small_domain [feature ''g'', feature ''f'']" 2 False] small_domain_accepted(2)
  show ?thesis by simp
qed

end
