(* ===== verification/ExpandProps.thy ===== *)
theory ExpandProps
  imports ExpandDialect
begin

text \<open>
  What an expansion guarantees: every rendered name passed the gate, each recorded span delimits the
  lines of its construct, also in the written text as long as no rendered field has a newline, the
  balance assertion is there exactly with both kinds of legs, and the manifest uses only edges of the
  dialect. The last section shows where a newline does get through.
\<close>

section \<open>The gate\<close>

lemma expect_pass: "expect b msg = Inr u \<longleftrightarrow> b"
  by (simp add: expect_def)

definition gated_ident :: "json \<Rightarrow> bool" where
  "gated_ident v \<longleftrightarrow> is_str v \<and> re_dollar ident_text (str_of v)"

lemma check_ident_pass: "check_ident v what = Inr u \<longleftrightarrow> gated_ident v"
  by (simp add: check_ident_def expect_pass gated_ident_def)

definition gated_ledger :: "json \<Rightarrow> bool" where
  "gated_ledger v \<longleftrightarrow> is_str v \<and> re_dollar ledger_text (str_of v)"

lemma check_ledger_pass: "check_ledger v what = Inr u \<longleftrightarrow> gated_ledger v"
  by (simp add: check_ledger_def expect_pass gated_ledger_def)

lemma fold_py_unit: "fold_py f xs () = Inr () \<longleftrightarrow> (\<forall>x \<in> set xs. f x () = Inr ())"
  by (induction xs) (auto simp: pbind_Inr_conv)

lemmas gate_iffs = pbind_Inr_conv expect_pass check_ident_pass check_ledger_pass

lemma gate_participant_pass:
  "gate_participant (n, v) () = Inr () \<Longrightarrow> gated_ident (JStr n) \<and> (\<exists>d. v = JObj d \<and> gated_ident (jget ''role'' d))"
  by (cases v)
    (auto simp: gate_participant_def gate_iffs gated_ident_def re_dollar_def ident_text_def jget_def jget_or_def
      split: if_splits option.splits)

lemma gate_input_pass:
  "gate_input (n, v) () = Inr () \<Longrightarrow> gated_ident (JStr n) \<and> (\<exists>t \<in> set input_types. v = JStr t)"
  by (auto simp: gate_input_def gate_iffs checks)

lemma gate_obligation_pass:
  assumes "gate_obligation participants ob () = Inr ()"
  shows "\<exists>d k p part. ob = JObj d \<and> jget ''kind'' d = JStr k \<and> k \<in> {''debit'', ''credit''} \<and>
    gated_ident (jget ''name'' d) \<and> gated_ledger (jget ''ledger'' d) \<and>
    jget ''participant'' d = JStr p \<and> map_of participants p = Some (JObj part) \<and> gated_ident (jget ''role'' part)"
proof -
  have nonempty: "gated_ident (jget_or k (JStr []) d) \<Longrightarrow> gated_ident (jget k d)"
    "gated_ledger (jget_or k (JStr []) d) \<Longrightarrow> gated_ledger (jget k d)" for k d
    by (auto simp: gated_ident_def gated_ledger_def re_dollar_def ident_text_def ledger_text_def jget_def jget_or_def
        split: option.splits)
  obtain d where d: "ob = JObj d" "jget ''kind'' d \<in> {JStr ''debit'', JStr ''credit''}"
    "gated_ident (jget_or ''name'' (JStr []) d)" "gated_ledger (jget_or ''ledger'' (JStr []) d)"
    and part: "\<exists>part. get_any participants (jget ''participant'' d) = Inr (JObj part) \<and>
      gated_ident (jget_or ''role'' (JStr []) part)"
    using assms by (auto simp: gate_obligation_def gate_iffs py_items_obj is_obj_iff)
  from part obtain part p where "jget ''participant'' d = JStr p" "jget p participants = JObj part"
    "gated_ident (jget_or ''role'' (JStr []) part)"
    by (cases "jget ''participant'' d") (auto simp: get_any_def hashable_def split: if_splits)
  moreover then have "map_of participants p = Some (JObj part)"
    by (auto simp: jget_def jget_or_def split: option.splits)
  ultimately show ?thesis using d nonempty by auto
qed

text \<open>The parts of a successful rendering.\<close>

lemma render_parts:
  assumes "render_neu dialect template_id procedure trigger = Inr e"
  obtains template participants required obs ops domain version where
    "find_template dialect template_id = Inr template"
    and "py_get_or template ''participants'' (JObj []) = Inr (JObj participants)"
    and "py_get_or template ''requiredInputs'' (JObj []) = Inr (JObj required)"
    and "pbind (py_get_or template ''obligations'' (JList [])) py_iter = Inr obs"
    and "leg_operands_of template = Inr ops"
    and "py_key dialect ''domain'' = Inr domain" and "py_key dialect ''version'' = Inr version"
    and "gated_ident (JStr procedure)" and "gated_ident (JStr trigger)"
    and "\<forall>x \<in> set participants. gate_participant x () = Inr ()"
    and "\<forall>x \<in> set required. gate_input x () = Inr ()"
    and "\<forall>x \<in> set obs. gate_obligation participants x () = Inr ()"
    and "emit_body procedure trigger required participants obs ops
      \<lparr>em_lines = header_lines (py_str domain) (py_str version) template_id, em_spans = []\<rparr> = Inr e"
  using assms
  by (auto simp: render_neu_def pbind_Inr_conv check_ident_pass py_items_obj fold_py_unit intro!: that)

section \<open>Spans\<close>

text \<open>A span delimits a block that opens with its construct, and closes with a brace if it is nested.\<close>

definition span_ok :: "string list \<Rightarrow> string \<times> nat \<times> nat \<Rightarrow> bool" where
  "span_ok ls item = (case item of (c, s, t) \<Rightarrow>
     1 \<le> s \<and> s \<le> t \<and> t \<le> length ls \<and>
     (ls ! (s - 1) = c @ '' {'' \<and> s = t \<or> ls ! (s - 1) = ''    '' @ c @ '' {'' \<and> ls ! (t - 1) = ''    }''))"

definition spans_ok :: "emitted \<Rightarrow> bool" where
  "spans_ok e \<longleftrightarrow> (\<forall>item \<in> set (em_spans e). span_ok (em_lines e) item)"

lemma set_dict_set_cases: "x \<in> set (dict_set k v d) \<Longrightarrow> x = (k, v) \<or> x \<in> set d"
  by (induction k v d rule: dict_set.induct) (auto split: if_splits)

lemma span_ok_append: "span_ok ls item \<Longrightarrow> span_ok (ls @ ms) item"
proof (cases item)
  case (fields c s t)
  assume ok: "span_ok ls item"
  then have "s - 1 < length ls" "t - 1 < length ls" by (auto simp: fields span_ok_def)
  then have "(ls @ ms) ! (s - 1) = ls ! (s - 1)" "(ls @ ms) ! (t - 1) = ls ! (t - 1)" by (simp_all add: nth_append)
  with ok show ?thesis unfolding fields span_ok_def by simp
qed

lemma spans_ok_emit: "spans_ok e \<Longrightarrow> spans_ok (emit ls e)"
  by (simp add: spans_ok_def emit_def span_ok_append)

lemma spans_ok_construct:
  assumes "spans_ok e" and "ls \<noteq> []" and "hd ls = ''    '' @ c @ '' {''" and "last ls = ''    }''"
  shows "spans_ok (emit_construct c ls e)"
proof -
  let ?n = "length (em_lines e)"
  have "(em_lines e @ ls) ! ?n = hd ls" using assms(2) by (simp add: nth_append hd_conv_nth)
  moreover have "(em_lines e @ ls) ! (?n + length ls - 1) = last ls"
    using assms(2) last_conv_nth [of "em_lines e @ ls"] by simp
  ultimately have "span_ok (em_lines e @ ls) (c, ?n + 1, ?n + length ls)"
    using assms(2-4) by (simp add: span_ok_def Suc_le_eq)
  then show ?thesis
    using assms(1) span_ok_append by (auto simp: spans_ok_def emit_construct_def dest!: set_dict_set_cases)
qed

lemma spans_ok_participant:
  "emit_participant item e = Inr e' \<Longrightarrow> spans_ok e \<Longrightarrow> spans_ok e'"
  by (auto simp: emit_participant_def pbind_Inr_conv participant_lines_def intro!: spans_ok_construct)

lemma spans_ok_obligation:
  "emit_obligation participants required ops ob e = Inr e' \<Longrightarrow> spans_ok e \<Longrightarrow> spans_ok e'"
  by (auto simp: emit_obligation_def pbind_Inr_conv leg_lines_def split: if_splits
      intro!: spans_ok_construct spans_ok_emit)

lemma spans_ok_body:
  assumes "emit_body procedure trigger required participants obs ops e0 = Inr e" and "em_spans e0 = []"
  shows "spans_ok e"
proof -
  let ?e1 = "start_procedure procedure trigger e0"
  let ?e3 = "\<lambda>e2. emit ((if participants \<noteq> [] then [[]] else []) @ map input_line required) e2"
  obtain e2 e4 where e2: "fold_py emit_participant participants ?e1 = Inr e2"
    and e4: "fold_py (emit_obligation participants required ops) obs (?e3 e2) = Inr e4"
    and e: "e = emit (closing_lines obs) e4"
    using assms(1) by (auto simp: emit_body_def Let_def pbind_Inr_conv)
  have "spans_ok ?e1" using assms(2) by (simp add: start_procedure_def spans_ok_def span_ok_def nth_append)
  with e2 have "spans_ok e2" by (rule fold_py_invariant) (rule spans_ok_participant)
  then have "spans_ok (?e3 e2)" by (rule spans_ok_emit)
  with e4 have "spans_ok e4" by (rule fold_py_invariant) (rule spans_ok_obligation)
  then show ?thesis unfolding e by (rule spans_ok_emit)
qed

section \<open>Texts without newlines\<close>

definition clean :: "string \<Rightarrow> bool" where
  "clean s \<longleftrightarrow> CHR 0x0A \<notin> set s"

fun json_clean :: "json \<Rightarrow> bool" where
  "json_clean (JStr s) = clean s"
| "json_clean (JList vs) = list_all json_clean vs"
| "json_clean (JObj d) = list_all (\<lambda>(k, v). clean k \<and> json_clean v) d"
| "json_clean _ = True"

lemma clean_simps [simp]:
  "clean []" "clean (c # s) \<longleftrightarrow> c \<noteq> CHR 0x0A \<and> clean s" "clean (s @ t) \<longleftrightarrow> clean s \<and> clean t"
  by (auto simp: clean_def)

lemma clean_dq [simp]: "clean (dq s) \<longleftrightarrow> clean s"
  by (simp add: dq_def)

lemma json_clean_mem: "(k, v) \<in> set d \<Longrightarrow> json_clean (JObj d) \<Longrightarrow> clean k \<and> json_clean v"
  by (auto simp: list_all_iff)

lemma json_clean_item: "json_clean (JObj d) \<Longrightarrow> map_of d k = Some v \<Longrightarrow> clean k \<and> json_clean v"
  by (auto simp: list_all_iff dest!: map_of_SomeD)

lemma json_clean_jget: "json_clean (JObj d) \<Longrightarrow> json_clean (jget k d)"
  using json_clean_item by (fastforce simp: jget_def jget_or_def simp del: json_clean.simps(3) split: option.splits)

lemma json_clean_get_or: "json_clean v \<Longrightarrow> json_clean w \<Longrightarrow> py_get_or v k w = Inr u \<Longrightarrow> json_clean u"
  using json_clean_item by (cases v)
    (fastforce simp: jget_or_def simp del: json_clean.simps(3) split: option.splits)+

lemma gated_clean: "gated_ident v \<Longrightarrow> json_clean v \<Longrightarrow> clean (py_str v)"
  by (auto simp: gated_ident_def is_str_iff py_str_def)

definition clean_lines :: "emitted \<Rightarrow> bool" where
  "clean_lines e \<longleftrightarrow> (\<forall>l \<in> set (em_lines e). clean l)"

lemma clean_emit: "clean_lines e \<Longrightarrow> \<forall>l \<in> set ls. clean l \<Longrightarrow> clean_lines (emit ls e)"
  by (auto simp: clean_lines_def emit_def)

lemma clean_construct: "clean_lines e \<Longrightarrow> \<forall>l \<in> set ls. clean l \<Longrightarrow> clean_lines (emit_construct c ls e)"
  by (auto simp: clean_lines_def emit_construct_def)

lemma clean_participant:
  assumes "emit_participant (n, JObj d) e = Inr e'" and "clean_lines e" and "clean n" and "clean (py_str (jget ''role'' d))"
  shows "clean_lines e'"
  using assms by (auto simp: emit_participant_def pbind_Inr_conv jindex_def participant_lines_def jget_in
      intro!: clean_construct split: option.splits)

lemma party_input_pass: "party_input required role = Inr p \<Longrightarrow> p = py_str role @ ''_id''"
  by (auto simp: party_input_def Let_def split: if_splits)

lemma clean_obligation:
  assumes "emit_obligation participants required ops (JObj d) e = Inr e'" and "clean_lines e"
    and "jget ''participant'' d = JStr p" and "map_of participants p = Some (JObj part)"
    and "\<forall>s \<in> {py_str (jget ''kind'' d), py_str (jget ''name'' d), py_str (jget ''ledger'' d), p,
      py_str (jget ''role'' part), op_amount ops, op_currency ops, op_key ops}. clean s"
  shows "clean_lines e'"
proof -
  have part: "get_any participants (JStr p) = Inr (JObj part)"
    using assms(4) by (simp add: get_any_def hashable_def jget_in)
  have pid: "jindex ''participant'' d = Inr (JStr p)"
    using assms(3) jget_not_null [of "''participant''" d] by (auto simp: jindex_def jhas_map_of jget_in)
  have idx: "jindex k x = Inr v \<Longrightarrow> v = jget k x" for k x v
    by (auto simp: jindex_def jget_in split: option.splits)
  obtain role party kind name ledger where j: "jindex ''role'' part = Inr role" "party_input required role = Inr party"
    "jindex ''kind'' d = Inr kind" "jindex ''name'' d = Inr name" "jindex ''ledger'' d = Inr ledger"
    and e': "e' = emit_construct (py_str kind @ '' '' @ py_str name)
      (leg_lines (py_str kind) (py_str name) (py_str ledger) (py_str role) p party ops) (emit [[]] e)"
    using assms(1) by (auto simp: emit_obligation_def pid part pbind_Inr_conv py_str_def)
  have "\<forall>l \<in> set (leg_lines (py_str kind) (py_str name) (py_str ledger) (py_str role) p party ops). clean l"
    using assms(5) j idx party_input_pass [OF j(2)] by (auto simp: leg_lines_def)
  then show ?thesis unfolding e' using assms(2) by (intro clean_construct clean_emit) simp_all
qed

lemma operands_clean:
  assumes "leg_operands_of template = Inr ops" and "py_get_or template ''requiredInputs'' (JObj []) = Inr (JObj required)"
    and "\<forall>(n, t) \<in> set required. clean n"
  shows "clean (op_amount ops) \<and> clean (op_currency ops) \<and> clean (op_key ops)"
proof -
  have "clean n" if "unique_typed (JObj required) ty what = Inr n" for ty what n
  proof -
    have "inputs_typed required ty = [n]" using that by (auto simp: unique_typed_def split: list.splits)
    then have "n \<in> set (inputs_typed required ty)" by simp
    then show ?thesis using assms(3) by (auto simp: inputs_typed_def)
  qed
  then show ?thesis using assms(1,2) by (auto simp: leg_operands_of_def pbind_Inr_conv)
qed

lemma input_types_clean: "t \<in> set input_types \<Longrightarrow> clean t"
  by (auto simp: input_types_def)

lemma clean_body:
  assumes run: "emit_body procedure trigger required participants obs ops e0 = Inr e" and "clean_lines e0"
    and "clean procedure" and "clean trigger"
    and parts: "\<forall>(n, v) \<in> set participants. clean n \<and> (\<exists>d. v = JObj d \<and> clean (py_str (jget ''role'' d)))"
    and inputs: "\<forall>(n, v) \<in> set required. clean n \<and> clean (py_str v)"
    and ops: "clean (op_amount ops) \<and> clean (op_currency ops) \<and> clean (op_key ops)"
    and legs: "\<forall>ob \<in> set obs. \<exists>d p part. ob = JObj d \<and> jget ''participant'' d = JStr p \<and>
      map_of participants p = Some (JObj part) \<and>
      (\<forall>k \<in> {''kind'', ''name'', ''ledger''}. clean (py_str (jget k d)))"
  shows "clean_lines e"
proof -
  let ?e1 = "start_procedure procedure trigger e0"
  let ?e3 = "\<lambda>e2. emit ((if participants \<noteq> [] then [[]] else []) @ map input_line required) e2"
  obtain e2 e4 where e2: "fold_py emit_participant participants ?e1 = Inr e2"
    and e4: "fold_py (emit_obligation participants required ops) obs (?e3 e2) = Inr e4"
    and e: "e = emit (closing_lines obs) e4"
    using run by (auto simp: emit_body_def Let_def pbind_Inr_conv)
  have "clean_lines ?e1" using assms(2-4) by (auto simp: start_procedure_def clean_lines_def)
  with e2 have "clean_lines e2"
  proof (rule fold_py_invariant)
    fix x a b
    assume "x \<in> set participants" "clean_lines a" "emit_participant x a = Inr b"
    with parts show "clean_lines b" by (cases x) (fastforce intro: clean_participant)
  qed
  then have "clean_lines (?e3 e2)"
    using inputs by (intro clean_emit) (auto simp: input_line_def split: if_splits)
  with e4 have "clean_lines e4"
  proof (rule fold_py_invariant)
    fix x a b
    assume x: "x \<in> set obs" "clean_lines a" "emit_obligation participants required ops x a = Inr b"
    then obtain d p part where d: "x = JObj d" "jget ''participant'' d = JStr p" "map_of participants p = Some (JObj part)"
      "\<forall>k \<in> {''kind'', ''name'', ''ledger''}. clean (py_str (jget k d))" using legs by blast
    moreover have "clean p" "clean (py_str (jget ''role'' part))"
      using parts map_of_SomeD [OF d(3)] by fastforce+
    ultimately show "clean_lines b" using x ops by (intro clean_obligation [of participants required ops d a b p part]) auto
  qed
  then show ?thesis unfolding e by (rule clean_emit) (auto simp: closing_lines_def)
qed

lemma py_iter_objs: "py_iter v = Inr vs \<Longrightarrow> JObj d \<in> set vs \<Longrightarrow> json_clean v \<Longrightarrow> json_clean (JObj d)"
  by (cases v) (auto simp: list_all_iff simp del: json_clean.simps(3))

text \<open>A rendering of a dialect without newlines has clean lines.\<close>

lemma render_clean:
  assumes run: "render_neu (JObj dia) template_id procedure trigger = Inr e" and dia: "json_clean (JObj dia)"
    and "clean template_id" and "clean procedure" and "clean trigger"
    and "is_str (jget ''domain'' dia)" and "is_str (jget ''version'' dia)"
  shows "clean_lines e"
proof -
  from render_parts [OF run] obtain template participants required obs ops domain version where
    t: "find_template (JObj dia) template_id = Inr template"
    and p: "py_get_or template ''participants'' (JObj []) = Inr (JObj participants)"
    and r: "py_get_or template ''requiredInputs'' (JObj []) = Inr (JObj required)"
    and o: "pbind (py_get_or template ''obligations'' (JList [])) py_iter = Inr obs"
    and ops: "leg_operands_of template = Inr ops"
    and dom: "py_key (JObj dia) ''domain'' = Inr domain" and ver: "py_key (JObj dia) ''version'' = Inr version"
    and gp: "\<forall>x \<in> set participants. gate_participant x () = Inr ()"
    and gi: "\<forall>x \<in> set required. gate_input x () = Inr ()"
    and go: "\<forall>x \<in> set obs. gate_obligation participants x () = Inr ()"
    and body: "emit_body procedure trigger required participants obs ops
      \<lparr>em_lines = header_lines (py_str domain) (py_str version) template_id, em_spans = []\<rparr> = Inr e"
    by metis
  obtain ts where ts: "py_get_or (JObj dia) ''templates'' (JObj []) = Inr ts" "py_get_or ts template_id JNull = Inr template"
    using t by (auto simp: find_template_def pbind_Inr_conv py_get_def split: if_splits)
  have "json_clean ts" by (rule json_clean_get_or [OF dia _ ts(1)]) simp
  then have "json_clean template" by (rule json_clean_get_or [OF _ _ ts(2)]) simp
  note tpl = this
  have cp: "json_clean (JObj participants)" by (rule json_clean_get_or [OF tpl _ p]) simp
  have cr: "json_clean (JObj required)" by (rule json_clean_get_or [OF tpl _ r]) simp
  obtain obl where obl: "py_get_or template ''obligations'' (JList []) = Inr obl" "py_iter obl = Inr obs"
    using o by (auto simp: pbind_Inr_conv)
  have "json_clean obl" by (rule json_clean_get_or [OF tpl _ obl(1)]) simp
  then have co: "\<And>d. JObj d \<in> set obs \<Longrightarrow> json_clean (JObj d)" using py_iter_objs [OF obl(2)] by blast
  have str: "is_str v \<Longrightarrow> json_clean v \<Longrightarrow> clean (py_str v)" for v by (auto simp: is_str_iff py_str_def)
  have "domain = jget ''domain'' dia" "version = jget ''version'' dia"
    using dom ver by (auto simp: jindex_def jget_in split: option.splits)
  then have "clean (py_str domain)" "clean (py_str version)"
    using str assms(6,7) json_clean_jget [OF dia] by simp_all
  then have e0: "clean_lines \<lparr>em_lines = header_lines (py_str domain) (py_str version) template_id, em_spans = []\<rparr>"
    using assms(3) by (simp add: clean_lines_def header_lines_def em_dash_def)
  have parts: "\<forall>(n, v) \<in> set participants. clean n \<and> (\<exists>d. v = JObj d \<and> clean (py_str (jget ''role'' d)))"
  proof clarify
    fix n v assume item: "(n, v) \<in> set participants"
    then obtain d where d: "v = JObj d" "gated_ident (jget ''role'' d)" using gp gate_participant_pass by blast
    have "clean n" "json_clean (JObj d)" using json_clean_mem [OF item cp] d(1) by blast+
    with d show "clean n \<and> (\<exists>d. v = JObj d \<and> clean (py_str (jget ''role'' d)))"
      using gated_clean json_clean_jget by blast
  qed
  have inputs: "\<forall>(n, v) \<in> set required. clean n \<and> clean (py_str v)"
    using gi gate_input_pass cr input_types_clean by (fastforce simp: list_all_iff py_str_def)
  have legs: "\<forall>ob \<in> set obs. \<exists>d p part. ob = JObj d \<and> jget ''participant'' d = JStr p \<and>
      map_of participants p = Some (JObj part) \<and>
      (\<forall>k \<in> {''kind'', ''name'', ''ledger''}. clean (py_str (jget k d)))"
  proof
    fix ob assume ob: "ob \<in> set obs"
    with go gate_obligation_pass obtain d k p part where d: "ob = JObj d" "jget ''kind'' d = JStr k"
      "gated_ident (jget ''name'' d)" "gated_ledger (jget ''ledger'' d)" "jget ''participant'' d = JStr p"
      "map_of participants p = Some (JObj part)" by blast
    have "json_clean (JObj d)" using co ob d(1) by blast
    then have "json_clean (jget k d)" for k by (rule json_clean_jget)
    moreover have "is_str (jget ''kind'' d)" "is_str (jget ''name'' d)" "is_str (jget ''ledger'' d)"
      using d(2-4) by (simp_all add: gated_ident_def gated_ledger_def)
    ultimately have "\<forall>k \<in> {''kind'', ''name'', ''ledger''}. clean (py_str (jget k d))"
      using str by blast
    with d show "\<exists>d p part. ob = JObj d \<and> jget ''participant'' d = JStr p \<and>
      map_of participants p = Some (JObj part) \<and>
      (\<forall>k \<in> {''kind'', ''name'', ''ledger''}. clean (py_str (jget k d)))" by blast
  qed
  have "clean (op_amount ops) \<and> clean (op_currency ops) \<and> clean (op_key ops)"
    using inputs by (intro operands_clean [OF ops r]) auto
  from clean_body [OF body e0 assms(4,5) parts inputs this legs] show ?thesis .
qed

section \<open>What an expansion is\<close>

lemma render_nonempty: "render_neu dialect template_id procedure trigger = Inr e \<Longrightarrow> em_lines e \<noteq> []"
  by (erule render_parts) (auto simp: emit_body_def Let_def pbind_Inr_conv emit_def closing_lines_def)

lemma split_text: "em_lines e \<noteq> [] \<Longrightarrow> clean_lines e \<Longrightarrow> split_at (CHR 0x0A) (neu_text e) = em_lines e"
  by (simp add: neu_text_def newline_def split_join clean_lines_def clean_def)

text \<open>C13. The source spans of the manifest point at their constructs. When a dialect whose texts have no
  newline is rendered, the written text splits at its newlines into exactly the emitted lines, so no
  field adds a line, and every recorded span lies in the text, starts at the line that opens its
  construct and ends at that line for the procedure, and at a closing brace for every other one.\<close>

theorem spans_delimit_constructs:
  assumes "render_neu (JObj dia) template_id procedure trigger = Inr e" and "json_clean (JObj dia)"
    and "clean template_id" and "clean procedure" and "clean trigger"
    and "is_str (jget ''domain'' dia)" and "is_str (jget ''version'' dia)"
  shows "split_at (CHR 0x0A) (neu_text e) = em_lines e \<and>
    (\<forall>item \<in> set (em_spans e). span_ok (split_at (CHR 0x0A) (neu_text e)) item)"
proof -
  have "split_at (CHR 0x0A) (neu_text e) = em_lines e"
    using split_text [OF render_nonempty [OF assms(1)] render_clean [OF assms]] .
  moreover have "spans_ok e"
    using assms(1) by (rule render_parts) (auto intro: spans_ok_body)
  ultimately show ?thesis by (simp add: spans_ok_def)
qed

text \<open>The names a rendering interpolates.\<close>

definition rendered_names_gated :: "json \<Rightarrow> string \<Rightarrow> string \<Rightarrow> (string \<Rightarrow> bool) \<Rightarrow> (string \<Rightarrow> bool) \<Rightarrow> bool" where
  "rendered_names_gated template procedure trigger ident ledger \<longleftrightarrow>
     ident procedure \<and> ident trigger \<and>
     (\<exists>participants required obs.
        py_get_or template ''participants'' (JObj []) = Inr (JObj participants) \<and>
        py_get_or template ''requiredInputs'' (JObj []) = Inr (JObj required) \<and>
        pbind (py_get_or template ''obligations'' (JList [])) py_iter = Inr obs \<and>
        (\<forall>(n, v) \<in> set participants. ident n \<and> ident (str_of (jget ''role'' (as_obj v)))) \<and>
        (\<forall>(n, v) \<in> set required. ident n \<and> str_of v \<in> set input_types) \<and>
        (\<forall>ob \<in> set obs. ident (str_of (jget ''name'' (as_obj ob))) \<and> ledger (str_of (jget ''ledger'' (as_obj ob))) \<and>
           str_of (jget ''kind'' (as_obj ob)) \<in> {''debit'', ''credit''} \<and>
           str_of (jget ''participant'' (as_obj ob)) \<in> fst ` set participants))"

text \<open>C14. What the gate is for has passed it: in every successful rendering the procedure,
  the trigger, every participant, role, input and obligation name is an identifier up to one final
  newline, every ledger a dotted path likewise, every input type and obligation kind is known and
  every obligation names a declared participant.\<close>

theorem rendering_is_gated:
  assumes "render_neu dialect template_id procedure trigger = Inr e"
  shows "\<exists>template. find_template dialect template_id = Inr template \<and>
    rendered_names_gated template procedure trigger (re_dollar ident_text) (re_dollar ledger_text)"
proof -
  from render_parts [OF assms] obtain template participants required obs where
    t: "find_template dialect template_id = Inr template"
    and p: "py_get_or template ''participants'' (JObj []) = Inr (JObj participants)"
    and r: "py_get_or template ''requiredInputs'' (JObj []) = Inr (JObj required)"
    and o: "pbind (py_get_or template ''obligations'' (JList [])) py_iter = Inr obs"
    and args: "gated_ident (JStr procedure)" "gated_ident (JStr trigger)"
    and gp: "\<forall>x \<in> set participants. gate_participant x () = Inr ()"
    and gi: "\<forall>x \<in> set required. gate_input x () = Inr ()"
    and go: "\<forall>x \<in> set obs. gate_obligation participants x () = Inr ()"
    by metis
  have "\<forall>(n, v) \<in> set participants. re_dollar ident_text n \<and> re_dollar ident_text (str_of (jget ''role'' (as_obj v)))"
    using gp gate_participant_pass by (fastforce simp: gated_ident_def)
  moreover have "\<forall>(n, v) \<in> set required. re_dollar ident_text n \<and> str_of v \<in> set input_types"
    using gi gate_input_pass by (fastforce simp: gated_ident_def)
  moreover have "re_dollar ident_text (str_of (jget ''name'' (as_obj ob))) \<and>
      re_dollar ledger_text (str_of (jget ''ledger'' (as_obj ob))) \<and>
      str_of (jget ''kind'' (as_obj ob)) \<in> {''debit'', ''credit''} \<and>
      str_of (jget ''participant'' (as_obj ob)) \<in> fst ` set participants" if "ob \<in> set obs" for ob
    using gate_obligation_pass [of participants ob] go that
    by (auto simp: gated_ident_def gated_ledger_def image_iff dest!: map_of_SomeD intro: rev_bexI)
  ultimately show ?thesis
    using t p r o args unfolding rendered_names_gated_def gated_ident_def by auto
qed

section \<open>The balance assertion\<close>

definition assert_line :: string where
  "assert_line = ''    assert balanced''"

definition quiet :: "emitted \<Rightarrow> bool" where
  "quiet e \<longleftrightarrow> assert_line \<notin> set (em_lines e)"

lemma quiet_emit: "quiet e \<Longrightarrow> assert_line \<notin> set ls \<Longrightarrow> quiet (emit ls e)"
  by (simp add: quiet_def emit_def)

lemma quiet_construct: "quiet e \<Longrightarrow> assert_line \<notin> set ls \<Longrightarrow> quiet (emit_construct c ls e)"
  by (simp add: quiet_def emit_construct_def)

lemma quiet_participant: "emit_participant item e = Inr e' \<Longrightarrow> quiet e \<Longrightarrow> quiet e'"
  by (auto simp: emit_participant_def pbind_Inr_conv participant_lines_def assert_line_def intro!: quiet_construct)

lemma quiet_obligation:
  assumes "emit_obligation participants required ops ob e = Inr e'" and "quiet e"
    and "gate_obligation participants ob () = Inr ()"
  shows "quiet e'"
proof -
  obtain d k where d: "ob = JObj d" "jget ''kind'' d = JStr k" "k \<in> {''debit'', ''credit''}"
    using gate_obligation_pass [OF assms(3)] by blast
  then have "jindex ''kind'' d = Inr (JStr k)"
    using jget_not_null [of "''kind''" d] by (auto simp: jindex_def jhas_map_of jget_in)
  with d assms(1,2) show ?thesis
    by (auto simp: emit_obligation_def pbind_Inr_conv leg_lines_def assert_line_def py_str_def
        intro!: quiet_construct quiet_emit split: if_splits)
qed

text \<open>C18. The generated procedure asserts balance exactly when it moves value both ways: the line
  \<open>assert balanced\<close> is among the emitted lines iff the template has an obligation of kind debit and
  one of kind credit. No name in the dialect can add or suppress that line.\<close>

theorem balance_asserted_iff_both_kinds:
  assumes "render_neu dialect template_id procedure trigger = Inr e"
  shows "\<exists>template obs. find_template dialect template_id = Inr template \<and>
    pbind (py_get_or template ''obligations'' (JList [])) py_iter = Inr obs \<and>
    (assert_line \<in> set (em_lines e) \<longleftrightarrow> has_kind ''debit'' obs \<and> has_kind ''credit'' obs)"
proof -
  from render_parts [OF assms] obtain template participants required obs ops domain version where
    t: "find_template dialect template_id = Inr template"
    and o: "pbind (py_get_or template ''obligations'' (JList [])) py_iter = Inr obs"
    and go: "\<forall>x \<in> set obs. gate_obligation participants x () = Inr ()"
    and body: "emit_body procedure trigger required participants obs ops
      \<lparr>em_lines = header_lines (py_str domain) (py_str version) template_id, em_spans = []\<rparr> = Inr e"
    by metis
  let ?e1 = "start_procedure procedure trigger
    \<lparr>em_lines = header_lines (py_str domain) (py_str version) template_id, em_spans = []\<rparr>"
  let ?e3 = "\<lambda>e2. emit ((if participants \<noteq> [] then [[]] else []) @ map input_line required) e2"
  obtain e2 e4 where e2: "fold_py emit_participant participants ?e1 = Inr e2"
    and e4: "fold_py (emit_obligation participants required ops) obs (?e3 e2) = Inr e4"
    and e: "e = emit (closing_lines obs) e4"
    using body by (auto simp: emit_body_def Let_def pbind_Inr_conv)
  have "quiet ?e1" by (simp add: quiet_def start_procedure_def header_lines_def assert_line_def)
  with e2 have "quiet e2" by (rule fold_py_invariant) (rule quiet_participant)
  then have "quiet (?e3 e2)" by (rule quiet_emit) (auto simp: assert_line_def input_line_def)
  with e4 have "quiet e4" by (rule fold_py_invariant) (use go quiet_obligation in blast)
  then have "assert_line \<in> set (em_lines e) \<longleftrightarrow> has_kind ''debit'' obs \<and> has_kind ''credit'' obs"
    by (simp add: e emit_def quiet_def closing_lines_def) (simp add: assert_line_def)
  with t o show ?thesis by blast
qed

section \<open>The manifest\<close>

text \<open>C17. An expansion is pinned and traced: it only happens for a dialect whose embedded hash is the
  digest of its canonical body; the manifest repeats that hash, carries the digest of the written
  text, and every edge it uses is an edge of the dialect's mapping graph.\<close>

theorem expansion_is_pinned_and_traced:
  assumes "expand_main H (JObj dia) template_id procedure trigger basename = Inr (0, msg, Some (text, manifest))"
  shows "jget ''domainDialectHash'' dia = JStr (H (compact (dialect_body dia))) \<and>
    jget ''domainDialectHash'' (as_obj (jget ''dialect'' (as_obj manifest))) = jget ''domainDialectHash'' dia \<and>
    jget ''sourceHash'' (as_obj (jget ''generated'' (as_obj manifest))) = JStr (H text) \<and>
    (\<exists>ids. edge_ids (JObj dia) = Inr ids \<and>
      (\<forall>eid \<in> set (as_list (jget ''edgesUsed'' (as_obj manifest))). in_list eid ids))"
proof -
  have run: "expand_dialect H (JObj dia) template_id procedure trigger basename = Inr (text, manifest)"
    using assms by (auto simp: expand_main_def split: sum.splits exn.splits)
  then have hash: "jget ''domainDialectHash'' dia = JStr (H (compact (dialect_body dia)))"
    by (auto simp: expand_dialect_def Let_def split: if_splits)
  let ?p = "if procedure = [] then template_id else procedure"
  obtain e where written: "text = neu_text e"
    and m: "build_manifest H (JObj dia) template_id ?p (neu_text e) basename (em_spans e) = Inr manifest"
    using run hash by (auto simp: expand_dialect_def Let_def pbind_Inr_conv split: if_splits)
  obtain ids used edges_used where ids: "edge_ids (JObj dia) = Inr ids"
    and missing: "jsorted (filter (\<lambda>eid. \<not> in_list eid ids) used) = Inr []" and sorted: "jsorted used = Inr edges_used"
    and fields: "jget ''domainDialectHash'' (as_obj (jget ''dialect'' (as_obj manifest))) = jget ''domainDialectHash'' dia"
      "jget ''sourceHash'' (as_obj (jget ''generated'' (as_obj manifest))) = JStr (H (neu_text e))"
      "jget ''edgesUsed'' (as_obj manifest) = JList edges_used"
    using m by (auto simp: build_manifest_def pbind_Inr_conv jget_def jget_or_def split: if_splits)
  have "filter (\<lambda>eid. \<not> in_list eid ids) used = []" using mset_jsorted [OF missing] by simp
  then have "\<forall>eid \<in> set edges_used. in_list eid ids"
    using mset_eq_setD [OF mset_jsorted [OF sorted]] by (auto simp: filter_empty_conv)
  with hash written ids sorted fields show ?thesis by auto
qed

section \<open>A sample dialect\<close>

definition seal :: "string \<Rightarrow> string" where
  "seal s = ''5ea1''"

definition pay_template :: json where
  "pay_template = JObj [(''expandsTo'', JStr ''procedure''),
     (''requiredInputs'', JObj [(''amt'', JStr ''money''), (''ccy'', JStr ''currency''), (''key'', JStr ''string''),
       (''payer_id'', JStr ''party''), (''payee_id'', JStr ''party'')]),
     (''participants'', JObj [(''a'', JObj [(''role'', JStr ''payer'')]), (''b'', JObj [(''role'', JStr ''payee'')])]),
     (''obligations'', JList [
        JObj [(''name'', JStr ''take''), (''kind'', JStr ''debit''), (''ledger'', JStr ''L.a''), (''participant'', JStr ''a'')],
        JObj [(''name'', JStr ''give''), (''kind'', JStr ''credit''), (''ledger'', JStr ''L.b''), (''participant'', JStr ''b'')]]),
     (''provenanceRefs'', JList [JStr ''e1''])]"

definition dialect_doc :: "string \<Rightarrow> obj" where
  "dialect_doc domain = [(''kind'', JStr ''neutrino.domain-dialect''), (''domain'', JStr domain), (''version'', JStr ''1''),
     (''templates'', JObj [(''pay'', pay_template)]),
     (''terms'', JObj [(''payer'', JObj [(''role'', JStr ''payer''), (''provenanceRefs'', JList [JStr ''e1''])]),
       (''payee'', JObj [(''role'', JStr ''payee''), (''provenanceRefs'', JList [JStr ''e2''])])]),
     (''mappingGraph'', JObj [(''edges'', JList [
        JObj [(''id'', JStr ''e1''), (''type'', JStr ''expandsTo''), (''from'', JStr ''concept:take''), (''to'', JStr ''x'')],
        JObj [(''id'', JStr ''e2''), (''type'', JStr ''lowersTo''), (''from'', JStr ''concept:give''), (''to'', JStr ''y'')]])]),
     (''domainDialectHash'', JStr ''5ea1'')]"

lemma sample_render: "\<exists>e. render_neu (JObj (dialect_doc ''fin'')) ''pay'' ''pay'' ''go'' = Inr e \<and>
    (''credit give'', 31, 39) \<in> set (em_spans e) \<and> em_lines e ! 30 = ''    credit give {''"
  unfolding returns_such_that by code_simp

lemma spans_delimit_constructs_witness:
  "\<exists>e. render_neu (JObj (dialect_doc ''fin'')) ''pay'' ''pay'' ''go'' = Inr e \<and>
     split_at (CHR 0x0A) (neu_text e) ! 30 = ''    credit give {'' \<and> split_at (CHR 0x0A) (neu_text e) ! 38 = ''    }''"
proof -
  obtain e where e: "render_neu (JObj (dialect_doc ''fin'')) ''pay'' ''pay'' ''go'' = Inr e"
    "(''credit give'', 31, 39) \<in> set (em_spans e)" using sample_render by blast
  have "json_clean (JObj (dialect_doc ''fin''))" by code_simp
  moreover have "is_str (jget ''domain'' (dialect_doc ''fin''))" "is_str (jget ''version'' (dialect_doc ''fin''))"
    by code_simp+
  ultimately have "span_ok (split_at (CHR 0x0A) (neu_text e)) (''credit give'', 31, 39)"
    using spans_delimit_constructs [OF e(1)] e(2) by auto
  with e(1) show ?thesis by (auto simp: span_ok_def)
qed

lemma rendering_is_gated_witness:
  "\<exists>template. find_template (JObj (dialect_doc ''fin'')) ''pay'' = Inr template \<and>
     rendered_names_gated template ''pay'' ''go'' (re_dollar ident_text) (re_dollar ledger_text)"
proof -
  obtain e where "render_neu (JObj (dialect_doc ''fin'')) ''pay'' ''pay'' ''go'' = Inr e" using sample_render by blast
  from rendering_is_gated [OF this] show ?thesis .
qed

lemma balance_asserted_iff_both_kinds_witness:
  "\<exists>e. render_neu (JObj (dialect_doc ''fin'')) ''pay'' ''pay'' ''go'' = Inr e \<and> assert_line \<in> set (em_lines e)"
proof -
  obtain e where e: "render_neu (JObj (dialect_doc ''fin'')) ''pay'' ''pay'' ''go'' = Inr e" using sample_render by blast
  have "find_template (JObj (dialect_doc ''fin'')) ''pay'' = Inr pay_template" by code_simp
  moreover have "\<exists>obs. pbind (py_get_or pay_template ''obligations'' (JList [])) py_iter = Inr obs \<and>
      has_kind ''debit'' obs \<and> has_kind ''credit'' obs"
    unfolding returns_such_that by code_simp
  ultimately show ?thesis using balance_asserted_iff_both_kinds [OF e] e by auto
qed

lemma sample_expansion:
  "\<exists>out. expand_main seal (JObj (dialect_doc ''fin'')) ''pay'' [] ''go'' ''pay.neu'' = Inr (0, None, Some out)"
  by (rule exI, code_simp)

lemma expansion_is_pinned_and_traced_witness:
  "\<exists>text manifest. expand_main seal (JObj (dialect_doc ''fin'')) ''pay'' [] ''go'' ''pay.neu'' =
       Inr (0, None, Some (text, manifest)) \<and>
     jget ''sourceHash'' (as_obj (jget ''generated'' (as_obj manifest))) = JStr (seal text)"
proof -
  obtain source manifest where run: "expand_main seal (JObj (dialect_doc ''fin'')) ''pay'' [] ''go'' ''pay.neu'' =
       Inr (0, None, Some (source, manifest))" using sample_expansion by auto
  from expansion_is_pinned_and_traced [OF run] run show ?thesis by blast
qed

section \<open>Where a newline gets through\<close>

text \<open>The gate does not cover every rendered field: the dialect's \<open>domain\<close> is written into the first
  comment line unchecked, so a dialect with a matching hash whose domain holds a newline is expanded
  and the line after it stands in the written source as code. Likewise a trigger with a final newline
  passes the identifier pattern and adds a line. Both expansions succeed with status 0.\<close>

theorem newline_injection:
  "(\<exists>text m. expand_main seal (JObj (dialect_doc (''x'' @ newline @ ''input evil : money'' @ newline @ ''//''))) ''pay'' []
      ''go'' ''pay.neu'' = Inr (0, None, Some (text, m)) \<and> ''input evil : money'' \<in> set (split_at (CHR 0x0A) text)) \<and>
   (\<exists>e. render_neu (JObj (dialect_doc ''fin'')) ''pay'' ''pay'' (''go'' @ newline) = Inr e \<and>
      length (split_at (CHR 0x0A) (neu_text e)) = Suc (length (em_lines e)))"
proof
  let ?run = "expand_main seal (JObj (dialect_doc (''x'' @ newline @ ''input evil : money'' @ newline @ ''//''))) ''pay'' []
      ''go'' ''pay.neu''"
  have "(case ?run of Inr (0, None, Some (text, m)) \<Rightarrow> ''input evil : money'' \<in> set (split_at (CHR 0x0A) text) | _ \<Rightarrow> False)"
    by code_simp
  then show "\<exists>text m. ?run = Inr (0, None, Some (text, m)) \<and> ''input evil : money'' \<in> set (split_at (CHR 0x0A) text)"
    by (auto split: sum.splits prod.splits nat.splits option.splits)
next
  show "\<exists>e. render_neu (JObj (dialect_doc ''fin'')) ''pay'' ''pay'' (''go'' @ newline) = Inr e \<and>
      length (split_at (CHR 0x0A) (neu_text e)) = Suc (length (em_lines e))"
    unfolding returns_such_that by code_simp
qed

end
