(* ===== verification/DomainOrigin.thy ===== *)
theory DomainOrigin
  imports ExpandProps
begin

text \<open>
  \<open>domain/domain_diagnostics.py\<close>: compiler diagnostics annotated with the dialect construct they come from.
  The report of the language tool, the expansion manifest and the bytes of the source are arguments, the
  digest is \<open>H\<close>. \<open>origin_main\<close> is the run of \<open>main\<close>: \<open>Inl\<close> of an uncaught exception, or the exit
  status with the printed document. The lines of a span are integers here: \<open>json.load\<close> may also give
  floats, whose subtraction is not modelled.
\<close>

section \<open>Spans\<close>

record origin_span =
  os_start :: int
  os_end :: int
  os_construct :: json

definition line_value :: "json \<Rightarrow> int py" where
  "line_value v = (case v of JInt i \<Rightarrow> Inr i | JBool b \<Rightarrow> Inr (if b then 1 else 0) | _ \<Rightarrow> Inl TypeError)"

text \<open>
  The generator expression: the tuples of the constructs that have a span. The lines are used as numbers
  only by the sort key, which is computed for every tuple before the sort.
\<close>

definition span_tuple :: "json \<Rightarrow> (json \<times> json \<times> json) list py" where
  "span_tuple c =
     pbind (py_in (JStr ''sourceSpan'') c) (\<lambda>there.
       if \<not> there then Inr []
       else pbind (pbind (py_key c ''sourceSpan'') (\<lambda>s. py_key s ''startLine'')) (\<lambda>s.
            pbind (pbind (py_key c ''sourceSpan'') (\<lambda>s. py_key s ''endLine'')) (\<lambda>e. Inr [(s, e, c)])))"

definition construct_span :: "json \<times> json \<times> json \<Rightarrow> origin_span py" where
  "construct_span = (\<lambda>(start, stop, c).
     pbind (line_value stop) (\<lambda>e. pbind (line_value start) (\<lambda>s.
       Inr \<lparr>os_start = s, os_end = e, os_construct = c\<rparr>)))"

text \<open>\<open>sorted(..., key=lambda t: t[1] - t[0], reverse=True)\<close>: a stable sort, the largest difference first.\<close>

definition span_width :: "origin_span \<Rightarrow> int" where
  "span_width s = os_end s - os_start s"

definition manifest_spans :: "json \<Rightarrow> origin_span list py" where
  "manifest_spans manifest =
     pbind (pbind (py_get_or manifest ''constructs'' (JList [])) py_iter) (\<lambda>cs.
     pbind (each cs span_tuple) (map_py construct_span))"

definition origin_spans :: "json \<Rightarrow> origin_span list py" where
  "origin_spans manifest = pbind (manifest_spans manifest) (\<lambda>spans. Inr (sort_key (\<lambda>s. - span_width s) spans))"

text \<open>\<open>gen.get("sourceHash") == digest\<close>.\<close>

definition source_matches :: "(string \<Rightarrow> string) \<Rightarrow> json \<Rightarrow> string \<Rightarrow> bool py" where
  "source_matches H manifest neu =
     pbind (py_get manifest ''generated'') (\<lambda>g.
     pbind (py_get (if truthy g then g else JObj []) ''sourceHash'') (\<lambda>h. Inr (h = JStr (H neu))))"

section \<open>Annotation\<close>

definition diagnostic_line :: "json \<Rightarrow> json py" where
  "diagnostic_line d =
     pbind (py_get_or d ''range'' (JObj [])) (\<lambda>r.
     pbind (py_get_or r ''start'' (JObj [])) (\<lambda>s. py_get s ''line''))"

definition covers :: "int \<Rightarrow> origin_span \<Rightarrow> bool" where
  "covers l s \<longleftrightarrow> os_start s \<le> l \<and> l \<le> os_end s"

text \<open>The first span that covers the line, if the line is an integer.\<close>

definition find_origin :: "origin_span list \<Rightarrow> json \<Rightarrow> json option" where
  "find_origin spans line =
     (case line_value line of
        Inl _ \<Rightarrow> None
      | Inr l \<Rightarrow> map_option os_construct (find (covers l) spans))"

definition domain_origin :: "json \<Rightarrow> json \<Rightarrow> json py" where
  "domain_origin dialect hit =
     pbind (py_key hit ''construct'') (\<lambda>c.
     pbind (py_get hit ''participantTerm'') (\<lambda>t.
     pbind (py_get_or hit ''edges'' (JList [])) (\<lambda>es.
       Inr (JObj [(''dialect'', dialect), (''construct'', c), (''participantTerm'', t), (''edges'', es)]))))"

definition annotate :: "json \<Rightarrow> origin_span list \<Rightarrow> json \<Rightarrow> (json \<times> bool) py" where
  "annotate dialect spans d =
     pbind (diagnostic_line d) (\<lambda>line.
       case find_origin spans line of
         None \<Rightarrow> Inr (d, False)
       | Some hit \<Rightarrow> pbind (domain_origin dialect hit) (\<lambda>o'.
           Inr (JObj (dict_set ''domainOrigin'' o' (as_obj d)), True)))"

definition annotated :: "json \<Rightarrow> json list \<Rightarrow> json" where
  "annotated v ds = (if is_list v then JList ds else v)"

definition origin_main :: "(string \<Rightarrow> string) \<Rightarrow> json \<Rightarrow> json \<Rightarrow> string \<Rightarrow> string \<Rightarrow> (nat \<times> json option) py" where
  "origin_main H core manifest neu path =
     pbind (py_get manifest ''kind'') (\<lambda>kind.
       if kind \<noteq> JStr ''neutrino.dialect-expansion-manifest'' then Inr (2, None)
       else
     pbind (py_get manifest ''dialect'') (\<lambda>dialect.
     pbind (source_matches H manifest neu) (\<lambda>matches.
     pbind (if matches then origin_spans manifest else Inr []) (\<lambda>spans.
     pbind (py_get_or core ''diagnostics'' (JList [])) (\<lambda>v.
     pbind (pbind (py_iter v) (map_py (annotate dialect spans))) (\<lambda>ds.
     pbind (py_get core ''ok'') (\<lambda>ok.
     pbind (py_get manifest ''generated'') (\<lambda>generated.
       Inr (if truthy ok then 0 else 1, Some (JObj
         [(''schemaVersion'', JInt 1), (''kind'', JStr ''neutrino.domain-diagnostics''), (''file'', JStr path),
          (''ok'', JBool (truthy ok)), (''dialect'', dialect), (''generated'', generated),
          (''sourceMatches'', JBool matches),
          (''mappedCount'', JInt (int (length (filter snd ds)))),
          (''diagnostics'', annotated v (map fst ds))]))))))))))"

section \<open>Attached origins\<close>

lemma find_widest:
  assumes "find (covers l) (sort_key (\<lambda>s. - span_width s) spans) = Some s" and "t \<in> set spans" and "covers l t"
  shows "s \<in> set spans \<and> covers l s \<and> span_width t \<le> span_width s"
proof -
  let ?ss = "sort_key (\<lambda>s. - span_width s) spans"
  from assms(1) obtain i where i: "i < length ?ss" "covers l (?ss ! i)" "s = ?ss ! i"
    and first: "\<forall>j < i. \<not> covers l (?ss ! j)" by (auto simp: find_Some_iff)
  from assms(2) have "t \<in> set ?ss" by simp
  then obtain j where j: "j < length ?ss" "?ss ! j = t" by (auto simp only: in_set_conv_nth)
  with first assms(3) have "i \<le> j" by (metis not_le)
  have "sorted (map (\<lambda>s. - span_width s) ?ss)" by simp
  from sorted_nth_mono [OF this \<open>i \<le> j\<close>] j i have "- span_width s \<le> - span_width t" by simp
  moreover have "s \<in> set ?ss" using i by (metis nth_mem)
  ultimately show ?thesis using i by simp
qed

text \<open>
  A diagnostic whose line lies in a span, and an annotated one: its origin is the construct of a manifest span
  that covers its line. Which of several nested spans is taken is left open here.
\<close>

definition line_covered :: "origin_span list \<Rightarrow> json \<Rightarrow> bool" where
  "line_covered spans d \<longleftrightarrow>
     (case pbind (diagnostic_line d) line_value of Inl _ \<Rightarrow> False | Inr l \<Rightarrow> \<exists>s \<in> set spans. os_start s \<le> l \<and> l \<le> os_end s)"

definition has_origin :: "json \<Rightarrow> origin_span list \<Rightarrow> json \<Rightarrow> json \<Rightarrow> bool" where
  "has_origin dialect spans d d' \<longleftrightarrow>
     (\<exists>s v l o'. s \<in> set spans \<and> diagnostic_line d = Inr v \<and> line_value v = Inr l \<and> os_start s \<le> l \<and> l \<le> os_end s
        \<and> domain_origin dialect (os_construct s) = Inr o' \<and> d' = JObj (dict_set ''domainOrigin'' o' (as_obj d)))"

lemma annotate_origin:
  assumes "annotate dialect ss d = Inr (d', hit)" and ss: "set ss = set spans"
  shows "hit = line_covered spans d \<and> (if hit then has_origin dialect spans d d' else d' = d)"
proof -
  from assms(1) obtain v where v: "diagnostic_line d = Inr v"
    and r: "(case find_origin ss v of None \<Rightarrow> Inr (d, False) | Some c \<Rightarrow> pbind (domain_origin dialect c)
      (\<lambda>o'. Inr (JObj (dict_set ''domainOrigin'' o' (as_obj d)), True))) = Inr (d', hit)"
    by (auto simp: annotate_def pbind_Inr_conv)
  show ?thesis
  proof (cases "find_origin ss v")
    case None
    then have "\<not> line_covered spans d"
      using v ss by (auto simp: line_covered_def find_origin_def find_None_iff covers_def split: sum.splits)
    with r None show ?thesis by simp
  next
    case (Some c)
    then obtain l s where l: "line_value v = Inr l" and s: "find (covers l) ss = Some s" "c = os_construct s"
      by (auto simp: find_origin_def split: sum.splits)
    from r Some obtain o' where o': "domain_origin dialect c = Inr o'" "d' = JObj (dict_set ''domainOrigin'' o' (as_obj d))" "hit"
      by (auto simp: pbind_Inr_conv)
    have mem: "s \<in> set spans" "covers l s"
      using s(1) by (auto simp: find_Some_iff ss [symmetric])
    with v l have "line_covered spans d" by (auto simp: line_covered_def covers_def)
    with v l mem o' s(2) show ?thesis unfolding has_origin_def covers_def by auto
  qed
qed

text \<open>The printed document of a run.\<close>

definition out_field :: "string \<Rightarrow> json option \<Rightarrow> json" where
  "out_field k out = (case out of None \<Rightarrow> JNull | Some v \<Rightarrow> jget k (as_obj v))"

text \<open>C26. An origin is attached only when the manifest describes this source. If a run prints a document,
  every diagnostic of the compiler is in it, in order. When the recorded source hash is the hash of the
  source, a diagnostic has an origin iff its line lies in a span of the manifest, the origin is that of a
  span that covers the line, and the count of mapped diagnostics is the number of those; when it is not,
  all of them are unchanged and none is counted as mapped.\<close>

theorem origins_from_matching_manifest:
  assumes "origin_main H core manifest neu path = Inr (n, Some out)" and "py_get_or core ''diagnostics'' (JList []) = Inr (JList ds)"
  shows "\<exists>matches dialect ds'. source_matches H manifest neu = Inr matches \<and> py_get manifest ''dialect'' = Inr dialect
    \<and> out_field ''sourceMatches'' (Some out) = JBool matches \<and> out_field ''diagnostics'' (Some out) = JList ds'
    \<and> (matches \<longrightarrow> (\<exists>spans. manifest_spans manifest = Inr spans
         \<and> list_all2 (\<lambda>d d'. if line_covered spans d then has_origin dialect spans d d' else d' = d) ds ds'
         \<and> out_field ''mappedCount'' (Some out) = JInt (int (length (filter (line_covered spans) ds)))))
    \<and> (\<not> matches \<longrightarrow> ds' = ds \<and> out_field ''mappedCount'' (Some out) = JInt 0)"
proof -
  from assms(1) obtain dialect matches spans v rs ok gen where
    p: "py_get manifest ''dialect'' = Inr dialect" "source_matches H manifest neu = Inr matches"
      "(if matches then origin_spans manifest else Inr []) = Inr spans" "py_get_or core ''diagnostics'' (JList []) = Inr v"
      "pbind (py_iter v) (map_py (annotate dialect spans)) = Inr rs"
    and out: "out = JObj [(''schemaVersion'', JInt 1), (''kind'', JStr ''neutrino.domain-diagnostics''), (''file'', JStr path),
      (''ok'', JBool (truthy ok)), (''dialect'', dialect), (''generated'', gen), (''sourceMatches'', JBool matches),
      (''mappedCount'', JInt (int (length (filter snd rs)))), (''diagnostics'', annotated v (map fst rs))]"
    unfolding origin_main_def pbind_Inr_conv by (auto split: if_splits simp: pbind_Inr_conv)
  from assms(2) p(4) have v: "v = JList ds" by simp
  with p(5) have rs: "list_all2 (\<lambda>d r. annotate dialect spans d = Inr r) ds rs" by (simp add: map_py_Inr)
  have fields: "out_field ''sourceMatches'' (Some out) = JBool matches"
    "out_field ''diagnostics'' (Some out) = JList (map fst rs)"
    "out_field ''mappedCount'' (Some out) = JInt (int (length (filter snd rs)))"
    by (simp_all add: out_field_def out v annotated_def jget_def jget_or_def)
  have origins: "list_all2 (\<lambda>d d'. if line_covered us d then has_origin dialect us d d' else d' = d) ds (map fst rs)
      \<and> length (filter snd rs) = length (filter (line_covered us) ds)" if "set spans = set us" for us
  proof -
    have "list_all2 (\<lambda>d r. snd r = line_covered us d
        \<and> (if line_covered us d then has_origin dialect us d (fst r) else fst r = d)) ds rs"
      using rs by (rule list_all2_mono) (use annotate_origin [OF _ that] in fastforce)
    then show ?thesis by (induction ds rs rule: list_all2_induct) auto
  qed
  have "\<exists>us. manifest_spans manifest = Inr us
      \<and> list_all2 (\<lambda>d d'. if line_covered us d then has_origin dialect us d d' else d' = d) ds (map fst rs)
      \<and> out_field ''mappedCount'' (Some out) = JInt (int (length (filter (line_covered us) ds)))" if m: matches
  proof -
    obtain us where us: "manifest_spans manifest = Inr us" "set spans = set us"
      using m p(3) by (auto simp: origin_spans_def pbind_Inr_conv)
    with origins [OF us(2)] fields(3) show ?thesis by (intro exI [of _ us]) simp
  qed
  moreover have "map fst rs = ds \<and> length (filter snd rs) = 0" if "\<not> matches"
  proof -
    have none: "\<not> line_covered [] d" for d by (auto simp: line_covered_def split: sum.splits)
    have "spans = []" using p(3) that by simp
    then have "list_all2 (\<lambda>d d'. d' = d) ds (map fst rs)" "length (filter snd rs) = 0"
      using origins [of "[]"] none by simp_all
    moreover from this(1) have "map fst rs = ds" by (auto simp: list_all2_conv_all_nth intro: nth_equalityI)
    ultimately show ?thesis by blast
  qed
  ultimately show ?thesis using p(1,2) fields by (intro exI [of _ matches] exI [of _ dialect] exI [of _ "map fst rs"]) simp
qed

text \<open>The widest construct wins: when the line of a diagnostic lies in a span of a matching manifest, the
  attached origin is a construct whose span covers the line and is at least as wide as every other span
  that does. Where spans nest, the outermost one is named and never the most specific one.\<close>

theorem widest_construct_wins:
  assumes "manifest_spans manifest = Inr us" and "origin_spans manifest = Inr ss" and "annotate dialect ss d = Inr (d', hit)"
    and "diagnostic_line d = Inr v" and "line_value v = Inr l" and "t \<in> set us" and "covers l t"
  shows "hit \<and> (\<exists>s \<in> set us. covers l s \<and> span_width t \<le> span_width s
    \<and> (\<exists>o'. domain_origin dialect (os_construct s) = Inr o' \<and> d' = JObj (dict_set ''domainOrigin'' o' (as_obj d))))"
proof -
  have ss: "ss = sort_key (\<lambda>s. - span_width s) us" using assms(1,2) by (simp add: origin_spans_def)
  then obtain s where s: "find (covers l) ss = Some s"
    using assms(6,7) by (cases "find (covers l) ss") (auto simp: find_None_iff)
  then have "find_origin ss v = Some (os_construct s)" using assms(5) by (simp add: find_origin_def)
  with assms(3,4) obtain o' where "hit" "domain_origin dialect (os_construct s) = Inr o'"
    "d' = JObj (dict_set ''domainOrigin'' o' (as_obj d))"
    by (auto simp: annotate_def pbind_Inr_conv)
  with find_widest [OF s [unfolded ss] assms(6,7)] show ?thesis by blast
qed

text \<open>The witnesses: an expansion and the manifest written with it, and a manifest with nested spans.\<close>

definition error_at :: "int \<Rightarrow> json" where
  "error_at l = JObj [(''message'', JStr ''m''), (''range'', JObj [(''start'', JObj [(''line'', JInt l)])])]"

definition tool_report :: "json list \<Rightarrow> json" where
  "tool_report ds = JObj [(''ok'', JBool False), (''diagnostics'', JList ds)]"

definition sample_expanded :: "string \<times> json" where
  "sample_expanded = (case expand_main seal (JObj (dialect_doc ''fin'')) ''pay'' [] ''go'' ''pay.neu'' of
     Inr (_, _, Some out) \<Rightarrow> out | _ \<Rightarrow> ([], JNull))"

lemma origins_from_matching_manifest_witness:
  "\<exists>out. origin_main seal (tool_report [error_at 33, error_at 99]) (snd sample_expanded) (fst sample_expanded) ''pay.neu'' = Inr (1, Some out)
    \<and> length (as_list (out_field ''diagnostics'' (Some out))) = 2"
proof -
  have "\<exists>r. origin_main seal (tool_report [error_at 33, error_at 99]) (snd sample_expanded) (fst sample_expanded) ''pay.neu'' = Inr r
    \<and> fst r = 1 \<and> snd r \<noteq> None \<and> out_field ''mappedCount'' (snd r) = JInt 1"
    unfolding returns_such_that by code_simp
  then obtain out where run: "origin_main seal (tool_report [error_at 33, error_at 99]) (snd sample_expanded) (fst sample_expanded) ''pay.neu''
      = Inr (1, Some out)" by (metis not_None_eq prod.collapse)
  have "py_get_or (tool_report [error_at 33, error_at 99]) ''diagnostics'' (JList []) = Inr (JList [error_at 33, error_at 99])"
    by (simp add: tool_report_def jget_or_def)
  from origins_from_matching_manifest [OF run this]
  have "length (as_list (out_field ''diagnostics'' (Some out))) = length [error_at 33, error_at 99]"
  proof (elim exE conjE, goal_cases)
    case (1 matches dialect ds')
    then have "length ds' = length [error_at 33, error_at 99]"
      using list_all2_lengthD [of _ "[error_at 33, error_at 99]" ds'] by (cases matches) fastforce+
    with 1(4) show ?case by simp
  qed
  then have "length (as_list (out_field ''diagnostics'' (Some out))) = 2" by simp
  with run show ?thesis by blast
qed

definition nested_manifest :: json where
  "nested_manifest = JObj [(''constructs'', JList
     [JObj [(''construct'', JStr ''inner''), (''sourceSpan'', JObj [(''startLine'', JInt 4), (''endLine'', JInt 5)])],
      JObj [(''construct'', JStr ''outer''), (''sourceSpan'', JObj [(''startLine'', JInt 1), (''endLine'', JInt 9)])]])]"

lemma widest_construct_wins_witness:
  "\<exists>us ss d'. manifest_spans nested_manifest = Inr us \<and> origin_spans nested_manifest = Inr ss
     \<and> annotate JNull ss (error_at 4) = Inr (d', True)
     \<and> jget ''construct'' (as_obj (jget ''domainOrigin'' (as_obj d'))) = JStr ''outer''"
proof -
  obtain us where us: "manifest_spans nested_manifest = Inr us" "covers 4 (hd us)" "hd us \<in> set us"
  proof -
    have "\<exists>us. manifest_spans nested_manifest = Inr us \<and> covers 4 (hd us) \<and> us \<noteq> []"
      unfolding returns_such_that by code_simp
    with that show thesis by (metis hd_in_set)
  qed
  define ss where "ss = sort_key (\<lambda>s. - span_width s) us"
  have ss: "origin_spans nested_manifest = Inr ss" by (simp add: origin_spans_def us ss_def)
  have "\<exists>r. pbind (origin_spans nested_manifest) (\<lambda>ss. annotate JNull ss (error_at 4)) = Inr r
    \<and> jget ''construct'' (as_obj (jget ''domainOrigin'' (as_obj (fst r)))) = JStr ''outer''"
    unfolding returns_such_that by code_simp
  then obtain d' hit where r: "annotate JNull ss (error_at 4) = Inr (d', hit)"
    and c: "jget ''construct'' (as_obj (jget ''domainOrigin'' (as_obj d'))) = JStr ''outer''"
    using ss by auto
  have "diagnostic_line (error_at 4) = Inr (JInt 4)" "line_value (JInt 4) = Inr 4" by code_simp+
  from widest_construct_wins [OF us(1) ss r this us(3,2)] have "hit" by blast
  with r have "annotate JNull ss (error_at 4) = Inr (d', True)" by simp
  with us(1) ss c show ?thesis by blast
qed

end
