(* ===== verification/PyText.thy ===== *)
theory PyText
  imports Canonical PyDyn
begin

text \<open>
  The text conversions of Python that work on characters instead of bytes: \<open>json.dumps\<close> with its
  default \<open>ensure_ascii=True\<close>, \<open>str.isspace\<close> (the class \<open>\s\<close> of \<open>re\<close>) and \<open>int(v)\<close>.
  A character is the list of its UTF-8 bytes.
\<close>

section \<open>Characters\<close>

fun utf8_code :: "string \<Rightarrow> int" where
  "utf8_code [a] = of_char a"
| "utf8_code [a, b] = (of_char a - 192) * 64 + (of_char b - 128)"
| "utf8_code [a, b, c] = (of_char a - 224) * 4096 + (of_char b - 128) * 64 + (of_char c - 128)"
| "utf8_code [a, b, c, d] =
     (of_char a - 240) * 262144 + (of_char b - 128) * 4096 + (of_char c - 128) * 64 + (of_char d - 128)"
| "utf8_code _ = 0"

text \<open>The characters with \<open>str.isspace()\<close>, by their code points.\<close>

definition space_code :: "int \<Rightarrow> bool" where
  "space_code n \<longleftrightarrow>
     (9 \<le> n \<and> n \<le> 13) \<or> (28 \<le> n \<and> n \<le> 32) \<or> n = 133 \<or> n = 160 \<or> n = 5760
     \<or> (8192 \<le> n \<and> n \<le> 8202) \<or> n = 8232 \<or> n = 8233 \<or> n = 8239 \<or> n = 8287 \<or> n = 12288"

definition py_space :: "string \<Rightarrow> bool" where
  "py_space c \<longleftrightarrow> space_code (utf8_code c)"

section \<open>\<open>json.dumps\<close> with \<open>ensure_ascii\<close>\<close>

definition hex4 :: "nat \<Rightarrow> string" where
  "hex4 n = [hex_digit (n div 4096), hex_digit (n div 256 mod 16), hex_digit (n div 16 mod 16),
     hex_digit (n mod 16)]"

definition unicode_escape :: "nat \<Rightarrow> string" where
  "unicode_escape n = [CHR 0x5C, CHR ''u''] @ hex4 n"

text \<open>A code point above \<open>U+FFFF\<close> is escaped as its two surrogates.\<close>

definition ascii_escape :: "string \<Rightarrow> string" where
  "ascii_escape c =
     (let n = utf8_code c
      in if n < 127 then concat (map json_escape c)
         else if n < 65536 then unicode_escape (nat n)
         else unicode_escape (nat (55296 + (n - 65536) div 1024 mod 1024)) @
              unicode_escape (nat (56320 + (n - 65536) mod 1024)))"

definition ascii_string :: "string \<Rightarrow> string" where
  "ascii_string s = dq (concat (map ascii_escape (utf8_chars s)))"

text \<open>\<open>json.dumps(v)\<close>: the keys in their own order, a blank after each separator.\<close>

fun dumps :: "json \<Rightarrow> string" where
  "dumps JNull = ''null''"
| "dumps (JBool b) = (if b then ''true'' else ''false'')"
| "dumps (JInt i) = show_int i"
| "dumps (JFloat t) = t"
| "dumps (JStr s) = ascii_string s"
| "dumps (JList xs) = ''['' @ join '', '' (map dumps xs) @ '']''"
| "dumps (JObj d) = ''{'' @ join '', '' (map (\<lambda>(k, v). ascii_string k @ '': '' @ dumps v) d) @ ''}''"

section \<open>\<open>int(v)\<close>\<close>

text \<open>
  A text is a numeral between blanks, with a sign and single underscores between digits. Blanks and
  digits outside ASCII are first replaced by those of ASCII. More than 4300 digits raise.
\<close>

definition ascii_numeral_char :: "(string \<Rightarrow> nat option) \<Rightarrow> string \<Rightarrow> char option" where
  "ascii_numeral_char U c =
     (if utf8_code c < 128 then Some (hd c)
      else if py_space c then Some (CHR '' '')
      else map_option digit (U c))"

definition c_space :: "char \<Rightarrow> bool" where
  "c_space c \<longleftrightarrow> c = CHR '' '' \<or> 9 \<le> (of_char c :: nat) \<and> (of_char c :: nat) \<le> 13"

definition numeral_value :: "string \<Rightarrow> int py" where
  "numeral_value t =
     (let u = dropWhile c_space (rev (dropWhile c_space (rev t)));
          neg = starts_with ''-'' u; w = (if neg \<or> starts_with ''+'' u then tl u else u);
          groups = split_at CHR ''_'' w; ds = concat groups
      in if \<not> list_all digits_text groups \<or> length ds > 4300 then Inl ValueError
         else Inr (if neg then - int (digits_val ds) else int (digits_val ds)))"

definition int_text :: "(string \<Rightarrow> nat option) \<Rightarrow> string \<Rightarrow> int py" where
  "int_text U s =
     (let cs = map (ascii_numeral_char U) (utf8_chars s)
      in if None \<in> set cs then Inl ValueError else numeral_value (map the cs))"

text \<open>
  A float is truncated toward zero. From \<open>2^53\<close> on, the value of a float is not the one its
  shortest text denotes; such floats are outside the model.
\<close>

definition float_trunc :: "string \<Rightarrow> int" where
  "float_trunc t =
     (let k = decimal_key t in if k < 0 then - (- k div number_scale) else k div number_scale)"

fun py_int :: "(string \<Rightarrow> nat option) \<Rightarrow> json \<Rightarrow> int py" where
  "py_int U (JInt i) = Inr i"
| "py_int U (JBool b) = Inr (if b then 1 else 0)"
| "py_int U (JFloat t) = Inr (float_trunc t)"
| "py_int U (JStr s) = int_text U s"
| "py_int U _ = Inl TypeError"

lemma py_int_cases [outcomes]: "raises_only (\<lambda>e. e = TypeError \<or> e = ValueError) (py_int U v)"
  by (cases v) (auto simp: raises_only_def int_text_def numeral_value_def Let_def split: if_splits)

section \<open>Sizes of the parts of a value\<close>

text \<open>What an operation of a value returns is smaller: the recursions over a value of unknown shape end.\<close>

lemma size_py_get: "py_get v s = Inr w \<Longrightarrow> w \<noteq> JNull \<Longrightarrow> size w < size v"
  unfolding py_get_obj using size_jget_less by blast

lemma size_py_key: "py_key v s = Inr w \<Longrightarrow> size w < size v"
  unfolding py_key_obj using size_item_less map_of_SomeD by metis

lemma size_py_iter: "py_iter v = Inr xs \<Longrightarrow> x \<in> set xs \<Longrightarrow> size x \<le> size v"
proof (cases v)
  case (JList ys)
  then show "py_iter v = Inr xs \<Longrightarrow> x \<in> set xs \<Longrightarrow> size x \<le> size v"
    using size_elem_less by fastforce
qed auto

lemma size_iter_or_empty: "iter_or_empty v = Inr xs \<Longrightarrow> x \<in> set xs \<Longrightarrow> size x \<le> size v"
  using size_py_iter by (fastforce simp: iter_or_empty_def split: if_splits)

lemma size_get_elem:
  assumes "pbind (py_get v s) iter_or_empty = Inr xs" and "x \<in> set xs"
  shows "size x < size v"
proof -
  obtain w where w: "py_get v s = Inr w" "iter_or_empty w = Inr xs"
    using assms(1) by (auto simp: pbind_Inr_conv)
  with assms(2) have "size x \<le> size w" "w \<noteq> JNull" by (auto dest: size_iter_or_empty)
  with size_py_get [OF w(1)] show ?thesis by simp
qed

lemma list_index_in: "list_index xs i = Inr x \<Longrightarrow> x \<in> set xs"
  by (auto simp: list_index_def Let_def split: if_splits)

lemma size_py_item: "py_item v k = Inr w \<Longrightarrow> size w \<le> size v"
proof (cases v)
  case (JStr s)
  have "list_index (map JStr cs) i = Inr w \<Longrightarrow> size w = 0" for cs i
    by (auto dest!: list_index_in)
  with JStr show "py_item v k = Inr w \<Longrightarrow> size w \<le> size v" by (cases k) auto
next
  case (JList xs)
  then show "py_item v k = Inr w \<Longrightarrow> size w \<le> size v"
    using size_elem_less [of w xs] by (cases k) (auto dest!: list_index_in)
next
  case (JObj d)
  then show "py_item v k = Inr w \<Longrightarrow> size w \<le> size v"
    using size_py_key [of v _ w] by (cases k) (auto simp: py_key_def split: if_splits intro: less_imp_le)
qed simp_all

end
