(* ===== verification/RecipeExtract.thy ===== *)
theory RecipeExtract
  imports PyText
begin

text \<open>
  \<open>src/scripts/generators/recipe_canonicalizer.py\<close>, first part: the recipe records of a
  \<open>llvm-tblgen --dump-json\<close> view, read into the canonical IR. \<open>d\<close> is the view, a JSON object whose
  records refer to each other by \<open>{"kind": "def", "def": name}\<close>; a reference may lead anywhere, so
  every field is read with the checks of Python and \<open>die\<close> is \<open>SystemExit\<close> with its message.
  The reader follows the references from one body to the next and ends only if they do: \<open>n\<close> is
  the number of nested bodies the recursion limit of the interpreter admits.
  \<open>U\<close> is the digit value of the characters outside ASCII, for \<open>int\<close> of a text.
\<close>

section \<open>Records and fields\<close>

definition rc_die :: "string \<Rightarrow> 'a py" where
  "rc_die msg = Inl (SystemExit msg)"

definition rc_deref :: "obj \<Rightarrow> json \<Rightarrow> json py" where
  "rc_deref d v =
     (case v of
        JObj r \<Rightarrow>
          (if jget ''kind'' r = JStr ''def''
           then pbind (jindex ''def'' r) (\<lambda>name.
             pbind (in_strs name (jkeys d)) (\<lambda>b.
               if b \<and> is_obj (jget (str_of name) d) then Inr (jget (str_of name) d)
               else rc_die (''dangling def ref '' @ py_repr name)))
           else Inr v)
      | _ \<Rightarrow> Inr v)"

definition rc_field :: "json \<Rightarrow> string \<Rightarrow> json \<Rightarrow> json py" where
  "rc_field rec name v = pbind (py_in (JStr name) rec) (\<lambda>b. if b then py_key rec name else Inr v)"

text \<open>\<open>_field(rec, name, "")\<close>, \<open>str(_field(rec, name, "") or "")\<close> and \<open>_field(rec, name) or []\<close>.\<close>

abbreviation rc_text :: "json \<Rightarrow> string \<Rightarrow> json py" where
  "rc_text rec name \<equiv> rc_field rec name (JStr [])"

definition rc_str_field :: "json \<Rightarrow> string \<Rightarrow> string py" where
  "rc_str_field rec name = pbind (rc_text rec name) (\<lambda>v. Inr (if truthy v then py_str v else []))"

definition rc_list_field :: "json \<Rightarrow> string \<Rightarrow> json list py" where
  "rc_list_field rec name = pbind (rc_field rec name JNull) iter_or_empty"

section \<open>Input slots\<close>

definition rc_slot :: "(string \<Rightarrow> nat option) \<Rightarrow> json \<Rightarrow> json \<Rightarrow> obj py" where
  "rc_slot U rec crd =
     pbind (rc_text rec ''Name'') (\<lambda>name.
     pbind (rc_text rec ''FinalizedType'') (\<lambda>ft.
     pbind (pbind (rc_field rec ''Min'' (JInt 0)) (py_int U)) (\<lambda>mn.
     pbind (rc_field rec ''Max'' (JStr ''0'')) (\<lambda>mx.
     pbind (rc_str_field rec ''OrderKey'') (\<lambda>ok.
     pbind (rc_str_field rec ''ParentSlot'') (\<lambda>parent.
       Inr [(''name'', name), (''finalizedType'', ft), (''cardinality'', crd), (''min'', JInt mn),
         (''max'', JStr (py_str mx)), (''orderKey'', JStr ok), (''parentSlot'', JStr parent)]))))))"

definition rc_presence :: "(string \<Rightarrow> nat option) \<Rightarrow> json \<Rightarrow> obj py" where
  "rc_presence U rec =
     pbind (py_in (JStr ''Presence'') rec) (\<lambda>b.
       if b then pbind (pbind (py_key rec ''Presence'') (py_int U)) (\<lambda>i. Inr [(''presence'', JInt i)])
       else Inr [])"

definition rc_input_slot :: "(string \<Rightarrow> nat option) \<Rightarrow> obj \<Rightarrow> json \<Rightarrow> json py" where
  "rc_input_slot U d ref =
     pbind (rc_deref d ref) (\<lambda>rec.
     pbind (rc_text rec ''Cardinality'') (\<lambda>crd.
     pbind (in_strs crd [''one'', ''optional'', ''many'']) (\<lambda>known.
       if \<not> known then rc_die (''input slot has unknown cardinality '' @ py_repr crd)
       else pbind (rc_slot U rec crd) (\<lambda>slot.
            pbind (rc_presence U rec) (\<lambda>presence.
              if \<not> truthy (jget ''name'' slot) \<or> \<not> truthy (jget ''finalizedType'' slot)
              then rc_die (''input slot missing name/type: '' @ py_repr (JObj (slot @ presence)))
              else Inr (JObj (slot @ presence)))))))"

section \<open>Bodies\<close>

text \<open>\<open>_binding\<close> and \<open>_op\<close>, with \<open>_body\<close> as their argument \<open>body\<close>.\<close>

definition rc_binding :: "(json \<Rightarrow> json py) \<Rightarrow> obj \<Rightarrow> json \<Rightarrow> json py" where
  "rc_binding body d ref =
     pbind (rc_deref d ref) (\<lambda>rec.
     pbind (rc_text rec ''BindKind'') (\<lambda>kind.
     pbind (in_strs kind [''Direct'', ''Hook'', ''Nested'']) (\<lambda>known.
       if \<not> known then rc_die (''unknown binding kind '' @ py_repr kind)
       else pbind (rc_text rec ''Field'') (\<lambda>field.
         if \<not> truthy field then rc_die ''binding missing Field''
         else if kind = JStr ''Direct''
         then pbind (rc_text rec ''Input'') (\<lambda>inp.
           if \<not> truthy inp then rc_die (''Direct binding '' @ py_repr field @ '' missing Input'')
           else Inr (JObj [(''bindKind'', kind), (''field'', field), (''input'', inp)]))
         else if kind = JStr ''Hook''
         then pbind (rc_text rec ''HookId'') (\<lambda>hook.
           pbind (rc_text rec ''Input'') (\<lambda>inp.
             if \<not> truthy hook \<or> \<not> truthy inp then rc_die (''Hook binding '' @ py_repr field @ '' incomplete'')
             else Inr (JObj [(''bindKind'', kind), (''field'', field), (''hookId'', hook), (''input'', inp)])))
         else pbind (pbind (rc_field rec ''Body'' JNull) body) (\<lambda>b.
           Inr (JObj [(''bindKind'', kind), (''field'', field), (''body'', b)]))))))"

definition rc_op :: "(json \<Rightarrow> json py) \<Rightarrow> obj \<Rightarrow> json \<Rightarrow> json py" where
  "rc_op body d ref =
     pbind (rc_deref d ref) (\<lambda>rec.
     pbind (rc_text rec ''OpKind'') (\<lambda>kind.
     pbind (in_strs kind [''Emit'', ''ForEach'', ''Optional'', ''Call'']) (\<lambda>known.
       if \<not> known then rc_die (''unknown op kind '' @ py_repr kind)
       else if kind = JStr ''Emit''
       then pbind (rc_text rec ''Node'') (\<lambda>node.
         if \<not> truthy node then rc_die ''Emit missing Node''
         else pbind (pbind (rc_list_field rec ''Bindings'') (map_py (rc_binding body d))) (\<lambda>binds.
           Inr (JObj [(''opKind'', JStr ''Emit''), (''node'', node), (''bindings'', JList binds)])))
       else if kind = JStr ''Call''
       then pbind (rc_text rec ''RecipeId'') (\<lambda>rid.
         if \<not> truthy rid then rc_die ''Call missing RecipeId''
         else pbind (pbind (rc_list_field rec ''Bindings'') (map_py (rc_binding body d))) (\<lambda>binds.
           Inr (JObj [(''opKind'', JStr ''Call''), (''recipeId'', rid), (''bindings'', JList binds)])))
       else if kind = JStr ''ForEach''
       then pbind (rc_text rec ''Slot'') (\<lambda>slot.
         if \<not> truthy slot then rc_die ''ForEach missing Slot''
         else pbind (pbind (rc_field rec ''Body'' JNull) body) (\<lambda>b.
           Inr (JObj [(''opKind'', JStr ''ForEach''), (''slot'', slot), (''body'', b)])))
       else pbind (rc_text rec ''Slot'') (\<lambda>slot.
         if \<not> truthy slot then rc_die ''Optional missing Slot''
         else pbind (pbind (rc_field rec ''Body'' JNull) body) (\<lambda>b.
           Inr (JObj [(''opKind'', JStr ''Optional''), (''slot'', slot), (''body'', b)]))))))"

fun rc_body :: "nat \<Rightarrow> obj \<Rightarrow> json \<Rightarrow> json py" where
  "rc_body 0 d ref = Inl RecursionError"
| "rc_body (Suc n) d ref =
     pbind (rc_deref d ref) (\<lambda>rec.
     pbind (rc_field rec ''Ops'' JNull) (\<lambda>ops.
       if \<not> is_list ops \<or> \<not> truthy ops then rc_die ''empty Sequence body is forbidden''
       else pbind (map_py (rc_op (rc_body n d) d) (as_list ops)) (\<lambda>os. Inr (JObj [(''ops'', JList os)]))))"

section \<open>Recipes\<close>

definition rc_result_cardinality :: "(string \<Rightarrow> nat option) \<Rightarrow> obj \<Rightarrow> json \<Rightarrow> json py" where
  "rc_result_cardinality U d rec =
     pbind (pbind (rc_field rec ''ResultCardinality'' JNull) (rc_deref d)) (\<lambda>rc.
     pbind (rc_text rc ''Spelling'') (\<lambda>spelling.
       if spelling = JStr ''many''
       then pbind (pbind (rc_field rc ''Min'' (JInt 0)) (py_int U)) (\<lambda>mn.
            pbind (rc_field rc ''Max'' (JStr ''0'')) (\<lambda>mx.
              Inr (JObj [(''spelling'', spelling), (''min'', JInt mn), (''max'', JStr (py_str mx))])))
       else if spelling \<noteq> JStr ''one'' \<and> spelling \<noteq> JStr ''optional'' \<and> \<not> truthy spelling
       then rc_die (''result cardinality missing Spelling: '' @ py_repr rc)
       else Inr (JObj [(''spelling'', spelling)])))"

text \<open>\<open>json.loads(compact(ir))\<close>: the value read back from its canonical text has its keys in order.\<close>

definition canonicalize_recipe :: "json \<Rightarrow> json" where
  "canonicalize_recipe ir = canon ir"

definition rc_ir :: "(string \<Rightarrow> nat option) \<Rightarrow> nat \<Rightarrow> obj \<Rightarrow> string \<Rightarrow> json \<Rightarrow> obj py" where
  "rc_ir U n d def_name rec =
     pbind (pbind (rc_list_field rec ''Inputs'') (map_py (rc_input_slot U d))) (\<lambda>inputs.
     pbind (rc_text rec ''RecipeId'') (\<lambda>rid.
     pbind (rc_text rec ''Target'') (\<lambda>target.
     pbind (rc_text rec ''FinalizedKind'') (\<lambda>fkind.
     pbind (rc_text rec ''Mode'') (\<lambda>mode.
     pbind (rc_text rec ''Role'') (\<lambda>role.
     pbind (pbind (rc_field rec ''SchemaVersion'' (JInt 1)) (py_int U)) (\<lambda>version.
     pbind (rc_text rec ''ResultType'') (\<lambda>rtype.
     pbind (rc_result_cardinality U d rec) (\<lambda>rcard.
     pbind (pbind (rc_field rec ''Body'' JNull) (rc_body n d)) (\<lambda>body.
       Inr [(''kind'', JStr ''neutrino.recipe-record''), (''schemaVersion'', JInt 1),
         (''defName'', JStr def_name), (''recipeId'', rid), (''target'', target),
         (''finalizedKind'', fkind), (''mode'', mode), (''role'', role),
         (''schemaVersionField'', JInt version), (''inputs'', JList inputs), (''resultType'', rtype),
         (''resultCardinality'', rcard), (''body'', body)]))))))))))"

definition extract_recipe :: "(string \<Rightarrow> nat option) \<Rightarrow> nat \<Rightarrow> obj \<Rightarrow> string \<Rightarrow> json py" where
  "extract_recipe U n d def_name =
     pbind (jindex def_name d) (\<lambda>rec.
     pbind (py_get rec ''!superclasses'') (\<lambda>supers.
     pbind (in_or_empty (JStr ''TargetIdiomRecipe'') supers) (\<lambda>b.
       if \<not> b then rc_die (def_name @ '' is not a TargetIdiomRecipe'')
       else pbind (py_get rec ''!anonymous'') (\<lambda>anon.
         if truthy anon then rc_die (def_name @ '' is anonymous; production recipes must be named defs'')
         else pbind (rc_ir U n d def_name rec) (\<lambda>ir.
           if \<not> truthy (jget ''recipeId'' ir) \<or> \<not> truthy (jget ''target'' ir) \<or> \<not> truthy (jget ''finalizedKind'' ir)
           then rc_die (def_name @ '': incomplete recipe identity/key'')
           else if \<not> truthy (jget ''resultType'' ir) then rc_die (def_name @ '': missing ResultType'')
           else Inr (canonicalize_recipe (JObj ir)))))))"

section \<open>The corpus\<close>

text \<open>
  \<open>sorted(xs, key=lambda x: (k(x), l(x)))\<close>: two keys are compared at the first component that
  differs, which raises unless both are texts or both are numbers. Lists as components are
  outside the model.
\<close>

definition comparable :: "json \<Rightarrow> json \<Rightarrow> bool" where
  "comparable a b \<longleftrightarrow> jeq a b \<or> is_str a \<and> is_str b \<or> is_number a \<and> is_number b"

definition order_key :: "json \<Rightarrow> int \<times> string" where
  "order_key v = (number_key v, str_of v)"

definition sorted_on :: "('a \<Rightarrow> json \<times> json) \<Rightarrow> 'a list \<Rightarrow> 'a list py" where
  "sorted_on k xs =
     (if list_all (\<lambda>x. list_all (\<lambda>y.
           if jeq (fst (k x)) (fst (k y)) then comparable (snd (k x)) (snd (k y))
           else comparable (fst (k x)) (fst (k y))) xs) xs
      then Inr (sort_key (\<lambda>x. (order_key (fst (k x)), order_key (snd (k x)))) xs)
      else Inl TypeError)"

text \<open>A name in \<open>names\<close> is skipped unless it names an object that is not anonymous.\<close>

definition rc_named :: "obj \<Rightarrow> json \<Rightarrow> bool py" where
  "rc_named d name =
     (if \<not> hashable name then Inl TypeError
      else Inr (case name of
          JStr s \<Rightarrow> (case jget s d of JObj r \<Rightarrow> \<not> truthy (jget ''!anonymous'' r) | _ \<Rightarrow> False)
        | _ \<Rightarrow> False))"

definition rc_name_key :: "obj \<Rightarrow> string \<Rightarrow> json" where
  "rc_name_key d s = jget_or ''RecipeId'' (JStr []) (as_obj (jget s d))"

definition production_recipe_names :: "obj \<Rightarrow> string list py" where
  "production_recipe_names d =
     (let io = jget ''!instanceof'' d
      in pbind (if truthy io then py_get io ''TargetIdiomRecipe'' else Inr JNull) (\<lambda>v.
         pbind (iter_or_empty v) (\<lambda>names.
         pbind (filter_py (rc_named d) names) (\<lambda>out.
           sorted_on (\<lambda>s. (rc_name_key d s, JStr s)) (map str_of out)))))"

text \<open>The loop over \<open>seen\<close>; the ids of a recipe list are read with \<open>r["recipeId"]\<close>.\<close>

fun rc_distinct_ids :: "json list \<Rightarrow> json list \<Rightarrow> unit py" where
  "rc_distinct_ids seen [] = Inr ()"
| "rc_distinct_ids seen (r # rs) =
     pbind (py_key r ''recipeId'') (\<lambda>rid.
       if \<not> hashable rid then Inl TypeError
       else if in_list rid seen then rc_die (''duplicate recipeId '' @ py_repr rid)
       else rc_distinct_ids (rid # seen) rs)"

definition extract_corpus :: "(string \<Rightarrow> nat option) \<Rightarrow> nat \<Rightarrow> obj \<Rightarrow> json list py" where
  "extract_corpus U n d =
     pbind (production_recipe_names d) (\<lambda>names.
     pbind (map_py (extract_recipe U n d) names) (\<lambda>recipes.
     pbind (rc_distinct_ids [] recipes) (\<lambda>_. Inr recipes)))"

definition canonicalize_corpus :: "json list \<Rightarrow> json list py" where
  "canonicalize_corpus recipes =
     (let rs = map canonicalize_recipe recipes
      in pbind (map_py (\<lambda>r. pbind (py_key r ''recipeId'') (\<lambda>a.
             pbind (py_key r ''defName'') (\<lambda>b. Inr ((a, b), r)))) rs) (\<lambda>ks.
         pbind (sorted_on fst ks) (\<lambda>sorted. Inr (map snd sorted))))"

end
