(* ===== verification/RecipeEmit.thy ===== *)
theory RecipeEmit
  imports RecipeExtract
begin

text \<open>
  \<open>src/scripts/generators/recipe_canonicalizer.py\<close>, second part: a recipe IR printed as the
  TableGen block \<open>def Name : TargetIdiomRecipe<...>;\<close>. A text is printed by \<open>json.dumps\<close>, whatever
  the value of the field is. The recursion over the body ends because every value read from an IR
  is a smaller one.
\<close>

definition td_string :: "json \<Rightarrow> string" where
  "td_string v = dumps v"

abbreviation td_field :: "json \<Rightarrow> string \<Rightarrow> string py" where
  "td_field v k \<equiv> pbind (py_key v k) (\<lambda>w. Inr (td_string w))"

section \<open>Slots and cardinalities\<close>

definition td_presence :: "int \<Rightarrow> string" where
  "td_presence i =
     (if i = 1 then ''PresenceMemo'' else if i = 2 then ''PresenceGuard''
      else if i = 3 then ''PresenceDirect'' else ''PresenceNone'')"

definition td_many :: "(string \<Rightarrow> nat option) \<Rightarrow> json \<Rightarrow> string \<Rightarrow> string py" where
  "td_many U slot head =
     pbind (pbind (py_key slot ''min'') (py_int U)) (\<lambda>mn.
     pbind (td_field slot ''max'') (\<lambda>mx.
     pbind (py_get slot ''orderKey'') (\<lambda>ok.
     pbind (py_get slot ''parentSlot'') (\<lambda>parent.
       let bounds = head @ '', '' @ show_int mn @ '', '' @ mx @ '', '' @ td_string (if truthy ok then ok else JStr [])
       in Inr (if truthy parent then ''RelatedMany<'' @ bounds @ '', '' @ td_string parent @ ''>''
               else ''Many<'' @ bounds @ ''>'')))))"

definition td_input :: "(string \<Rightarrow> nat option) \<Rightarrow> json \<Rightarrow> string py" where
  "td_input U slot =
     pbind (td_field slot ''name'') (\<lambda>name.
     pbind (td_field slot ''finalizedType'') (\<lambda>ft.
     pbind (py_key slot ''cardinality'') (\<lambda>crd.
       let head = name @ '', '' @ ft
       in if crd = JStr ''one'' then Inr (''One<'' @ head @ ''>'')
          else if crd = JStr ''optional''
          then pbind (py_get slot ''parentSlot'') (\<lambda>parent.
            if \<not> truthy parent then Inr (''Optional<'' @ head @ ''>'')
            else pbind (pbind (py_get_or slot ''presence'' (JInt 0)) (py_int U)) (\<lambda>i.
              Inr (''RelatedOptional<'' @ head @ '', '' @ td_string parent @ '', '' @ td_presence i @ ''>'')))
          else td_many U slot head)))"

definition td_card :: "(string \<Rightarrow> nat option) \<Rightarrow> json \<Rightarrow> string py" where
  "td_card U rc =
     pbind (py_key rc ''spelling'') (\<lambda>sp.
       if sp = JStr ''one'' then Inr ''CardinalityOne''
       else if sp = JStr ''optional'' then Inr ''CardinalityOptional''
       else pbind (pbind (py_key rc ''min'') (py_int U)) (\<lambda>mn.
            pbind (td_field rc ''max'') (\<lambda>mx.
              Inr (''CardinalityMany<'' @ show_int mn @ '', '' @ mx @ ''>''))))"

section \<open>Bodies\<close>

text \<open>\<open>any(o.get("bindings") or o.get("body") for o in ops)\<close>.\<close>

fun td_any_nested :: "json list \<Rightarrow> bool py" where
  "td_any_nested [] = Inr False"
| "td_any_nested (v # vs) =
     pbind (py_get v ''bindings'') (\<lambda>b.
       if truthy b then Inr True
       else pbind (py_get v ''body'') (\<lambda>c. if truthy c then Inr True else td_any_nested vs))"

definition td_one_plain :: "json \<Rightarrow> bool py" where
  "td_one_plain ops =
     pbind (py_len ops) (\<lambda>k.
       if k \<noteq> 1 then Inr False
       else pbind (pbind (py_iter ops) td_any_nested) (\<lambda>b. Inr (\<not> b)))"

definition td_sequence :: "string list \<Rightarrow> string" where
  "td_sequence parts =
     ''Sequence<['' @ newline @ ''      '' @ join ('','' @ newline @ ''      '') parts @ newline @ ''    ]>''"

function td_binding :: "json \<Rightarrow> string py"
    and td_op :: "json \<Rightarrow> string py"
    and td_body :: "json \<Rightarrow> string py" where
  "td_binding b =
     pbind (py_key b ''bindKind'') (\<lambda>kind.
     pbind (td_field b ''field'') (\<lambda>field.
       if kind = JStr ''Direct''
       then pbind (td_field b ''input'') (\<lambda>inp. Inr (''Direct<'' @ field @ '', '' @ inp @ ''>''))
       else if kind = JStr ''Hook''
       then pbind (td_field b ''hookId'') (\<lambda>hook. pbind (td_field b ''input'') (\<lambda>inp.
              Inr (''Hook<'' @ field @ '', '' @ hook @ '', '' @ inp @ ''>'')))
       else pbind (py_key b ''body'') (\<lambda>body. pbind (td_body body) (\<lambda>t.
              Inr (''Nested<'' @ field @ '', '' @ t @ ''>'')))))"
| "td_op p =
     pbind (py_key p ''opKind'') (\<lambda>kind.
       if kind = JStr ''Emit''
       then pbind (td_field p ''node'') (\<lambda>node.
            pbind (pbind (py_get p ''bindings'') iter_or_empty) (\<lambda>binds.
            pbind (map_py td_binding binds) (\<lambda>ts.
              Inr (''Emit<'' @ node @ '', ['' @ join '', '' ts @ '']>''))))
       else if kind = JStr ''Call''
       then pbind (td_field p ''recipeId'') (\<lambda>rid.
            pbind (pbind (py_get p ''bindings'') iter_or_empty) (\<lambda>binds.
            pbind (map_py td_binding binds) (\<lambda>ts.
              Inr (''Call<'' @ rid @ '', ['' @ join '', '' ts @ '']>''))))
       else pbind (td_field p ''slot'') (\<lambda>slot.
            pbind (py_key p ''body'') (\<lambda>body. pbind (td_body body) (\<lambda>t.
              if kind = JStr ''ForEach'' then Inr (''ForEach<'' @ slot @ '', '' @ t @ ''>'')
              else Inr (''OptionalOp<'' @ slot @ '', '' @ t @ ''>'')))))"
| "td_body body =
     pbind (py_key body ''ops'') (\<lambda>ops.
       if \<not> truthy ops then rc_die ''refuse to emit empty body''
       else pbind (td_one_plain ops) (\<lambda>plain.
         if plain then pbind (py_item ops (JInt 0)) (\<lambda>v. pbind (td_op v) (\<lambda>t. Inr (''Sequence<['' @ t @ '']>'')))
         else pbind (py_iter ops) (\<lambda>vs. pbind (map_py td_op vs) (\<lambda>ts. Inr (td_sequence ts)))))"
  by pat_completeness auto
termination
  by (relation "measure (case_sum size (case_sum size size))")
    (auto dest: size_py_key size_get_elem size_py_item size_py_iter intro: le_less_trans)

declare td_binding.simps [simp del] td_op.simps [simp del] td_body.simps [simp del]

section \<open>Recipes\<close>

definition td_block :: "(string \<Rightarrow> nat option) \<Rightarrow> json \<Rightarrow> string \<Rightarrow> string \<Rightarrow> string py" where
  "td_block U ir inputs body =
     pbind (py_get_or ir ''schemaVersionField'' (JInt 1)) (\<lambda>schema.
     pbind (py_key ir ''defName'') (\<lambda>name.
     pbind (td_field ir ''recipeId'') (\<lambda>rid.
     pbind (td_field ir ''target'') (\<lambda>target.
     pbind (td_field ir ''finalizedKind'') (\<lambda>fkind.
     pbind (td_field ir ''mode'') (\<lambda>mode.
     pbind (td_field ir ''role'') (\<lambda>role.
     pbind (td_field ir ''resultType'') (\<lambda>rtype.
     pbind (pbind (py_key ir ''resultCardinality'') (td_card U)) (\<lambda>crd.
       Inr (''def '' @ py_str name @ '' : TargetIdiomRecipe<'' @ newline
         @ ''  '' @ rid @ '', '' @ target @ '','' @ newline
         @ ''  '' @ fkind @ '', '' @ mode @ '', '' @ role @ '', '' @ inputs @ '','' @ newline
         @ ''  '' @ rtype @ '', '' @ crd @ '','' @ newline
         @ ''  '' @ body @ (if eq_int schema 1 then [] else '', '' @ py_str schema) @ ''>;'' @ newline))))))))))"

definition td_inputs :: "string list \<Rightarrow> string" where
  "td_inputs ts =
     (if ts = [] then ''[]''
      else ''['' @ newline @ ''    '' @ join ('','' @ newline @ ''    '') ts @ newline @ ''  ]'')"

definition emit_recipe_td :: "(string \<Rightarrow> nat option) \<Rightarrow> json \<Rightarrow> string py" where
  "emit_recipe_td U recipe =
     (let ir = canonicalize_recipe recipe
      in pbind (pbind (py_key ir ''inputs'') iter_or_empty) (\<lambda>inputs.
         pbind (map_py (td_input U) inputs) (\<lambda>slots.
         pbind (pbind (py_key ir ''body'') td_body) (\<lambda>body.
           td_block U ir (td_inputs slots) body))))"

definition emit_corpus_td :: "(string \<Rightarrow> nat option) \<Rightarrow> json list \<Rightarrow> string py" where
  "emit_corpus_td U recipes =
     pbind (map_py (emit_recipe_td U) recipes) (\<lambda>chunks. Inr (join newline chunks))"

end
