(* ===== verification/RecipeRewrite.thy ===== *)
theory RecipeRewrite
  imports RecipeEmit
begin

text \<open>
  \<open>src/scripts/generators/recipe_canonicalizer.py\<close>, third part: the scan of the corpus files for
  recipe definitions, their replacement by the canonical blocks, and \<open>main\<close>. \<open>files\<close> are the
  corpus files in the order of \<open>SOLIDITY_CORPUS\<close>, each with its text, and \<open>T\<close> is
  \<open>load_records\<close>: the view \<open>llvm-tblgen\<close> prints for the files, or the exception of a failed run.
  An offset into a text is the length of what precedes it; the loops that advance an offset are
  functions of the rest of the text, empty once the offset has passed the end.
\<close>

section \<open>The scan for definitions\<close>

fun skip_space :: "string \<Rightarrow> string" where
  "skip_space [] = []"
| "skip_space (c # cs) =
     (if py_space (c # takeWhile utf8_continuation cs) then skip_space (dropWhile utf8_continuation cs)
      else c # cs)"

definition def_name_char :: "char \<Rightarrow> bool" where
  "def_name_char c \<longleftrightarrow> is_alpha c \<or> is_digit c \<or> c = CHR ''_''"

text \<open>
  A match of \<open>_DEF_START\<close> at a line start: the name and the rest after the colon. The pattern
  matches a colon behind any white space after the name, on the same line or on a later one.
\<close>

definition match_after :: "string \<Rightarrow> string \<Rightarrow> (string \<times> string) option" where
  "match_after a b =
     (let name = takeWhile def_name_char b; e = skip_space (dropWhile def_name_char b)
      in if length b < length a \<and> name \<noteq> [] \<and> \<not> is_digit (hd name) \<and> starts_with '':'' e
         then Some (name, tl e) else None)"

definition match_def :: "string \<Rightarrow> (string \<times> string) option" where
  "match_def s = (if starts_with ''def'' s then match_after (drop 3 s) (skip_space (drop 3 s)) else None)"

text \<open>
  \<open>_DEF_START.finditer(text)\<close>: the starts and names of the matches that do not overlap. \<open>bol\<close>
  tells whether the text is at a line start, \<open>k\<close> counts the characters left of the last match.
\<close>

fun def_scan :: "bool \<Rightarrow> nat \<Rightarrow> nat \<Rightarrow> string \<Rightarrow> (nat \<times> string) list" where
  "def_scan bol k p [] = []"
| "def_scan bol 0 p (c # cs) =
     (case (if bol then match_def (c # cs) else None) of
        Some (name, r) \<Rightarrow> (p, name) # def_scan (c = CHR 0x0A) (length cs - length r) (Suc p) cs
      | None \<Rightarrow> def_scan (c = CHR 0x0A) 0 (Suc p) cs)"
| "def_scan bol (Suc k) p (c # cs) = def_scan (c = CHR 0x0A) k (Suc p) cs"

definition def_starts :: "string \<Rightarrow> (nat \<times> string) list" where
  "def_starts text = def_scan True 0 0 text"

section \<open>The span of a definition\<close>

text \<open>\<open>text.find(":", i)\<close>: the rest from the first colon on.\<close>

definition find_colon :: "string \<Rightarrow> string option" where
  "find_colon s = (let r = dropWhile (\<lambda>c. c \<noteq> CHR '':'') s in if r = [] then None else Some r)"

text \<open>The loop over a quoted text: the rest from its closing quote on.\<close>

fun skip_quoted :: "string \<Rightarrow> string" where
  "skip_quoted [] = []"
| "skip_quoted (c # cs) =
     (if c = CHR 0x22 then c # cs
      else if c = CHR 0x5C then skip_quoted (drop 1 cs)
      else skip_quoted cs)"

lemma length_skip_quoted [termination_simp]: "length (skip_quoted s) \<le> length s"
proof (induction s rule: skip_quoted.induct)
  case (2 c cs)
  then show ?case by (fastforce intro: le_SucI order.trans)
qed simp

lemma skip_quoted_drop [termination_simp]: "length (skip_quoted s) - n < Suc (length s)"
  using length_skip_quoted [of s] by simp

fun skip_to_args :: "string \<Rightarrow> string" where
  "skip_to_args [] = []"
| "skip_to_args (c # cs) =
     (if c = CHR ''<'' \<or> c = CHR '';'' then c # cs
      else if c = CHR 0x22 then skip_to_args (drop 1 (skip_quoted cs))
      else skip_to_args cs)"

text \<open>The loop over the template arguments, \<open>k\<close> brackets deep.\<close>

fun skip_args :: "nat \<Rightarrow> string \<Rightarrow> string" where
  "skip_args k [] = []"
| "skip_args k (c # cs) =
     (if c = CHR ''<'' then skip_args (Suc k) cs
      else if c = CHR ''>'' then (if k = 1 then cs else skip_args (k - 1) cs)
      else if c = CHR 0x22 then skip_args k (drop 1 (skip_quoted cs))
      else skip_args k cs)"

text \<open>The rest of a text after the definition whose colon it follows.\<close>

definition after_def :: "string \<Rightarrow> string \<Rightarrow> string py" where
  "after_def def_name s =
     (let t = skip_to_args s;
          u = dropWhile (\<lambda>c. c \<in> set [CHR '' '', CHR 0x09, CHR 0x0A, CHR 0x0D])
                (if starts_with ''<'' t then skip_args 0 t else t)
      in if \<not> starts_with '';'' u
         then rc_die (''def '' @ def_name @ '': could not find terminating '' @ sq '';'')
         else Inr (if starts_with newline (tl u) then drop 2 u else drop 1 u))"

fun span_among :: "string \<Rightarrow> string \<Rightarrow> (nat \<times> string) list \<Rightarrow> (nat \<times> nat) option py" where
  "span_among text def_name [] = Inr None"
| "span_among text def_name ((p, name) # ms) =
     (if name \<noteq> def_name then span_among text def_name ms
      else case find_colon (drop p text) of
          None \<Rightarrow> span_among text def_name ms
        | Some r \<Rightarrow> pbind (after_def def_name (tl r)) (\<lambda>u. Inr (Some (p, length text - length u))))"

definition find_def_span :: "string \<Rightarrow> string \<Rightarrow> (nat \<times> nat) option py" where
  "find_def_span text def_name = span_among text def_name (def_starts text)"

section \<open>Rewriting\<close>

text \<open>The replacements of the definitions a text has, and their application from the last to the first.\<close>

fun replacements :: "(string \<Rightarrow> nat option) \<Rightarrow> string \<Rightarrow> obj \<Rightarrow> (nat \<times> nat \<times> string) list py" where
  "replacements U text [] = Inr []"
| "replacements U text ((def_name, ir) # rs) =
     pbind (find_def_span text def_name) (\<lambda>span.
       case span of
         None \<Rightarrow> replacements U text rs
       | Some (a, b) \<Rightarrow> pbind (emit_recipe_td U ir) (\<lambda>t.
           pbind (replacements U text rs) (\<lambda>ts. Inr ((a, b, t) # ts))))"

definition splice :: "nat \<times> nat \<times> string \<Rightarrow> string \<Rightarrow> string" where
  "splice r out = (case r of (a, b, t) \<Rightarrow> take a out @ t @ drop b out)"

definition rewrite_file_recipes :: "(string \<Rightarrow> nat option) \<Rightarrow> string \<Rightarrow> obj \<Rightarrow> string py" where
  "rewrite_file_recipes U text recipes_by_def =
     pbind (replacements U text recipes_by_def) (\<lambda>spans.
       Inr (fold splice (rev (sort_key fst spans)) text))"

text \<open>
  The file of each definition. The names are those the scan found, so a search for \<open>def name :\<close> at
  a line start succeeds iff the scan of that file finds the name.
\<close>

definition map_def :: "string \<Rightarrow> string \<Rightarrow> string \<Rightarrow> (string \<times> string) list \<Rightarrow> (string \<times> string) list py" where
  "map_def path text name mapping =
     (if name \<notin> set (map snd (def_starts text)) then Inr mapping
      else case map_of mapping name of
          Some q \<Rightarrow> (if q \<noteq> path
            then rc_die (''def '' @ name @ '' found in both '' @ q @ '' and '' @ path) else Inr mapping)
        | None \<Rightarrow> Inr (mapping @ [(name, path)]))"

definition map_defs_to_files ::
    "string list \<Rightarrow> (string \<times> string) list \<Rightarrow> (string \<times> string) list py" where
  "map_defs_to_files def_names files =
     pbind (fold_py (\<lambda>(path, text). fold_py (map_def path text) def_names) files []) (\<lambda>mapping.
       let missing = filter (\<lambda>n. n \<notin> fst ` set mapping) def_names
       in if missing \<noteq> [] then rc_die (''could not locate recipe defs in corpus: '' @ repr_strs missing)
          else Inr mapping)"

section \<open>The corpus in file order\<close>

definition add_def :: "string list \<Rightarrow> string \<Rightarrow> string list \<Rightarrow> string list" where
  "add_def named name ordered = (if name \<in> set named \<and> name \<notin> set ordered then ordered @ [name] else ordered)"

definition ordered_defs :: "string list \<Rightarrow> (string \<times> string) list \<Rightarrow> string list" where
  "ordered_defs named files =
     fold (\<lambda>(path, text). fold (add_def named) (map snd (def_starts text))) files []"

definition extract_corpus_ordered ::
    "(string \<Rightarrow> nat option) \<Rightarrow> nat \<Rightarrow> (string \<times> string) list \<Rightarrow> obj \<Rightarrow> json list py" where
  "extract_corpus_ordered U n files d =
     pbind (production_recipe_names d) (\<lambda>named.
       let ordered = ordered_defs named files;
           missing = sorted_diff (remdups named) ordered; extra = sorted_diff ordered named
       in if missing \<noteq> [] then rc_die (''production defs not found in configured corpus: '' @ repr_strs missing)
          else if extra \<noteq> [] then rc_die (''corpus def scan disagree with dump-json: '' @ repr_strs extra)
          else pbind (map_py (extract_recipe U n d) ordered) (\<lambda>recipes.
               pbind (rc_distinct_ids [] recipes) (\<lambda>_. Inr recipes)))"

section \<open>The tool\<close>

text \<open>\<open>json.dumps(v, indent=2, sort_keys=True, ensure_ascii=False)\<close>, \<open>k\<close> levels deep.\<close>

definition indented :: "nat \<Rightarrow> string" where
  "indented k = newline @ replicate (2 * k) CHR '' ''"

fun pretty :: "nat \<Rightarrow> json \<Rightarrow> string" where
  "pretty k (JList xs) =
     (if xs = [] then ''[]''
      else ''['' @ indented (Suc k) @ join ('','' @ indented (Suc k)) (map (pretty (Suc k)) xs)
             @ indented k @ '']'')"
| "pretty k (JObj d) =
     (if d = [] then ''{}''
      else ''{'' @ indented (Suc k)
             @ join ('','' @ indented (Suc k))
                 (map (\<lambda>(l, v). json_string l @ '': '' @ pretty (Suc k) v) (sort_key fst d))
             @ indented k @ ''}'')"
| "pretty k v = compact v"

definition render :: "json \<Rightarrow> string" where
  "render v = pretty 0 v @ newline"

text \<open>What \<open>main\<close> does with the recipes: print, or rewrite the files.\<close>

datatype rc_mode = Emit_json | Emit_td | Canonicalize_files | Summary

text \<open>
  \<open>by_def\<close>, and the groups of \<open>per_file\<close> in the order of their paths: the recipes of each file
  that \<open>mapping\<close> names, in the order of \<open>mapping\<close>.
\<close>

definition recipes_by_def :: "json list \<Rightarrow> obj py" where
  "recipes_by_def rs =
     fold_py (\<lambda>r acc. pbind (py_key r ''defName'') (\<lambda>n. Inr (dict_set (str_of n) r acc))) rs []"

definition file_groups :: "obj \<Rightarrow> (string \<times> string) list \<Rightarrow> (string \<times> obj) list" where
  "file_groups by_def mapping =
     map (\<lambda>path. (path, map (\<lambda>(n, q). (n, jget n by_def)) (filter (\<lambda>(n, q). q = path) mapping)))
       (sort_key (split_at CHR ''/'') (remdups (map snd mapping)))"

text \<open>
  The loop over the groups writes each file before it goes on, so a later exception leaves the
  files written so far: the result has the files in any case.
\<close>

fun normalize_files ::
    "(string \<Rightarrow> nat option) \<Rightarrow> (string \<times> obj) list \<Rightarrow> (string \<times> string) list
       \<Rightarrow> (string \<times> string) list \<times> string py" where
  "normalize_files U [] files = (files, Inr [])"
| "normalize_files U ((path, grp) # gs) files =
     (let text = the (map_of files path); count = '' ('' @ show_nat (length grp) @ '' recipes)'' @ newline
      in case rewrite_file_recipes U text grp of
           Inl e \<Rightarrow> (files, Inl e)
         | Inr rewritten \<Rightarrow>
             (let line = (if rewritten \<noteq> text then ''normalized '' else ''unchanged '') @ path @ count;
                  (files', out) = normalize_files U gs (if rewritten \<noteq> text then dict_set path rewritten files else files)
              in (files', pbind out (\<lambda>t. Inr (line @ t)))))"

definition load_and_extract ::
    "(string \<Rightarrow> nat option) \<Rightarrow> nat \<Rightarrow> ((string \<times> string) list \<Rightarrow> obj py) \<Rightarrow> (string \<times> string) list \<Rightarrow> json list py" where
  "load_and_extract U n T files =
     pbind (T files) (\<lambda>d. pbind (extract_corpus_ordered U n files d) (\<lambda>rs. Inr (map canonicalize_recipe rs)))"

definition canonicalize_files ::
    "(string \<Rightarrow> nat option) \<Rightarrow> nat \<Rightarrow> ((string \<times> string) list \<Rightarrow> obj py) \<Rightarrow> json list
       \<Rightarrow> (string \<times> string) list \<Rightarrow> (string \<times> string) list \<times> string py" where
  "canonicalize_files U n T c1 files =
     (case pbind (recipes_by_def c1) (\<lambda>by_def.
             pbind (map_defs_to_files (map fst by_def) files) (\<lambda>mapping. Inr (file_groups by_def mapping))) of
        Inl e \<Rightarrow> (files, Inl e)
      | Inr groups \<Rightarrow>
          (let (files', out) = normalize_files U groups files
           in (files', pbind out (\<lambda>t.
                pbind (load_and_extract U n T files') (\<lambda>c_after.
                  if compact (JList c_after) \<noteq> compact (JList c1)
                  then rc_die ''post-normalize dump-json IR diverged from pre-normalize IR''
                  else Inr (t @ ''ok: '' @ show_nat (length c1)
                    @ '' production recipes; IR stable after normalize'' @ newline))))))"

text \<open>\<open>print\<close> of one recipe of the summary.\<close>

definition summary_line :: "json \<Rightarrow> string py" where
  "summary_line r =
     pbind (py_key r ''recipeId'') (\<lambda>a. pbind (py_key r ''defName'') (\<lambda>b.
       Inr (''  '' @ py_str a @ ''  def='' @ py_str b @ newline)))"

text \<open>\<open>main\<close>: the files it leaves, and what it prints or the exception that ends it.\<close>

definition rc_main ::
    "(string \<Rightarrow> string) \<Rightarrow> (string \<Rightarrow> nat option) \<Rightarrow> nat \<Rightarrow> ((string \<times> string) list \<Rightarrow> obj py) \<Rightarrow> rc_mode
       \<Rightarrow> bool \<Rightarrow> (string \<times> string) list \<Rightarrow> (string \<times> string) list \<times> string py" where
  "rc_main H U n T mode check_idempotent files =
     (case pbind (T files) (extract_corpus_ordered U n files) of
        Inl e \<Rightarrow> (files, Inl e)
      | Inr recipes \<Rightarrow>
          (let c1 = map canonicalize_recipe recipes; c2 = map canonicalize_recipe recipes
           in if check_idempotent \<and> compact (JList c1) \<noteq> compact (JList c2)
              then (files, rc_die ''canonicalize is not idempotent'')
              else if compact (JList c1) \<noteq> compact (JList c2)
              then (files, rc_die ''internal: canonicalize non-deterministic'')
              else case mode of
                  Emit_json \<Rightarrow> (files, Inr (render (JObj [(''kind'', JStr ''neutrino.recipe-record-corpus''),
                    (''schemaVersion'', JInt 1), (''recipes'', JList c1)])))
                | Emit_td \<Rightarrow> (files, emit_corpus_td U c1)
                | Canonicalize_files \<Rightarrow> canonicalize_files U n T c1 files
                | Summary \<Rightarrow> (files, pbind (map_py summary_line c1) (\<lambda>ls.
                    Inr (''production recipes: '' @ show_nat (length c1) @ newline @ concat ls
                      @ ''digest sha256:'' @ H (compact (JList c1)) @ newline)))))"

end
