(* ===== verification/RecipeProps.thy ===== *)
theory RecipeProps
  imports RecipeRewrite
begin

text \<open>
  The reader and the printer of recipes: every recipe the reader returns is in the closed grammar
  of the IR, the reader ends on references without a cycle, and the printer succeeds on what the
  reader returns unless its result cardinality has an unknown spelling.
\<close>

section \<open>The grammar of the IR\<close>

text \<open>The predicates read the keys by name, so they do not depend on their order.\<close>

fun ir_binding :: "json \<Rightarrow> bool" and ir_op :: "json \<Rightarrow> bool" and ir_body :: "json \<Rightarrow> bool" where
  "ir_binding (JObj b) =
     (truthy (jget ''field'' b) \<and>
       (if jget ''bindKind'' b = JStr ''Direct''
        then same_keys b [''bindKind'', ''field'', ''input''] \<and> truthy (jget ''input'' b)
        else if jget ''bindKind'' b = JStr ''Hook''
        then same_keys b [''bindKind'', ''field'', ''hookId'', ''input''] \<and> truthy (jget ''hookId'' b)
             \<and> truthy (jget ''input'' b)
        else jget ''bindKind'' b = JStr ''Nested'' \<and> same_keys b [''bindKind'', ''field'', ''body'']
             \<and> ir_body (jget ''body'' b)))"
| "ir_binding _ = False"
| "ir_op (JObj p) =
     (if jget ''opKind'' p = JStr ''Emit''
      then same_keys p [''opKind'', ''node'', ''bindings''] \<and> truthy (jget ''node'' p)
           \<and> (case jget ''bindings'' p of JList bs \<Rightarrow> list_all ir_binding bs | _ \<Rightarrow> False)
      else if jget ''opKind'' p = JStr ''Call''
      then same_keys p [''opKind'', ''recipeId'', ''bindings''] \<and> truthy (jget ''recipeId'' p)
           \<and> (case jget ''bindings'' p of JList bs \<Rightarrow> list_all ir_binding bs | _ \<Rightarrow> False)
      else (jget ''opKind'' p = JStr ''ForEach'' \<or> jget ''opKind'' p = JStr ''Optional'')
           \<and> same_keys p [''opKind'', ''slot'', ''body''] \<and> truthy (jget ''slot'' p) \<and> ir_body (jget ''body'' p))"
| "ir_op _ = False"
| "ir_body (JObj b) =
     (same_keys b [''ops'']
      \<and> (case jget ''ops'' b of JList vs \<Rightarrow> vs \<noteq> [] \<and> list_all ir_op vs | _ \<Rightarrow> False))"
| "ir_body _ = False"

definition ir_slot :: "json \<Rightarrow> bool" where
  "ir_slot v \<longleftrightarrow>
     (case v of
        JObj s \<Rightarrow>
          same_keys s ([''name'', ''finalizedType'', ''cardinality'', ''min'', ''max'', ''orderKey'', ''parentSlot'']
            @ (if jhas ''presence'' s then [''presence''] else []))
          \<and> truthy (jget ''name'' s) \<and> truthy (jget ''finalizedType'' s)
          \<and> jget ''cardinality'' s \<in> JStr ` {''one'', ''optional'', ''many''}
          \<and> is_proper_int (jget ''min'' s) \<and> is_str (jget ''max'' s) \<and> is_str (jget ''orderKey'' s)
          \<and> is_str (jget ''parentSlot'' s) \<and> (jhas ''presence'' s \<longrightarrow> is_proper_int (jget ''presence'' s))
      | _ \<Rightarrow> False)"

definition ir_card :: "json \<Rightarrow> bool" where
  "ir_card v \<longleftrightarrow>
     (case v of
        JObj c \<Rightarrow>
          truthy (jget ''spelling'' c) \<and>
          (if jget ''spelling'' c = JStr ''many''
           then same_keys c [''spelling'', ''min'', ''max''] \<and> is_proper_int (jget ''min'' c) \<and> is_str (jget ''max'' c)
           else same_keys c [''spelling''])
      | _ \<Rightarrow> False)"

definition ir_recipe :: "json \<Rightarrow> bool" where
  "ir_recipe v \<longleftrightarrow>
     (case v of
        JObj r \<Rightarrow>
          same_keys r [''kind'', ''schemaVersion'', ''defName'', ''recipeId'', ''target'', ''finalizedKind'',
            ''mode'', ''role'', ''schemaVersionField'', ''inputs'', ''resultType'', ''resultCardinality'', ''body'']
          \<and> jget ''kind'' r = JStr ''neutrino.recipe-record'' \<and> jget ''schemaVersion'' r = JInt 1
          \<and> is_str (jget ''defName'' r)
          \<and> truthy (jget ''recipeId'' r) \<and> truthy (jget ''target'' r) \<and> truthy (jget ''finalizedKind'' r)
          \<and> truthy (jget ''resultType'' r) \<and> is_proper_int (jget ''schemaVersionField'' r)
          \<and> (case jget ''inputs'' r of JList xs \<Rightarrow> list_all ir_slot xs | _ \<Rightarrow> False)
          \<and> ir_card (jget ''resultCardinality'' r) \<and> ir_body (jget ''body'' r)
      | _ \<Rightarrow> False)"

section \<open>Canonical objects\<close>

definition canon_obj_items :: "obj \<Rightarrow> obj" where
  "canon_obj_items d = map (\<lambda>(k, v). (k, canon v)) (sort_key fst d)"

lemma canon_JObj: "canon (JObj d) = JObj (canon_obj_items d)"
  by (simp add: canon_obj canon_obj_items_def del: canon.simps)

lemma jget_canon_obj_items:
  assumes "distinct (map fst d)"
  shows "jget k (canon_obj_items d) = canon (jget k d)"
proof -
  have "map_of (canon_obj_items d) k = map_option canon (map_of d k)"
    unfolding canon_obj_items_def by (simp add: canon_items sort_key_fst_map_of [OF assms])
  then show ?thesis by (cases "map_of d k") (simp_all add: jget_def jget_or_def)
qed

lemma jhas_canon_items [simp]: "jhas k (canon_obj_items d) \<longleftrightarrow> jhas k d"
  by (force simp: jhas_def canon_obj_items_def image_iff)

lemma same_keys_canon_items [simp]: "same_keys (canon_obj_items d) ks \<longleftrightarrow> same_keys d ks"
  by (simp add: same_keys_iff)

lemma truthy_canon [simp]: "truthy (canon v) \<longleftrightarrow> truthy v"
  by (cases v) (simp_all add: canon_obj_items_def del: canon.simps(2) add: canon_JObj)

lemma canon_atoms [simp]:
  "canon v = JStr s \<longleftrightarrow> v = JStr s" "is_str (canon v) \<longleftrightarrow> is_str v"
  "is_proper_int (canon v) \<longleftrightarrow> is_proper_int v"
  by (cases v; simp)+

lemmas canon_object = canon_JObj jget_canon_obj_items

lemma rc_die_not_value [simp]: "rc_die msg \<noteq> Inr x" "rc_die msg = Inl e \<longleftrightarrow> e = SystemExit msg"
  by (auto simp: rc_die_def)

lemmas literal_object = same_keys_def jkeys_def jhas_def jget_def jget_or_def

section \<open>The reader returns IR of the grammar\<close>

lemma rc_binding_typed:
  assumes body: "\<And>r x. body r = Inr x \<Longrightarrow> ir_body (canon x)"
    and "rc_binding body d ref = Inr v"
  shows "ir_binding (canon v)"
  using assms(2) unfolding rc_binding_def
  by (auto simp: pbind_Inr_conv canon_object literal_object checks split: if_splits dest!: body)

lemma rc_bindings_typed:
  assumes body: "\<And>r x. body r = Inr x \<Longrightarrow> ir_body (canon x)"
    and "map_py (rc_binding body d) refs = Inr vs"
  shows "list_all (\<lambda>v. ir_binding (canon v)) vs"
  using assms(2) by (rule map_py_all) (rule rc_binding_typed [OF body])

lemma rc_op_typed:
  assumes body: "\<And>r x. body r = Inr x \<Longrightarrow> ir_body (canon x)"
    and "rc_op body d ref = Inr v"
  shows "ir_op (canon v)"
proof -
  have bindings: "list_all (\<lambda>v. ir_binding (canon v)) vs" if "map_py (rc_binding body d) refs = Inr vs" for refs vs
    using body that by (rule rc_bindings_typed)
  show ?thesis
    using assms(2) unfolding rc_op_def
    by (auto simp: pbind_Inr_conv canon_object literal_object checks list.pred_map comp_def split: if_splits
        dest!: body bindings)
qed

lemma rc_body_typed: "rc_body n d ref = Inr b \<Longrightarrow> ir_body (canon b)"
proof (induction n arbitrary: ref b)
  case (Suc n)
  from Suc.prems obtain rs os where os: "map_py (rc_op (rc_body n d) d) rs = Inr os" and "rs \<noteq> []"
    and b: "b = JObj [(''ops'', JList os)]"
    by (auto simp: pbind_Inr_conv is_list_iff split: if_splits)
  have "list_all (\<lambda>v. ir_op (canon v)) os"
    using os by (rule map_py_all) (rule rc_op_typed [OF Suc.IH])
  moreover have "os \<noteq> []" using os \<open>rs \<noteq> []\<close> by (auto simp: map_py_Inr)
  ultimately show ?case by (simp add: b canon_object literal_object list.pred_map comp_def)
qed simp

lemma rc_input_slot_typed: "rc_input_slot U d ref = Inr v \<Longrightarrow> ir_slot (canon v)"
  unfolding rc_input_slot_def rc_slot_def rc_presence_def ir_slot_def
  by (auto simp: pbind_Inr_conv canon_object literal_object checks split: if_splits)

lemma rc_result_cardinality_typed: "rc_result_cardinality U d rec = Inr v \<Longrightarrow> ir_card (canon v)"
  unfolding rc_result_cardinality_def ir_card_def
  by (auto simp: pbind_Inr_conv canon_object literal_object split: if_splits)

lemma rc_ir_typed:
  assumes "rc_ir U n d def_name rec = Inr ir"
    and "truthy (jget ''recipeId'' ir)" "truthy (jget ''target'' ir)" "truthy (jget ''finalizedKind'' ir)"
    and "truthy (jget ''resultType'' ir)"
  shows "ir_recipe (canon (JObj ir)) \<and> jget ''defName'' ir = JStr def_name \<and> distinct (map fst ir)"
proof -
  obtain inputs rcard body rid target fkind mode role version rtype refs bref
    where slots: "map_py (rc_input_slot U d) refs = Inr inputs"
      and rcard: "rc_result_cardinality U d rec = Inr rcard"
      and body: "rc_body n d bref = Inr body"
      and ir: "ir = [(''kind'', JStr ''neutrino.recipe-record''), (''schemaVersion'', JInt 1),
         (''defName'', JStr def_name), (''recipeId'', rid), (''target'', target),
         (''finalizedKind'', fkind), (''mode'', mode), (''role'', role),
         (''schemaVersionField'', JInt version), (''inputs'', JList inputs), (''resultType'', rtype),
         (''resultCardinality'', rcard), (''body'', body)]"
    using assms(1) unfolding rc_ir_def by (auto simp: pbind_Inr_conv)
  have "list_all (\<lambda>v. ir_slot (canon v)) inputs"
    using slots by (rule map_py_all) (rule rc_input_slot_typed)
  with rc_result_cardinality_typed [OF rcard] rc_body_typed [OF body] assms(2-) show ?thesis
    by (auto simp: ir ir_recipe_def canon_object literal_object list.pred_map comp_def)
qed

lemma extract_recipe_value:
  assumes "extract_recipe U n d name = Inr r"
  obtains rec ir where "map_of d name = Some rec" "rc_ir U n d name rec = Inr ir" "r = canon (JObj ir)"
    and "truthy (jget ''recipeId'' ir)" "truthy (jget ''target'' ir)" "truthy (jget ''finalizedKind'' ir)"
    and "truthy (jget ''resultType'' ir)"
  using assms unfolding extract_recipe_def canonicalize_recipe_def jindex_def
  by (auto simp: pbind_Inr_conv split: if_splits option.splits)

lemma extracted_recipe_shape:
  assumes "extract_recipe U n d name = Inr r"
  shows "ir_recipe r \<and> jget ''defName'' (as_obj r) = JStr name \<and> canonicalize_recipe r = r"
proof -
  obtain rec ir where ir: "rc_ir U n d name rec = Inr ir" and r: "r = canon (JObj ir)"
    and identity: "truthy (jget ''recipeId'' ir)" "truthy (jget ''target'' ir)"
      "truthy (jget ''finalizedKind'' ir)" "truthy (jget ''resultType'' ir)"
    using assms by (rule extract_recipe_value)
  from rc_ir_typed [OF ir identity] have "ir_recipe (canon (JObj ir))"
    and "jget ''defName'' ir = JStr name" and "distinct (map fst ir)" by simp_all
  moreover have "canonicalize_recipe r = r" by (simp only: r canonicalize_recipe_def canon_idem)
  ultimately show ?thesis by (simp add: r canon_object del: canon.simps(2))
qed

text \<open>C27. Type soundness of the reader: whatever the records of the view hold, a recipe it
  returns is in the closed grammar of the IR (Emit, ForEach, Optional and Call over Direct, Hook and
  Nested bindings, no empty sequence, known slot cardinalities, a complete identity), carries the name
  of its definition and is in canonical form.\<close>

theorem extracted_recipe_typed:
  assumes "extract_recipe U n d name = Inr r"
  shows "ir_recipe r \<and> jget ''defName'' (as_obj r) = JStr name \<and> canonicalize_recipe r = r"
  using assms by (rule extracted_recipe_shape)

section \<open>The printer succeeds on IR of the grammar\<close>

lemma jindex_present: "jhas k d \<Longrightarrow> jindex k d = Inr (jget k d)"
  by (auto simp: jhas_map_of jindex_def jget_def jget_or_def)

lemma jget_or_jget: "jget_or k v d = (if jhas k d then jget k d else v)"
  by (auto simp: jhas_map_of jget_def jget_or_def split: option.splits)

lemma same_keysD: "same_keys d ks \<Longrightarrow> k \<in> set ks \<Longrightarrow> jindex k d = Inr (jget k d)"
  by (simp add: same_keys_iff jindex_present)

lemma td_any_nested_total: "list_all is_obj vs \<Longrightarrow> \<exists>b. td_any_nested vs = Inr b"
  by (induction vs) (auto simp: is_obj_iff)

lemma td_one_plain_total: "list_all is_obj vs \<Longrightarrow> \<exists>b. td_one_plain (JList vs) = Inr b"
  using td_any_nested_total by (fastforce simp: td_one_plain_def)

lemma ir_op_obj: "ir_op v \<Longrightarrow> is_obj v"
  by (cases v) simp_all

lemma printer_total:
  "ir_binding b \<Longrightarrow> \<exists>t. td_binding b = Inr t"
  "ir_op p \<Longrightarrow> \<exists>t. td_op p = Inr t"
  "ir_body v \<Longrightarrow> \<exists>t. td_body v = Inr t"
proof (induction b and p and v rule: ir_binding_ir_op_ir_body.induct)
  case (1 b)
  then show ?case
    by (auto simp: td_binding.simps same_keysD split: if_splits)
next
  case (3 p)
  have bs: "\<exists>ts. map_py td_binding bs = Inr ts" if "jget ''opKind'' p = JStr ''Emit'' \<or> jget ''opKind'' p = JStr ''Call''"
    "jget ''bindings'' p = JList bs" "list_all ir_binding bs" for bs
    using that "3.IH" unfolding map_py_total list_all_iff by (metis (no_types, lifting))
  show ?case
    using "3" bs by (auto simp: td_op.simps same_keysD split: if_splits json.splits)
next
  case (5 b)
  then obtain vs where vs: "jget ''ops'' b = JList vs" "vs \<noteq> []" "list_all ir_op vs"
    and key: "jindex ''ops'' b = Inr (JList vs)"
    by (auto simp: same_keysD split: json.splits)
  have ops: "\<forall>v \<in> set vs. \<exists>t. td_op v = Inr t"
    using "5.IH" vs by (auto simp: list_all_iff)
  from vs(3) have "list_all is_obj vs" by (auto simp: list_all_iff intro: ir_op_obj)
  then obtain plain where "td_one_plain (JList vs) = Inr plain" using td_one_plain_total by blast
  moreover have "py_item (JList vs) (JInt 0) = Inr (hd vs)"
    using vs(2) by (simp add: list_index_def hd_conv_nth)
  moreover have "\<exists>ts. map_py td_op vs = Inr ts" using ops by (simp add: map_py_total)
  moreover have "\<exists>t. td_op (hd vs) = Inr t" using ops vs(2) by simp
  ultimately show ?case using vs(2) by (auto simp: td_body.simps key)
qed simp_all

lemma td_input_total: "ir_slot v \<Longrightarrow> \<exists>t. td_input U v = Inr t"
  unfolding ir_slot_def
  by (auto simp: td_input_def td_many_def Let_def is_proper_int_iff is_str_iff same_keysD jget_or_jget
      split: json.splits if_splits)

lemma td_inputs_total: "list_all ir_slot vs \<Longrightarrow> \<exists>ts. map_py (td_input U) vs = Inr ts"
  by (simp add: map_py_total list_all_iff td_input_total)

text \<open>The spelling of a result cardinality, and the printer on it.\<close>

definition known_spelling :: "json \<Rightarrow> bool" where
  "known_spelling rc \<longleftrightarrow> jget ''spelling'' (as_obj rc) \<in> JStr ` {''one'', ''optional'', ''many''}"

lemma ir_card_object:
  assumes "ir_card rc"
  obtains c where "rc = JObj c" and "jindex ''spelling'' c = Inr (jget ''spelling'' c)"
    and "jget ''spelling'' c = JStr ''many'' \<Longrightarrow> \<exists>i. jindex ''min'' c = Inr (JInt i)"
    and "jget ''spelling'' c = JStr ''many'' \<Longrightarrow> \<exists>v. jindex ''max'' c = Inr v"
    and "jget ''spelling'' c \<noteq> JStr ''many'' \<Longrightarrow> jindex ''min'' c = Inl KeyError"
proof -
  obtain c where c: "rc = JObj c" using assms by (auto simp: ir_card_def split: json.split_asm)
  show thesis
  proof (cases "jget ''spelling'' c = JStr ''many''")
    case True
    with assms c have keys: "same_keys c [''spelling'', ''min'', ''max'']" "is_proper_int (jget ''min'' c)"
      by (simp_all add: ir_card_def)
    have "jindex ''spelling'' c = Inr (jget ''spelling'' c)" "jindex ''min'' c = Inr (jget ''min'' c)"
      "jindex ''max'' c = Inr (jget ''max'' c)"
      by (simp_all add: same_keysD [OF keys(1)])
    with True c keys(2) show ?thesis by (intro that [OF c]) (auto simp: is_proper_int_iff)
  next
    case False
    with assms c have keys: "same_keys c [''spelling'']" by (simp add: ir_card_def)
    have "jindex ''spelling'' c = Inr (jget ''spelling'' c)" by (simp add: same_keysD [OF keys])
    moreover have "\<not> jhas ''min'' c" using keys unfolding same_keys_iff by simp
    then have "jindex ''min'' c = Inl KeyError" by (simp add: jhas_map_of jindex_def split: option.split)
    ultimately show ?thesis using False c by (intro that [OF c]) simp_all
  qed
qed

lemma td_card_known:
  assumes "ir_card rc" and "known_spelling rc"
  shows "\<exists>t. td_card U rc = Inr t"
  using assms(1)
proof (rule ir_card_object)
  fix c
  assume c: "rc = JObj c" "jindex ''spelling'' c = Inr (jget ''spelling'' c)"
    "jget ''spelling'' c = JStr ''many'' \<Longrightarrow> \<exists>i. jindex ''min'' c = Inr (JInt i)"
    "jget ''spelling'' c = JStr ''many'' \<Longrightarrow> \<exists>v. jindex ''max'' c = Inr v"
  have "jget ''spelling'' c = JStr ''one'' \<or> jget ''spelling'' c = JStr ''optional'' \<or> jget ''spelling'' c = JStr ''many''"
    using assms(2) by (auto simp: known_spelling_def c(1))
  then show ?thesis by (elim disjE) (use c in \<open>auto simp: td_card_def\<close>)
qed

lemma td_card_unknown:
  assumes "ir_card rc" and "\<not> known_spelling rc"
  shows "td_card U rc = Inl KeyError"
  using assms(1)
proof (rule ir_card_object)
  fix c
  assume c: "rc = JObj c" "jindex ''spelling'' c = Inr (jget ''spelling'' c)"
    "jget ''spelling'' c \<noteq> JStr ''many'' \<Longrightarrow> jindex ''min'' c = Inl KeyError"
  with assms(2) show ?thesis by (simp add: td_card_def known_spelling_def)
qed

lemma emit_recipe_result:
  assumes ir: "ir_recipe r" and canonical: "canonicalize_recipe r = r"
  shows "case td_card U (jget ''resultCardinality'' (as_obj r)) of
      Inl e \<Rightarrow> emit_recipe_td U r = Inl e | Inr c \<Rightarrow> \<exists>t. emit_recipe_td U r = Inr t"
proof -
  obtain d vs where r: "r = JObj d" and vs: "jget ''inputs'' d = JList vs" "list_all ir_slot vs"
    and body: "ir_body (jget ''body'' d)" and keys: "same_keys d [''kind'', ''schemaVersion'', ''defName'',
      ''recipeId'', ''target'', ''finalizedKind'', ''mode'', ''role'', ''schemaVersionField'', ''inputs'',
      ''resultType'', ''resultCardinality'', ''body'']"
    using ir by (auto simp: ir_recipe_def split: json.splits)
  from td_inputs_total [OF vs(2)] obtain ts where ts: "map_py (td_input U) vs = Inr ts" by blast
  from printer_total(3) [OF body] obtain t where t: "td_body (jget ''body'' d) = Inr t" by blast
  show ?thesis
    unfolding emit_recipe_td_def canonical Let_def td_block_def
    by (cases "td_card U (jget ''resultCardinality'' d)") (simp_all add: r vs(1) ts t same_keysD [OF keys])
qed

text \<open>C31. The printer and the reader agree except on the result cardinality: a recipe the reader
  returns is printed iff its result cardinality is spelled one, optional or many. The reader accepts
  any other spelling that is not empty, without the bounds the printer then looks for, and the
  emission ends with a \<open>KeyError\<close>.\<close>

theorem recipe_emission:
  assumes "extract_recipe U n d name = Inr r"
  shows "if known_spelling (jget ''resultCardinality'' (as_obj r))
    then \<exists>t. emit_recipe_td U r = Inr t else emit_recipe_td U r = Inl KeyError"
proof -
  from extracted_recipe_shape [OF assms] have ir: "ir_recipe r" and canonical: "canonicalize_recipe r = r" by simp_all
  have crd: "ir_card (jget ''resultCardinality'' (as_obj r))"
    using ir by (auto simp: ir_recipe_def split: json.splits)
  show ?thesis
    using emit_recipe_result [OF ir canonical, of U] td_card_known [OF crd, of U] td_card_unknown [OF crd, of U]
    by (auto split: sum.splits)
qed

section \<open>A view\<close>

text \<open>
  A view with one recipe: its body iterates over a slot, and a nested body emits a node. The argument
  is the spelling of the result cardinality.
\<close>

definition def_ref :: "string \<Rightarrow> json" where
  "def_ref s = JObj [(''kind'', JStr ''def''), (''def'', JStr s)]"

definition recipe_view :: "string \<Rightarrow> obj" where
  "recipe_view spelling =
    [(''!instanceof'', JObj [(''TargetIdiomRecipe'', JList [JStr ''Pay''])]),
     (''S'', JObj [(''Name'', JStr ''s''), (''FinalizedType'', JStr ''T''), (''Cardinality'', JStr ''one''),
       (''Min'', JInt 1), (''Max'', JStr ''1'')]),
     (''C'', JObj [(''Spelling'', JStr spelling)]),
     (''B0'', JObj [(''Ops'', JList [def_ref ''O0''])]),
     (''O0'', JObj [(''OpKind'', JStr ''ForEach''), (''Slot'', JStr ''s''), (''Body'', def_ref ''B1'')]),
     (''B1'', JObj [(''Ops'', JList [def_ref ''O1''])]),
     (''O1'', JObj [(''OpKind'', JStr ''Emit''), (''Node'', JStr ''N''), (''Bindings'', JList [def_ref ''D''])]),
     (''D'', JObj [(''BindKind'', JStr ''Direct''), (''Field'', JStr ''f''), (''Input'', JStr ''s.x'')]),
     (''Pay'', JObj [(''!superclasses'', JList [JStr ''TargetIdiomRecipe'']), (''RecipeId'', JStr ''p''),
       (''Target'', JStr ''t''), (''FinalizedKind'', JStr ''k''), (''Mode'', JStr ''m''), (''Role'', JStr ''r''),
       (''Inputs'', JList [def_ref ''S'']), (''ResultType'', JStr ''R''),
       (''ResultCardinality'', def_ref ''C''), (''Body'', def_ref ''B0'')])]"

lemma sample_recipe:
  "case extract_recipe (\<lambda>_. None) 2 (recipe_view ''one'') ''Pay'' of Inl e \<Rightarrow> False
   | Inr r \<Rightarrow> known_spelling (jget ''resultCardinality'' (as_obj r))"
  "case extract_recipe (\<lambda>_. None) 2 (recipe_view ''few'') ''Pay'' of Inl e \<Rightarrow> False
   | Inr r \<Rightarrow> \<not> known_spelling (jget ''resultCardinality'' (as_obj r))"
  by code_simp+

lemma extracted_recipe_typed_witness:
  "\<exists>r. extract_recipe (\<lambda>_. None) 2 (recipe_view ''one'') ''Pay'' = Inr r \<and> ir_recipe r"
  using sample_recipe(1) extracted_recipe_typed [of "\<lambda>_. None" 2 "recipe_view ''one''" "''Pay''"]
  by (auto split: sum.splits)

lemma recipe_emission_witness:
  "\<exists>r. extract_recipe (\<lambda>_. None) 2 (recipe_view ''few'') ''Pay'' = Inr r \<and>
     emit_recipe_td (\<lambda>_. None) r = Inl KeyError"
proof -
  obtain r where "extract_recipe (\<lambda>_. None) 2 (recipe_view ''few'') ''Pay'' = Inr r"
    and "\<not> known_spelling (jget ''resultCardinality'' (as_obj r))"
    using sample_recipe(2) by (auto split: sum.splits)
  with recipe_emission [OF this(1)] show ?thesis by auto
qed

end
