(* ===== verification/RecipeEnds.thy ===== *)
theory RecipeEnds
  imports RecipeProps
begin

text \<open>
  Termination of the reader: \<open>_body\<close> follows references, so it ends iff no body leads back to
  itself. \<open>rc_next d ref\<close> lists the bodies that reading the body \<open>ref\<close> goes on to read.
\<close>

section \<open>The bodies a body refers to\<close>

definition after :: "'a py \<Rightarrow> ('a \<Rightarrow> json list) \<Rightarrow> json list" where
  "after m N = (case m of Inl e \<Rightarrow> [] | Inr x \<Rightarrow> N x)"

lemma after_simps [simp]: "after (Inr x) N = N x" "after (Inl e) N = []"
  by (simp_all add: after_def)

definition binding_next :: "obj \<Rightarrow> json \<Rightarrow> json list" where
  "binding_next d ref =
     after (rc_deref d ref) (\<lambda>rec.
     after (rc_text rec ''BindKind'') (\<lambda>kind.
     after (in_strs kind [''Direct'', ''Hook'', ''Nested'']) (\<lambda>known.
       if \<not> known then []
       else after (rc_text rec ''Field'') (\<lambda>field.
         if \<not> truthy field then [] else if kind = JStr ''Direct'' then [] else if kind = JStr ''Hook'' then []
         else after (rc_field rec ''Body'' JNull) (\<lambda>b. [b])))))"

definition op_next :: "obj \<Rightarrow> json \<Rightarrow> json list" where
  "op_next d ref =
     after (rc_deref d ref) (\<lambda>rec.
     after (rc_text rec ''OpKind'') (\<lambda>kind.
     after (in_strs kind [''Emit'', ''ForEach'', ''Optional'', ''Call'']) (\<lambda>known.
       if \<not> known then []
       else if kind = JStr ''Emit''
       then after (rc_text rec ''Node'') (\<lambda>node. if \<not> truthy node then []
         else after (rc_list_field rec ''Bindings'') (\<lambda>bs. concat (map (binding_next d) bs)))
       else if kind = JStr ''Call''
       then after (rc_text rec ''RecipeId'') (\<lambda>rid. if \<not> truthy rid then []
         else after (rc_list_field rec ''Bindings'') (\<lambda>bs. concat (map (binding_next d) bs)))
       else if kind = JStr ''ForEach''
       then after (rc_text rec ''Slot'') (\<lambda>slot. if \<not> truthy slot then []
         else after (rc_field rec ''Body'' JNull) (\<lambda>b. [b]))
       else after (rc_text rec ''Slot'') (\<lambda>slot. if \<not> truthy slot then []
         else after (rc_field rec ''Body'' JNull) (\<lambda>b. [b])))))"

definition rc_next :: "obj \<Rightarrow> json \<Rightarrow> json list" where
  "rc_next d ref =
     after (rc_deref d ref) (\<lambda>rec.
     after (rc_field rec ''Ops'' JNull) (\<lambda>ops.
       if \<not> is_list ops \<or> \<not> truthy ops then [] else concat (map (op_next d) (as_list ops))))"

abbreviation leads_to :: "obj \<Rightarrow> json \<Rightarrow> json \<Rightarrow> bool" where
  "leads_to d r ref \<equiv> r \<in> set (rc_next d ref)"

section \<open>The recursion limit is the only source of its exception\<close>

definition no_limit :: "exn \<Rightarrow> bool" where
  "no_limit e \<longleftrightarrow> e \<noteq> RecursionError"

lemma dyn_no_limit: "raises_only dyn_error m \<Longrightarrow> raises_only no_limit m"
  by (auto simp: raises_only_def no_limit_def)

lemma rc_die_raises [outcomes]: "raises_only no_limit (rc_die msg)"
  by (simp add: raises_only_def rc_die_def no_limit_def)

lemma in_strs_no_limit [outcomes]: "raises_only no_limit (in_strs v S)"
  by (simp add: raises_only_def in_strs_raises no_limit_def)

lemma jindex_no_limit [outcomes]: "raises_only no_limit (jindex k d)"
  by (simp add: raises_only_def jindex_def no_limit_def split: option.split)

lemma rc_deref_no_limit [outcomes]: "raises_only no_limit (rc_deref d v)"
  unfolding rc_deref_def by (cases v) (auto intro!: outcomes)

lemma rc_field_no_limit [outcomes]: "raises_only no_limit (rc_field rec name v)"
  unfolding rc_field_def by (intro outcomes raises_dyn_item [THEN dyn_no_limit])

lemma rc_list_field_no_limit [outcomes]: "raises_only no_limit (rc_list_field rec name)"
  unfolding rc_list_field_def by (intro outcomes raises_dyn [THEN dyn_no_limit])

section \<open>One step of the reader\<close>

text \<open>
  \<open>reads F bs\<close>: the computation \<open>F\<close>, with the reader of bodies as its argument, reads the bodies
  \<open>bs\<close> and no others. It depends on their results only, it raises the exception of the limit only
  if one of them does, and with a value for its result every one of them has a value.
\<close>

definition reads :: "((json \<Rightarrow> json py) \<Rightarrow> 'a py) \<Rightarrow> json list \<Rightarrow> bool" where
  "reads F bs \<longleftrightarrow>
     (\<forall>f g. (\<forall>b \<in> set bs. f b = g b) \<longrightarrow> F f = F g) \<and>
     (\<forall>f. (\<forall>b \<in> set bs. raises_only no_limit (f b)) \<longrightarrow> raises_only no_limit (F f)) \<and>
     (\<forall>f y. F f = Inr y \<longrightarrow> (\<forall>b \<in> set bs. \<exists>x. f b = Inr x))"

lemma reads_const: "raises_only no_limit m \<Longrightarrow> reads (\<lambda>_. m) []"
  by (simp add: reads_def)

lemma reads_body: "reads (\<lambda>f. f b) [b]"
  by (simp add: reads_def)

lemma reads_then:
  assumes "reads F bs"
  shows "reads (\<lambda>f. pbind (F f) (\<lambda>x. Inr (h x))) bs"
  unfolding reads_def
proof (intro conjI allI impI)
  show "pbind (F f) (\<lambda>x. Inr (h x)) = pbind (F g) (\<lambda>x. Inr (h x))" if "\<forall>b \<in> set bs. f b = g b" for f g
    using assms that unfolding reads_def by metis
  show "raises_only no_limit (pbind (F f) (\<lambda>x. Inr (h x)))" if "\<forall>b \<in> set bs. raises_only no_limit (f b)" for f
    using assms that unfolding reads_def by (intro outcomes) blast
  show "\<forall>b \<in> set bs. \<exists>x. f b = Inr x" if "pbind (F f) (\<lambda>x. Inr (h x)) = Inr y" for f y
    using assms that unfolding reads_def by (auto simp: pbind_Inr_conv)
qed

lemma reads_map:
  assumes "\<And>x. x \<in> set xs \<Longrightarrow> reads (\<lambda>f. G f x) (N x)"
  shows "reads (\<lambda>f. map_py (G f) xs) (concat (map N xs))"
  unfolding reads_def
proof (intro conjI allI impI)
  show "map_py (G f) xs = map_py (G g) xs" if "\<forall>b \<in> set (concat (map N xs)). f b = g b" for f g
    using assms that unfolding reads_def by (intro map_py_cong refl) simp
  show "raises_only no_limit (map_py (G f) xs)" if "\<forall>b \<in> set (concat (map N xs)). raises_only no_limit (f b)" for f
    using assms that unfolding reads_def by (intro outcomes) simp
  show "\<forall>b \<in> set (concat (map N xs)). \<exists>x. f b = Inr x" if "map_py (G f) xs = Inr y" for f y
  proof -
    have total: "\<forall>x \<in> set xs. \<exists>y. G f x = Inr y"
      unfolding map_py_total [symmetric] using that by (rule exI)
    have "\<exists>z. f b = Inr z" if x: "x \<in> set xs" and b: "b \<in> set (N x)" for x b
    proof -
      from total obtain y where "G f x = Inr y" using x by blast
      with assms [OF x] b show ?thesis unfolding reads_def by blast
    qed
    then show ?thesis by auto
  qed
qed

lemma reads_bind:
  assumes "raises_only no_limit m" and "\<And>x. reads (\<lambda>f. F f x) (N x)"
  shows "reads (\<lambda>f. pbind m (F f)) (after m N)"
  using assms(1) assms(2) [of "projr m"] by (cases m) (auto simp: raises_only_def intro!: reads_const)

lemma reads_if:
  assumes "reads F bs" and "reads G cs"
  shows "reads (\<lambda>f. if c then F f else G f) (if c then bs else cs)"
  using assms by simp

lemmas reads_rules = reads_const reads_if reads_bind reads_then reads_map reads_body

lemma rc_binding_reads: "reads (\<lambda>f. rc_binding f d ref) (binding_next d ref)"
  unfolding rc_binding_def binding_next_def
  by (rule reads_bind reads_if outcomes | rule reads_then reads_body | rule reads_const)+

lemma rc_op_reads: "reads (\<lambda>f. rc_op f d ref) (op_next d ref)"
  unfolding rc_op_def op_next_def
  by (rule reads_bind reads_if outcomes | rule reads_then reads_map reads_body rc_binding_reads | rule reads_const)+

lemma rc_body_reads:
  "reads (\<lambda>f. pbind (rc_deref d ref) (\<lambda>rec.
     pbind (rc_field rec ''Ops'' JNull) (\<lambda>ops.
       if \<not> is_list ops \<or> \<not> truthy ops then rc_die ''empty Sequence body is forbidden''
       else pbind (map_py (rc_op f d) (as_list ops)) (\<lambda>os. Inr (JObj [(''ops'', JList os)]))))) (rc_next d ref)"
  unfolding rc_next_def
  by (rule reads_bind reads_if outcomes | rule reads_then reads_map reads_body rc_op_reads | rule reads_const)+

section \<open>The reader ends\<close>

lemmas body_reads = rc_body_reads [unfolded reads_def raises_only_def no_limit_def]

lemma rc_body_cong:
  assumes "\<And>b. b \<in> set (rc_next d ref) \<Longrightarrow> rc_body m d b = rc_body n d b"
  shows "rc_body (Suc m) d ref = rc_body (Suc n) d ref"
  unfolding rc_body.simps(2) by (rule body_reads [THEN conjunct1, rule_format]) (rule assms)

lemma rc_body_limit:
  assumes "\<And>b. b \<in> set (rc_next d ref) \<Longrightarrow> rc_body n d b \<noteq> Inl RecursionError"
  shows "rc_body (Suc n) d ref \<noteq> Inl RecursionError"
  unfolding rc_body.simps(2)
  using body_reads [THEN conjunct2, THEN conjunct1, rule_format, of d ref "rc_body n d"] assms by blast

lemma rc_body_complete:
  assumes "rc_body (Suc n) d ref = Inr y" and "b \<in> set (rc_next d ref)"
  shows "\<exists>x. rc_body n d b = Inr x"
  by (rule body_reads [THEN conjunct2, THEN conjunct2, rule_format]) (use assms in \<open>simp_all only: rc_body.simps(2)\<close>)

definition settled :: "obj \<Rightarrow> json \<Rightarrow> nat \<Rightarrow> bool" where
  "settled d ref n \<longleftrightarrow> (\<forall>m \<ge> n. rc_body m d ref = rc_body n d ref) \<and> rc_body n d ref \<noteq> Inl RecursionError"

lemma settled_mono: "settled d ref n \<Longrightarrow> n \<le> m \<Longrightarrow> settled d ref m"
  unfolding settled_def by (metis le_trans)

lemma settled_all: "\<forall>r \<in> set rs. \<exists>n. settled d r n \<Longrightarrow> \<exists>n. \<forall>r \<in> set rs. settled d r n"
proof (induction rs)
  case (Cons r rs)
  then obtain m n where "settled d r m" "\<forall>s \<in> set rs. settled d s n" by auto
  then have "\<forall>s \<in> set (r # rs). settled d s (max m n)" by (auto intro: settled_mono)
  then show ?case by blast
qed simp

lemma settled_step:
  assumes "\<forall>r \<in> set (rc_next d ref). settled d r n"
  shows "settled d ref (Suc n)"
  unfolding settled_def
proof (intro conjI allI impI)
  show "rc_body m d ref = rc_body (Suc n) d ref" if "Suc n \<le> m" for m
  proof -
    from that obtain k where k: "m = Suc k" "n \<le> k" by (cases m) auto
    show ?thesis unfolding k(1) by (rule rc_body_cong) (use assms k(2) in \<open>unfold settled_def, blast\<close>)
  qed
  show "rc_body (Suc n) d ref \<noteq> Inl RecursionError"
    by (rule rc_body_limit) (use assms in \<open>unfold settled_def, blast\<close>)
qed

text \<open>C28. The reader of bodies terminates exactly as far as the references do: from a body with no
  infinite path of references, some recursion depth is enough, and every larger one gives the
  same result, which is not the exception of the recursion limit; from any other body no depth
  gives a value.\<close>

theorem reader_terminates:
  "if Wellfounded.accp (leads_to d) ref
   then \<exists>n. \<forall>m \<ge> n. rc_body m d ref = rc_body n d ref \<and> rc_body m d ref \<noteq> Inl RecursionError
   else \<forall>n. \<exists>e. rc_body n d ref = Inl e"
proof -
  have "\<exists>n. settled d ref n" if "Wellfounded.accp (leads_to d) ref"
    using that
  proof (induction rule: accp_induct_rule)
    case (1 ref)
    then have "\<exists>n. \<forall>r \<in> set (rc_next d ref). settled d r n" by (intro settled_all) blast
    then show ?case using settled_step by blast
  qed
  moreover have "Wellfounded.accp (leads_to d) ref" if "rc_body n d ref = Inr y" for n y
    using that
  proof (induction n arbitrary: ref y)
    case (Suc n)
    show ?case
      by (rule accpI) (use rc_body_complete [OF Suc.prems] Suc.IH in blast)
  qed simp
  ultimately show ?thesis
    unfolding settled_def by (metis sum.exhaust)
qed

text \<open>C33. The recursion depth a body needs: if no path of \<open>n\<close> references starts from it, then \<open>n\<close>
  nested bodies are enough.\<close>

theorem reader_depth:
  assumes "\<nexists>r. ((\<lambda>s r. leads_to d r s) ^^ n) ref r"
  shows "rc_body n d ref \<noteq> Inl RecursionError"
  using assms
proof (induction n arbitrary: ref)
  case (Suc n)
  show ?case
  proof (rule rc_body_limit)
    fix b
    assume "b \<in> set (rc_next d ref)"
    with Suc.prems have "\<nexists>r. ((\<lambda>s r. leads_to d r s) ^^ n) b r" by (metis relpowp_Suc_I2)
    then show "rc_body n d b \<noteq> Inl RecursionError" by (rule Suc.IH)
  qed
qed simp

text \<open>In the sample view one body refers to another; in the second view a body refers to itself.\<close>

definition cyclic_view :: obj where
  "cyclic_view =
    [(''B'', JObj [(''Ops'', JList [def_ref ''O''])]),
     (''O'', JObj [(''OpKind'', JStr ''ForEach''), (''Slot'', JStr ''s''), (''Body'', def_ref ''B'')])]"

lemma sample_next:
  "rc_next (recipe_view ''one'') (def_ref ''B0'') = [def_ref ''B1'']"
  "rc_next (recipe_view ''one'') (def_ref ''B1'') = []"
  "rc_next cyclic_view (def_ref ''B'') = [def_ref ''B'']"
  by code_simp+

lemma self_reference: "leads_to d ref ref \<Longrightarrow> \<not> Wellfounded.accp (leads_to d) ref"
proof
  assume "Wellfounded.accp (leads_to d) ref" and "leads_to d ref ref"
  then show False by (induction rule: accp_induct_rule) blast
qed

lemma reader_terminates_witness:
  "(\<exists>n. rc_body n (recipe_view ''one'') (def_ref ''B0'') \<noteq> Inl RecursionError) \<and>
   (\<exists>e. rc_body 7 cyclic_view (def_ref ''B'') = Inl e)"
proof -
  have leaf: "Wellfounded.accp (leads_to (recipe_view ''one'')) (def_ref ''B1'')"
    by (rule accpI) (simp add: sample_next)
  have "Wellfounded.accp (leads_to (recipe_view ''one'')) (def_ref ''B0'')"
    by (rule accpI) (simp add: sample_next leaf)
  then have "\<exists>n. rc_body n (recipe_view ''one'') (def_ref ''B0'') \<noteq> Inl RecursionError"
    using reader_terminates [of "recipe_view ''one''" "def_ref ''B0''"] by auto
  moreover have "\<not> Wellfounded.accp (leads_to cyclic_view) (def_ref ''B'')"
    by (rule self_reference) (simp add: sample_next)
  then have "\<exists>e. rc_body 7 cyclic_view (def_ref ''B'') = Inl e"
    using reader_terminates [of cyclic_view "def_ref ''B''"] by simp
  ultimately show ?thesis by blast
qed

lemma reader_depth_witness: "rc_body 2 (recipe_view ''one'') (def_ref ''B0'') \<noteq> Inl RecursionError"
proof (rule reader_depth)
  show "\<nexists>r. ((\<lambda>s r. leads_to (recipe_view ''one'') r s) ^^ 2) (def_ref ''B0'') r"
    unfolding numeral_2_eq_2 relpowp.simps by (auto simp: sample_next elim!: relcomppE)
qed

end
