(* ===== verification/RecipeFiles.thy ===== *)
theory RecipeFiles
  imports RecipeEnds
begin

text \<open>
  The tool on the corpus files: the recipes it extracts from well-formed views are well-formed, so
  its comparison of canonical texts compares recipes; a successful normalization leaves every
  recipe as it was; the replacements in a file leave the rest of the text in place; and the
  extraction in file order is a permutation of the production records with distinct ids.
\<close>

section \<open>Recipes of a well-formed view\<close>

lemma wf_py_key: "wf_json v \<Longrightarrow> returns wf_json (py_key v k)"
  unfolding returns_def py_key_obj by (metis jget_in wf_json_jget)

lemma wf_rc_field [yields]: "wf_json rec \<Longrightarrow> wf_json v \<Longrightarrow> returns wf_json (rc_field rec k v)"
  unfolding rc_field_def by (rule returns_pbind [OF returns_any]) (simp add: wf_py_key yields)

lemma wf_iter_or_empty [yields]: "wf_json v \<Longrightarrow> returns (list_all wf_json) (iter_or_empty v)"
  by (cases v) (auto simp: returns_def iter_or_empty_def list_all_iff split: if_splits)

lemma wf_rc_list_field [yields]: "wf_json rec \<Longrightarrow> returns (list_all wf_json) (rc_list_field rec k)"
  unfolding rc_list_field_def by (rule returns_pbind [OF wf_rc_field wf_iter_or_empty]) simp_all

lemma wf_rc_deref [yields]:
  assumes "wf_json (JObj d)" and "wf_json v"
  shows "returns wf_json (rc_deref d v)"
proof (cases v)
  case (JObj r)
  with assms(2) wf_json_jget [OF assms(1)] show ?thesis
    unfolding rc_deref_def JObj json.simps
    by (intro returns_if returns_pbind [OF returns_any]) (simp_all add: returns_def del: wf_json.simps)
qed (use assms(2) in \<open>simp_all add: rc_deref_def returns_def\<close>)

lemma rc_die_returns [yields]: "returns P (rc_die msg)"
  by (simp add: returns_def)

lemma wf_rc_binding [yields]:
  assumes "\<And>r. wf_json r \<Longrightarrow> returns wf_json (body r)" and "wf_json (JObj d)" and "wf_json ref"
  shows "returns wf_json (rc_binding body d ref)"
  unfolding rc_binding_def
  by (rule assms yields wf_json.simps(4) | rule returns_any | simp)+

lemma wf_rc_op [yields]:
  assumes "\<And>r. wf_json r \<Longrightarrow> returns wf_json (body r)" and "wf_json (JObj d)" and "wf_json ref"
  shows "returns wf_json (rc_op body d ref)"
proof -
  have "returns (list_all wf_json) (map_py (rc_binding body d) refs)" if "list_all wf_json refs" for refs
    using that assms(1,2) by (intro yields) (auto simp: list_all_iff)
  note bindings = returns_pbind [OF wf_rc_list_field this]
  show ?thesis
    unfolding rc_op_def
    by (rule bindings assms yields | rule returns_any | simp)+
qed

lemma wf_rc_body [yields]:
  assumes "wf_json (JObj d)" and "wf_json ref"
  shows "returns wf_json (rc_body n d ref)"
  using assms(2)
proof (induction n arbitrary: ref)
  case (Suc n)
  have ops: "returns (list_all wf_json) (map_py (rc_op (rc_body n d) d) (as_list v))" if "wf_json v" for v
    using that assms(1) Suc.IH by (cases v) (auto intro!: yields simp: list_all_iff)
  show ?case
    unfolding rc_body.simps
    by (rule ops assms(1) Suc.prems yields | rule returns_any | simp)+
qed (simp add: yields)

lemma wf_rc_input_slot [yields]:
  assumes "wf_json (JObj d)" and "wf_json ref"
  shows "returns wf_json (rc_input_slot U d ref)"
proof -
  have slot: "returns (\<lambda>s. wf_json (JObj s) \<and> fst ` set s = {''name'', ''finalizedType'', ''cardinality'', ''min'',
      ''max'', ''orderKey'', ''parentSlot''}) (rc_slot U rec v)"
    if "wf_json rec" "wf_json v" for rec v
    unfolding rc_slot_def by (rule that yields | rule returns_any | simp add: that | fastforce simp: that)+
  have presence: "returns (\<lambda>s. s = [] \<or> (\<exists>i. s = [(''presence'', JInt i)])) (rc_presence U rec)" for rec
    unfolding rc_presence_def by (rule returns_pbind [OF returns_any] returns_if returns_Inr | simp)+
  show ?thesis
    unfolding rc_input_slot_def
    by (rule assms slot presence yields | rule returns_any | fastforce)+
qed

lemma wf_rc_result_cardinality [yields]:
  assumes "wf_json (JObj d)" and "wf_json rec"
  shows "returns wf_json (rc_result_cardinality U d rec)"
proof -
  have "returns wf_json (pbind (rc_field rec ''ResultCardinality'' JNull) (rc_deref d))"
    by (rule returns_pbind [OF wf_rc_field wf_rc_deref]) (simp_all add: assms del: wf_json.simps, simp)
  note card = returns_pbind [OF this]
  show ?thesis
    unfolding rc_result_cardinality_def
    by (rule card assms yields | rule returns_any | simp)+
qed

lemma wf_canon: "wf_json v \<Longrightarrow> wf_json (canon v)"
proof (induction v rule: canon.induct)
  case (2 d)
  have "distinct (map fst (sort_key fst d))"
    using "2.prems" by (simp add: distinct_map)
  then have "distinct (map fst (canon_obj_items d))"
    by (simp add: canon_obj_items_def comp_def split_beta)
  moreover have "list_all (\<lambda>(k, v). wf_json v) (canon_obj_items d)"
    using "2" by (auto simp: canon_obj_items_def list_all_iff)
  ultimately show ?case by (simp add: canon_JObj del: canon.simps)
qed (auto simp: list_all_iff)

lemma wf_rc_ir:
  assumes "wf_json (JObj d)" and "wf_json rec"
  shows "returns (\<lambda>ir. wf_json (JObj ir)) (rc_ir U n d name rec)"
proof -
  have inputs: "returns (list_all wf_json) (map_py (rc_input_slot U d) refs)" if "list_all wf_json refs" for refs
    using that assms(1) by (intro yields) (auto simp: list_all_iff)
  have body: "returns wf_json (pbind (rc_field rec ''Body'' JNull) (rc_body n d))"
    by (rule returns_pbind [OF wf_rc_field wf_rc_body]) (simp_all add: assms del: wf_json.simps, simp)
  note parts = returns_pbind [OF returns_pbind [OF wf_rc_list_field inputs]] returns_pbind [OF body]
  show ?thesis
    unfolding rc_ir_def
    by (rule parts assms yields | rule returns_any | simp)+
qed

lemma wf_extract_recipe:
  assumes "wf_json (JObj d)"
  shows "returns (\<lambda>r. wf_json r \<and> canonicalize_recipe r = r) (extract_recipe U n d name)"
  unfolding returns_def
proof (intro allI impI)
  fix r
  assume r: "extract_recipe U n d name = Inr r"
  then obtain rec ir where rec: "map_of d name = Some rec" and ir: "rc_ir U n d name rec = Inr ir"
    and canon: "r = canon (JObj ir)"
    by (rule extract_recipe_value)
  have "wf_json rec" using wf_json_jget [OF assms, of name] rec by (simp add: jget_in del: wf_json.simps)
  from returnsD [OF wf_rc_ir [OF assms this] ir] have "wf_json (JObj ir)" .
  with canon extracted_recipe_shape [OF r] show "wf_json r \<and> canonicalize_recipe r = r"
    by (simp add: wf_canon del: wf_json.simps canon.simps)
qed

lemma wf_extract_corpus_ordered:
  assumes "wf_json (JObj d)" and "extract_corpus_ordered U n files d = Inr rs"
  shows "list_all (\<lambda>r. wf_json r \<and> canonicalize_recipe r = r) rs"
proof -
  obtain names where "map_py (extract_recipe U n d) names = Inr rs"
    using assms(2) unfolding extract_corpus_ordered_def Let_def by (auto simp: pbind_Inr_conv split: if_splits)
  then show ?thesis
    by (rule map_py_all) (rule returnsD [OF wf_extract_recipe [OF assms(1)]])
qed

lemma wf_load_and_extract:
  assumes "\<And>fs d. T fs = Inr d \<Longrightarrow> wf_json (JObj d)" and "load_and_extract U n T files = Inr c"
  shows "list_all wf_json c" and "map canon c = c"
proof -
  obtain d rs where d: "T files = Inr d" and rs: "extract_corpus_ordered U n files d = Inr rs"
    and c: "c = map canonicalize_recipe rs"
    using assms(2) unfolding load_and_extract_def by (auto simp: pbind_Inr_conv)
  from wf_extract_corpus_ordered [OF assms(1) [OF d] rs]
  have "list_all wf_json rs" "map canonicalize_recipe rs = rs" by (simp_all add: list_all_iff map_idI)
  moreover have "canonicalize_recipe = canon" by (simp add: fun_eq_iff canonicalize_recipe_def)
  ultimately show "list_all wf_json c" "map canon c = c" using c by simp_all
qed

section \<open>A successful normalization keeps the recipes\<close>

lemma dict_set_keys: "k \<in> set (map fst d) \<Longrightarrow> map fst (dict_set k v d) = map fst d"
  by (induction k v d rule: dict_set.induct) auto

lemma normalize_files_paths:
  assumes "normalize_files U gs files = (files', out)" and "fst ` set gs \<subseteq> fst ` set files"
  shows "map fst files' = map fst files"
  using assms
proof (induction gs arbitrary: files files' out)
  case (Cons g gs)
  obtain path grp where g: "g = (path, grp)" by fastforce
  show ?case
  proof (cases "rewrite_file_recipes U (the (map_of files path)) grp")
    case (Inl e)
    with Cons.prems(1) show ?thesis by (simp add: g Let_def)
  next
    case (Inr t)
    define fs where "fs = (if t \<noteq> the (map_of files path) then dict_set path t files else files)"
    have "map fst fs = map fst files"
      using Cons.prems(2) by (simp add: fs_def g dict_set_keys)
    moreover obtain o' where "normalize_files U gs fs = (files', o')"
      using Cons.prems(1) Inr by (auto simp: g Let_def fs_def split: prod.splits)
    moreover have "fst ` set gs \<subseteq> fst ` set fs"
      using Cons.prems(2) calculation(1) by (metis list.set_intros(2) image_subset_iff set_map)
    ultimately show ?thesis using Cons.IH by metis
  qed
qed simp

lemma map_def_paths: "map_def path t0 name m = Inr m' \<Longrightarrow> snd ` set m' \<subseteq> insert path (snd ` set m)"
  by (auto simp: map_def_def split: if_splits option.splits)

lemma map_defs_paths:
  assumes "map_defs_to_files names files = Inr mapping"
  shows "snd ` set mapping \<subseteq> fst ` set files"
proof -
  have "fold_py (\<lambda>(path, text). fold_py (map_def path text) names) files [] = Inr mapping"
    using assms unfolding map_defs_to_files_def by (auto simp: pbind_Inr_conv Let_def split: if_splits)
  then show ?thesis
  proof (rule fold_py_invariant [where I = "\<lambda>m. snd ` set m \<subseteq> fst ` set files"])
    fix x s t
    assume "x \<in> set files" "snd ` set s \<subseteq> fst ` set files"
      and "(case x of (path, text) \<Rightarrow> fold_py (map_def path text) names) s = Inr t"
    moreover obtain path t0 where "x = (path, t0)" by fastforce
    ultimately have step: "fold_py (map_def path t0) names s = Inr t" "path \<in> fst ` set files"
      "snd ` set s \<subseteq> fst ` set files" by force+
    from step(1,3) show "snd ` set t \<subseteq> fst ` set files"
    proof (rule fold_py_invariant [where I = "\<lambda>m. snd ` set m \<subseteq> fst ` set files"])
      fix n a b
      assume a: "snd ` set a \<subseteq> fst ` set files" and b: "map_def path t0 n a = Inr b"
      have "insert path (snd ` set a) \<subseteq> fst ` set files" using a step(2) by simp
      with map_def_paths [OF b] show "snd ` set b \<subseteq> fst ` set files" by (rule order.trans)
    qed
  qed simp
qed

text \<open>C30. A successful run of \<open>--canonicalize-files\<close> keeps the recipes: the records of the rewritten
  files have the same recipes, in the same order, as those of the files before, and the run rewrites
  no other file. The views \<open>T\<close> of the files are assumed to be values that \<open>json.loads\<close> returns.\<close>

theorem normalization_keeps_recipes:
  assumes view: "\<And>fs d. T fs = Inr d \<Longrightarrow> wf_json (JObj d)"
    and run: "rc_main H U n T Canonicalize_files check_idempotent files = (files', Inr out)"
  shows "\<exists>c. load_and_extract U n T files = Inr c \<and> load_and_extract U n T files' = Inr c
    \<and> map fst files' = map fst files"
proof -
  obtain d rs where rs: "T files = Inr d" "extract_corpus_ordered U n files d = Inr rs"
    and norm: "canonicalize_files U n T (map canonicalize_recipe rs) files = (files', Inr out)"
    using run unfolding rc_main_def by (auto simp: Let_def pbind_Inr_conv split: sum.splits if_splits)
  define c where "c = map canonicalize_recipe rs"
  have before: "load_and_extract U n T files = Inr c"
    using rs by (simp add: load_and_extract_def c_def)
  obtain c' where after: "load_and_extract U n T files' = Inr c'"
    and eq: "compact (JList c') = compact (JList c)"
    using norm unfolding canonicalize_files_def c_def [symmetric]
    by (auto simp: Let_def pbind_Inr_conv split: sum.splits prod.splits if_splits)
  have "canon (JList c') = canon (JList c)"
    using wf_load_and_extract(1) [OF view before] wf_load_and_extract(1) [OF view after] eq
    by (intro compact_inject) simp_all
  then have "c' = c"
    using wf_load_and_extract(2) [OF view before] wf_load_and_extract(2) [OF view after] by simp
  moreover have "map fst files' = map fst files"
  proof -
    obtain by_def mapping t where "map_defs_to_files (map fst by_def) files = Inr mapping"
      and "normalize_files U (file_groups by_def mapping) files = (files', Inr t)"
      using norm unfolding canonicalize_files_def c_def [symmetric]
      by (auto simp: Let_def pbind_Inr_conv split: sum.splits prod.splits if_splits)
    moreover have "fst ` set (file_groups by_def mapping) = snd ` set mapping"
      by (force simp: file_groups_def)
    ultimately show ?thesis using map_defs_paths normalize_files_paths by metis
  qed
  ultimately show ?thesis using before after by blast
qed

section \<open>The recipes in file order\<close>

lemma fold_add_def:
  "distinct acc \<Longrightarrow> set acc \<subseteq> set named \<Longrightarrow>
   distinct (fold (add_def named) xs acc) \<and> set (fold (add_def named) xs acc) \<subseteq> set named"
  by (induction xs arbitrary: acc) (auto simp: add_def_def)

lemma ordered_defs_distinct:
  "distinct (ordered_defs named files) \<and> set (ordered_defs named files) \<subseteq> set named"
proof -
  have "distinct (fold (\<lambda>(path, text). fold (add_def named) (map snd (def_starts text))) files acc) \<and>
      set (fold (\<lambda>(path, text). fold (add_def named) (map snd (def_starts text))) files acc) \<subseteq> set named"
    if "distinct acc" "set acc \<subseteq> set named" for acc
    using that
  proof (induction files arbitrary: acc)
    case (Cons f files)
    then show ?case by (cases f) (use fold_add_def in \<open>auto simp del: fold_map\<close>)
  qed simp
  from this [of "[]"] show ?thesis by (simp add: ordered_defs_def)
qed

definition recipe_id :: "json \<Rightarrow> json" where
  "recipe_id r = jget ''recipeId'' (as_obj r)"

definition recipe_name :: "json \<Rightarrow> string" where
  "recipe_name r = str_of (jget ''defName'' (as_obj r))"

lemma rc_distinct_ids_sound:
  assumes "rc_distinct_ids seen rs = Inr ()"
  shows "sorted_wrt (\<lambda>r s. \<not> jeq (recipe_id s) (recipe_id r)) rs \<and>
    (\<forall>r \<in> set rs. \<not> in_list (recipe_id r) seen)"
  using assms
proof (induction seen rs rule: rc_distinct_ids.induct)
  case (2 seen r rs)
  then obtain rid where rid: "py_key r ''recipeId'' = Inr rid" "\<not> in_list rid seen" "rc_distinct_ids (rid # seen) rs = Inr ()"
    and h: "hashable rid"
    by (auto simp: pbind_Inr_conv split: if_splits)
  have "recipe_id r = rid" using rid(1) by (auto simp: py_key_obj recipe_id_def jget_in)
  from h have "\<not> \<not> hashable rid" by simp
  from "2.IH" [OF rid(1) this rid(2,3)] rid(2) \<open>recipe_id r = rid\<close> show ?case
    by (auto simp: in_list_def)
qed simp

text \<open>C32. The corpus extraction is a bijection between the production records and the recipes: an
  extraction in file order that succeeds returns one recipe for each named production record, in the
  order in which the definitions first appear in the corpus files, and no two recipes have the same
  id.\<close>

theorem ordered_extraction_complete:
  assumes "extract_corpus_ordered U n files d = Inr rs"
  shows "\<exists>named. production_recipe_names d = Inr named \<and> map recipe_name rs = ordered_defs named files
    \<and> set (map recipe_name rs) = set named \<and> distinct (map recipe_name rs)
    \<and> sorted_wrt (\<lambda>r s. \<not> jeq (recipe_id s) (recipe_id r)) rs"
proof -
  obtain named where named: "production_recipe_names d = Inr named"
    and missing: "sorted_diff (remdups named) (ordered_defs named files) = []"
    and recipes: "map_py (extract_recipe U n d) (ordered_defs named files) = Inr rs"
    and ids: "rc_distinct_ids [] rs = Inr ()"
    using assms unfolding extract_corpus_ordered_def by (auto simp: pbind_Inr_conv Let_def split: if_splits)
  have "recipe_name r = name" if "extract_recipe U n d name = Inr r" for name r
    using extracted_recipe_shape [OF that] by (simp add: recipe_name_def)
  with recipes have names: "map recipe_name rs = ordered_defs named files"
    unfolding map_py_Inr by (auto simp: list_all2_conv_all_nth intro: nth_equalityI)
  moreover have "set (ordered_defs named files) = set named"
    using missing ordered_defs_distinct [of named files] by (auto simp: sorted_diff_Nil_iff)
  ultimately show ?thesis
    using named ordered_defs_distinct [of named files] rc_distinct_ids_sound [OF ids] by metis
qed

section \<open>Replacements in a text\<close>

text \<open>The same replacements from left to right: \<open>s\<close> is the text from offset \<open>p\<close> on.\<close>

fun weave :: "nat \<Rightarrow> (nat \<times> nat \<times> string) list \<Rightarrow> string \<Rightarrow> string" where
  "weave p [] s = s"
| "weave p ((a, b, t) # rs) s = take (a - p) s @ t @ weave b rs (drop (b - p) s)"

fun in_order :: "nat \<Rightarrow> (nat \<times> nat \<times> string) list \<Rightarrow> nat \<Rightarrow> bool" where
  "in_order p [] n \<longleftrightarrow> p \<le> n"
| "in_order p ((a, b, t) # rs) n \<longleftrightarrow> p \<le> a \<and> a \<le> b \<and> in_order b rs n"

lemma in_order_le: "in_order p rs n \<Longrightarrow> p \<le> n"
  by (induction p rs n rule: in_order.induct) auto

lemma splices_weave:
  "in_order p rs (length s) \<Longrightarrow> fold splice (rev rs) s = take p s @ weave p rs (drop p s)"
proof (induction rs arbitrary: p)
  case (Cons r rs)
  obtain a b t where r: "r = (a, b, t)" by (cases r) auto
  with Cons.prems have le: "p \<le> a" "a \<le> b" "b \<le> length s" and rest: "in_order b rs (length s)"
    by (auto dest: in_order_le)
  have "fold splice (rev (r # rs)) s = take a s @ t @ weave b rs (drop b s)"
    using le by (simp add: Cons.IH [OF rest] r splice_def min_absorb1)
  also have "\<dots> = take p s @ weave p (r # rs) (drop p s)"
    using le by (simp add: r) (metis append_assoc le_add_diff_inverse take_add)
  finally show ?case .
qed simp

text \<open>The rewriting replaces the definitions from the last to the first, by offsets into the
  original text. For spans that do not overlap this is the same as one pass from left to right that
  copies the text between the definitions and puts each block in place of its definition: no byte
  outside the spans changes.\<close>

theorem rewriting_is_in_place:
  assumes "replacements U text0 recipes = Inr spans"
    and "in_order 0 (sort_key fst spans) (length text0)"
  shows "rewrite_file_recipes U text0 recipes = Inr (weave 0 (sort_key fst spans) text0)"
  using assms(1) splices_weave [OF assms(2)] by (simp add: rewrite_file_recipes_def)

section \<open>A corpus\<close>

definition sample_corpus :: "(string \<times> string) list" where
  "sample_corpus = [(''a/f.td'', ''x'' @ newline @ ''def Pay : X<1>;'' @ newline @ ''y'')]"

lemma ordered_extraction_complete_witness:
  "\<exists>rs. extract_corpus_ordered (\<lambda>_. None) 2 sample_corpus (recipe_view ''one'') = Inr rs \<and>
     map recipe_name rs = ordered_defs [''Pay''] sample_corpus"
proof -
  have "\<exists>rs. extract_corpus_ordered (\<lambda>_. None) 2 sample_corpus (recipe_view ''one'') = Inr rs"
    unfolding returns_such_that [where P = "\<lambda>_. True", simplified] by code_simp
  then obtain rs where rs: "extract_corpus_ordered (\<lambda>_. None) 2 sample_corpus (recipe_view ''one'') = Inr rs" ..
  have "production_recipe_names (recipe_view ''one'') = Inr [''Pay'']" by code_simp
  with ordered_extraction_complete [OF rs] rs show ?thesis by auto
qed

definition sample_ir :: json where
  "sample_ir = (case extract_recipe (\<lambda>_. None) 2 (recipe_view ''one'') ''Pay'' of Inl e \<Rightarrow> JNull | Inr r \<Rightarrow> r)"

definition sample_text :: string where
  "sample_text = snd (hd sample_corpus)"

lemma rewriting_is_in_place_witness:
  "\<exists>spans. spans \<noteq> [] \<and> rewrite_file_recipes (\<lambda>_. None) sample_text [(''Pay'', sample_ir)] =
     Inr (weave 0 (sort_key fst spans) sample_text)"
proof -
  have "case replacements (\<lambda>_. None) sample_text [(''Pay'', sample_ir)] of Inl e \<Rightarrow> False
      | Inr spans \<Rightarrow> spans \<noteq> [] \<and> in_order 0 (sort_key fst spans) (length sample_text)"
    by code_simp
  then obtain spans where "replacements (\<lambda>_. None) sample_text [(''Pay'', sample_ir)] = Inr spans"
    and "spans \<noteq> []" and "in_order 0 (sort_key fst spans) (length sample_text)"
    by (auto split: sum.splits)
  with rewriting_is_in_place show ?thesis by blast
qed

lemma normalization_keeps_recipes_witness:
  "\<exists>files' c. load_and_extract (\<lambda>_. None) 2 (\<lambda>_. Inr (recipe_view ''one'')) files' = Inr c \<and>
     map fst files' = map fst sample_corpus"
proof -
  have "isl (snd (rc_main id (\<lambda>_. None) 2 (\<lambda>_. Inr (recipe_view ''one'')) Canonicalize_files True sample_corpus)) = False"
    by code_simp
  then obtain files' t where
    "rc_main id (\<lambda>_. None) 2 (\<lambda>_. Inr (recipe_view ''one'')) Canonicalize_files True sample_corpus = (files', Inr t)"
    by (metis isl_def prod.collapse sum.collapse(2))
  moreover have "wf_json (JObj (recipe_view ''one''))" by code_simp
  ultimately show ?thesis
    using normalization_keeps_recipes [of "\<lambda>_. Inr (recipe_view ''one'')" id "\<lambda>_. None" 2 True sample_corpus files' t]
    by auto
qed

end
