(* ===== verification/RecipeScan.thy ===== *)
theory RecipeScan
  imports RecipeFiles
begin

text \<open>
  The text the printer prints is in a small grammar: outside quoted texts its brackets are balanced, and
  each of its lines after the first is indented. The grammar is stated for itself; the scanner of
  template arguments skips its texts.
\<close>

section \<open>Texts with balanced brackets\<close>

fun quoted_text :: "string \<Rightarrow> bool" where
  "quoted_text [] = True"
| "quoted_text (c # cs) =
     (if c = CHR 0x22 then False
      else if c = CHR 0x5C then cs \<noteq> [] \<and> quoted_text (tl cs)
      else quoted_text cs)"

inductive balanced :: "string \<Rightarrow> bool" where
  balanced_Nil: "balanced []"
| balanced_char: "c \<notin> {CHR ''<'', CHR ''>'', CHR 0x22} \<Longrightarrow> balanced s \<Longrightarrow> balanced (c # s)"
| balanced_quote: "quoted_text q \<Longrightarrow> balanced s \<Longrightarrow> balanced (CHR 0x22 # q @ CHR 0x22 # s)"
| balanced_angle: "balanced s \<Longrightarrow> balanced t \<Longrightarrow> balanced (CHR ''<'' # s @ CHR ''>'' # t)"

lemma balanced_append: "balanced s \<Longrightarrow> balanced t \<Longrightarrow> balanced (s @ t)"
  by (induction s rule: balanced.induct) (auto intro: balanced.intros)

lemma skip_quoted_text: "quoted_text q \<Longrightarrow> skip_quoted (q @ CHR 0x22 # x) = CHR 0x22 # x"
proof (induction q rule: quoted_text.induct)
  case (2 c cs)
  then show ?case by (cases cs) (auto split: if_splits)
qed simp

text \<open>Inside brackets, the scan of arguments runs over a balanced text at an unchanged depth.\<close>

lemma skip_balanced: "balanced s \<Longrightarrow> 1 \<le> k \<Longrightarrow> skip_args k (s @ x) = skip_args k x"
  by (induction s arbitrary: k x rule: balanced.induct) (simp_all add: skip_quoted_text)

text \<open>No line of a calm text after its first begins with the letter of \<open>def\<close>, and none is empty at its end.\<close>

fun calm :: "string \<Rightarrow> bool" where
  "calm [] = True"
| "calm (c # cs) = ((c = CHR 0x0A \<longrightarrow> cs \<noteq> [] \<and> hd cs \<noteq> CHR ''d'') \<and> calm cs)"

lemma calm_append: "calm s \<Longrightarrow> calm t \<Longrightarrow> calm (s @ t)"
  by (induction s) auto

section \<open>Neutral and closing texts\<close>

definition neutral :: "string \<Rightarrow> bool" where
  "neutral s \<longleftrightarrow> balanced s \<and> calm s"

named_theorems neutrals \<open>texts the scan of template arguments skips\<close>

lemma neutral_Nil [neutrals]: "neutral []"
  by (simp add: neutral_def balanced_Nil)

lemma neutral_append [neutrals]: "neutral s \<Longrightarrow> neutral t \<Longrightarrow> neutral (s @ t)"
  by (simp add: neutral_def balanced_append calm_append)

lemma neutral_char: "c \<notin> {CHR ''<'', CHR ''>'', CHR 0x22, CHR 0x0A} \<Longrightarrow> neutral s \<Longrightarrow> neutral (c # s)"
  by (auto simp: neutral_def intro: balanced_char)

lemma neutral_plain: "list_all (\<lambda>c. c \<notin> {CHR ''<'', CHR ''>'', CHR 0x22, CHR 0x0A}) s \<Longrightarrow> neutral s"
  by (induction s) (auto intro: neutral_char neutral_Nil)

text \<open>A new line that is indented.\<close>

lemma neutral_line: "neutral s \<Longrightarrow> neutral (newline @ CHR '' '' # s)"
  by (auto simp: neutral_def newline_def intro!: balanced_char)

text \<open>A text that closes the bracket it is in.\<close>

definition closes :: "string \<Rightarrow> bool" where
  "closes s \<longleftrightarrow> (\<exists>a b. s = a @ CHR ''>'' # b \<and> balanced a \<and> balanced b) \<and> calm s"

lemma neutral_open: "closes s \<Longrightarrow> neutral (CHR ''<'' # s)"
  by (auto simp: neutral_def closes_def intro: balanced_angle)

lemma closes_gt: "neutral s \<Longrightarrow> closes (CHR ''>'' # s)"
  using balanced_Nil by (fastforce simp: neutral_def closes_def)

lemma closes_append: "neutral s \<Longrightarrow> closes t \<Longrightarrow> closes (s @ t)"
proof -
  assume s: "neutral s" and "closes t"
  then obtain a b where t: "t = a @ CHR ''>'' # b" "balanced a" "balanced b" "calm t" by (auto simp: closes_def)
  with s have "s @ t = (s @ a) @ CHR ''>'' # b" "balanced (s @ a)" "calm (s @ t)"
    by (simp_all add: neutral_def balanced_append calm_append)
  with t(3) show "closes (s @ t)" unfolding closes_def by blast
qed

lemma closes_char: "c \<notin> {CHR ''<'', CHR ''>'', CHR 0x22, CHR 0x0A} \<Longrightarrow> closes s \<Longrightarrow> closes (c # s)"
  using closes_append [of "[c]" s] by (simp add: neutral_plain)

lemma closes_line: "closes s \<Longrightarrow> closes (newline @ CHR '' '' # s)"
  using closes_append [of "newline @ '' ''" s] neutral_line [OF neutral_Nil] by simp

lemma neutral_if: "(b \<Longrightarrow> neutral s) \<Longrightarrow> (\<not> b \<Longrightarrow> neutral t) \<Longrightarrow> neutral (if b then s else t)"
  by simp

lemma neutral_join [neutrals]: "neutral sep \<Longrightarrow> list_all neutral ts \<Longrightarrow> neutral (join sep ts)"
  by (induction sep ts rule: join.induct) (auto intro: neutrals)

section \<open>Printed values\<close>

definition closes_quote :: "string \<Rightarrow> bool" where
  "closes_quote s \<longleftrightarrow> quoted_text s \<and> CHR 0x0A \<notin> set s"

lemma quoted_append: "quoted_text s \<Longrightarrow> quoted_text t \<Longrightarrow> quoted_text (s @ t)"
proof (induction s rule: quoted_text.induct)
  case (2 c cs)
  then show ?case by (cases cs) (auto split: if_splits)
qed simp

lemma closes_quote_append: "closes_quote s \<Longrightarrow> closes_quote t \<Longrightarrow> closes_quote (s @ t)"
  by (simp add: closes_quote_def quoted_append)

lemma closes_quote_concat: "list_all closes_quote ts \<Longrightarrow> closes_quote (concat ts)"
  by (induction ts) (auto intro: closes_quote_append, simp add: closes_quote_def)

lemma hex_digit_plain:
  assumes "n < 16"
  shows "hex_digit n \<noteq> CHR 0x22 \<and> hex_digit n \<noteq> CHR 0x5C \<and> hex_digit n \<noteq> CHR 0x0A"
proof -
  have "of_char (hex_digit n) \<noteq> (34 :: nat) \<and> of_char (hex_digit n) \<noteq> (92 :: nat) \<and> of_char (hex_digit n) \<noteq> (10 :: nat)"
    using assms by (simp add: of_char_hex_digit)
  then show ?thesis by (auto simp del: of_char_of)
qed

lemma closes_hex: "list_all (\<lambda>n. n < 16) ns \<Longrightarrow> closes_quote (map hex_digit ns)"
  by (induction ns) (auto simp: closes_quote_def hex_digit_plain dest: hex_digit_plain [THEN conjunct2, THEN conjunct2] sym)

lemma closes_escaped: "closes_quote s \<Longrightarrow> d \<noteq> CHR 0x0A \<Longrightarrow> closes_quote (CHR 0x5C # d # s)"
  by (simp add: closes_quote_def)

lemma closes_escape: "closes_quote (json_escape c)"
proof (cases rule: json_escape_cases [of c])
  case plain
  then have "c \<noteq> CHR 0x0A" by (auto simp: json_escape_def)
  with plain show ?thesis by (simp add: closes_quote_def)
next
  case (short d)
  then have "d \<noteq> CHR 0x0A" by (auto simp: json_escape_def Let_def split: if_splits)
  with short show ?thesis by (simp add: closes_quote_def)
next
  case long
  have "hex2 c = map hex_digit [of_char c div 16, of_char c mod 16]" by (simp add: hex2_def Let_def)
  moreover have "of_char c div 16 < (16 :: nat)"
    using nat_of_char_less_256 [of c] by (simp add: less_mult_imp_div_less)
  ultimately have "closes_quote (hex2 c)" by (simp only:) (rule closes_hex, simp)
  with long show ?thesis by (simp add: closes_quote_def)
qed

lemma closes_unicode: "n < 65536 \<Longrightarrow> closes_quote (unicode_escape n)"
proof -
  assume n: "n < 65536"
  have "hex4 n = map hex_digit [n div 4096, n div 256 mod 16, n div 16 mod 16, n mod 16]" by (simp add: hex4_def)
  moreover have "n div 4096 < 16" using n by (simp add: less_mult_imp_div_less)
  ultimately have "closes_quote (hex4 n)" by (simp only:) (rule closes_hex, simp)
  then show ?thesis by (simp add: unicode_escape_def closes_escaped)
qed

lemma closes_ascii: "closes_quote (ascii_escape c)"
proof -
  have "nat (55296 + a mod 1024) < 65536 \<and> nat (56320 + a mod 1024) < 65536" for a :: int
    using pos_mod_bound [of 1024 a] by linarith
  then show ?thesis
    unfolding ascii_escape_def Let_def
    by (auto intro!: closes_quote_append closes_unicode closes_quote_concat simp: closes_escape list_all_iff)
qed

lemma calm_plain: "CHR 0x0A \<notin> set s \<Longrightarrow> calm s"
  by (induction s) auto

lemma neutral_string [neutrals]: "neutral (ascii_string s)"
proof -
  have "closes_quote (concat (map ascii_escape (utf8_chars s)))"
    by (rule closes_quote_concat) (simp add: closes_ascii list_all_iff)
  then have "balanced (ascii_string s)" "CHR 0x0A \<notin> set (ascii_string s)"
    using balanced_quote [OF _ balanced_Nil] by (auto simp: ascii_string_def dq_def closes_quote_def)
  then show ?thesis by (simp add: neutral_def calm_plain)
qed

lemma neutral_numeral: "numeral_text s \<Longrightarrow> neutral s"
  by (rule neutral_plain) (auto simp: numeral_text_def list_all_iff is_numeral_char_def is_digit_def)

lemma neutral_int [neutrals]: "neutral (show_int i)"
  by (rule neutral_numeral) (rule numeral_show_int)

lemma neutral_dumps: "wf_json v \<Longrightarrow> neutral (dumps v)"
proof (induction v rule: dumps.induct)
  case (4 t)
  then show ?case by (simp add: neutral_numeral numeral_wf_float)
next
  case (6 xs)
  then have "list_all neutral (map dumps xs)" by (simp add: list_all_iff)
  then have "neutral (join '', '' (map dumps xs))" by (intro neutral_join neutral_plain) simp_all
  then show ?case by (auto intro!: neutrals neutral_char)
next
  case (7 d)
  have "neutral (ascii_string k @ '': '' @ dumps v)" if "(k, v) \<in> set d" for k v
    using that "7" by (intro neutrals neutral_char) (auto simp: list_all_iff)
  then have "list_all neutral (map (\<lambda>(k, v). ascii_string k @ '': '' @ dumps v) d)" by (auto simp: list_all_iff)
  then have "neutral (join '', '' (map (\<lambda>(k, v). ascii_string k @ '': '' @ dumps v) d))"
    by (intro neutral_join neutral_plain) simp_all
  then show ?case by (auto intro!: neutrals neutral_char)
qed (auto intro!: neutral_plain neutrals)

section \<open>Printed recipes\<close>

lemmas bracket_rules = neutral_line closes_line neutral_open closes_gt neutral_append closes_append neutral_Nil
  neutral_char closes_char neutral_int neutral_string

definition smaller :: "json \<Rightarrow> json \<Rightarrow> bool" where
  "smaller v w \<longleftrightarrow> wf_json w \<and> size w < size v"

lemma smaller_key [yields]: "wf_json v \<Longrightarrow> returns (smaller v) (py_key v k)"
  using returnsD [OF wf_py_key] size_py_key by (simp add: returns_def smaller_def)

lemma neutral_field [yields]: "wf_json v \<Longrightarrow> returns neutral (td_field v k)"
  by (rule returns_pbind [OF smaller_key]) (simp_all add: smaller_def td_string_def neutral_dumps returns_Inr)

lemma smaller_elems:
  assumes "wf_json v"
  shows "returns (list_all (smaller v)) (pbind (py_get v k) iter_or_empty)"
proof -
  have "wf_json w" if "py_get v k = Inr w" for w
    using assms that wf_json_jget by (auto simp: py_get_obj simp del: wf_json.simps)
  then have "returns (list_all wf_json) (pbind (py_get v k) iter_or_empty)"
    by (auto simp: returns_def pbind_Inr_conv dest: returnsD [OF wf_iter_or_empty])
  then show ?thesis using size_get_elem by (auto simp: returns_def smaller_def list_all_iff)
qed

lemma wf_py_item:
  assumes "wf_json v"
  shows "returns wf_json (py_item v k)"
proof (cases v)
  case (JStr s)
  have "list_index (map JStr cs) i = Inr w \<Longrightarrow> wf_json w" for cs i w
    by (auto dest!: list_index_in)
  with JStr show ?thesis by (cases k) (auto simp: returns_def)
next
  case (JList xs)
  with assms show ?thesis by (cases k) (auto simp: returns_def list_all_iff dest!: list_index_in)
next
  case (JObj d)
  with returnsD [OF wf_py_key [OF assms]] show ?thesis
    by (cases k) (auto simp: returns_def py_key_def split: if_splits)
qed (simp_all add: returns_def)

lemma wf_py_iter: "wf_json v \<Longrightarrow> returns (list_all wf_json) (py_iter v)"
  by (cases v) (auto simp: returns_def list_all_iff)

lemma neutral_printer:
  "wf_json v \<Longrightarrow> returns neutral (td_binding v) \<and> returns neutral (td_op v) \<and> returns neutral (td_body v)"
proof (induction v rule: measure_induct_rule [of size])
  case (less v)
  have sub: "returns neutral (td_body w)" "returns neutral (td_op w)" "returns neutral (td_binding w)"
    if "smaller v w" for w
    using less.IH [of w] that by (auto simp: smaller_def)
  have binds: "returns (list_all neutral) (map_py td_binding ws)" if "list_all (smaller v) ws" for ws
    using that sub(3) by (intro returns_map_py) (auto simp: list_all_iff)
  note elems = returns_pbind [OF smaller_elems [OF less.prems]] returns_pbind [OF binds]
    returns_pbind [OF smaller_key [OF less.prems]] returns_pbind [OF neutral_field [OF less.prems]]
  have list: "list_all neutral ts \<Longrightarrow> neutral (join '', '' ts)" for ts
    by (intro neutral_join neutral_plain) simp_all
  note steps = returns_if returns_Inr returns_pbind [OF sub(1)] returns_pbind [OF sub(2)]
  have binding: "returns neutral (td_binding v)"
    unfolding td_binding.simps [of v]
    by (rule elems steps | assumption | (simp, (intro bracket_rules; simp; fail)))+
  have op: "returns neutral (td_op v)"
    unfolding td_op.simps [of v]
    by (rule elems steps | assumption | (simp, (intro bracket_rules list; simp; fail)))+
  have seq: "neutral (td_sequence ts)" if "list_all neutral ts" for ts
    using that unfolding td_sequence_def
    by (simp, intro bracket_rules neutral_join) simp_all
  have item: "returns (smaller v) (py_item w k)" if "smaller v w" for w k
    using that wf_py_item [of w k] size_py_item [of w k] by (fastforce simp: returns_def smaller_def)
  have items: "returns (list_all (smaller v)) (py_iter w)" if "smaller v w" for w
    using that wf_py_iter [of w] size_py_iter [of w] by (fastforce simp: returns_def smaller_def list_all_iff)
  have ops: "returns (list_all neutral) (map_py td_op ws)" if "list_all (smaller v) ws" for ws
    using that sub(2) by (intro returns_map_py) (auto simp: list_all_iff)
  have "returns neutral (td_body v)"
    unfolding td_body.simps [of v]
    by (rule elems steps returns_pbind [OF item] returns_pbind [OF items] returns_pbind [OF ops]
          returns_pbind [OF returns_any] rc_die_returns
        | assumption | (simp, (intro bracket_rules seq; simp; fail)))+
  with binding op show ?case by simp
qed

lemma neutral_slot:
  assumes "wf_json v"
  shows "returns neutral (td_input U v)"
proof -
  have get: "returns (\<lambda>w. wf_json w \<and> neutral (td_string w)) (py_get v k)" for k
    using assms wf_json_jget
    by (auto simp: returns_def py_get_obj td_string_def neutral_dumps simp del: wf_json.simps)
  note field = returns_pbind [OF neutral_field [OF assms]] returns_pbind [OF get]
    returns_pbind [OF smaller_key [OF assms]] returns_pbind [OF returns_any] returns_if returns_Inr neutral_if
  have text0: "neutral (td_string (JStr []))" by (simp add: td_string_def neutral_string)
  have many: "returns neutral (td_many U v head)" if "neutral head" for head
    unfolding td_many_def Let_def
    by (rule field | assumption
        | (simp split del: if_split, (intro bracket_rules that; simp add: text0; fail)))+
  have presence: "neutral (td_presence i)" for i
    unfolding td_presence_def by (simp add: neutral_plain)
  show ?thesis
    unfolding td_input_def Let_def
    by (rule field | assumption | (rule many, intro bracket_rules; simp; fail)
        | (simp add: presence, (intro bracket_rules; simp add: presence; fail)))+
qed

lemma neutral_card: "wf_json v \<Longrightarrow> returns neutral (td_card U v)"
  unfolding td_card_def
  by (rule returns_pbind [OF smaller_key] returns_pbind [OF neutral_field] returns_pbind [OF returns_any] returns_if returns_Inr
      | assumption | (rule neutral_plain, simp; fail) | (simp, (intro bracket_rules; simp; fail)))+

lemma emitted_block:
  assumes "wf_json r" and "ir_recipe r" and "canon r = r" and "jget ''defName'' (as_obj r) = JStr name"
    and "emit_recipe_td U r = Inr t"
  shows "\<exists>inner. t = ''def '' @ name @ '' : TargetIdiomRecipe<'' @ inner @ ''>;'' @ newline \<and> neutral inner"
proof -
  note wf = assms(1)
  obtain inputs body where body: "neutral body" and inputs: "list_all neutral inputs"
    and block: "td_block U r (td_inputs inputs) body = Inr t"
  proof -
    obtain vs inputs bv body where vs: "pbind (py_key r ''inputs'') iter_or_empty = Inr vs"
      and inputs: "map_py (td_input U) vs = Inr inputs" and bv: "py_key r ''body'' = Inr bv"
      and body: "td_body bv = Inr body" and block: "td_block U r (td_inputs inputs) body = Inr t"
      using assms(5) unfolding emit_recipe_td_def canonicalize_recipe_def Let_def assms(3)
      by (auto simp: pbind_Inr_conv)
    have "list_all wf_json vs"
      by (rule returnsD [OF returns_pbind [OF wf_py_key [OF wf] wf_iter_or_empty] vs])
    then have slots: "wf_json v" if "v \<in> set vs" for v using that by (simp add: list_all_iff)
    have "list_all neutral inputs"
      using inputs by (rule map_py_all) (rule returnsD [OF neutral_slot [OF slots]])
    moreover have "wf_json bv" by (rule returnsD [OF wf_py_key [OF wf] bv])
    then have "returns neutral (td_body bv)" using neutral_printer by simp
    from this body have "neutral body" by (rule returnsD)
    ultimately show thesis using block by (intro that)
  qed
  have list: "neutral (td_inputs inputs)"
  proof (cases "inputs = []")
    case False
    have "neutral ('','' @ newline @ ''    '')" by (simp, intro bracket_rules; simp)
    then have "neutral (join ('','' @ newline @ ''    '') inputs)" using inputs by (rule neutral_join)
    moreover have "td_inputs inputs = ''['' @ newline @ ''    '' @ join ('','' @ newline @ ''    '') inputs @ newline @ ''  ]''"
      using False by (simp add: td_inputs_def)
    ultimately show ?thesis by (simp only:) (simp, intro bracket_rules; simp)
  next
    case True
    then have "td_inputs inputs = ''[]''" by (simp add: td_inputs_def)
    then show ?thesis by (simp add: neutral_plain)
  qed
  obtain schema rid target fkind mode role rtype crd where
      fields: "td_field r ''recipeId'' = Inr rid" "td_field r ''target'' = Inr target"
        "td_field r ''finalizedKind'' = Inr fkind" "td_field r ''mode'' = Inr mode"
        "td_field r ''role'' = Inr role" "td_field r ''resultType'' = Inr rtype"
      and crd: "pbind (py_key r ''resultCardinality'') (td_card U) = Inr crd"
      and schema: "py_get_or r ''schemaVersionField'' (JInt 1) = Inr schema"
      and t: "t = ''def '' @ name @ '' : TargetIdiomRecipe<'' @ newline
         @ ''  '' @ rid @ '', '' @ target @ '','' @ newline
         @ ''  '' @ fkind @ '', '' @ mode @ '', '' @ role @ '', '' @ td_inputs inputs @ '','' @ newline
         @ ''  '' @ rtype @ '', '' @ crd @ '','' @ newline
         @ ''  '' @ body @ (if eq_int schema 1 then [] else '', '' @ py_str schema) @ ''>;'' @ newline"
  proof -
    have "py_key r ''defName'' = Inr (JStr name)" if "py_key r ''defName'' = Inr v" for v
      using that assms(4) by (auto simp: py_key_obj jget_in)
    with block that show thesis
      unfolding td_block_def by (auto simp: pbind_Inr_conv py_str_def)
  qed
  define inner where "inner = newline
         @ ''  '' @ rid @ '', '' @ target @ '','' @ newline
         @ ''  '' @ fkind @ '', '' @ mode @ '', '' @ role @ '', '' @ td_inputs inputs @ '','' @ newline
         @ ''  '' @ rtype @ '', '' @ crd @ '','' @ newline
         @ ''  '' @ body @ (if eq_int schema 1 then [] else '', '' @ py_str schema)"
  have "neutral crd"
    by (rule returnsD [OF returns_pbind [OF wf_py_key [OF wf] neutral_card] crd])
  moreover have "neutral rid" "neutral target" "neutral fkind" "neutral mode" "neutral role" "neutral rtype"
    using fields by (auto intro: returnsD [OF neutral_field [OF wf]])
  moreover have "\<exists>i. schema = JInt i"
    using schema assms(2) by (auto simp: ir_recipe_def is_proper_int_iff jget_or_jget split: json.splits)
  ultimately have "neutral inner"
    using list body unfolding inner_def
    by (auto simp: py_str_def split del: if_split intro!: bracket_rules neutral_if)
  moreover have "t = ''def '' @ name @ '' : TargetIdiomRecipe<'' @ inner @ ''>;'' @ newline"
    by (simp add: t inner_def)
  ultimately show ?thesis by blast
qed

end
