(* ===== verification/RecipeLayout.thy ===== *)
theory RecipeLayout
  imports RecipeScan "HOL-Library.Multiset"
begin

text \<open>
  The rewriting of a whole file. A file is laid out as gaps and definitions: comments, includes and the
  definitions of other records stand in the gaps, anything may follow the last definition. The scan finds
  each definition where it stands, the replacements do not disturb one another, and the file that is
  written has the printed block in place of each definition and is unchanged elsewhere.
\<close>

section \<open>White space and names\<close>

definition plain_name :: "string \<Rightarrow> bool" where
  "plain_name s \<longleftrightarrow> s \<noteq> [] \<and> list_all def_name_char s \<and> \<not> is_digit (hd s)"

definition blank_text :: "string \<Rightarrow> bool" where
  "blank_text s \<longleftrightarrow> list_all (\<lambda>c. c \<in> set [CHR '' '', CHR 0x09, CHR 0x0A, CHR 0x0D]) s"

definition starts_char :: "string \<Rightarrow> bool" where
  "starts_char s \<longleftrightarrow> s = [] \<or> \<not> utf8_continuation (hd s)"

lemma continuation_append:
  "starts_char x \<Longrightarrow> takeWhile utf8_continuation (s @ x) = takeWhile utf8_continuation s"
  "starts_char x \<Longrightarrow> dropWhile utf8_continuation (s @ x) = dropWhile utf8_continuation s @ x"
  by (induction s) (auto simp: starts_char_def, (cases x; simp)+)

lemma skip_space_append:
  "starts_char x \<Longrightarrow> skip_space (s @ x) = (if skip_space s = [] then skip_space x else skip_space s @ x)"
  by (induction s rule: skip_space.induct) (simp_all add: continuation_append)

lemma skip_space_suffix: "\<exists>u. s = u @ skip_space s"
proof (induction s rule: skip_space.induct)
  case (2 c cs)
  show ?case
  proof (cases "py_space (c # takeWhile utf8_continuation cs)")
    case True
    with "2.IH" obtain u where "dropWhile utf8_continuation cs = u @ skip_space (dropWhile utf8_continuation cs)" by blast
    then have "c # cs = (c # takeWhile utf8_continuation cs @ u) @ skip_space (c # cs)"
      using True takeWhile_dropWhile_id [of utf8_continuation cs] by simp
    then show ?thesis ..
  qed simp
qed simp

lemma skip_space_stop:
  assumes "\<not> py_space [c]" and "starts_char s"
  shows "skip_space (c # s) = c # s"
  using assms by (cases s) (auto simp: starts_char_def)

lemma skip_space_blanks: "blank_text w \<Longrightarrow> starts_char s \<Longrightarrow> skip_space (w @ s) = skip_space s"
proof (induction w)
  case (Cons c w)
  have "starts_char (w @ s)" using Cons.prems
    by (cases w) (auto simp: blank_text_def starts_char_def utf8_continuation_def)
  moreover have "py_space [c]" using Cons.prems(1) by (auto simp: blank_text_def py_space_def space_code_def)
  ultimately show ?case using Cons by (cases "w @ s") (auto simp: starts_char_def blank_text_def)
qed simp

lemma def_name_char_ascii: "def_name_char c \<Longrightarrow> \<not> utf8_continuation c \<and> \<not> py_space [c] \<and> c \<noteq> CHR '':''"
proof -
  have "(of_char c :: int) = int (of_char c :: nat)" by (simp add: of_nat_of_char)
  then show "def_name_char c \<Longrightarrow> \<not> utf8_continuation c \<and> \<not> py_space [c] \<and> c \<noteq> CHR '':''"
    unfolding py_space_def space_code_def utf8_code.simps
    by (auto simp: def_name_char_def is_alpha_def is_digit_def utf8_continuation_def)
qed

lemma blank_no_name: "c \<in> set [CHR '' '', CHR 0x09, CHR 0x0A, CHR 0x0D] \<Longrightarrow> \<not> def_name_char c"
  by (auto simp: def_name_char_def is_alpha_def is_digit_def)

lemma blank_no_colon: "blank_text s \<Longrightarrow> CHR '':'' \<notin> set s"
  by (induction s) (auto simp: blank_text_def)

lemma starts_name: "list_all def_name_char s \<Longrightarrow> starts_char x \<Longrightarrow> starts_char (s @ x)"
  by (cases s) (auto simp: starts_char_def def_name_char_ascii)

section \<open>The text of a definition\<close>

text \<open>
  The head \<open>def name :\<close> with blanks, and the whole: a class, its arguments in balanced brackets, and the
  semicolon that ends the line. No line inside begins with the letter of \<open>def\<close>.
\<close>

definition definition_head :: "string \<Rightarrow> string \<Rightarrow> bool" where
  "definition_head name h \<longleftrightarrow>
     plain_name name \<and> (\<exists>w v. blank_text w \<and> w \<noteq> [] \<and> blank_text v \<and> h = ''def'' @ w @ name @ v @ '':'')"

definition definition_text :: "string \<Rightarrow> string \<Rightarrow> bool" where
  "definition_text name t \<longleftrightarrow>
     (\<exists>h cls args w. definition_head name h \<and> starts_char cls \<and> list_all (\<lambda>c. c \<notin> {CHR ''<'', CHR '';'', CHR 0x22}) cls
        \<and> balanced args \<and> blank_text w \<and> calm (h @ cls @ ''<'' @ args @ ''>'' @ w @ '';'')
        \<and> t = h @ cls @ ''<'' @ args @ ''>'' @ w @ '';'' @ newline)"

lemma starts_char_blanks: "blank_text w \<Longrightarrow> starts_char x \<Longrightarrow> starts_char (w @ x)"
  by (cases w) (auto simp: blank_text_def starts_char_def utf8_continuation_def)

lemma match_head:
  assumes "definition_head name h" and "starts_char x"
  shows "match_def (h @ x) = Some (name, x)"
proof -
  obtain w v where wv: "blank_text w" "w \<noteq> []" "blank_text v" "h = ''def'' @ w @ name @ v @ '':''"
    and name: "plain_name name"
    using assms by (auto simp: definition_head_def)
  obtain c cs where c: "name = c # cs" "def_name_char c" "\<not> is_digit c" "list_all def_name_char cs"
    using name by (cases name) (auto simp: plain_name_def)
  let ?r = "v @ CHR '':'' # x"
  have colon: "starts_char (CHR '':'' # x)" by (simp add: starts_char_def utf8_continuation_def)
  then have r: "starts_char ?r" using wv(3) by (rule starts_char_blanks [rotated])
  have sc: "starts_char (cs @ ?r)" "starts_char (name @ ?r)"
    using starts_name [OF c(4) r] c(2) def_name_char_ascii [of c] by (simp_all add: c(1) starts_char_def)
  have b: "skip_space (w @ name @ ?r) = name @ ?r"
    using skip_space_blanks [OF wv(1) sc(2)] skip_space_stop [OF _ sc(1), of c] c(2) by (simp add: c(1) def_name_char_ascii)
  have stop: "takeWhile def_name_char ?r = []" "dropWhile def_name_char ?r = ?r"
  proof -
    have "\<not> def_name_char (CHR '':'')" by (simp add: def_name_char_def is_alpha_def is_digit_def)
    moreover have "v = a # v' \<Longrightarrow> \<not> def_name_char a" for a v'
      using wv(3) by (intro blank_no_name) (simp add: blank_text_def)
    ultimately show "takeWhile def_name_char ?r = []" "dropWhile def_name_char ?r = ?r" by (cases v; simp)+
  qed
  have nm: "\<forall>c \<in> set name. def_name_char c" using name by (simp add: plain_name_def list_all_iff)
  have split: "takeWhile def_name_char (name @ ?r) = name" "dropWhile def_name_char (name @ ?r) = ?r"
    using nm stop by (simp_all add: takeWhile_append2 dropWhile_append2)
  have e: "skip_space ?r = CHR '':'' # x"
    using skip_space_blanks [OF wv(3) colon] skip_space_stop [OF _ assms(2), of "CHR '':''"]
    by (simp add: py_space_def space_code_def del: skip_space.simps)
  show ?thesis
    using b split e c wv(2) by (simp add: wv(4) match_def_def match_after_def Let_def starts_with_def)
qed

section \<open>The scan over a gap\<close>

text \<open>A definition follows: the text begins with the head of one.\<close>

definition opens_def :: "string \<Rightarrow> bool" where
  "opens_def x \<longleftrightarrow> (\<exists>name h y. definition_head name h \<and> starts_char y \<and> x = h @ y)"

lemma opens_def_start:
  assumes "opens_def x"
  shows "starts_char x" and "skip_space x = x" and "\<not> starts_with '':'' x"
    and "takeWhile def_name_char x = ''def''" and "\<not> starts_with '':'' (skip_space (dropWhile def_name_char x))"
proof -
  obtain name h y where hd: "definition_head name h" "starts_char y" "x = h @ y"
    using assms by (auto simp: opens_def_def)
  then obtain w v where h: "x = h @ y" "h = ''def'' @ w @ name @ v @ '':''"
    "blank_text w" "w \<noteq> []" "plain_name name" "blank_text v"
    unfolding definition_head_def by blast
  let ?r = "w @ name @ v @ CHR '':'' # y"
  have x: "x = ''def'' @ ?r" by (simp add: h(1,2))
  obtain c w' where c: "w = c # w'" "\<not> def_name_char c"
    using h(3,4) blank_no_name by (cases w) (auto simp: blank_text_def)
  have tail: "starts_char (v @ CHR '':'' # y)"
    using h(6) by (rule starts_char_blanks) (simp add: starts_char_def utf8_continuation_def)
  obtain a as where a: "name = a # as" "def_name_char a" "list_all def_name_char as"
    using h(5) by (cases name) (auto simp: plain_name_def)
  have as: "starts_char (as @ v @ CHR '':'' # y)" "starts_char (name @ v @ CHR '':'' # y)"
    using starts_name [OF a(3) tail] def_name_char_ascii [OF a(2)] by (simp_all add: a(1) starts_char_def)
  have name: "skip_space ?r = name @ v @ CHR '':'' # y"
    using skip_space_blanks [OF h(3) as(2)] skip_space_stop [OF _ as(1), of a] def_name_char_ascii [OF a(2)] by (simp add: a(1))
  have letters: "def_name_char (CHR ''d'')" "def_name_char (CHR ''e'')" "def_name_char (CHR ''f'')"
    by (simp_all add: def_name_char_def is_alpha_def)
  show "starts_char x" by (simp add: x starts_char_def utf8_continuation_def)
  show "skip_space x = x"
    using skip_space_stop [of "CHR ''d''" "''ef'' @ ?r"] def_name_char_ascii [OF letters(1)]
    by (simp add: x starts_char_def utf8_continuation_def del: skip_space.simps)
  show "\<not> starts_with '':'' x" by (simp add: x starts_with_def)
  show "takeWhile def_name_char x = ''def''" by (simp add: x letters c)
  have "dropWhile def_name_char x = ?r" by (simp add: x letters c)
  then show "\<not> starts_with '':'' (skip_space (dropWhile def_name_char x))"
    using def_name_char_ascii [OF a(2)] unfolding \<open>dropWhile def_name_char x = ?r\<close> name by (simp add: a(1) starts_with_def)
qed

text \<open>A match at a line of a gap does not run into the definition behind the gap, nor is a match lost.\<close>

lemma match_def_gap:
  assumes "s \<noteq> []" and "last s = CHR 0x0A" and x: "opens_def x"
  shows "match_def (s @ x) = map_option (\<lambda>(n, r). (n, r @ x)) (match_def s)"
proof (cases "starts_with ''def'' (s @ x)")
  case False
  then have "\<not> starts_with ''def'' s" by (auto simp: starts_with_def)
  with False show ?thesis by (simp add: match_def_def)
next
  case True
  have pre: "take 3 (s @ x) = ''def''" using True by (simp add: starts_with_def numeral_3_eq_3)
  have long: "3 < length s"
  proof (rule ccontr)
    assume "\<not> 3 < length s"
    then have "s = take (length s) (take 3 (s @ x))" by simp
    then have "s = take (length s) ''def''" by (simp only: pre)
    then have "last s \<in> set ''def''" using assms(1) by (metis in_set_takeD last_in_set)
    with assms(2) show False by simp
  qed
  with pre have "s = ''def'' @ drop 3 s" by (metis append_take_drop_id less_imp_le take_append take_all diff_is_0_eq take_0 append_Nil2)
  with long have "\<exists>w. s = ''def'' @ w \<and> w \<noteq> []" by (metis drop_eq_Nil not_le)
  then obtain w where w: "s = ''def'' @ w" "w \<noteq> []" by blast
  note start = opens_def_start [OF x]
  have last: "last w = CHR 0x0A" using assms(2) w by simp
  let ?b = "skip_space w"
  show ?thesis
  proof (cases "?b = []")
    case True
    then have "skip_space (w @ x) = x" using skip_space_append [OF start(1), of w] start(2) by simp
    with True start(5) show ?thesis
      by (simp add: w match_def_def match_after_def Let_def starts_with_def)
  next
    case False
    then have b: "skip_space (w @ x) = ?b @ x" using skip_space_append [OF start(1), of w] by simp
    obtain u where "w = u @ ?b" using skip_space_suffix by blast
    with False last have nl: "CHR 0x0A \<in> set ?b" by (metis last_appendR last_in_set)
    have "\<not> def_name_char (CHR 0x0A)" by (simp add: def_name_char_def is_alpha_def is_digit_def)
    with nl have inside: "takeWhile def_name_char (?b @ x) = takeWhile def_name_char ?b"
      "dropWhile def_name_char (?b @ x) = dropWhile def_name_char ?b @ x"
      by (blast intro: takeWhile_append1 dropWhile_append1)+
    have e: "skip_space (dropWhile def_name_char ?b @ x) =
        (if skip_space (dropWhile def_name_char ?b) = [] then x else skip_space (dropWhile def_name_char ?b) @ x)"
      using skip_space_append [OF start(1)] start(2) by simp
    show ?thesis
      using start(3) by (cases "skip_space (dropWhile def_name_char ?b)")
        (simp_all add: w match_def_def match_after_def Let_def b inside e starts_with_def)
  qed
qed

lemma def_scan_gap:
  assumes "opens_def x" and "if s = [] then bol \<and> k = 0 else last s = CHR 0x0A" and "k \<le> length s"
  shows "def_scan bol k p (s @ x) = def_scan bol k p s @ def_scan True 0 (p + length s) x"
  using assms(2,3)
proof (induction s arbitrary: bol k p)
  case (Cons c cs)
  have step: "if cs = [] then c = CHR 0x0A else last cs = CHR 0x0A"
    using Cons.prems(1) by (cases cs) simp_all
  have rest: "def_scan (c = CHR 0x0A) j (Suc p) (cs @ x) = def_scan (c = CHR 0x0A) j (Suc p) cs @ def_scan True 0 (Suc p + length cs) x"
    if "j \<le> length cs" for j
    by (rule Cons.IH) (use that step in auto)
  show ?case
  proof (cases k)
    case 0
    have "match_def (c # cs @ x) = map_option (\<lambda>(n, r). (n, r @ x)) (match_def (c # cs))"
      using match_def_gap [OF _ _ assms(1), of "c # cs"] Cons.prems(1) by simp
    then show ?thesis using rest by (auto simp: 0 split: option.split)
  next
    case (Suc j)
    with Cons.prems(2) rest show ?thesis by simp
  qed
qed simp

lemma def_scan_names: "map snd (def_scan bol k p s) = map snd (def_scan bol k q s)"
proof (induction s arbitrary: bol k p q)
  case (Cons c cs)
  have "map snd (def_scan b j (Suc p) cs) = map snd (def_scan b j (Suc q) cs)" for b j by (rule Cons.IH)
  then show ?case by (cases k) (auto split: option.split)
qed simp

section \<open>The scan over a definition\<close>

lemma match_def_other: "c \<noteq> CHR ''d'' \<Longrightarrow> match_def (c # cs) = None"
  by (simp add: match_def_def starts_with_def)

lemma def_scan_calm:
  assumes "calm s" and "s \<noteq> []" and "bol \<and> k = 0 \<longrightarrow> hd s \<noteq> CHR ''d''" and "k \<le> length s"
  shows "def_scan bol k p (s @ x) = def_scan False 0 (p + length s) x"
  using assms
proof (induction s arbitrary: bol k p)
  case (Cons c cs)
  have step: "def_scan bol k p ((c # cs) @ x) = def_scan (c = CHR 0x0A) (k - 1) (Suc p) (cs @ x)"
    using Cons.prems(3) match_def_other by (cases k) (auto split: option.split)
  show ?case
  proof (cases "cs = []")
    case True
    with Cons.prems(1,4) step show ?thesis by (cases k) auto
  next
    case False
    have "def_scan (c = CHR 0x0A) (k - 1) (Suc p) (cs @ x) = def_scan False 0 (Suc p + length cs) x"
      by (rule Cons.IH) (use Cons.prems False in auto)
    with step show ?thesis by simp
  qed
qed simp

lemma definition_textE:
  assumes "definition_text name t"
  obtains h z where "definition_head name h" and "starts_char (z @ newline @ x)" and "calm (h @ z)" and "z \<noteq> []"
    and "t = h @ z @ newline" and "\<And>y. after_def name (z @ newline @ y) = Inr y"
proof -
  obtain h cls args w where p: "definition_head name h" "starts_char cls" "balanced args" "blank_text w"
    "list_all (\<lambda>c. c \<notin> {CHR ''<'', CHR '';'', CHR 0x22}) cls" "calm (h @ cls @ ''<'' @ args @ ''>'' @ w @ '';'')"
    "t = h @ cls @ ''<'' @ args @ ''>'' @ w @ '';'' @ newline"
    using assms by (auto simp: definition_text_def)
  let ?z = "cls @ ''<'' @ args @ ''>'' @ w @ '';''"
  have after: "after_def name (?z @ newline @ y) = Inr y" for y
  proof -
    have head: "skip_to_args (cls @ CHR ''<'' # u) = CHR ''<'' # u" for u using p(5) by (induction cls) auto
    have args: "skip_args (Suc 0) (args @ CHR ''>'' # u) = u" for u
      using skip_balanced [OF p(3), of 1 "CHR ''>'' # u"] by simp
    have w: "dropWhile (\<lambda>c. c \<in> set [CHR '' '', CHR 0x09, CHR 0x0A, CHR 0x0D]) (w @ CHR '';'' # u) = CHR '';'' # u" for u
      using p(4) by (induction w) (auto simp: blank_text_def)
    have "skip_to_args (?z @ newline @ y) = CHR ''<'' # args @ CHR ''>'' # w @ CHR '';'' # newline @ y" by (simp add: head)
    then show ?thesis unfolding after_def_def Let_def by (simp add: starts_with_def args w [simplified] newline_def)
  qed
  have "starts_char (?z @ newline @ x)"
    using p(2) by (cases cls) (auto simp: starts_char_def utf8_continuation_def)
  then show thesis using p after by (intro that [of h ?z]) simp_all
qed

lemma definition_text_opens: "definition_text name t \<Longrightarrow> opens_def (t @ x)"
proof -
  assume "definition_text name t"
  then obtain h z where "definition_head name h" "starts_char (z @ newline @ x)" "t = h @ z @ newline"
    by (rule definition_textE)
  then show "opens_def (t @ x)" unfolding opens_def_def by auto
qed

lemma definition_text_shape: "definition_text name t \<Longrightarrow> t \<noteq> [] \<and> last t = CHR 0x0A"
  by (erule definition_textE) (simp add: newline_def)

lemma def_scan_definition:
  assumes "definition_text name t"
  shows "def_scan True 0 p (t @ x) = (p, name) # def_scan True 0 (p + length t) x"
proof -
  obtain h z where t: "definition_head name h" "starts_char (z @ newline @ x)" "calm (h @ z)" "z \<noteq> []" "t = h @ z @ newline"
    using assms by (rule definition_textE)
  obtain h' where h: "h = CHR ''d'' # h'" using t(1) by (auto simp: definition_head_def)
  have "match_def (CHR ''d'' # h' @ z @ newline @ x) = Some (name, z @ newline @ x)"
    using match_head [OF t(1,2)] by (simp add: h)
  then have "def_scan True 0 p (t @ x) = (p, name) # def_scan False (length h') (Suc p) ((h' @ z) @ newline @ x)"
    by (simp add: t(5) h)
  also have "def_scan False (length h') (Suc p) ((h' @ z) @ newline @ x) = def_scan False 0 (Suc p + length (h' @ z)) (newline @ x)"
    by (rule def_scan_calm) (use t(3,4) h in auto)
  also have "\<dots> = def_scan True 0 (p + length t) x" by (simp add: newline_def t(5) h)
  finally show ?thesis .
qed

lemma span_among_first:
  "name \<notin> snd ` set ms \<Longrightarrow> span_among text name (ms @ ns) = span_among text name ns"
  by (induction ms) auto

lemma find_definition:
  assumes t: "definition_text name t" and starts: "def_starts text = ms @ (p, name) # ns" and "name \<notin> snd ` set ms"
    and whole: "text = y @ t @ x" "p = length y"
  shows "find_def_span text name = Inr (Some (p, p + length t))"
proof -
  obtain h z where z: "definition_head name h" "t = h @ z @ newline" "\<And>y. after_def name (z @ newline @ y) = Inr y"
    by (rule definition_textE [OF t, of "[]"]) blast
  obtain w v where h: "h = ''def'' @ w @ name @ v @ '':''" and bl: "blank_text w" "blank_text v" and nm: "plain_name name"
    using z(1) by (auto simp: definition_head_def)
  let ?pre = "''def'' @ w @ name @ v"
  have "CHR '':'' \<notin> set w" "CHR '':'' \<notin> set v"
    using bl [THEN blank_no_colon] .
  moreover have "CHR '':'' \<notin> set name"
  proof
    assume "CHR '':'' \<in> set name"
    then have "def_name_char (CHR '':'')" using nm by (simp add: plain_name_def list_all_iff)
    then show False using def_name_char_ascii by blast
  qed
  ultimately have colon: "CHR '':'' \<notin> set ?pre" by simp
  have "drop p text = ?pre @ CHR '':'' # z @ newline @ x" by (simp add: whole z(2) h)
  moreover have "dropWhile (\<lambda>c. c \<noteq> CHR '':'') (?pre @ CHR '':'' # u) = CHR '':'' # u" for u
    using colon by (subst dropWhile_append2) auto
  ultimately have "find_colon (drop p text) = Some (CHR '':'' # z @ newline @ x)" by (simp only: find_colon_def Let_def) simp
  then show ?thesis
    unfolding find_def_span_def starts span_among_first [OF assms(3)] using z(3) by (simp add: whole)
qed

section \<open>The layout of a file\<close>

text \<open>Gaps and definitions by turns, each definition with its name, and the text behind the last one.\<close>

fun file_layout :: "(string \<times> string \<times> string) list \<Rightarrow> string \<Rightarrow> string" where
  "file_layout [] rest = rest"
| "file_layout ((gap, name, t) # items) rest = gap @ t @ file_layout items rest"

definition item_names :: "(string \<times> string \<times> string) list \<Rightarrow> string list" where
  "item_names items = map (\<lambda>(gap, name, t). name) items"

text \<open>A gap ends with a line and may hold definitions, of other names than those in question.\<close>

definition gap_ok :: "string list \<Rightarrow> string \<Rightarrow> bool" where
  "gap_ok names gap \<longleftrightarrow>
     (gap = [] \<or> last gap = CHR 0x0A) \<and> list_all (\<lambda>(p, name). name \<notin> set names) (def_starts gap)"

definition layout_ok :: "(string \<times> string \<times> string) list \<Rightarrow> bool" where
  "layout_ok items \<longleftrightarrow> distinct (item_names items)
     \<and> (\<forall>(gap, name, t) \<in> set items. gap_ok (item_names items) gap \<and> definition_text name t)"

text \<open>The file with another text for each name.\<close>

definition with_texts :: "(string \<Rightarrow> string) \<Rightarrow> (string \<times> string \<times> string) list \<Rightarrow> (string \<times> string \<times> string) list" where
  "with_texts T items = map (\<lambda>(gap, name, t). (gap, name, T name)) items"

lemma item_names_simps [simp]:
  "item_names [] = []" "item_names ((gap, name, t) # items) = name # item_names items"
  "item_names (items @ items') = item_names items @ item_names items'"
  by (simp_all add: item_names_def)

lemma item_names_with [simp]: "item_names (with_texts T items) = item_names items"
  by (simp add: item_names_def with_texts_def case_prod_beta')

lemma file_layout_append: "file_layout (items @ items') rest = file_layout items [] @ file_layout items' rest"
  by (induction items) auto

lemma def_scan_item:
  assumes "gap_ok names gap" and "definition_text name t"
  shows "def_scan True 0 p (gap @ t @ x) = def_scan True 0 p gap @ (p + length gap, name) # def_scan True 0 (p + length gap + length t) x"
    and "m \<in> set names \<Longrightarrow> m \<notin> snd ` set (def_scan True 0 p gap)"
proof -
  have "if gap = [] then True \<and> (0 :: nat) = 0 else last gap = CHR 0x0A" using assms(1) by (auto simp: gap_ok_def)
  from def_scan_gap [OF definition_text_opens [OF assms(2), of x] this, of p]
  show "def_scan True 0 p (gap @ t @ x) = def_scan True 0 p gap @ (p + length gap, name) # def_scan True 0 (p + length gap + length t) x"
    by (simp add: def_scan_definition [OF assms(2)])
  show "m \<notin> snd ` set (def_scan True 0 p gap)" if "m \<in> set names"
  proof
    assume "m \<in> snd ` set (def_scan True 0 p gap)"
    then have "m \<in> set (map snd (def_starts gap))" by (metis def_scan_names def_starts_def list.set_map)
    with assms(1) that show False by (auto simp: gap_ok_def list_all_iff)
  qed
qed

text \<open>The scan finds a definition where it stands, and none of its name before.\<close>

lemma def_scan_layout:
  assumes "\<forall>(gap, m, t) \<in> set (items @ [(gap, name, t)]). gap_ok names gap \<and> definition_text m t"
    and "name \<in> set names" and "name \<notin> set (item_names items)"
  shows "\<exists>ms ns. def_scan True 0 p (file_layout (items @ (gap, name, t) # items') rest)
    = ms @ (p + length (file_layout items []) + length gap, name) # ns \<and> name \<notin> snd ` set ms"
  using assms(1,3)
proof (induction items arbitrary: p)
  case Nil
  then have ok: "gap_ok names gap" "definition_text name t" by simp_all
  show ?case
    using def_scan_item(1) [OF ok] def_scan_item(2) [OF ok assms(2)]
    by (simp add: exI [of _ "def_scan True 0 p gap"])
next
  case (Cons item items)
  obtain g m u where item: "item = (g, m, u)" by (cases item)
  with Cons.prems have ok: "gap_ok names g" "definition_text m u" and "m \<noteq> name" by auto
  let ?p = "p + length g + length u" and ?rest = "file_layout (items @ (gap, name, t) # items') rest"
  obtain ms ns where ih: "def_scan True 0 ?p ?rest = ms @ (?p + length (file_layout items []) + length gap, name) # ns"
    "name \<notin> snd ` set ms"
    using Cons.IH [of ?p] Cons.prems item by auto
  show ?case
    using def_scan_item(1) [OF ok, of p ?rest] def_scan_item(2) [OF ok assms(2), of p] ih \<open>m \<noteq> name\<close>
    by - (rule exI [of _ "def_scan True 0 p g @ (p + length g, m) # ms"], rule exI [of _ ns], auto simp: item add.assoc)
qed

lemma find_in_layout:
  assumes "layout_ok (items @ (gap, name, t) # items')"
  shows "find_def_span (file_layout (items @ (gap, name, t) # items') rest) name
    = Inr (Some (length (file_layout items []) + length gap, length (file_layout items []) + length gap + length t))"
proof -
  let ?items = "items @ (gap, name, t) # items'"
  have ok: "\<forall>(gap, m, t) \<in> set (items @ [(gap, name, t)]). gap_ok (item_names ?items) gap \<and> definition_text m t"
    "name \<notin> set (item_names items)" "definition_text name t"
    using assms by (auto simp: layout_ok_def)
  obtain ms ns where "def_starts (file_layout ?items rest) = ms @ (length (file_layout items []) + length gap, name) # ns"
    and "name \<notin> snd ` set ms"
    using def_scan_layout [OF ok(1) _ ok(2), of 0 items' rest] unfolding def_starts_def by auto
  from find_definition [OF ok(3) this, of "file_layout items [] @ gap" "file_layout items' rest"] show ?thesis
    by (simp add: file_layout_append)
qed

section \<open>The replacements\<close>

fun item_spans :: "nat \<Rightarrow> (string \<Rightarrow> string) \<Rightarrow> (string \<times> string \<times> string) list \<Rightarrow> (nat \<times> nat \<times> string) list" where
  "item_spans p T [] = []"
| "item_spans p T ((gap, name, t) # items) =
     (p + length gap, p + length gap + length t, T name) # item_spans (p + length gap + length t) T items"

lemma item_spans_sorted:
  assumes "\<forall>(gap, name, t) \<in> set items. t \<noteq> []"
  shows "(\<forall>s \<in> set (item_spans p T items). p \<le> fst s) \<and> sorted (map fst (item_spans p T items))
    \<and> distinct (map fst (item_spans p T items))"
  using assms
proof (induction items arbitrary: p)
  case (Cons item items)
  obtain gap name t where item: "item = (gap, name, t)" by (cases item)
  let ?q = "p + length gap + length t"
  have later: "p + length gap < fst s" if "s \<in> set (item_spans ?q T items)" for s
  proof -
    have "?q \<le> fst s" using Cons that by auto
    moreover have "0 < length t" using Cons.prems by (simp add: item)
    ultimately show ?thesis by linarith
  qed
  have "sorted (map fst (item_spans ?q T items)) \<and> distinct (map fst (item_spans ?q T items))"
    using Cons by simp
  with later show ?case by (fastforce simp: item)
qed simp

lemma splice_eq: "splice (a, b, t) out = take a out @ t @ drop b out"
  by (simp add: splice_def)

text \<open>Applied from the last to the first, the replacements put the new texts in place of the old ones.\<close>

lemma splice_layout:
  "fold splice (rev (item_spans (length pre) T items)) (pre @ file_layout items rest)
   = pre @ file_layout (with_texts T items) rest"
proof (induction items arbitrary: pre)
  case (Cons item items)
  obtain gap name t where item: "item = (gap, name, t)" by (cases item)
  have "fold splice (rev (item_spans (length (pre @ gap @ t)) T items)) ((pre @ gap @ t) @ file_layout items rest)
      = (pre @ gap @ t) @ file_layout (with_texts T items) rest" by (rule Cons.IH)
  then show ?case by (simp add: item splice_eq with_texts_def add.assoc)
qed (simp add: with_texts_def)

lemma replacements_found:
  assumes "\<forall>(name, r) \<in> set recs. find_def_span whole name = Inr (Some (a name, b name)) \<and> emit_recipe_td U r = Inr (T name)"
  shows "replacements U whole recs = Inr (map (\<lambda>name. (a name, b name, T name)) (map fst recs))"
  using assms by (induction recs) auto

text \<open>The spans that are found, in the order of the file.\<close>

lemma spans_in_order:
  assumes "layout_ok (front @ items)"
    and "\<forall>name \<in> set (item_names items). find_def_span (file_layout (front @ items) rest) name = Inr (Some (a name, b name))"
  shows "map (\<lambda>name. (a name, b name, T name)) (item_names items) = item_spans (length (file_layout front [])) T items"
  using assms
proof (induction items arbitrary: front)
  case (Cons item items)
  obtain gap name t where item: "item = (gap, name, t)" by (cases item)
  have here: "a name = length (file_layout front []) + length gap"
    "b name = length (file_layout front []) + length gap + length t"
    using find_in_layout [of front gap name t items rest] Cons.prems by (simp_all add: item)
  have "map (\<lambda>name. (a name, b name, T name)) (item_names items) = item_spans (length (file_layout (front @ [item]) [])) T items"
    by (rule Cons.IH) (use Cons.prems item in simp_all)
  with here show ?case by (simp add: item file_layout_append [of front] add.assoc)
qed simp

lemma rewrite_layout:
  assumes ok: "layout_ok items" and dist: "distinct (map fst recs)" and names: "set (map fst recs) = set (item_names items)"
    and emit: "\<forall>(name, r) \<in> set recs. emit_recipe_td U r = Inr (T name)"
  shows "rewrite_file_recipes U (file_layout items rest) recs = Inr (file_layout (with_texts T items) rest)"
proof -
  let ?whole = "file_layout items rest"
  define ab where "ab name = (case find_def_span ?whole name of Inr (Some ab) \<Rightarrow> ab | _ \<Rightarrow> (0, 0))" for name
  have found: "find_def_span ?whole name = Inr (Some (fst (ab name), snd (ab name)))" if n: "name \<in> set (item_names items)" for name
  proof -
    obtain gap t where "(gap, name, t) \<in> set items" using n by (auto simp: item_names_def)
    then obtain is1 is2 where "items = is1 @ (gap, name, t) # is2" by (meson split_list)
    with find_in_layout ok show ?thesis by (simp add: ab_def)
  qed
  let ?f = "\<lambda>name. (fst (ab name), snd (ab name), T name)"
  let ?spans = "item_spans 0 T items"
  have run: "replacements U ?whole recs = Inr (map ?f (map fst recs))"
    by (rule replacements_found) (use found names emit in force)
  have spans: "map ?f (item_names items) = ?spans"
  proof -
    have "\<forall>name \<in> set (item_names items). find_def_span (file_layout ([] @ items) rest) name = Inr (Some (fst (ab name), snd (ab name)))"
      using found by simp
    from spans_in_order [where front = "[]" and T = T, OF _ this] ok show ?thesis by simp
  qed
  have "mset (map fst recs) = mset (item_names items)"
    using set_eq_iff_mset_eq_distinct [of "map fst recs" "item_names items"] dist names ok by (simp add: layout_ok_def)
  then have mset: "mset (map ?f (map fst recs)) = mset ?spans"
    unfolding spans [symmetric] mset_map by simp
  have "\<forall>(gap, name, t) \<in> set items. t \<noteq> []" using ok definition_text_shape by (fastforce simp: layout_ok_def)
  note sorted = item_spans_sorted [OF this, of 0 T]
  have "inj_on fst (set ?spans)" using sorted by (simp add: distinct_map)
  then have "inj_on fst (set (map ?f (map fst recs)))" using mset_eq_setD [OF mset] by simp
  from sort_key_inj_key_eq [OF mset this] sorted have "sort_key fst (map ?f (map fst recs)) = ?spans" by blast
  with run show ?thesis
    using splice_layout [of "[]" T items rest] by (simp add: rewrite_file_recipes_def)
qed

section \<open>The printed definitions\<close>

lemma printed_definition:
  assumes "wf_json (JObj d)" and "plain_name name"
    and recipe: "extract_recipe U n d name = Inr r" and emit: "emit_recipe_td U r = Inr t"
  shows "definition_text name t"
proof -
  from returnsD [OF wf_extract_recipe [OF assms(1)] recipe] have "wf_json r" "canon r = r"
    by (simp_all add: canonicalize_recipe_def)
  moreover from extracted_recipe_shape [OF recipe] have "ir_recipe r" "jget ''defName'' (as_obj r) = JStr name"
    by simp_all
  ultimately obtain inner where t: "t = ''def '' @ name @ '' : TargetIdiomRecipe<'' @ inner @ ''>;'' @ newline"
    and inner: "neutral inner"
    using emitted_block [OF _ _ _ _ emit] by blast
  have blank: "blank_text '' ''" "blank_text []" by (simp_all add: blank_text_def)
  then have head: "definition_head name (''def '' @ name @ '' :'')"
    using assms(2) unfolding definition_head_def by (intro conjI exI [of _ "'' ''"]) simp_all
  have nl: "CHR 0x0A \<notin> set name"
    using assms(2) blank_no_name [of "CHR 0x0A"] by (auto simp: plain_name_def list_all_iff)
  then have "calm (''def '' @ name @ '' : TargetIdiomRecipe<'')" by (intro calm_plain) simp
  then have "calm ((''def '' @ name @ '' : TargetIdiomRecipe<'') @ inner @ ''>;'')"
    using inner calm_plain [OF nl] by (intro calm_append) (simp_all add: neutral_def)
  with head inner blank calm_plain [OF nl] show ?thesis
    unfolding definition_text_def t
    by (intro exI [of _ "''def '' @ name @ '' :''"] exI [of _ "'' TargetIdiomRecipe''"] exI [of _ inner] exI [of _ "[]"])
      (simp add: neutral_def starts_char_def utf8_continuation_def)
qed

text \<open>C29. Rewriting a file puts the printed block of each recipe in place of its definition and changes nothing
  else, whatever comments and other definitions stand around it and in whatever order the recipes are given.
  In the file that is written the scanner finds for each name exactly the block the printer printed, whatever
  brackets and quotes its fields hold, so rewriting that file again changes nothing.\<close>

theorem rewriting_replaces_definitions:
  assumes "wf_json (JObj d)" and "layout_ok items" and "distinct (map fst recs)"
    and "set (map fst recs) = set (item_names items)"
    and "\<forall>(name, r) \<in> set recs. plain_name name \<and> extract_recipe U n d name = Inr r \<and> emit_recipe_td U r = Inr (T name)"
    and "written = file_layout (with_texts T items) rest"
  shows "rewrite_file_recipes U (file_layout items rest) recs = Inr written
    \<and> rewrite_file_recipes U written recs = Inr written
    \<and> (\<forall>(name, r) \<in> set recs. \<exists>a b. find_def_span written name = Inr (Some (a, b))
         \<and> emit_recipe_td U r = Inr (take (b - a) (drop a written)))"
proof -
  have emit: "\<forall>(name, r) \<in> set recs. emit_recipe_td U r = Inr (T name)" using assms(5) by auto
  have printed: "definition_text name (T name)" if n: "name \<in> set (item_names items)" for name
  proof -
    obtain r where "(name, r) \<in> set recs" using n unfolding assms(4) [symmetric] by auto
    with assms(5) show ?thesis by (blast intro: printed_definition [OF assms(1)])
  qed
  then have "\<forall>(gap, name, t) \<in> set (with_texts T items). gap_ok (item_names items) gap \<and> definition_text name t"
    using assms(2) by (force simp: layout_ok_def with_texts_def item_names_def)
  then have ok: "layout_ok (with_texts T items)" using assms(2) by (simp add: layout_ok_def)
  have twice: "with_texts T (with_texts T items) = with_texts T items" by (simp add: with_texts_def case_prod_beta')
  have "\<exists>a b. find_def_span written name = Inr (Some (a, b)) \<and> take (b - a) (drop a written) = T name"
    if n: "name \<in> set (item_names items)" for name
  proof -
    have "\<exists>gap. (gap, name, T name) \<in> set (with_texts T items)" using n by (force simp: item_names_def with_texts_def)
    then obtain gap is1 is2 where split: "with_texts T items = is1 @ (gap, name, T name) # is2" by (meson split_list)
    have "written = (file_layout is1 [] @ gap) @ T name @ file_layout is2 rest"
      by (simp add: assms(6) split file_layout_append)
    then have "drop (length (file_layout is1 []) + length gap) written = T name @ file_layout is2 rest" by simp
    with find_in_layout [of is1 gap name "T name" is2 rest] ok show ?thesis by (simp add: assms(6) split)
  qed
  moreover have "name \<in> set (item_names items)" if "(name, r) \<in> set recs" for name r
    using that unfolding assms(4) [symmetric] by force
  ultimately have "\<forall>(name, r) \<in> set recs. \<exists>a b. find_def_span written name = Inr (Some (a, b))
      \<and> emit_recipe_td U r = Inr (take (b - a) (drop a written))"
    using emit by fastforce
  then show ?thesis
    using rewrite_layout [OF assms(2-4) emit] rewrite_layout [OF ok assms(3) _ emit, of rest] assms(4)
    by (simp add: assms(6) twice)
qed

text \<open>A file with a comment, another definition, and the recipe in a hand-written form.\<close>

definition other_defs :: string where
  "other_defs = ''// recipes'' @ newline @ ''def Kind : FinalizedType<'' @ [CHR 0x22] @ ''K'' @ [CHR 0x22] @ ''>;'' @ newline"

definition hand_written :: string where
  "hand_written = ''def Pay : TargetIdiomRecipe<'' @ newline @ ''  '' @ [CHR 0x22] @ ''a>b'' @ [CHR 0x22] @ '',[X<1>]'' @ newline @ ''>;'' @ newline"

lemma hand_written_definition: "definition_text ''Pay'' hand_written"
proof -
  let ?args = "newline @ ''  '' @ CHR 0x22 # ''a>b'' @ CHR 0x22 # '',['' @ ''X'' @ CHR ''<'' # ''1'' @ CHR ''>'' # '']'' @ newline"
  have "balanced ?args"
    unfolding newline_def by (simp, (rule balanced.intros balanced_quote [where q = "''a>b''", simplified]
      balanced_angle [where s = "''1''", simplified] | simp)+)
  moreover have "definition_head ''Pay'' ''def Pay :''"
    unfolding definition_head_def by (intro conjI exI [of _ "'' ''"]) (simp_all add: plain_name_def blank_text_def def_name_char_def is_alpha_def is_digit_def)
  ultimately show ?thesis
    unfolding definition_text_def hand_written_def
    by (intro exI [of _ "''def Pay :''"] exI [of _ "'' TargetIdiomRecipe''"] exI [of _ ?args] exI [of _ "[]"])
      (simp add: starts_char_def utf8_continuation_def blank_text_def newline_def)
qed

lemma rewriting_replaces_definitions_witness:
  "\<exists>t. emit_recipe_td (\<lambda>_. None) sample_ir = Inr t \<and> t \<noteq> hand_written
     \<and> rewrite_file_recipes (\<lambda>_. None) (other_defs @ hand_written @ ''// end'') [(''Pay'', sample_ir)] = Inr (other_defs @ t @ ''// end'')"
proof -
  have "case emit_recipe_td (\<lambda>_. None) sample_ir of Inl e \<Rightarrow> False | Inr t \<Rightarrow> t \<noteq> hand_written" by code_simp
  then obtain t where t: "emit_recipe_td (\<lambda>_. None) sample_ir = Inr t" "t \<noteq> hand_written"
    by (auto split: sum.splits)
  have "\<not> isl (extract_recipe (\<lambda>_. None) 2 (recipe_view ''one'') ''Pay'')" by code_simp
  then have r: "extract_recipe (\<lambda>_. None) 2 (recipe_view ''one'') ''Pay'' = Inr sample_ir"
    by (auto simp: sample_ir_def split: sum.splits)
  have wf: "wf_json (JObj (recipe_view ''one''))" and name: "plain_name ''Pay''" by code_simp+
  have "gap_ok [''Pay''] other_defs" by code_simp
  then have ok: "layout_ok [(other_defs, ''Pay'', hand_written)]"
    using hand_written_definition by (simp add: layout_ok_def item_names_def)
  from rewriting_replaces_definitions [OF wf ok, of "[(''Pay'', sample_ir)]" "\<lambda>_. None" 2 "\<lambda>_. t" _ "''// end''"] name r t
  show ?thesis by (auto simp: with_texts_def item_names_def)
qed

end
