(* ===== verification/L2Domain.thy ===== *)
theory L2Domain
  imports RecipeExtract
begin

text \<open>
  \<open>src/scripts/domain/validate_l2_domain_semantics.py\<close>: the validator of the first version of the L2
  domain semantics. \<open>dm_validate\<close> is \<open>validate\<close>, a section for each of its loops, and \<open>dm_main\<close> the
  report and the exit status of \<open>main\<close> on a document that was read. The place \<open>where\<close> of a
  diagnostic may be any value, since it is often the \<open>name\<close> field of the object; \<open>None\<close> is no place.
\<close>

section \<open>Diagnostics\<close>

record dm_diag =
  dm_code :: string
  dm_message :: string
  dm_where :: json

definition dm_taxonomy :: "(string \<times> string \<times> string) list" where
  "dm_taxonomy =
    [(''L2-1001'', ''ERR_L2_SHAPE'', ''shape''), (''L2-1002'', ''ERR_L2_IDENTITY'', ''identity''),
     (''L2-1003'', ''ERR_L2_TRACEABILITY'', ''traceability''), (''L2-1004'', ''ERR_L2_BRANCH'', ''branch''),
     (''L2-1005'', ''ERR_L2_PARAMETER'', ''parameter''), (''L2-1006'', ''ERR_L2_EXPRESSION'', ''expression''),
     (''L2-1007'', ''ERR_L2_REFERENCE'', ''reference''), (''L2-1008'', ''ERR_L2_PARAM_UNDECLARED'', ''parameter'')]"

abbreviation dm_add :: "string \<Rightarrow> string \<Rightarrow> json \<Rightarrow> dm_diag" where
  "dm_add code msg w \<equiv> \<lparr>dm_code = code, dm_message = msg, dm_where = w\<rparr>"

definition dm_diag_json :: "(string \<times> string \<times> string) list \<Rightarrow> dm_diag \<Rightarrow> json" where
  "dm_diag_json taxonomy d =
     (let (symbol, category) = the (map_of taxonomy (dm_code d))
      in JObj ([(''code'', JStr (dm_code d)), (''symbol'', JStr symbol), (''category'', JStr category),
           (''severity'', JStr ''error''), (''message'', JStr (dm_message d))]
         @ (if dm_where d = JNull then [] else [(''where'', dm_where d)])))"

text \<open>The order of the report: by code, place and message. Two places under one code must be comparable;
  lists as places are outside the model.\<close>

definition dm_place :: "dm_diag \<Rightarrow> json" where
  "dm_place d = (if dm_where d = JNull then JStr [] else dm_where d)"

definition dm_sorted :: "dm_diag list \<Rightarrow> dm_diag list py" where
  "dm_sorted ds =
     (if list_all (\<lambda>d. list_all (\<lambda>e. dm_code d = dm_code e \<longrightarrow> comparable (dm_place d) (dm_place e)) ds) ds
      then Inr (sort_key (\<lambda>d. (dm_code d, order_key (dm_place d), dm_message d)) ds)
      else Inl TypeError)"

section \<open>Parts of the artifact\<close>

text \<open>\<open>d.get("name") or f"section[i]"\<close>.\<close>

definition name_or :: "json \<Rightarrow> string \<Rightarrow> nat \<Rightarrow> json" where
  "name_or name section i = (if truthy name then name else JStr (idx section i))"

definition dm_no_unknown :: "obj \<Rightarrow> string list \<Rightarrow> json \<Rightarrow> dm_diag list py" where
  "dm_no_unknown d allowed w =
     each (jkeys d) (\<lambda>k. emit_if (k \<notin> set allowed)
       (dm_add ''L2-1001'' (py_str w @ '': unknown field '' @ repr_str k) w))"

definition cap_tail :: "string \<Rightarrow> string" where
  "cap_tail c = last (split_at CHR ''.'' c)"

definition dm_l1 :: "obj \<Rightarrow> obj" where
  "dm_l1 a = as_obj (jget ''l1'' a)"

text \<open>The names a list of objects declares, and the non-empty texts of a list.\<close>

definition declared :: "json \<Rightarrow> string list" where
  "declared v = map (\<lambda>x. str_of (jget ''name'' (as_obj x)))
     (filter (\<lambda>x. is_obj x \<and> nonempty_str (jget ''name'' (as_obj x))) (as_list v))"

definition nonempty_texts :: "json \<Rightarrow> string list" where
  "nonempty_texts v = map str_of (filter nonempty_str (as_list v))"

definition dm_anchors :: "obj \<Rightarrow> string list" where
  "dm_anchors a = nonempty_texts (jget ''primitives'' (dm_l1 a)) @ nonempty_texts (jget ''obligations'' (dm_l1 a))
     @ declared (jget ''failureModes'' a)"

definition dm_top_fields :: "string list" where
  "dm_top_fields = [''kind'', ''schemaVersion'', ''domain'', ''version'', ''implements'', ''coverage'', ''l1'',
     ''failureModes'', ''concepts'', ''participantBranches'', ''parameters'', ''evidenceRequirements'',
     ''guards'', ''invariants'']"

section \<open>Header and identity\<close>

definition dm_header :: "obj \<Rightarrow> dm_diag list py" where
  "dm_header a =
     chks [each (jkeys a) (\<lambda>k. emit_if (k \<notin> set dm_top_fields) (dm_add ''L2-1001'' (''unknown field '' @ repr_str k) (JStr k))),
       emit_if (jget ''kind'' a \<noteq> JStr ''neutrino.l2-domain-semantics'')
         (dm_add ''L2-1001'' (''kind must be '' @ sq ''neutrino.l2-domain-semantics'') JNull),
       emit_if (\<not> eq_int (jget ''schemaVersion'' a) 1) (dm_add ''L2-1001'' ''schemaVersion must be 1'' JNull),
       emit_if (\<not> nonempty_str (jget ''domain'' a)) (dm_add ''L2-1001'' ''domain is required (non-empty string)'' JNull),
       emit_if (jhas ''coverage'' a \<and> jget ''coverage'' a \<notin> JStr ` {''full'', ''partial''})
         (dm_add ''L2-1001'' (''coverage must be '' @ sq ''full'' @ '' or '' @ sq ''partial'') JNull)]"

definition dm_identity :: "obj \<Rightarrow> dm_diag list py" where
  "dm_identity a =
     (let impl = jget ''implements'' a; cap = jget ''capability'' (dm_l1 a); tail = cap_tail (str_of cap)
      in chks [emit_if (\<not> nonempty_str impl)
           (dm_add ''L2-1002'' ''implements is required (the L1 capability/role this L2 refines)'' JNull),
         emit_if (\<not> truthy (jget ''l1'' a)) (dm_add ''L2-1002'' ''l1 is required'' JNull),
         dm_no_unknown (dm_l1 a) [''capability'', ''primitives'', ''obligations''] (JStr ''l1''),
         emit_if (\<not> nonempty_str cap) (dm_add ''L2-1002'' ''l1.capability is required (non-empty string)'' JNull),
         emit_if (nonempty_str impl \<and> nonempty_str cap \<and> impl \<noteq> cap \<and> impl \<noteq> JStr tail)
           (dm_add ''L2-1002'' (''implements '' @ py_repr impl @ '' != l1.capability '' @ py_repr cap
              @ '' (nor its unqualified name '' @ repr_str tail @ '') '' @ em_dash
              @ '' they must name the same L1 capability'') (JStr ''implements''))])"

definition dm_failure_modes :: "obj \<Rightarrow> dm_diag list py" where
  "dm_failure_modes a =
     each_i (as_list (jget ''failureModes'' a)) (\<lambda>i v.
       case v of
         JObj d \<Rightarrow> dm_no_unknown d [''name'', ''compensation''] (name_or (jget ''name'' d) ''failureModes'' i)
       | _ \<Rightarrow> Inr [dm_add ''L2-1001'' ''failureMode must be an object'' (JStr (idx ''failureModes'' i))])"

section \<open>Concepts, branches, parameters and evidence\<close>

definition dm_traces :: "string list \<Rightarrow> json \<Rightarrow> nat \<Rightarrow> obj \<Rightarrow> dm_diag list py" where
  "dm_traces anchors name i tr =
     (let goal = jget ''to'' tr
      in chks [dm_no_unknown tr [''to'', ''relation'']
             (if truthy name then name else JStr (idx ''concepts'' i @ ''.traces'')),
           emit_if (jget ''relation'' tr \<notin> JStr ` {''expands'', ''discharges'', ''protects'', ''failure''})
             (dm_add ''L2-1001'' ''traces.relation must be expands|discharges|protects|failure'' name),
           emit_if (\<not> nonempty_str goal)
             (dm_add ''L2-1003'' (''concept '' @ py_repr name @ '' traces.to is required'') name),
           emit_if (nonempty_str goal \<and> str_of goal \<notin> set anchors)
             (dm_add ''L2-1003'' (''concept '' @ py_repr name @ '' traces to '' @ py_repr goal
                @ '', which is not an l1 primitive/obligation or a declared failure mode'') name)])"

definition dm_concept :: "string list \<Rightarrow> nat \<Rightarrow> json \<Rightarrow> dm_diag list py" where
  "dm_concept anchors i v =
     (case v of
        JObj d \<Rightarrow>
          (let name = jget ''name'' d; w = name_or name ''concepts'' i; tr = as_obj (jget ''traces'' d)
           in chks [dm_no_unknown d [''name'', ''kind'', ''traces''] w,
             emit_if (\<not> nonempty_str name) (dm_add ''L2-1001'' ''concept.name is required'' (JStr (idx ''concepts'' i))),
             emit_if (jget ''kind'' d \<notin> JStr ` {''state'', ''action'', ''concept''})
               (dm_add ''L2-1001'' ''concept.kind must be state|action|concept'' w),
             (if tr = []
              then Inr [dm_add ''L2-1003'' (''concept '' @ py_repr name @ '' has no traces back to L1'') name]
              else dm_traces anchors name i tr)])
      | _ \<Rightarrow> Inr [dm_add ''L2-1001'' ''concept must be an object'' (JStr (idx ''concepts'' i))])"

definition dm_concepts :: "obj \<Rightarrow> dm_diag list py" where
  "dm_concepts a =
     (let concepts = as_list (jget ''concepts'' a)
      in chks [emit_if (concepts = []) (dm_add ''L2-1001'' ''concepts must be a non-empty array'' JNull),
           each_i concepts (dm_concept (dm_anchors a))])"

definition dm_branch :: "obj \<Rightarrow> nat \<Rightarrow> json \<Rightarrow> dm_diag list py" where
  "dm_branch a i v =
     (case v of
        JObj d \<Rightarrow>
          (let p = name_or (jget ''participant'' d) ''participantBranches'' i
           in chks [dm_no_unknown d [''participant'', ''concepts''] p,
                each (as_list (jget ''concepts'' d)) (\<lambda>c.
                  emit_ifp (not_in_strs c (declared (jget ''concepts'' a)))
                    (dm_add ''L2-1004'' (''branch '' @ py_repr p @ '' references unknown concept '' @ py_repr c) p))])
      | _ \<Rightarrow> Inr [dm_add ''L2-1001'' ''participantBranch must be an object'' (JStr (idx ''participantBranches'' i))])"

definition dm_branches :: "obj \<Rightarrow> dm_diag list py" where
  "dm_branches a = each_i (as_list (jget ''participantBranches'' a)) (dm_branch a)"

definition dm_parameters :: "obj \<Rightarrow> dm_diag list py" where
  "dm_parameters a =
     each_i (as_list (jget ''parameters'' a)) (\<lambda>i v.
       case v of
         JObj d \<Rightarrow>
           (let p = name_or (jget ''name'' d) ''parameters'' i
            in chks [each (jkeys d) (\<lambda>k. emit_if (k \<notin> set [''name'', ''type'', ''required''])
                   (dm_add ''L2-1005'' (''parameter '' @ py_repr p @ '': unexpected field '' @ repr_str k @ '' '' @ em_dash
                      @ '' parameters declare interfaces only (no concrete values; those belong in L3/simulation)'') p)),
                 emit_if (\<not> nonempty_str (jget ''type'' d))
                   (dm_add ''L2-1001'' (''parameter '' @ py_repr p @ '': type is required'') p)])
       | _ \<Rightarrow> Inr [dm_add ''L2-1001'' ''parameter must be an object'' (JStr (idx ''parameters'' i))])"

definition proof_tags :: "string list" where
  "proof_tags = [''authority'', ''event'', ''liveness'']"

definition dm_proof_tags :: "obj \<Rightarrow> dm_diag list py" where
  "dm_proof_tags d =
     (case jget ''proofTags'' d of
        JList (x # xs) \<Rightarrow>
          (if list_all is_str (x # xs)
           then let bad = filter (\<lambda>t. t \<notin> set proof_tags) (map str_of (x # xs))
                in emit_if (bad \<noteq> []) (dm_add ''L2-1001'' (''evidenceRequirement.proofTags has unknown tag(s) ''
                     @ repr_strs bad @ '' (allowed: '' @ repr_strs proof_tags @ '')'') (jget ''name'' d))
           else Inr [dm_add ''L2-1001'' ''evidenceRequirement.proofTags must be a non-empty array of strings'' (jget ''name'' d)])
      | _ \<Rightarrow> Inr [dm_add ''L2-1001'' ''evidenceRequirement.proofTags must be a non-empty array of strings'' (jget ''name'' d)])"

definition dm_evidence :: "obj \<Rightarrow> dm_diag list py" where
  "dm_evidence a =
     each_i (as_list (jget ''evidenceRequirements'' a)) (\<lambda>i v.
       case v of
         JObj d \<Rightarrow>
           chks [each (jkeys d) (\<lambda>k. emit_if (k \<notin> set [''name'', ''required'', ''schemaRef'', ''category'', ''proofTags''])
               (dm_add ''L2-1001'' (''evidenceRequirement: unknown field '' @ repr_str k) (jget ''name'' d))),
             emit_if (jhas ''category'' d \<and> \<not> nonempty_str (jget ''category'' d))
               (dm_add ''L2-1001'' ''evidenceRequirement.category must be a non-empty string'' (jget ''name'' d)),
             guarded (jhas ''proofTags'' d) (dm_proof_tags d)]
       | _ \<Rightarrow> Inr [dm_add ''L2-1001'' ''evidenceRequirement must be an object'' (JStr (idx ''evidenceRequirements'' i))])"

section \<open>Guards and invariants\<close>

definition check_param_ref :: "string list \<Rightarrow> json \<Rightarrow> string \<Rightarrow> json \<Rightarrow> dm_diag list py" where
  "check_param_ref params operand kind w =
     (let s = str_of operand; ref = drop 6 s
      in emit_if (is_str operand \<and> starts_with ''param:'' s \<and> ref \<notin> set params)
           (dm_add ''L2-1008'' (kind @ '' '' @ py_repr w @ '': references parameter '' @ repr_str ref @ '' (''
              @ repr_str s @ '') which is not declared in parameters[] '' @ em_dash
              @ '' declare it (no implicit parameters)'') w))"

definition compare_ops :: "string list" where
  "compare_ops = [''!='', ''<'', ''<='', ''=='', ''>'', ''>='']"

definition check_compare :: "string list \<Rightarrow> string \<Rightarrow> json \<Rightarrow> obj \<Rightarrow> dm_diag list py" where
  "check_compare params kind w c =
     (let head = kind @ '' '' @ py_repr w @ '': ''; right = jget ''right'' c
      in chks [dm_no_unknown c [''left'', ''op'', ''right''] w,
           emit_ifp (not_in_strs (jget ''op'' c) compare_ops)
             (dm_add ''L2-1006'' (head @ ''compare.op must be one of '' @ repr_strs compare_ops) w),
           (if \<not> nonempty_str (jget ''left'' c)
            then Inr [dm_add ''L2-1006'' (head @ ''compare.left must be a reference'') w]
            else check_param_ref params (jget ''left'' c) kind w),
           (if is_number right \<and> \<not> is_bool right
            then Inr [dm_add ''L2-1005'' (head @ ''compare.right is a numeric literal '' @ py_repr right @ '' ''
                @ em_dash @ '' use a declared parameter (no magic numbers)'') w]
            else if \<not> nonempty_str right
            then Inr [dm_add ''L2-1006'' (head @ ''compare.right must be a symbolic reference'') w]
            else check_param_ref params right kind w)])"

definition check_predicate ::
    "string list \<Rightarrow> string list \<Rightarrow> string \<Rightarrow> bool \<Rightarrow> nat \<Rightarrow> json \<Rightarrow> dm_diag list py" where
  "check_predicate params failures kind on_failure i v =
     (case v of
        JObj d \<Rightarrow>
          (let w = name_or (jget ''name'' d) kind i; head = kind @ '' '' @ py_repr w
           in chks [each (jkeys d) (\<lambda>k.
                emit_if (k \<notin> set ([''name'', ''compare'', ''predicateRef''] @ (if on_failure then [''onFailure''] else [])))
                  (dm_add ''L2-1001'' (head @ '': unknown field '' @ repr_str k) w)),
             emit_if (jhas ''compare'' d \<longleftrightarrow> jhas ''predicateRef'' d)
               (dm_add ''L2-1006'' (head @ '' must have EXACTLY ONE of compare / predicateRef (free-form/ambiguous expressions are not supported)'') w),
             guarded (jhas ''compare'' d) (check_compare params kind w (as_obj (jget ''compare'' d))),
             emit_if (jhas ''predicateRef'' d \<and> \<not> nonempty_str (jget ''predicateRef'' d))
               (dm_add ''L2-1006'' (head @ '': predicateRef must be a non-empty string'') w),
             guarded (on_failure \<and> jhas ''onFailure'' d)
               (emit_ifp (not_in_strs (jget ''onFailure'' d) failures)
                 (dm_add ''L2-1007'' (head @ '': onFailure '' @ py_repr (jget ''onFailure'' d)
                    @ '' is not a declared failure mode'') w))])
      | _ \<Rightarrow> Inr [dm_add ''L2-1001'' (kind @ '' must be an object'') (JStr (idx kind i))])"

definition dm_predicates :: "obj \<Rightarrow> dm_diag list py" where
  "dm_predicates a =
     (let params = declared (jget ''parameters'' a); failures = declared (jget ''failureModes'' a)
      in chks [each_i (as_list (jget ''guards'' a)) (check_predicate params failures ''guard'' False),
           each_i (as_list (jget ''invariants'' a)) (check_predicate params failures ''invariant'' True)])"

section \<open>The validator\<close>

definition dm_validate :: "json \<Rightarrow> dm_diag list py" where
  "dm_validate v =
     (case v of
        JObj a \<Rightarrow> chks [dm_header a, dm_identity a, dm_failure_modes a, dm_concepts a, dm_branches a,
          dm_parameters a, dm_evidence a, dm_predicates a]
      | _ \<Rightarrow> Inr [dm_add ''L2-1001'' ''artifact must be a JSON object'' JNull])"

definition dm_report :: "json \<Rightarrow> dm_diag list \<Rightarrow> json py" where
  "dm_report v ds =
     pbind (dm_sorted ds) (\<lambda>sds.
       let domain = jget ''domain'' (as_obj v)
       in Inr (JObj [(''schemaVersion'', JInt 1), (''kind'', JStr ''neutrino.l2-domain-semantics-validation''),
            (''ok'', JBool (ds = [])), (''domain'', if nonempty_str domain then domain else JNull),
            (''diagnostics'', JList (map (dm_diag_json dm_taxonomy) sds))]))"

definition dm_main :: "json \<Rightarrow> (json \<times> nat) py" where
  "dm_main v = pbind (dm_validate v) (\<lambda>ds. pbind (dm_report v ds) (\<lambda>r. Inr (r, if ds = [] then 0 else 1)))"

section \<open>What an accepted artifact satisfies\<close>

text \<open>
  A concept is traced if it leads back to a primitive, an obligation or a failure mode. An operand is
  resolved if it is a text that names a declared parameter when it starts with \<open>param:\<close>. A predicate
  is resolved if it is either one comparison of resolved operands or one predicate reference.
\<close>

definition concept_anchored :: "obj \<Rightarrow> json \<Rightarrow> bool" where
  "concept_anchored a v \<longleftrightarrow>
     (\<exists>d goal. v = JObj d \<and> nonempty_str (jget ''name'' d)
        \<and> jget ''to'' (as_obj (jget ''traces'' d)) = JStr goal \<and> goal \<in> set (dm_anchors a))"

definition operand_resolved :: "obj \<Rightarrow> json \<Rightarrow> bool" where
  "operand_resolved a v \<longleftrightarrow>
     nonempty_str v \<and> (\<forall>p. v = JStr (''param:'' @ p) \<longrightarrow> p \<in> set (declared (jget ''parameters'' a)))"

definition predicate_resolved :: "obj \<Rightarrow> json \<Rightarrow> bool" where
  "predicate_resolved a v \<longleftrightarrow>
     (\<exists>d. v = JObj d \<and> (jhas ''compare'' d \<longleftrightarrow> \<not> jhas ''predicateRef'' d)
        \<and> (let c = as_obj (jget ''compare'' d)
           in jhas ''compare'' d \<longrightarrow> operand_resolved a (jget ''left'' c) \<and> operand_resolved a (jget ''right'' c))
        \<and> (jhas ''predicateRef'' d \<longrightarrow> nonempty_str (jget ''predicateRef'' d)))"

lemma check_param_ref_resolved:
  assumes "check_param_ref (declared (jget ''parameters'' a)) v kind w = Inr []" and "nonempty_str v"
  shows "operand_resolved a v"
  using assms by (auto simp: check_param_ref_def Let_def emit_if_pass operand_resolved_def starts_with_def)

lemma check_compare_resolved:
  assumes "check_compare (declared (jget ''parameters'' a)) kind w c = Inr []"
  shows "operand_resolved a (jget ''left'' c) \<and> operand_resolved a (jget ''right'' c)"
  using assms unfolding check_compare_def Let_def chks_pass list.set ball_simps
  by (auto intro: check_param_ref_resolved split: if_splits)

lemma check_predicate_resolved:
  assumes "check_predicate (declared (jget ''parameters'' a)) failures kind on_failure i v = Inr []"
  shows "predicate_resolved a v"
    and "on_failure \<Longrightarrow> jhas ''onFailure'' (as_obj v) \<Longrightarrow> \<exists>f \<in> set failures. jget ''onFailure'' (as_obj v) = JStr f"
proof -
  obtain d where d: "v = JObj d" using assms by (cases v) (simp_all add: check_predicate_def)
  note pass = assms [unfolded d check_predicate_def json.case Let_def chks_pass list.set ball_simps
      emit_if_pass emit_ifp_pass guarded_pass not_in_strs_False]
  from pass show "predicate_resolved a v"
    by (auto simp: d predicate_resolved_def Let_def dest: check_compare_resolved)
  from pass show "\<exists>f \<in> set failures. jget ''onFailure'' (as_obj v) = JStr f"
    if on_failure "jhas ''onFailure'' (as_obj v)"
    using that by (auto simp: d)
qed

lemma check_predicates_resolved:
  assumes "each_i vs (check_predicate (declared (jget ''parameters'' a)) failures kind on_failure) = Inr []" and "v \<in> set vs"
  shows "predicate_resolved a v"
    and "on_failure \<Longrightarrow> jhas ''onFailure'' (as_obj v) \<Longrightarrow> \<exists>f \<in> set failures. jget ''onFailure'' (as_obj v) = JStr f"
proof -
  from each_i_passD [OF assms] obtain i where
    i: "check_predicate (declared (jget ''parameters'' a)) failures kind on_failure i v = Inr []" by blast
  from i show "predicate_resolved a v" by (rule check_predicate_resolved(1))
  from check_predicate_resolved(2) [OF i]
  show "on_failure \<Longrightarrow> jhas ''onFailure'' (as_obj v) \<Longrightarrow> \<exists>f \<in> set failures. jget ''onFailure'' (as_obj v) = JStr f" .
qed

lemma dm_traces_resolved:
  "dm_traces anchors name i tr = Inr [] \<Longrightarrow> \<exists>goal. jget ''to'' tr = JStr goal \<and> goal \<in> set anchors"
  by (auto simp: dm_traces_def Let_def chks_pass emit_if_pass nonempty_str_iff)

lemma dm_concept_traced: "dm_concept (dm_anchors a) i v = Inr [] \<Longrightarrow> concept_anchored a v"
  by (cases v) (auto simp: dm_concept_def Let_def chks_pass emit_if_pass concept_anchored_def
      split: if_splits dest: dm_traces_resolved)

lemma dm_branch_declared:
  assumes "dm_branches a = Inr []" and "b \<in> set (as_list (jget ''participantBranches'' a))"
    and "c \<in> set (as_list (jget ''concepts'' (as_obj b)))"
  shows "\<exists>n \<in> set (declared (jget ''concepts'' a)). c = JStr n"
proof -
  obtain i where pass: "dm_branch a i b = Inr []"
    using each_i_passD [OF assms(1) [unfolded dm_branches_def] assms(2)] by blast
  then obtain d where d: "b = JObj d" by (cases b) (simp_all add: dm_branch_def)
  show ?thesis
    using pass assms(3) by (simp add: d dm_branch_def Let_def chks_pass each_pass emit_ifp_pass not_in_strs_False)
qed

lemma dm_identity_pass:
  assumes "dm_identity a = Inr []"
  obtains cap where "jget ''capability'' (dm_l1 a) = JStr cap" and "cap \<noteq> []"
    and "jget ''implements'' a \<in> {JStr cap, JStr (cap_tail cap)}"
  using assms by (auto simp: dm_identity_def Let_def chks_pass emit_if_pass nonempty_str_iff)

lemma dm_main_accepts:
  assumes "dm_main v = Inr (r, 0)"
  obtains a where "v = JObj a" and "dm_identity a = Inr []" and "dm_concepts a = Inr []"
    and "dm_branches a = Inr []" and "dm_predicates a = Inr []"
proof -
  have "dm_validate v = Inr []" using assms by (auto simp: dm_main_def pbind_Inr_conv split: if_splits)
  then obtain a where "v = JObj a" and "dm_validate (JObj a) = Inr []"
    by (cases v) (simp_all add: dm_validate_def)
  then show ?thesis using that by (simp add: dm_validate_def chks_pass)
qed

text \<open>C34. In an accepted artifact \<open>implements\<close> names the capability of \<open>l1\<close>, there is a concept, every
  concept traces to a primitive, an obligation or a failure mode, the branches use declared concepts,
  every guard and invariant is one resolved predicate, and \<open>onFailure\<close> is a declared failure mode.\<close>

theorem accepted_l2_artifact_resolved:
  assumes "dm_main v = Inr (r, 0)"
  shows "\<exists>a cap. v = JObj a
    \<and> jget ''capability'' (dm_l1 a) = JStr cap \<and> cap \<noteq> []
    \<and> jget ''implements'' a \<in> {JStr cap, JStr (cap_tail cap)}
    \<and> as_list (jget ''concepts'' a) \<noteq> []
    \<and> (\<forall>c \<in> set (as_list (jget ''concepts'' a)). concept_anchored a c)
    \<and> (\<forall>b \<in> set (as_list (jget ''participantBranches'' a)). \<forall>c \<in> set (as_list (jget ''concepts'' (as_obj b))).
         \<exists>n \<in> set (declared (jget ''concepts'' a)). c = JStr n)
    \<and> (\<forall>p \<in> set (as_list (jget ''guards'' a) @ as_list (jget ''invariants'' a)). predicate_resolved a p)
    \<and> (\<forall>p \<in> set (as_list (jget ''invariants'' a)). jhas ''onFailure'' (as_obj p) \<longrightarrow>
         (\<exists>f \<in> set (declared (jget ''failureModes'' a)). jget ''onFailure'' (as_obj p) = JStr f))"
proof -
  obtain a where v: "v = JObj a" and ident: "dm_identity a = Inr []" and concepts: "dm_concepts a = Inr []"
    and branches: "dm_branches a = Inr []" and preds: "dm_predicates a = Inr []"
    using assms by (rule dm_main_accepts)
  have "as_list (jget ''concepts'' a) \<noteq> []" and "\<forall>c \<in> set (as_list (jget ''concepts'' a)). concept_anchored a c"
    using concepts each_i_passD [of "as_list (jget ''concepts'' a)" "dm_concept (dm_anchors a)"]
    by (auto simp: dm_concepts_def Let_def chks_pass emit_if_pass intro: dm_concept_traced)
  moreover have "\<forall>p \<in> set (as_list (jget ''guards'' a) @ as_list (jget ''invariants'' a)). predicate_resolved a p"
    using preds unfolding dm_predicates_def Let_def chks_pass list.set ball_simps
    by (auto dest: check_predicates_resolved(1))
  moreover have "\<forall>p \<in> set (as_list (jget ''invariants'' a)). jhas ''onFailure'' (as_obj p) \<longrightarrow>
         (\<exists>f \<in> set (declared (jget ''failureModes'' a)). jget ''onFailure'' (as_obj p) = JStr f)"
    using preds unfolding dm_predicates_def Let_def chks_pass list.set ball_simps
    by (auto dest: check_predicates_resolved(2))
  moreover obtain cap where "jget ''capability'' (dm_l1 a) = JStr cap" "cap \<noteq> []"
    "jget ''implements'' a \<in> {JStr cap, JStr (cap_tail cap)}"
    using ident by (rule dm_identity_pass)
  ultimately show ?thesis using v dm_branch_declared [OF branches] by blast
qed

definition l2_sample :: obj where
  "l2_sample =
    [(''kind'', JStr ''neutrino.l2-domain-semantics''), (''schemaVersion'', JInt 1), (''domain'', JStr ''trade''),
     (''implements'', JStr ''Invoice''),
     (''l1'', JObj [(''capability'', JStr ''trade.Invoice''), (''primitives'', JList [JStr ''Transfer''])]),
     (''failureModes'', JList [JObj [(''name'', JStr ''late'')]]),
     (''concepts'', JList [JObj [(''name'', JStr ''Paid''), (''kind'', JStr ''state''),
        (''traces'', JObj [(''to'', JStr ''Transfer''), (''relation'', JStr ''expands'')])]]),
     (''parameters'', JList [JObj [(''name'', JStr ''maxDays''), (''type'', JStr ''int'')]]),
     (''participantBranches'', JList [JObj [(''participant'', JStr ''buyer''), (''concepts'', JList [JStr ''Paid''])]]),
     (''invariants'', JList [JObj [(''name'', JStr ''inTime''), (''onFailure'', JStr ''late''),
        (''compare'', JObj [(''left'', JStr ''days''), (''op'', JStr ''<=''), (''right'', JStr ''param:maxDays'')])]])]"

lemma accepted_l2_artifact_resolved_witness:
  "concept_anchored l2_sample (hd (as_list (jget ''concepts'' l2_sample)))
   \<and> predicate_resolved l2_sample (hd (as_list (jget ''invariants'' l2_sample)))"
proof -
  have "case dm_main (JObj l2_sample) of Inl e \<Rightarrow> False | Inr (r, s) \<Rightarrow> s = 0"
    by code_simp
  then obtain r where "dm_main (JObj l2_sample) = Inr (r, 0)" by (auto split: sum.splits)
  note sound = accepted_l2_artifact_resolved [OF this]
  have "hd (as_list (jget ''concepts'' l2_sample)) \<in> set (as_list (jget ''concepts'' l2_sample))"
    and "hd (as_list (jget ''invariants'' l2_sample))
      \<in> set (as_list (jget ''guards'' l2_sample) @ as_list (jget ''invariants'' l2_sample))"
    by code_simp+
  with sound show ?thesis by blast
qed

end
