(* ===== verification/BranchCompat.thy ===== *)
theory BranchCompat
  imports L2Domain
begin

text \<open>
  \<open>src/scripts/domain/validate_l2_branch_compat.py\<close>: the check that two or more L2 sidecars of one
  capability agree on the facts they share. A sidecar is its label, the path it was read from, with the
  document. \<open>bc_validate\<close> is \<open>validate\<close>; the three indexes it builds are association lists from a
  name to the occurrences of the name, in the order of the dictionary. Each occurrence is a label with
  the tuple of the facts that have to agree.
\<close>

type_synonym occurrence = "string \<times> json list"
type_synonym occurrences = "(string \<times> occurrence list) list"

definition bc_taxonomy :: "(string \<times> string \<times> string) list" where
  "bc_taxonomy =
    [(''L2X-2001'', ''ERR_L2X_CAPABILITY'', ''capability''), (''L2X-2002'', ''ERR_L2X_EVIDENCE'', ''evidence''),
     (''L2X-2003'', ''ERR_L2X_OUTCOME'', ''outcome''), (''L2X-2004'', ''ERR_L2X_PARAMETER'', ''parameter'')]"

section \<open>The shared capability\<close>

text \<open>The first non-empty \<open>l1.capability\<close> of a sidecar, if there is one.\<close>

definition bc_capability :: "json \<Rightarrow> string option" where
  "bc_capability v =
     (let cap = jget ''capability'' (as_obj (jget ''l1'' (as_obj v)))
      in if nonempty_str cap then Some (str_of cap) else None)"

fun ref_capability :: "(string \<times> json) list \<Rightarrow> string option" where
  "ref_capability [] = None"
| "ref_capability ((label, v) # sidecars) =
     (case bc_capability v of Some cap \<Rightarrow> Some cap | None \<Rightarrow> ref_capability sidecars)"

definition check_shared_capability :: "string option \<Rightarrow> string \<Rightarrow> json \<Rightarrow> dm_diag list py" where
  "check_shared_capability shared label v =
     (case v of
        JObj a \<Rightarrow>
          (let impl = jget ''implements'' a
           in chks
             [(case bc_capability v of
                 None \<Rightarrow> Inr [dm_add ''L2X-2001'' (label @ '': l1.capability is required'') (JStr label)]
               | Some cap \<Rightarrow>
                   emit_if (shared \<noteq> None \<and> cap \<noteq> the shared)
                     (dm_add ''L2X-2001'' (label @ '': l1.capability '' @ repr_str cap @ '' != shared capability ''
                        @ repr_str (the shared) @ '' '' @ em_dash @ '' these sidecars refine different L1 capabilities'')
                        (JStr label))),
              emit_if (nonempty_str impl \<and> shared \<noteq> None
                  \<and> str_of impl \<notin> {the shared, cap_tail (the shared)})
                (dm_add ''L2X-2001'' (label @ '': implements '' @ py_repr impl @ '' does not name the shared capability ''
                   @ repr_str (the shared) @ '' (nor its unqualified name '' @ repr_str (cap_tail (the shared)) @ '')'')
                   (JStr label))])
      | _ \<Rightarrow> Inr [dm_add ''L2X-2001'' (label @ '': not a JSON object'') (JStr label)])"

section \<open>The indexes of the shared names\<close>

text \<open>\<open>index.setdefault(name, []).append(x)\<close>.\<close>

fun index_append :: "string \<Rightarrow> occurrence \<Rightarrow> occurrences \<Rightarrow> occurrences" where
  "index_append name x [] = [(name, [x])]"
| "index_append name x ((k, xs) # d) =
     (if k = name then (k, xs @ [x]) # d else (k, xs) # index_append name x d)"

text \<open>The named objects of a section: each gives its name and its facts.\<close>

definition evidence_facts :: "obj \<Rightarrow> json list" where
  "evidence_facts e = [jget ''required'' e, jget ''schemaRef'' e]"

definition concept_facts :: "obj \<Rightarrow> json list" where
  "concept_facts c =
     (let tr = as_obj (jget ''traces'' c) in [jget ''kind'' c, jget ''relation'' tr, jget ''to'' tr])"

definition param_facts :: "obj \<Rightarrow> json list" where
  "param_facts p = [jget ''type'' p]"

definition named_objects :: "json list \<Rightarrow> obj list" where
  "named_objects vs = filter (\<lambda>d. nonempty_str (jget ''name'' d)) (map as_obj (filter is_obj vs))"

definition index_section ::
    "string \<Rightarrow> (obj \<Rightarrow> json list) \<Rightarrow> string \<Rightarrow> obj \<Rightarrow> occurrences \<Rightarrow> occurrences py" where
  "index_section sec facts label a index =
     pbind (iter_or_empty (jget sec a)) (\<lambda>vs.
       Inr (fold (\<lambda>d. index_append (str_of (jget ''name'' d)) (label, facts d)) (named_objects vs) index))"

record bc_index =
  bc_evidence :: occurrences
  bc_concepts :: occurrences
  bc_params :: occurrences

fun index_sidecars :: "(string \<times> json) list \<Rightarrow> bc_index \<Rightarrow> bc_index py" where
  "index_sidecars [] s = Inr s"
| "index_sidecars ((label, JObj a) # sidecars) s =
     pbind (index_section ''evidenceRequirements'' evidence_facts label a (bc_evidence s)) (\<lambda>es.
     pbind (index_section ''concepts'' concept_facts label a (bc_concepts s)) (\<lambda>cs.
     pbind (index_section ''parameters'' param_facts label a (bc_params s)) (\<lambda>ps.
       index_sidecars sidecars \<lparr>bc_evidence = es, bc_concepts = cs, bc_params = ps\<rparr>)))"
| "index_sidecars ((label, _) # sidecars) s = index_sidecars sidecars s"

section \<open>Agreement of the occurrences of a name\<close>

text \<open>
  \<open>len({facts of occ}) > 1\<close>: each tuple is hashed, which raises for a list or a dict in it, and the
  set has one element iff every tuple equals the first.
\<close>

definition facts_differ :: "occurrence list \<Rightarrow> bool py" where
  "facts_differ occ =
     (if list_all (\<lambda>(l, fs). list_all hashable fs) occ
      then Inr (\<exists>(l, fs) \<in> set occ. \<not> list_all2 jeq (snd (hd occ)) fs)
      else Inl TypeError)"

definition occ_detail :: "string list \<Rightarrow> occurrence list \<Rightarrow> string" where
  "occ_detail names occ =
     join ''; '' (map (\<lambda>(l, fs). l @ '': '' @ join '' '' (map2 (\<lambda>n v. n @ ''='' @ py_repr v) names fs)) occ)"

definition check_shared ::
    "string \<Rightarrow> string \<Rightarrow> string \<Rightarrow> string list \<Rightarrow> string \<Rightarrow> occurrences \<Rightarrow> dm_diag list py" where
  "check_shared code noun problem names rule index =
     each index (\<lambda>(name, occ).
       guarded (2 \<le> length occ)
         (emit_ifp (facts_differ occ)
           (dm_add code (noun @ '' '' @ repr_str name @ problem @ '' across branches ('' @ occ_detail names occ
              @ '') '' @ em_dash @ rule) (JStr name))))"

definition check_evidence_agrees :: "occurrences \<Rightarrow> dm_diag list py" where
  "check_evidence_agrees =
     check_shared ''L2X-2002'' ''evidence'' '' is declared incompatibly'' [''required'', ''schemaRef'']
       '' branches that claim the same boundary fact must agree on required/schemaRef''"

definition check_concepts_agree :: "occurrences \<Rightarrow> dm_diag list py" where
  "check_concepts_agree =
     check_shared ''L2X-2003'' ''concept'' '' has incompatible shape'' [''kind'', ''relation'', ''to'']
       '' the same boundary outcome must agree on kind and traces''"

definition check_params_agree :: "occurrences \<Rightarrow> dm_diag list py" where
  "check_params_agree =
     check_shared ''L2X-2004'' ''parameter'' '' is typed incompatibly'' [''type'']
       '' a shared value/currency boundary fact must be consistently typed''"

definition bc_validate :: "(string \<times> json) list \<Rightarrow> dm_diag list py" where
  "bc_validate sidecars =
     chks [each sidecars (\<lambda>(label, v). check_shared_capability (ref_capability sidecars) label v),
       pbind (index_sidecars sidecars \<lparr>bc_evidence = [], bc_concepts = [], bc_params = []\<rparr>) (\<lambda>s.
         chks [check_evidence_agrees (bc_evidence s), check_concepts_agree (bc_concepts s),
           check_params_agree (bc_params s)])]"

section \<open>The report and the exit status\<close>

definition bc_report :: "(string \<times> json) list \<Rightarrow> dm_diag list \<Rightarrow> json py" where
  "bc_report sidecars ds =
     pbind (dm_sorted ds) (\<lambda>sds.
       Inr (JObj [(''schemaVersion'', JInt 1), (''kind'', JStr ''neutrino.l2-branch-compat-validation''),
         (''ok'', JBool (ds = [])),
         (''capability'', case ref_capability sidecars of None \<Rightarrow> JNull | Some c \<Rightarrow> JStr c),
         (''diagnostics'', JList (map (dm_diag_json bc_taxonomy) sds))]))"

definition usage_report :: "string \<Rightarrow> json" where
  "usage_report message =
     JObj [(''schemaVersion'', JInt 1), (''kind'', JStr ''neutrino.l2-branch-compat-validation''),
       (''ok'', JBool False),
       (''diagnostics'', JList [JObj [(''code'', JStr ''L2X-2001''), (''symbol'', JStr ''ERR_L2X_CAPABILITY''),
          (''category'', JStr ''capability''), (''severity'', JStr ''error''), (''message'', JStr message)]])]"

text \<open>
  The files of \<open>--sidecar\<close>: a path with the text of the error that reading or parsing it raised, or
  with the document. The first file that cannot be read ends the run.
\<close>

fun read_sidecars :: "(string \<times> (string + json)) list \<Rightarrow> string + (string \<times> json) list" where
  "read_sidecars [] = Inr []"
| "read_sidecars ((path, Inl e) # files) = Inl (''cannot read sidecar '' @ path @ '': '' @ e)"
| "read_sidecars ((path, Inr v) # files) =
     (case read_sidecars files of Inl e \<Rightarrow> Inl e | Inr rest \<Rightarrow> Inr ((path, v) # rest))"

definition bc_main :: "(string \<times> (string + json)) list \<Rightarrow> (json \<times> nat) py" where
  "bc_main files =
     (if length files < 2 then Inr (usage_report ''at least two --sidecar artifacts are required'', 2)
      else case read_sidecars files of
        Inl e \<Rightarrow> Inr (usage_report e, 2)
      | Inr sidecars \<Rightarrow>
          pbind (bc_validate sidecars) (\<lambda>ds. pbind (bc_report sidecars ds) (\<lambda>r.
            Inr (r, if ds = [] then 0 else 1))))"


section \<open>The contract\<close>

text \<open>
  The contract without the indexes: every sidecar is an object that names one capability, and the
  declarations of a name, in the order of the sidecars, agree in pairs. Facts that agree are values
  that can be hashed and are equal.
\<close>

definition same_facts :: "json list \<Rightarrow> json list \<Rightarrow> bool" where
  "same_facts = list_all2 (\<lambda>x y. hashable x \<and> hashable y \<and> jeq x y)"

definition section_objects :: "string \<Rightarrow> json \<Rightarrow> obj list" where
  "section_objects sec v =
     (case iter_or_empty (jget sec (as_obj v)) of Inl e \<Rightarrow> [] | Inr vs \<Rightarrow> named_objects vs)"

definition declarations ::
    "string \<Rightarrow> (obj \<Rightarrow> json list) \<Rightarrow> string \<Rightarrow> (string \<times> json) list \<Rightarrow> occurrence list" where
  "declarations sec facts name sidecars =
     concat (map (\<lambda>(label, v).
       map (\<lambda>d. (label, facts d)) (filter (\<lambda>d. jget ''name'' d = JStr name) (section_objects sec v))) sidecars)"

definition names_capability :: "string \<Rightarrow> json \<Rightarrow> bool" where
  "names_capability cap v \<longleftrightarrow>
     is_obj v \<and> bc_capability v = Some cap
     \<and> (let impl = jget ''implements'' (as_obj v)
        in nonempty_str impl \<longrightarrow> str_of impl \<in> {cap, cap_tail cap})"

definition section_compatible ::
    "string \<Rightarrow> (obj \<Rightarrow> json list) \<Rightarrow> (string \<times> json) list \<Rightarrow> bool" where
  "section_compatible sec facts sidecars \<longleftrightarrow>
     (\<forall>(label, v) \<in> set sidecars. isl (iter_or_empty (jget sec (as_obj v))) \<longrightarrow> False)
     \<and> (\<forall>name. sorted_wrt same_facts (map snd (declarations sec facts name sidecars)))"

definition branches_compatible :: "(string \<times> json) list \<Rightarrow> bool" where
  "branches_compatible sidecars \<longleftrightarrow>
     (\<exists>cap. \<forall>(label, v) \<in> set sidecars. names_capability cap v)
     \<and> section_compatible ''evidenceRequirements'' evidence_facts sidecars
     \<and> section_compatible ''concepts'' concept_facts sidecars
     \<and> section_compatible ''parameters'' param_facts sidecars"

subsection \<open>Equality of hashable values\<close>

lemma jeq_hashable:
  "hashable x \<Longrightarrow> jeq x y \<longleftrightarrow> x = y \<or> (int_value x \<noteq> None \<and> int_value x = int_value y)"
  by (cases x) (auto simp: hashable_def)

lemma jeq_same: "hashable x \<Longrightarrow> jeq x x"
  by (simp add: jeq_hashable)

lemma jeq_euclidean: "hashable x \<Longrightarrow> hashable y \<Longrightarrow> jeq x y \<Longrightarrow> jeq x z \<Longrightarrow> jeq y z"
  by (metis jeq_hashable)

lemma same_facts_hashable: "same_facts fs gs \<Longrightarrow> list_all hashable fs \<and> list_all hashable gs"
  unfolding same_facts_def by (induction rule: list_all2_induct) auto

lemma same_facts_iff:
  "list_all hashable fs \<Longrightarrow> list_all hashable gs \<Longrightarrow> same_facts fs gs \<longleftrightarrow> list_all2 jeq fs gs"
  by (auto simp: same_facts_def list_all2_conv_all_nth list_all_length)

lemma same_facts_split:
  "same_facts fs gs \<longleftrightarrow> list_all hashable fs \<and> list_all hashable gs \<and> list_all2 jeq fs gs"
  using same_facts_hashable same_facts_iff by blast

lemma same_facts_refl: "list_all hashable fs \<Longrightarrow> same_facts fs fs"
  by (auto simp: same_facts_def list_all2_conv_all_nth list_all_length jeq_same)

lemma same_facts_euclidean: "same_facts fs gs \<Longrightarrow> same_facts fs hs \<Longrightarrow> same_facts gs hs"
  by (auto simp: same_facts_def list_all2_conv_all_nth) (metis jeq_euclidean)

lemma occ_hashable:
  "list_all (\<lambda>(l, fs). list_all hashable fs) occ \<longleftrightarrow> (\<forall>x \<in> set occ. list_all hashable (snd x))"
  by (induction occ) auto

lemma agree_iff_pairwise:
  "(2 \<le> length occ \<longrightarrow> facts_differ occ = Inr False) \<longleftrightarrow> sorted_wrt same_facts (map snd occ)"
proof (cases occ)
  case (Cons o1 rest)
  show ?thesis
  proof (cases "rest = []")
    case False
    have "facts_differ occ = Inr False \<longleftrightarrow> (\<forall>x \<in> set rest. same_facts (snd o1) (snd x))"
      using False Cons same_facts_refl [of "snd o1"]
      by (cases rest) (auto simp: facts_differ_def same_facts_split case_prod_beta occ_hashable)
    moreover have "sorted_wrt same_facts (map snd rest)" if "\<forall>x \<in> set rest. same_facts (snd o1) (snd x)"
      using that by (auto simp: sorted_wrt_iff_nth_less) (meson nth_mem less_trans same_facts_euclidean)
    ultimately show ?thesis using False Cons by (cases rest) auto
  qed (simp add: Cons)
qed simp

subsection \<open>The index holds the declarations\<close>

definition rows :: "string \<Rightarrow> occurrences \<Rightarrow> occurrence list" where
  "rows name index = (case map_of index name of None \<Rightarrow> [] | Some xs \<Rightarrow> xs)"

lemma rows_index_append:
  "rows name (index_append k x index) = rows name index @ (if k = name then [x] else [])"
  by (induction k x index rule: index_append.induct) (auto simp: rows_def)

lemma keys_index_append: "fst ` set (index_append k x index) = insert k (fst ` set index)"
  by (induction k x index rule: index_append.induct) auto

lemma distinct_index_append: "distinct (map fst index) \<Longrightarrow> distinct (map fst (index_append k x index))"
  by (induction k x index rule: index_append.induct) (auto simp: keys_index_append)

lemma rows_fold_append:
  "rows name (fold (\<lambda>d. index_append (key d) (val d)) ds index)
   = rows name index @ map val (filter (\<lambda>d. key d = name) ds)"
  by (induction ds arbitrary: index) (auto simp: rows_index_append)

lemma distinct_fold_append:
  "distinct (map fst index) \<Longrightarrow> distinct (map fst (fold (\<lambda>d. index_append (key d) (val d)) ds index))"
  by (induction ds arbitrary: index) (auto simp: distinct_index_append)

lemma named_objects_name: "d \<in> set (named_objects vs) \<Longrightarrow> jget ''name'' d = JStr (str_of (jget ''name'' d))"
  by (auto simp: named_objects_def nonempty_str_iff)

lemma index_section_rows:
  assumes "index_section sec facts label a index = Inr index'"
  shows "rows name index' = rows name index @ declarations sec facts name [(label, JObj a)]"
    and "distinct (map fst index) \<Longrightarrow> distinct (map fst index')"
proof -
  obtain vs where vs: "iter_or_empty (jget sec a) = Inr vs"
    and index': "index' = fold (\<lambda>d. index_append (str_of (jget ''name'' d)) (label, facts d)) (named_objects vs) index"
    using assms by (auto simp: index_section_def pbind_Inr_conv)
  have "filter (\<lambda>d. str_of (jget ''name'' d) = name) (named_objects vs)
        = filter (\<lambda>d. jget ''name'' d = JStr name) (named_objects vs)"
    by (rule filter_cong) (auto dest: named_objects_name)
  then show "rows name index' = rows name index @ declarations sec facts name [(label, JObj a)]"
    by (simp add: index' rows_fold_append declarations_def section_objects_def vs)
  show "distinct (map fst index')" if "distinct (map fst index)"
    using that by (simp add: index' distinct_fold_append)
qed

lemma section_objects_not_obj: "\<not> is_obj v \<Longrightarrow> section_objects sec v = []"
  by (cases v) (simp_all add: section_objects_def named_objects_def)

lemma declarations_Cons:
  "declarations sec facts name (x # xs) = declarations sec facts name [x] @ declarations sec facts name xs"
  by (simp add: declarations_def)

lemma declarations_not_obj: "\<not> is_obj v \<Longrightarrow> declarations sec facts name [(label, v)] = []"
  by (simp add: declarations_def section_objects_not_obj)

text \<open>The three indexes, by the selector of each.\<close>

definition indexed ::
    "string \<Rightarrow> (obj \<Rightarrow> json list) \<Rightarrow> (string \<times> json) list \<Rightarrow> occurrences \<Rightarrow> occurrences \<Rightarrow> bool" where
  "indexed sec facts sidecars index index' \<longleftrightarrow>
     (\<forall>name. rows name index' = rows name index @ declarations sec facts name sidecars)
     \<and> (distinct (map fst index) \<longrightarrow> distinct (map fst index'))"

lemma indexed_Cons:
  "index_section sec facts label a index = Inr index1 \<Longrightarrow> indexed sec facts sidecars index1 index2
   \<Longrightarrow> indexed sec facts ((label, JObj a) # sidecars) index index2"
  using index_section_rows [of sec facts label a index index1]
  by (simp add: indexed_def declarations_Cons [of sec facts _ "(label, JObj a)" sidecars])

lemma indexed_skip:
  "\<not> is_obj v \<Longrightarrow> indexed sec facts sidecars index index2 \<Longrightarrow> indexed sec facts ((label, v) # sidecars) index index2"
  by (simp add: indexed_def declarations_Cons [of sec facts _ "(label, v)" sidecars] declarations_not_obj)

lemma index_sidecars_indexed:
  "index_sidecars sidecars s = Inr t \<Longrightarrow>
     indexed ''evidenceRequirements'' evidence_facts sidecars (bc_evidence s) (bc_evidence t)
     \<and> indexed ''concepts'' concept_facts sidecars (bc_concepts s) (bc_concepts t)
     \<and> indexed ''parameters'' param_facts sidecars (bc_params s) (bc_params t)"
proof (induction sidecars s arbitrary: t rule: index_sidecars.induct)
  case (1 s)
  then show ?case by (simp add: indexed_def declarations_def)
next
  case (2 label a sidecars s)
  then show ?case by (auto simp: pbind_Inr_conv intro: indexed_Cons)
qed (simp_all add: indexed_skip)

lemma index_sidecars_returns:
  "(\<exists>t. index_sidecars sidecars s = Inr t) \<longleftrightarrow>
     (\<forall>(label, v) \<in> set sidecars. \<forall>sec \<in> {''evidenceRequirements'', ''concepts'', ''parameters''}.
        \<not> isl (iter_or_empty (jget sec (as_obj v))))"
proof (induction sidecars s rule: index_sidecars.induct)
  case (2 label a sidecars s)
  have ret: "(\<exists>x. index_section sec facts label a index = Inr x) \<longleftrightarrow> \<not> isl (iter_or_empty (jget sec a))"
    for sec facts index
    by (cases "iter_or_empty (jget sec a)") (simp_all add: index_section_def)
  show ?case
    using 2 ret [of "''evidenceRequirements''" evidence_facts "bc_evidence s"]
      ret [of "''concepts''" concept_facts "bc_concepts s"] ret [of "''parameters''" param_facts "bc_params s"]
    by (fastforce simp: pbind_Inr_conv)
qed simp_all

subsection \<open>Acceptance\<close>

lemma all_rows:
  assumes "distinct (map fst index)" and "P []"
  shows "(\<forall>(name, occ) \<in> set index. P occ) \<longleftrightarrow> (\<forall>name. P (rows name index))"
proof -
  have "P (rows name index)" if "\<forall>(name, occ) \<in> set index. P occ" for name
    using that assms(2) by (cases "map_of index name") (auto simp: rows_def dest!: map_of_SomeD)
  moreover have "P occ" if "\<forall>name. P (rows name index)" "(name, occ) \<in> set index" for name occ
    using that(1) [rule_format, of name] that(2) assms(1) by (simp add: rows_def)
  ultimately show ?thesis by blast
qed

lemma check_shared_pass:
  assumes "indexed sec facts sidecars [] index"
  shows "check_shared code noun problem names rule index = Inr []
    \<longleftrightarrow> (\<forall>name. sorted_wrt same_facts (map snd (declarations sec facts name sidecars)))"
proof -
  have "check_shared code noun problem names rule index = Inr []
      \<longleftrightarrow> (\<forall>(name, occ) \<in> set index. sorted_wrt same_facts (map snd occ))"
    unfolding check_shared_def each_pass
    by (intro ball_cong refl) (simp add: guarded_pass emit_ifp_pass agree_iff_pairwise split: prod.split)
  also have "\<dots> \<longleftrightarrow> (\<forall>name. sorted_wrt same_facts (map snd (rows name index)))"
    using assms by (intro all_rows) (simp_all add: indexed_def)
  finally show ?thesis using assms by (simp add: indexed_def rows_def [of _ "[]"])
qed

lemma check_shared_capability_named: "check_shared_capability shared label v = Inr [] \<Longrightarrow> bc_capability v \<noteq> None"
  by (cases v) (auto simp: check_shared_capability_def Let_def chks_pass split: option.splits)

lemma check_shared_capability_pass:
  "check_shared_capability (Some cap) label v = Inr [] \<longleftrightarrow> names_capability cap v"
  by (cases v) (auto simp: check_shared_capability_def names_capability_def Let_def chks_pass emit_if_pass
      split: option.splits)

lemma ref_capability_first: "bc_capability v = Some cap \<Longrightarrow> ref_capability ((label, v) # sidecars) = Some cap"
  by simp

lemma capabilities_pass:
  "(\<forall>(label, v) \<in> set sidecars. check_shared_capability (ref_capability sidecars) label v = Inr [])
   \<longleftrightarrow> (\<exists>cap. \<forall>(label, v) \<in> set sidecars. names_capability cap v)"
  (is "?L \<longleftrightarrow> ?R")
proof (cases sidecars)
  case (Cons x rest)
  obtain label v where x: "x = (label, v)" by force
  show ?thesis
  proof
    assume L: ?L
    then have "check_shared_capability (ref_capability sidecars) label v = Inr []" by (auto simp: Cons x)
    then obtain cap where "bc_capability v = Some cap" using check_shared_capability_named by blast
    then have "ref_capability sidecars = Some cap" by (simp add: Cons x)
    with L show ?R by (auto simp: check_shared_capability_pass)
  next
    assume ?R
    then obtain cap where cap: "\<forall>(label, v) \<in> set sidecars. names_capability cap v" by blast
    then have "ref_capability sidecars = Some cap" by (simp add: Cons x names_capability_def)
    with cap show ?L by (auto simp: check_shared_capability_pass)
  qed
qed simp

lemma bc_validate_pass: "bc_validate sidecars = Inr [] \<longleftrightarrow> branches_compatible sidecars"
proof -
  let ?empty = "\<lparr>bc_evidence = [], bc_concepts = [], bc_params = []\<rparr>"
  let ?C = "\<exists>cap. \<forall>(label, v) \<in> set sidecars. names_capability cap v"
  have caps: "each sidecars (\<lambda>(label, v). check_shared_capability (ref_capability sidecars) label v) = Inr [] \<longleftrightarrow> ?C"
    unfolding each_pass using capabilities_pass [of sidecars] by (simp add: case_prod_beta)
  show ?thesis
  proof (cases "index_sidecars sidecars ?empty")
    case (Inl e)
    then have "\<not> (\<exists>t. index_sidecars sidecars ?empty = Inr t)" by simp
    then show ?thesis
      unfolding index_sidecars_returns
      by (auto simp: bc_validate_def chks_pass Inl branches_compatible_def section_compatible_def)
  next
    case (Inr s)
    then have "\<exists>t. index_sidecars sidecars ?empty = Inr t" by blast
    moreover note index_sidecars_indexed [OF Inr]
    ultimately show ?thesis
      unfolding index_sidecars_returns
      by (auto simp: bc_validate_def chks_pass Inr caps branches_compatible_def section_compatible_def
          check_evidence_agrees_def check_concepts_agree_def check_params_agree_def check_shared_pass)
  qed
qed

lemma bc_report_accepted: "\<exists>r. bc_report sidecars [] = Inr r"
  by (simp add: bc_report_def dm_sorted_def)

text \<open>C35. The gate exits with 0 iff at least two files were given, every file was read, all sidecars
  name one L1 capability, and any two declarations of an evidence requirement, a concept or a parameter
  with one name have hashable, equal facts.\<close>

theorem branch_gate_accepts_iff_compatible:
  "(\<exists>r. bc_main files = Inr (r, 0)) \<longleftrightarrow>
     2 \<le> length files \<and> (\<exists>sidecars. read_sidecars files = Inr sidecars \<and> branches_compatible sidecars)"
proof (cases "2 \<le> length files")
  case True
  show ?thesis
  proof (cases "read_sidecars files")
    case (Inr sidecars)
    have "(\<exists>r. bc_main files = Inr (r, 0)) \<longleftrightarrow> bc_validate sidecars = Inr []"
      using True Inr bc_report_accepted [of sidecars]
      by (auto simp: bc_main_def pbind_Inr_conv split: if_splits)
    then show ?thesis using True Inr by (simp add: bc_validate_pass)
  qed (use True in \<open>simp add: bc_main_def\<close>)
qed (simp add: bc_main_def)

lemma branch_gate_accepts_iff_compatible_witness:
  "\<exists>sidecars. branches_compatible sidecars \<and> length sidecars = 2"
proof -
  let ?v = "\<lambda>r. JObj [(''implements'', JStr ''Invoice''), (''l1'', JObj [(''capability'', JStr ''trade.Invoice'')]),
      (''evidenceRequirements'', JList [JObj [(''name'', JStr ''proof''), (''required'', r)]]),
      (''concepts'', JList [JObj [(''name'', JStr ''Paid''), (''kind'', JStr ''state'')]])]"
  let ?files = "[(''buyer.json'', Inr (?v (JBool True))), (''seller.json'', Inr (?v (JInt 1)))]"
  have "case bc_main ?files of Inl e \<Rightarrow> False | Inr (r, s) \<Rightarrow> s = 0"
    by code_simp
  then have "\<exists>r. bc_main ?files = Inr (r, 0)" by (auto split: sum.splits)
  then have "\<exists>sidecars. read_sidecars ?files = Inr sidecars \<and> branches_compatible sidecars"
    using branch_gate_accepts_iff_compatible [of ?files] by blast
  then show ?thesis by auto
qed

text \<open>Two sidecars that give one fact as the same list are compatible as documents, but the gate ends
  with an exception.\<close>

lemma equal_list_facts_raise:
  "bc_main [(''a'', Inr (JObj [(''parameters'', JList [JObj [(''name'', JStr ''p''), (''type'', JList [])]])])),
            (''b'', Inr (JObj [(''parameters'', JList [JObj [(''name'', JStr ''p''), (''type'', JList [])]])]))]
   = Inl TypeError"
  by code_simp

end
