(* ===== verification/ObservationSet.thy ===== *)
theory ObservationSet
  imports SpecValidate PyDyn
begin

text \<open>
  \<open>src/scripts/corpus/validate_domain_observation_set.py\<close>: the validator of the facts an extractor reads from a
  corpus. \<open>os_validate\<close> is \<open>validate\<close> with a definition for each section; the loop over the observations
  carries the ids it has seen. \<open>os_main\<close> is \<open>main\<close> after the file was opened: what is printed, the report
  and the exit status.
\<close>

section \<open>Vocabulary\<close>

definition os_top_fields :: "string list" where
  "os_top_fields = [''kind'', ''schemaVersion'', ''corpusRef'', ''extractor'', ''dimensions'', ''observations'']"

definition corpus_ref_fields :: "string list" where
  "corpus_ref_fields = [''corpusId'', ''contentHash'']"

definition extractor_fields :: "string list" where
  "extractor_fields = [''tool'', ''version'']"

definition provenance_fields :: "string list" where
  "provenance_fields = [''source'', ''construct'', ''constructKind'', ''span'']"

definition provenance_required :: "string list" where
  "provenance_required = [''source'', ''construct'']"

definition span_fields :: "string list" where
  "span_fields = [''startLine'', ''endLine'']"

definition observation_fields :: "string list" where
  "observation_fields = [''id'', ''dimension'', ''value'', ''provenance'', ''note'']"

definition observation_required :: "string list" where
  "observation_required = [''id'', ''dimension'', ''value'', ''provenance'']"

definition forbidden_ai_fields :: "string list" where
  "forbidden_ai_fields = [''confidence'', ''reviewStatus'', ''model'', ''prompt'', ''temperature'', ''citations'']"

definition is_lower_letter :: "char \<Rightarrow> bool" where
  "is_lower_letter c \<longleftrightarrow> 97 \<le> (of_char c :: nat) \<and> (of_char c :: nat) \<le> 122"

text \<open>The three regular expressions, as predicates on the text before a final newline.\<close>

definition content_hash_text :: "string \<Rightarrow> bool" where
  "content_hash_text s \<longleftrightarrow> starts_with ''sha256:'' s \<and> hex64_text (drop 7 s)"

definition observation_id_text :: "string \<Rightarrow> bool" where
  "observation_id_text s \<longleftrightarrow> s \<noteq> [] \<and> is_lower_letter (hd s)
     \<and> list_all (\<lambda>c. is_lower_letter c \<or> is_digit c \<or> c \<in> set ''_-'') (tl s)"

definition dimension_name_text :: "string \<Rightarrow> bool" where
  "dimension_name_text s \<longleftrightarrow> s \<noteq> [] \<and> is_lower_letter (hd s) \<and> list_all (\<lambda>c. is_alpha c \<or> is_digit c) (tl s)"

section \<open>Checks\<close>

definition os_schema :: "string \<Rightarrow> diagnostic" where
  "os_schema m = diag ''observation.schema'' m"

definition os_check_fields :: "string \<Rightarrow> obj \<Rightarrow> string list \<Rightarrow> string list \<Rightarrow> diags" where
  "os_check_fields w d allowed required =
     Inr (map (\<lambda>k. if k \<in> set forbidden_ai_fields
            then diag ''observation.ai_field_forbidden''
              (w @ '': forbidden AI-trust field '' @ sq k @ '' '' @ em_dash @ '' observations are deterministic ''
               @ ''facts; confidence/reviewStatus/model/prompt/temperature/citations belong to ''
               @ ''the neutrino.domain-vocabulary-proposal stage, not here'')
            else diag ''observation.unknown_field'' (w @ '': unknown field '' @ sq k)) (sorted_diff (jkeys d) allowed)
        @ map (\<lambda>k. diag ''observation.missing_field'' (w @ '': missing '' @ sq k)) (sorted_diff required (jkeys d)))"

definition os_header :: "obj \<Rightarrow> diags" where
  "os_header doc =
     chks [os_check_fields ''top-level'' doc os_top_fields os_top_fields,
       emit_if (jhas ''kind'' doc \<and> jget ''kind'' doc \<noteq> JStr ''neutrino.domain-observation-set'')
         (diag ''observation.bad_kind'' (''kind must be '' @ sq ''neutrino.domain-observation-set'' @ '', got ''
            @ py_repr (jget ''kind'' doc))),
       emit_if (\<not> eq_int (jget ''schemaVersion'' doc) 1)
         (diag ''observation.schema_version'' (''schemaVersion must be 1, got '' @ py_repr (jget ''schemaVersion'' doc)))]"

definition os_corpus_ref :: "obj \<Rightarrow> diags" where
  "os_corpus_ref doc =
     (case jget ''corpusRef'' doc of
        JObj cref \<Rightarrow>
          (let ch = jget ''contentHash'' cref
           in chks [os_check_fields ''corpusRef'' cref corpus_ref_fields corpus_ref_fields,
                emit_if (jhas ''corpusId'' cref \<and> \<not> nonempty_str (jget ''corpusId'' cref))
                  (os_schema ''corpusRef.corpusId must be a non-empty string''),
                emit_if (jhas ''contentHash'' cref \<and> \<not> (nonempty_str ch \<and> re_dollar content_hash_text (str_of ch)))
                  (diag ''observation.bad_hash'' (''corpusRef.contentHash must match sha256:<64 hex>, got '' @ py_repr ch))])
      | _ \<Rightarrow> emit_if (jhas ''corpusRef'' doc) (os_schema ''corpusRef must be an object''))"

definition os_extractor :: "obj \<Rightarrow> diags" where
  "os_extractor doc =
     (case jget ''extractor'' doc of
        JObj ext \<Rightarrow>
          chks [os_check_fields ''extractor'' ext extractor_fields extractor_fields,
            each extractor_fields (\<lambda>k. emit_if (jhas k ext \<and> \<not> nonempty_str (jget k ext))
              (os_schema (''extractor.'' @ k @ '' must be a non-empty string'')))]
      | _ \<Rightarrow> emit_if (jhas ''extractor'' doc) (os_schema ''extractor must be an object''))"

text \<open>The values a dimension declares: none if its entry is malformed.\<close>

definition dimension_values :: "json \<Rightarrow> string list option" where
  "dimension_values values =
     (if is_list values \<and> as_list values \<noteq> [] \<and> list_all nonempty_str (as_list values)
      then Some (map str_of (as_list values)) else None)"

definition os_dimension :: "string \<times> json \<Rightarrow> diags" where
  "os_dimension = (\<lambda>(name, values).
     chks [emit_if (\<not> re_dollar dimension_name_text name)
         (os_schema (''dimensions: '' @ sq name @ '' must match ^[a-z][a-zA-Z0-9]*$'')),
       (case dimension_values values of
          None \<Rightarrow> Inr [os_schema (''dimensions.'' @ name @ '' must be a non-empty array of non-empty strings'')]
        | Some vs \<Rightarrow> emit_if (\<not> distinct vs) (os_schema (''dimensions.'' @ name @ '' has duplicate values'')))])"

definition os_dimensions :: "obj \<Rightarrow> diags" where
  "os_dimensions doc =
     (case jget ''dimensions'' doc of
        JObj dims \<Rightarrow>
          chks [emit_if (dims = []) (os_schema ''dimensions must declare at least one dimension''),
            each dims os_dimension]
      | _ \<Rightarrow> emit_if (jhas ''dimensions'' doc) (os_schema ''dimensions must be an object''))"

definition os_vocab :: "obj \<Rightarrow> string \<Rightarrow> string list option" where
  "os_vocab doc name =
     (case map_of (as_obj (jget ''dimensions'' doc)) name of None \<Rightarrow> None | Some v \<Rightarrow> dimension_values v)"

definition os_span :: "string \<Rightarrow> json \<Rightarrow> diags" where
  "os_span w v =
     (case v of
        JNull \<Rightarrow> Inr []
      | JObj span \<Rightarrow>
          (let start = jget ''startLine'' span; stop = jget ''endLine'' span
           in chks [os_check_fields (w @ ''.provenance.span'') span span_fields span_fields,
                each span_fields (\<lambda>k. emit_if (jhas k span \<and> \<not> (is_proper_int (jget k span) \<and> 1 \<le> the (int_value (jget k span))))
                  (os_schema (w @ ''.provenance.span.'' @ k @ '' must be an integer >= 1''))),
                emit_if (is_proper_int start \<and> is_proper_int stop \<and> the (int_value start) > the (int_value stop))
                  (diag ''observation.span_inverted'' (w @ ''.provenance.span: startLine '' @ py_str start
                     @ '' > endLine '' @ py_str stop))])
      | _ \<Rightarrow> Inr [os_schema (w @ '': provenance.span must be an object'')])"

definition os_provenance :: "string \<Rightarrow> json \<Rightarrow> diags" where
  "os_provenance w v =
     (case v of
        JNull \<Rightarrow> Inr []
      | JObj prov \<Rightarrow>
          chks [os_check_fields (w @ ''.provenance'') prov provenance_fields provenance_required,
            each [''source'', ''construct'', ''constructKind''] (\<lambda>k.
              emit_if (jhas k prov \<and> \<not> nonempty_str (jget k prov))
                (os_schema (w @ ''.provenance.'' @ k @ '' must be a non-empty string''))),
            os_span w (jget ''span'' prov)]
      | _ \<Rightarrow> Inr [os_schema (w @ '': provenance must be an object'')])"

definition os_value :: "obj \<Rightarrow> string \<Rightarrow> obj \<Rightarrow> diags" where
  "os_value doc w ob =
     (let dim = jget ''dimension'' ob; val = jget ''value'' ob
      in if nonempty_str dim
         then (case os_vocab doc (str_of dim) of
             None \<Rightarrow> emit_if (is_obj (jget ''dimensions'' doc))
               (diag ''observation.unknown_dimension'' (w @ '': dimension '' @ sq (str_of dim) @ '' is not declared in dimensions''))
           | Some vs \<Rightarrow>
               if \<not> nonempty_str val then Inr [os_schema (w @ '': value must be a non-empty string'')]
               else emit_if (str_of val \<notin> set vs)
                 (diag ''observation.unknown_dimension_value''
                   (w @ '': value '' @ sq (str_of val) @ '' not in dimensions.'' @ str_of dim)))
         else emit_if (jhas ''dimension'' ob) (os_schema (w @ '': dimension must be a non-empty string'')))"

definition os_observation :: "obj \<Rightarrow> nat \<Rightarrow> string list \<Rightarrow> json \<Rightarrow> diags" where
  "os_observation doc i seen v =
     (case v of
        JObj ob \<Rightarrow>
          (let oid = jget ''id'' ob;
               w = (if nonempty_str oid then idx ''observations'' i @ '' ('' @ str_of oid @ '')'' else idx ''observations'' i)
           in chks [os_check_fields w ob observation_fields observation_required,
                (if nonempty_str oid
                 then chks [emit_if (\<not> re_dollar observation_id_text (str_of oid))
                     (os_schema (w @ '': id '' @ sq (str_of oid) @ '' must match ^[a-z][a-z0-9_-]*$'')),
                   emit_if (str_of oid \<in> set seen)
                     (diag ''observation.duplicate_id'' (w @ '': duplicate id '' @ sq (str_of oid)))]
                 else emit_if (jhas ''id'' ob) (os_schema (w @ '': id must be a non-empty string''))),
                emit_if (jhas ''note'' ob \<and> \<not> nonempty_str (jget ''note'' ob))
                  (os_schema (w @ '': note must be a non-empty string'')),
                os_value doc w ob,
                os_provenance w (jget ''provenance'' ob)])
      | _ \<Rightarrow> Inr [os_schema (idx ''observations'' i @ '' must be an object'')])"

definition os_seen :: "json \<Rightarrow> string list \<Rightarrow> string list" where
  "os_seen v seen =
     (let oid = jget ''id'' (as_obj v) in if nonempty_str oid then str_of oid # seen else seen)"

definition os_observations :: "obj \<Rightarrow> diags" where
  "os_observations doc =
     (let obs = as_list (jget ''observations'' doc)
      in chks [emit_if (obs = [] \<and> jhas ''observations'' doc) (os_schema ''observations must be a non-empty array''),
           each_st (os_observation doc) os_seen 0 [] obs])"

definition os_sections :: "obj \<Rightarrow> diags" where
  "os_sections doc =
     chks [os_header doc, os_corpus_ref doc, os_extractor doc, os_dimensions doc, os_observations doc]"

definition os_validate :: "json \<Rightarrow> diags" where
  "os_validate v =
     (case v of
        JObj doc \<Rightarrow> pbind (os_sections doc) (\<lambda>out. Inr (sort_key diag_key out))
      | _ \<Rightarrow> Inr [os_schema ''top-level must be a JSON object''])"

section \<open>The report and the exit status\<close>

definition diag_json :: "diagnostic \<Rightarrow> json" where
  "diag_json d = JObj [(''code'', JStr (dcode d)), (''severity'', JStr (dseverity d)), (''message'', JStr (dmessage d))]"

definition os_main :: "string \<Rightarrow> string + json \<Rightarrow> (json \<times> json \<times> nat) py" where
  "os_main file r =
     pbind (case r of
         Inl e \<Rightarrow> Inr [diag ''observation.io'' (''cannot read observation set: '' @ e)]
       | Inr doc \<Rightarrow> os_validate doc) (\<lambda>ds.
     pbind (case r of Inr (JObj d) \<Rightarrow> py_len (jget_or ''observations'' (JList []) d) | _ \<Rightarrow> Inr 0) (\<lambda>n.
       let ok = (filter (\<lambda>d. dseverity d = ''error'') ds = []); shown = JList (map diag_json ds)
       in Inr (JObj [(''ok'', JBool ok), (''diagnostics'', shown)],
            JObj [(''ok'', JBool ok), (''file'', JStr file), (''observations'', JInt n), (''diagnostics'', shown)],
            if ok then 0 else 1)))"

end
