(* ===== verification/JsonSchema.thy ===== *)
theory JsonSchema
  imports ObservationSet
begin

text \<open>
  \<open>vschema\<close> of \<open>src/scripts/corpus/validate_domain_proposal.py\<close>: the interpreter of the subset of JSON Schema the
  repository uses, and the three schemas it is run on (\<open>src/docs/schemas\<close>, without the keys that only annotate).
  A schema is trusted: its parts have the types the interpreter expects. The match of a pattern is the
  argument \<open>R\<close>; \<open>schema_regex\<close> is its value for the patterns of these schemas. The lemmas say what
  conforming to each kind of schema means.
\<close>

section \<open>The interpreter\<close>

text \<open>\<open>ref.lstrip("#/").split("/")\<close>, followed from the root of the schema.\<close>

definition resolve_ref :: "json \<Rightarrow> string \<Rightarrow> json py" where
  "resolve_ref root ref =
     fold_py (\<lambda>part cur. py_key cur part) (split_at CHR ''/'' (dropWhile (\<lambda>c. c \<in> set ''#/'') ref)) root"

fun vschema :: "(string \<Rightarrow> string \<Rightarrow> bool) \<Rightarrow> json \<Rightarrow> json \<Rightarrow> json \<Rightarrow> string \<Rightarrow> string list py" where
  "vschema R root node schema loc =
     pbind (if jhas ''$ref'' (as_obj schema) then resolve_ref root (str_of (jget ''$ref'' (as_obj schema))) else Inr schema)
       (\<lambda>resolved. let s = as_obj resolved in
     if jhas ''const'' s
     then emit_if (\<not> jeq node (jget ''const'' s)) (loc @ '': must equal '' @ py_repr (jget ''const'' s))
     else if jhas ''enum'' s
     then emit_if (\<not> in_list node (as_list (jget ''enum'' s))) (loc @ '': must be one of '' @ py_repr (jget ''enum'' s))
     else if jget ''type'' s = JStr ''object''
     then (case node of
         JObj d \<Rightarrow>
           (let props = as_obj (jget ''properties'' s)
            in chks [each (as_list (jget ''required'' s)) (\<lambda>r.
                 emit_if (\<not> jhas (str_of r) d) (loc @ '': missing required field '' @ sq (str_of r))),
               guarded (jget ''additionalProperties'' s = JBool False)
                 (each (jkeys d) (\<lambda>k. emit_if (\<not> jhas k props) (loc @ '': unknown field '' @ sq k))),
               each d (\<lambda>(k, v). guarded (jhas k props) (vschema R root v (jget k props) (loc @ ''.'' @ k)))])
       | _ \<Rightarrow> Inr [loc @ '': must be an object''])
     else if jget ''type'' s = JStr ''array''
     then (case node of
         JList xs \<Rightarrow>
           (let item = jget ''items'' s; least = jget ''minItems'' s
            in chks [emit_if (is_proper_int least \<and> int (length xs) < the (int_value least))
                 (loc @ '': must have at least '' @ py_str least @ '' item(s)''),
               guarded (truthy item) (each_i xs (\<lambda>i x. vschema R root x item (idx loc i)))])
       | _ \<Rightarrow> Inr [loc @ '': must be an array''])
     else if jget ''type'' s = JStr ''string''
     then (case node of
         JStr t \<Rightarrow>
           (let least = jget ''minLength'' s; pat = str_of (jget ''pattern'' s)
            in chks [emit_if (is_proper_int least \<and> int (length (utf8_chars t)) < the (int_value least))
                 (loc @ '': must be a non-empty string''),
               emit_if (jhas ''pattern'' s \<and> \<not> R pat t) (loc @ '': must match '' @ pat)])
       | _ \<Rightarrow> Inr [loc @ '': must be a string''])
     else emit_if (jget ''type'' s = JStr ''boolean'' \<and> \<not> is_bool node) (loc @ '': must be a boolean''))"

declare vschema.simps [simp del]

section \<open>The schemas\<close>

text \<open>The shapes the schema files are made of.\<close>

definition sch_text :: json where
  "sch_text = JObj [(''type'', JStr ''string''), (''minLength'', JInt 1)]"

definition sch_pattern :: "string \<Rightarrow> json" where
  "sch_pattern p = JObj [(''type'', JStr ''string''), (''pattern'', JStr p)]"

definition sch_const :: "string \<Rightarrow> json" where
  "sch_const c = JObj [(''const'', JStr c)]"

definition sch_enum :: "string list \<Rightarrow> json" where
  "sch_enum cs = JObj [(''enum'', JList (map JStr cs))]"

definition sch_ref :: "string \<Rightarrow> json" where
  "sch_ref r = JObj [(''$ref'', JStr r)]"

definition sch_array :: "json \<Rightarrow> json" where
  "sch_array item = JObj [(''type'', JStr ''array''), (''items'', item)]"

definition sch_array1 :: "json \<Rightarrow> json" where
  "sch_array1 item = JObj [(''type'', JStr ''array''), (''minItems'', JInt 1), (''items'', item)]"

definition sch_object :: "string list \<Rightarrow> obj \<Rightarrow> json" where
  "sch_object required props =
     JObj [(''type'', JStr ''object''), (''required'', JList (map JStr required)),
       (''additionalProperties'', JBool False), (''properties'', JObj props)]"

definition sch_root :: "string list \<Rightarrow> obj \<Rightarrow> obj \<Rightarrow> json" where
  "sch_root required defs props =
     JObj [(''type'', JStr ''object''), (''required'', JList (map JStr required)),
       (''additionalProperties'', JBool False), (''$defs'', JObj defs), (''properties'', JObj props)]"

definition hash_pattern :: string where
  "hash_pattern = ''^sha256:[0-9a-f]{64}$''"

definition version_pattern :: string where
  "version_pattern = ''^[0-9]+'' @ CHR 0x5C # ''.[0-9]+'' @ CHR 0x5C # ''.[0-9]+$''"

definition schema_regex :: "string \<Rightarrow> string \<Rightarrow> bool" where
  "schema_regex p s =
     (if p = hash_pattern then re_dollar content_hash_text s
      else if p = version_pattern then re_dollar semver_text s else False)"

definition citation_schema :: json where
  "citation_schema = sch_object [''source'']
     [(''source'', sch_text), (''standardVersion'', sch_text), (''excerptHash'', sch_pattern hash_pattern)]"

definition term_schema :: json where
  "term_schema = sch_object [''term'', ''layer'', ''confidence'', ''reviewStatus'', ''citations'']
     [(''term'', sch_text), (''layer'', sch_ref ''#/$defs/layer''), (''confidence'', sch_enum [''low'', ''medium'', ''high'']),
      (''reviewStatus'', sch_const ''proposed''), (''citations'', sch_array1 (sch_ref ''#/$defs/citation'')),
      (''aliases'', sch_array sch_text), (''mapsToCore'', sch_array sch_text), (''sourceNodes'', sch_array sch_text),
      (''unresolvedQuestions'', sch_array sch_text)]"

definition edge_schema :: json where
  "edge_schema = sch_object [''id'', ''type'', ''from'', ''to'', ''lossiness'', ''provenance'']
     [(''id'', sch_text),
      (''type'', sch_enum [''cites'', ''expandsTo'', ''lowersTo'', ''liftsFrom'', ''preservesAs'', ''rejects'']),
      (''from'', sch_text), (''to'', sch_text),
      (''direction'', sch_enum [''expand'', ''lower'', ''lift'', ''preserve'', ''reject'']),
      (''lossiness'', sch_ref ''#/$defs/lossiness''),
      (''provenance'', sch_object [''source'', ''status''] [(''source'', sch_text), (''status'', sch_const ''proposed'')])]"

definition extension_schema :: json where
  "extension_schema = sch_object [''field'', ''reason''] [(''field'', sch_text), (''reason'', sch_text)]"

definition proposal_schema :: json where
  "proposal_schema = sch_root [''kind'', ''domain'', ''proposalVersion'', ''status'', ''corpusRef'', ''candidateTerms'']
     [(''layer'', sch_enum [''L1'', ''L2'', ''L3'', ''L4'']),
      (''lossiness'', sch_enum [''lossless'', ''lossy-preserved-in-extensionData'', ''unsupported'']),
      (''citation'', citation_schema), (''candidateTerm'', term_schema), (''candidateEdge'', edge_schema),
      (''extensionDataCandidate'', extension_schema)]
     [(''kind'', sch_const ''neutrino.domain-vocabulary-proposal''), (''domain'', sch_text),
      (''proposalVersion'', sch_pattern version_pattern), (''status'', sch_const ''proposed''),
      (''corpusRef'', sch_text), (''runRef'', sch_text),
      (''candidateTerms'', sch_array1 (sch_ref ''#/$defs/candidateTerm'')),
      (''candidateEdges'', sch_array (sch_ref ''#/$defs/candidateEdge'')),
      (''extensionDataCandidates'', sch_array (sch_ref ''#/$defs/extensionDataCandidate''))]"

definition source_schema :: json where
  "source_schema = sch_object [''id'', ''owner'', ''sensitivity'', ''allowedUse'', ''contentHash'', ''sourceType'']
     [(''id'', sch_text), (''owner'', sch_text), (''sensitivity'', sch_enum [''public'', ''internal'', ''confidential'']),
      (''allowedUse'', sch_enum [''domain-authority'', ''reference-only'', ''excluded'']),
      (''contentHash'', sch_pattern hash_pattern),
      (''sourceType'', sch_enum [''official-public-repository'', ''official-source-jar'',
         ''reputable-public-implementation-source-jar'', ''generated-source'', ''binary-metadata'', ''decompiled-binary'']),
      (''artifactCoordinates'', sch_text), (''license'', sch_text), (''licenseApproved'', JObj [(''type'', JStr ''boolean'')])]"

definition corpus_schema :: json where
  "corpus_schema = sch_root [''kind'', ''corpusId'', ''sources''] [(''source'', source_schema)]
     [(''kind'', sch_const ''neutrino.domain-corpus-manifest''), (''corpusId'', sch_text),
      (''sources'', sch_array1 (sch_ref ''#/$defs/source''))]"

definition run_schema :: json where
  "run_schema = sch_object
     [''kind'', ''runId'', ''analyzer'', ''promptVersion'', ''corpusRef'', ''inputs'', ''outputHash'', ''reviewStatus'']
     [(''kind'', sch_const ''neutrino.domain-analysis-run-manifest''), (''runId'', sch_text),
      (''analyzer'', sch_object [''identity'']
         [(''identity'', sch_text), (''modelVersion'', sch_text), (''toolVersion'', sch_text)]),
      (''promptVersion'', sch_text), (''corpusRef'', sch_text),
      (''inputs'', sch_array1 (sch_object [''ref'', ''sha256'']
         [(''ref'', sch_text), (''sha256'', sch_pattern hash_pattern)])),
      (''outputHash'', sch_pattern hash_pattern),
      (''reviewStatus'', sch_enum [''proposed'', ''under-review'', ''accepted'', ''rejected'']),
      (''createdAt'', sch_text)]"

lemmas sch_defs = sch_text_def sch_pattern_def sch_const_def sch_enum_def sch_ref_def sch_array_def sch_array1_def
  sch_object_def sch_root_def

section \<open>Conformance\<close>

named_theorems conforms \<open>when the interpreter accepts a value, for each shape of schema\<close>

lemma jget_literal: "jget k ((k', v) # d) = (if k = k' then v else jget k d)"
  by (simp add: jget_def jget_or_def)

lemma jhas_literal: "jhas k ((k', v) # d) \<longleftrightarrow> k = k' \<or> jhas k d" "\<not> jhas k []"
  by (simp_all add: jhas_def)

lemmas schema_eval = jget_literal jhas_literal jget_Nil

lemma utf8_chars_Nil_iff: "utf8_chars s = [] \<longleftrightarrow> s = []"
  by (cases s rule: utf8_chars.cases) auto

lemma conforms_text [conforms]: "vschema R root v sch_text loc = Inr [] \<longleftrightarrow> nonempty_str v"
  by (subst vschema.simps, cases v) (auto simp: schema_eval sch_defs chks_pass emit_if_pass utf8_chars_Nil_iff not_less)

lemma conforms_pattern [conforms]: "vschema R root v (sch_pattern p) loc = Inr [] \<longleftrightarrow> (\<exists>s. v = JStr s \<and> R p s)"
  by (subst vschema.simps, cases v) (auto simp: schema_eval sch_defs chks_pass emit_if_pass)

lemma conforms_const [conforms]: "vschema R root v (sch_const c) loc = Inr [] \<longleftrightarrow> v = JStr c"
  by (subst vschema.simps) (auto simp: schema_eval sch_defs emit_if_pass jeq_JStr_right)

lemma conforms_enum [conforms]: "vschema R root v (sch_enum cs) loc = Inr [] \<longleftrightarrow> (\<exists>c \<in> set cs. v = JStr c)"
  by (subst vschema.simps) (auto simp: schema_eval sch_defs emit_if_pass in_list_strs)

lemma object_checks:
  "chks [each (map JStr required) (\<lambda>r. emit_if (\<not> jhas (str_of r) d) (m1 r)),
     guarded True (each (jkeys d) (\<lambda>k. emit_if (\<not> jhas k props) (m2 k))),
     each d (\<lambda>(k, v). guarded (jhas k props) (f v (jget k props) k))] = Inr []
   \<longleftrightarrow> (\<forall>k \<in> set required. jhas k d)
     \<and> (\<forall>(k, v) \<in> set d. \<exists>s. map_of props k = Some s \<and> f v s k = Inr [])"
proof -
  have item: "(\<exists>s. map_of props k = Some s \<and> P s) \<longleftrightarrow> jhas k props \<and> P (jget k props)" for k P
    by (auto simp: jhas_map_of jget_in)
  show ?thesis
    unfolding item chks_pass list.set ball_simps
    by (auto simp: each_pass emit_if_pass guarded_pass set_jkeys) (fastforce simp: guarded_pass)
qed

lemma conforms_object [conforms]:
  "vschema R root v (sch_object required props) loc = Inr [] \<longleftrightarrow>
     (\<exists>d. v = JObj d \<and> (\<forall>k \<in> set required. jhas k d)
        \<and> (\<forall>(k, x) \<in> set d. \<exists>s. map_of props k = Some s \<and> vschema R root x s (loc @ ''.'' @ k) = Inr []))"
proof (cases v)
  case (JObj d)
  show ?thesis
    unfolding JObj by (subst vschema.simps) (simp add: schema_eval sch_defs
        object_checks [where f = "\<lambda>v s k. vschema R root v s (loc @ CHR ''.'' # k)"] del: chks.simps)
qed (subst vschema.simps, simp add: schema_eval sch_defs)+

lemma conforms_root [conforms]:
  "vschema R root v (sch_root required defs props) loc = Inr [] \<longleftrightarrow>
     (\<exists>d. v = JObj d \<and> (\<forall>k \<in> set required. jhas k d)
        \<and> (\<forall>(k, x) \<in> set d. \<exists>s. map_of props k = Some s \<and> vschema R root x s (loc @ ''.'' @ k) = Inr []))"
proof (cases v)
  case (JObj d)
  show ?thesis
    unfolding JObj by (subst vschema.simps) (simp add: schema_eval sch_defs
        object_checks [where f = "\<lambda>v s k. vschema R root v s (loc @ CHR ''.'' # k)"] del: chks.simps)
qed (subst vschema.simps, simp add: schema_eval sch_defs)+

lemma truthy_schema [simp]: "truthy sch_text" "truthy (sch_ref r)"
  by (simp_all add: sch_defs)

lemma conforms_array [conforms]:
  "truthy item \<Longrightarrow> vschema R root v (sch_array item) loc = Inr [] \<longleftrightarrow>
     (\<exists>xs. v = JList xs \<and> (\<forall>i < length xs. vschema R root (xs ! i) item (idx loc i) = Inr []))"
  by (subst vschema.simps, cases v) (auto simp: schema_eval sch_defs chks_pass emit_if_pass guarded_pass each_i_pass)

lemma conforms_array1 [conforms]:
  "truthy item \<Longrightarrow> vschema R root v (sch_array1 item) loc = Inr [] \<longleftrightarrow>
     (\<exists>xs. v = JList xs \<and> xs \<noteq> [] \<and> (\<forall>i < length xs. vschema R root (xs ! i) item (idx loc i) = Inr []))"
  by (subst vschema.simps, cases v)
    (auto simp: schema_eval sch_defs chks_pass emit_if_pass guarded_pass each_i_pass not_less Suc_le_eq)

lemma conforms_ref:
  assumes "resolve_ref root ref = Inr s" and "\<not> jhas ''$ref'' (as_obj s)"
  shows "vschema R root v (sch_ref ref) loc = vschema R root v s loc"
  by (subst (1 2) vschema.simps) (use assms in \<open>simp add: schema_eval sch_defs\<close>)

end
