(* ===== verification/CorpusProposal.thy ===== *)
theory CorpusProposal
  imports JsonSchema RecipeRewrite
begin

text \<open>
  The step from observations to a proposed vocabulary. The first part is the rest of
  \<open>src/scripts/corpus/validate_domain_proposal.py\<close>: the rules beyond the schema and \<open>main\<close>, \<open>dp_main\<close>. The second
  part is \<open>src/scripts/corpus/generate_proposal_from_observations.py\<close>: \<open>gp_build\<close> is \<open>build\<close>, and \<open>gp_main\<close> is
  \<open>main\<close> with the two inputs, the files of the corpus directory and the committed proposal as arguments.
  \<open>L\<close> is \<open>str.lower\<close>, \<open>H\<close> the digest.
\<close>

section \<open>The rules of a corpus manifest\<close>

definition corpus_source_rules :: "json \<Rightarrow> diags" where
  "corpus_source_rules s =
     pbind (py_items s) (\<lambda>d.
       let w = ''source '' @ sq (py_str (jget ''id'' d)); approved = truthy (jget ''licenseApproved'' d)
       in chks [emit_if (jget ''sourceType'' d = JStr ''decompiled-binary'' \<and> \<not> approved)
            (diag ''corpus.decompiled_unreviewed'' (w @ '': decompiled-binary requires licenseApproved=true'')),
          emit_if (jget ''allowedUse'' d = JStr ''domain-authority'' \<and> jget ''sensitivity'' d \<noteq> JStr ''public'' \<and> \<not> approved)
            (diag ''corpus.authority_not_permitted''
              (w @ '': domain-authority requires a public or licenseApproved source''))])"

definition corpus_rules :: "obj \<Rightarrow> diags" where
  "corpus_rules corpus = pbind (py_iter (jget_or ''sources'' (JList []) corpus)) (\<lambda>ss. each ss corpus_source_rules)"

section \<open>The rules of a proposal\<close>

definition source_id :: "json \<Rightarrow> json py" where
  "source_id s = pbind (py_items s) (\<lambda>d. if hashable (jget ''id'' d) then Inr (jget ''id'' d) else Inl TypeError)"

definition permitted_source :: "obj \<Rightarrow> bool" where
  "permitted_source d \<longleftrightarrow> jget ''allowedUse'' d = JStr ''domain-authority''
     \<and> (jget ''sensitivity'' d = JStr ''public'' \<or> truthy (jget ''licenseApproved'' d))"

definition check_source :: "json list \<Rightarrow> json list \<Rightarrow> json \<Rightarrow> string \<Rightarrow> diags" where
  "check_source ids authority src w =
     (if \<not> hashable src then Inl TypeError
      else if \<not> in_list src ids
      then Inr [diag ''proposal.unknown_source'' (w @ '': source '' @ py_repr src @ '' is not declared in the corpus'')]
      else emit_if (\<not> in_list src authority)
        (diag ''proposal.source_authority'' (w @ '': source '' @ py_repr src @ '' is not permitted as domain-authority'')))"

definition check_term_sources :: "json list \<Rightarrow> json list \<Rightarrow> json \<Rightarrow> diags" where
  "check_term_sources ids authority t =
     pbind (py_items t) (\<lambda>d.
     pbind (py_iter (jget_or ''citations'' (JList []) d)) (\<lambda>cs.
       each cs (\<lambda>c. pbind (py_items c) (\<lambda>cd.
         check_source ids authority (jget ''source'' cd)
           (''candidate term '' @ sq (py_str (jget ''term'' d)) @ '' citation'')))))"

definition check_edge_source :: "json list \<Rightarrow> json list \<Rightarrow> json \<Rightarrow> diags" where
  "check_edge_source ids authority e =
     pbind (py_items e) (\<lambda>d.
     let prov = jget ''provenance'' d
     in pbind (if truthy prov then py_items prov else Inr []) (\<lambda>pd.
       check_source ids authority (jget ''source'' pd)
         (''candidate edge '' @ sq (py_str (jget ''id'' d)) @ '' provenance'')))"

definition proposal_sources_rules :: "obj \<Rightarrow> json list \<Rightarrow> json list \<Rightarrow> diags" where
  "proposal_sources_rules proposal ids authority =
     chks [pbind (py_iter (jget_or ''candidateTerms'' (JList []) proposal)) (\<lambda>ts. each ts (check_term_sources ids authority)),
       pbind (py_iter (jget_or ''candidateEdges'' (JList []) proposal)) (\<lambda>es. each es (check_edge_source ids authority))]"

definition proposal_rules :: "obj \<Rightarrow> json \<Rightarrow> diags" where
  "proposal_rules proposal corpus =
     (if corpus = JNull
      then Inr [diag ''proposal.authority_unverifiable''
        (''a vocabulary proposal must be validated against its corpus (--corpus) to ''
         @ ''verify citation authority; refusing to clear it without one'')]
      else pbind (py_items corpus) (\<lambda>cd.
        let sources = as_list (jget ''sources'' cd); ref = jget ''corpusRef'' proposal; cid = jget ''corpusId'' cd
        in pbind (map_py source_id sources) (\<lambda>ids.
           let authority = map (\<lambda>s. jget ''id'' (as_obj s)) (filter (\<lambda>s. permitted_source (as_obj s)) sources)
           in pbind (chks [emit_if (\<not> jeq ref cid)
                 (diag ''proposal.corpus_mismatch'' (''proposal.corpusRef '' @ py_repr ref
                    @ '' does not match the supplied corpus '' @ py_repr cid)),
               proposal_sources_rules proposal ids authority]) (\<lambda>out. Inr (sort_key diag_key out)))))"

section \<open>The run of the validator\<close>

text \<open>The kind of artifact with the prefix of its codes and its schema.\<close>

definition schema_by_kind :: "(string \<times> string \<times> json) list" where
  "schema_by_kind =
    [(''neutrino.domain-corpus-manifest'', ''corpus'', corpus_schema),
     (''neutrino.domain-analysis-run-manifest'', ''run'', run_schema),
     (''neutrino.domain-vocabulary-proposal'', ''proposal'', proposal_schema)]"

definition dp_result :: "bool \<Rightarrow> diagnostic list \<Rightarrow> json" where
  "dp_result ok ds = JObj [(''ok'', JBool ok), (''diagnostics'', JList (map diag_json (sort_key diag_key ds)))]"

text \<open>The diagnostics of an artifact of a known kind. A corpus is not given, or cannot be read, or was read.\<close>

definition dp_diagnostics :: "string \<Rightarrow> string \<Rightarrow> json \<Rightarrow> json \<Rightarrow> (string + json) option \<Rightarrow> diags" where
  "dp_diagnostics kind pre schema artifact corpus =
     pbind (vschema schema_regex schema artifact schema ''(root)'') (\<lambda>shape.
       if shape \<noteq> [] then Inr (map (diag (pre @ ''.schema'')) (sort shape))
       else if kind = ''neutrino.domain-corpus-manifest'' then corpus_rules (as_obj artifact)
       else if kind = ''neutrino.domain-vocabulary-proposal''
       then (case corpus of
           None \<Rightarrow> proposal_rules (as_obj artifact) JNull
         | Some (Inl e) \<Rightarrow> chks [Inr [diag ''artifact.io'' (''--corpus: '' @ e)], proposal_rules (as_obj artifact) JNull]
         | Some (Inr c) \<Rightarrow> proposal_rules (as_obj artifact) c)
       else Inr [])"

text \<open>The files that are written, and the exit status.\<close>

definition dp_main :: "string + json \<Rightarrow> (string + json) option \<Rightarrow> ((string \<times> json) list \<times> nat) py" where
  "dp_main r corpus =
     (case r of
        Inl e \<Rightarrow> Inr ([(''diagnostics.json'', dp_result False [diag ''artifact.io'' e])], 2)
      | Inr artifact \<Rightarrow>
          (let kind = jget ''kind'' (as_obj artifact)
           in pbind (in_strs kind (map fst schema_by_kind)) (\<lambda>known.
              if \<not> known
              then Inr ([(''diagnostics.json'', dp_result False [diag ''artifact.kind'' (''unknown or missing kind: '' @ py_repr kind)])], 2)
              else (let (pre, schema) = the (map_of schema_by_kind (str_of kind))
                in pbind (dp_diagnostics (str_of kind) pre schema artifact corpus) (\<lambda>ds.
                  let ok = (filter (\<lambda>d. dseverity d = ''error'') ds = [])
                  in Inr ([(pre @ ''.report.json'', JObj [(''kind'', JStr (str_of kind @ ''-validation'')),
                         (''artifactKind'', kind), (''ok'', JBool ok)]),
                       (''diagnostics.json'', dp_result ok ds)], if ok then 0 else 1))))))"

section \<open>The generator\<close>

definition code_dimensions :: "string list" where
  "code_dimensions = [''timeBound'', ''orderingModel'', ''oracleDependency'', ''evidenceStyle'']"

definition derived_dimensions :: "string list" where
  "derived_dimensions = [''expressibility'']"

definition editorial_dimensions :: "string list" where
  "editorial_dimensions = [''partyModel'', ''accessControl'', ''identityBinding'', ''characteristics'']"

definition known_dimensions :: "string list" where
  "known_dimensions = code_dimensions @ derived_dimensions @ editorial_dimensions"

definition gp_confidence :: "string \<Rightarrow> string" where
  "gp_confidence dim = (if dim \<in> set (code_dimensions @ derived_dimensions) then ''high'' else ''medium'')"

definition ends_with :: "string \<Rightarrow> string \<Rightarrow> bool" where
  "ends_with p s \<longleftrightarrow> length p \<le> length s \<and> drop (length s - length p) s = p"

text \<open>The digest of the corpus: the files of \<open>src\<close> by name, with their bytes.\<close>

definition corpus_content_hash :: "(string \<Rightarrow> string) \<Rightarrow> (string \<times> string) list \<Rightarrow> string" where
  "corpus_content_hash H files =
     ''sha256:'' @ H (concat (map (\<lambda>(f, bytes). ''src/'' @ f @ [CHR 0x00] @ bytes @ [CHR 0x00])
       (sort_key fst (filter (\<lambda>(f, bytes). ends_with ''.sol'' f) files))))"

definition warning :: "string \<Rightarrow> string \<Rightarrow> diagnostic" where
  "warning c m = \<lparr>dcode = c, dseverity = ''warning'', dmessage = m\<rparr>"

text \<open>An observation as the loops read it: dimension, value and \<open>provenance[k]\<close>.\<close>

definition gp_fact :: "json \<Rightarrow> (string \<times> string) py" where
  "gp_fact ob = pbind (py_key ob ''dimension'') (\<lambda>dim. pbind (py_key ob ''value'') (\<lambda>val. Inr (str_of dim, str_of val)))"

definition gp_prov :: "string \<Rightarrow> json \<Rightarrow> string py" where
  "gp_prov k ob = pbind (py_key ob ''provenance'') (\<lambda>p. pbind (py_key p k) (\<lambda>v. Inr (str_of v)))"

fun group_add :: "'k \<Rightarrow> 'v \<Rightarrow> ('k \<times> 'v list) list \<Rightarrow> ('k \<times> 'v list) list" where
  "group_add k src [] = [(k, [src])]"
| "group_add k src ((k', srcs) # d) =
     (if k' = k then (k', List.insert src srcs) # d else (k', srcs) # group_add k src d)"

text \<open>The loop that groups: the groups so far with the diagnostics so far.\<close>

definition gp_observe :: "json list \<Rightarrow> json \<Rightarrow> ((string \<times> string) \<times> string list) list \<times> diagnostic list
    \<Rightarrow> (((string \<times> string) \<times> string list) list \<times> diagnostic list) py" where
  "gp_observe authority ob = (\<lambda>(groups, out).
     pbind (gp_fact ob) (\<lambda>(dim, val).
       if dim \<notin> set known_dimensions
       then Inr (groups, out @ [diag ''proposal.unknown_dimension''
         (''dimension '' @ sq dim @ '' is not classifiable by this generator (fail closed)'')])
       else pbind (gp_prov ''source'' ob) (\<lambda>src.
         Inr (group_add (dim, val) src groups,
           if in_list (JStr src) authority then out
           else out @ [diag ''proposal.non_authority_source''
             (''observation source '' @ sq src @ '' ('' @ dim @ ''='' @ val @ '') is not a domain-authority corpus source'')]))))"

definition gp_term :: "(string \<times> string) \<times> string list \<Rightarrow> obj" where
  "gp_term = (\<lambda>((dim, val), srcs).
     let notes = (if dim \<in> set editorial_dimensions
           then [''editorial label re-projected from classification.json '' @ em_dash
             @ '' re-verify against source before promotion''] else [])
         @ (if dim = ''expressibility'' \<and> val = ''m6-frontier''
           then [''M6 frontier '' @ em_dash @ '' not expressible in the M5 kernel; do not promote to an expandsTo template''] else [])
     in [(''term'', JStr (dim @ '':'' @ val)), (''layer'', JStr ''L2''), (''confidence'', JStr (gp_confidence dim)),
         (''reviewStatus'', JStr ''proposed''),
         (''citations'', JList (map (\<lambda>s. JObj [(''source'', JStr s)]) (sort srcs)))]
       @ (if dim = ''expressibility'' \<and> val = ''m5-expressible'' then [(''mapsToCore'', JList [JStr ''procedure''])] else [])
       @ (if notes = [] then [] else [(''unresolvedQuestions'', JList (map JStr notes))]))"

definition gp_edge :: "(string \<Rightarrow> string) \<Rightarrow> string \<Rightarrow> string \<Rightarrow> obj" where
  "gp_edge L contract src =
     [(''id'', JStr (''edge:m5-expand:'' @ L contract)), (''type'', JStr ''expandsTo''),
      (''from'', JStr (''concept:shape:'' @ contract)), (''to'', JStr ''core:construct:procedure''),
      (''direction'', JStr ''expand''), (''lossiness'', JStr ''lossless''),
      (''provenance'', JObj [(''source'', JStr src), (''status'', JStr ''proposed'')])]"

text \<open>The loop that derives edges and the notes on what is left to the next milestone.\<close>

definition gp_derive :: "(string \<Rightarrow> string) \<Rightarrow> json \<Rightarrow> obj list \<times> obj \<Rightarrow> (obj list \<times> obj) py" where
  "gp_derive L ob = (\<lambda>(edges, features).
     pbind (gp_fact ob) (\<lambda>(dim, val).
       if dim = ''expressibility'' \<and> val = ''m5-expressible''
       then pbind (gp_prov ''construct'' ob) (\<lambda>contract. pbind (gp_prov ''source'' ob) (\<lambda>src.
         Inr (edges @ [gp_edge L contract src], features)))
       else if dim = ''expressibility'' \<and> val = ''m6-frontier''
       then pbind (gp_prov ''construct'' ob) (\<lambda>contract.
         Inr (edges, dict_set contract (jget_or ''note'' (JStr ''M6 frontier'') (as_obj ob)) features))
       else Inr (edges, features)))"

definition gp_proposal :: "json \<Rightarrow> ((string \<times> string) \<times> string list) list \<Rightarrow> obj list \<Rightarrow> obj \<Rightarrow> json" where
  "gp_proposal corpus_id groups edges features =
     JObj [(''kind'', JStr ''neutrino.domain-vocabulary-proposal''), (''domain'', JStr ''solidity_coordination''),
       (''proposalVersion'', JStr ''0.1.0''), (''status'', JStr ''proposed''), (''corpusRef'', corpus_id),
       (''candidateTerms'', JList (map JObj (sort_key (\<lambda>t. str_of (jget ''term'' t)) (map gp_term (sort_key fst groups))))),
       (''candidateEdges'', JList (map JObj (sort_key (\<lambda>e. str_of (jget ''id'' e)) edges))),
       (''extensionDataCandidates'', JList (map (\<lambda>(c, note).
          JObj [(''field'', JStr (''m6_frontier:'' @ c)), (''reason'', note)]) (sort_key fst features)))]"

text \<open>The sources of the corpus manifest that are an authority.\<close>

definition gp_authority :: "obj \<Rightarrow> json list py" where
  "gp_authority corpus =
     pbind (py_iter (jget_or ''sources'' (JList []) corpus)) (\<lambda>ss.
       each ss (\<lambda>s. pbind (py_items s) (\<lambda>d.
         if jget ''allowedUse'' d \<noteq> JStr ''domain-authority'' then Inr []
         else pbind (jindex ''id'' d) (\<lambda>i. if hashable i then Inr [i] else Inl TypeError))))"

text \<open>The check of the corpus directory: \<open>None\<close> opts out, and a directory may be unreadable, which ends the run.\<close>

definition gp_rebind :: "(string \<Rightarrow> string) \<Rightarrow> json \<Rightarrow> string \<Rightarrow> (string + (string \<times> string) list) option
    \<Rightarrow> diagnostic list \<times> bool" where
  "gp_rebind H corpus_hash dir files =
     (case files of
        None \<Rightarrow> ([warning ''proposal.hash_unverified''
          (''corpusRef.contentHash NOT re-verified (--allow-unverified) '' @ em_dash @ '' the anti-rebind binding is ''
           @ ''not enforced; do not use this mode at a real point of use'')], True)
      | Some (Inl e) \<Rightarrow> ([diag ''proposal.corpus_unavailable''
          (''cannot re-verify corpusRef.contentHash: corpus dir '' @ dir @ '' unreadable ('' @ e @ ''); ''
           @ ''refusing to generate without discharging the anti-rebind obligation'')], False)
      | Some (Inr fs) \<Rightarrow>
          (let h = corpus_content_hash H fs
           in (if corpus_hash = JStr h then [] else [diag ''proposal.corpus_rebind''
             (''observation corpusRef.contentHash '' @ py_str corpus_hash @ '' != recomputed '' @ h @ '' over '' @ dir
              @ '' (anti-rebind: the set no longer matches the corpus it claims)'')], True)))"

definition gp_build :: "(string \<Rightarrow> string) \<Rightarrow> (string \<Rightarrow> string) \<Rightarrow> json \<Rightarrow> json \<Rightarrow> string
    \<Rightarrow> (string + (string \<times> string) list) option \<Rightarrow> (json option \<times> diagnostic list) py" where
  "gp_build H L observations corpus dir files =
     pbind (os_validate observations) (\<lambda>ods.
       if filter errs ods \<noteq> []
       then Inr (None, [diag ''proposal.invalid_observations''
         (''input observation-set is not S0-valid ('' @ show_nat (length (filter errs ods)) @ '' error(s)); refusing to generate'')])
       else let obs = as_list (jget ''observations'' (as_obj observations));
                cref = as_obj (jget ''corpusRef'' (as_obj observations));
                corpus_id = jget ''corpusId'' cref
         in pbind (py_items corpus) (\<lambda>cd.
            let mismatch = (if jeq corpus_id (jget ''corpusId'' cd) then [] else [diag ''proposal.corpus_mismatch''
                  (''observation corpusId '' @ py_repr corpus_id @ '' != corpus-manifest corpusId ''
                   @ py_repr (jget ''corpusId'' cd))]);
                (bound, readable) = gp_rebind H (jget ''contentHash'' cref) dir files
            in pbind (gp_authority cd) (\<lambda>authority.
               if \<not> readable then Inr (None, mismatch @ bound)
               else pbind (fold_py (gp_observe authority) obs ([], mismatch @ bound)) (\<lambda>(groups, out).
                 if filter errs out \<noteq> [] then Inr (None, out)
                 else pbind (fold_py (gp_derive L) obs ([], [])) (\<lambda>(edges, features).
                   Inr (Some (gp_proposal corpus_id groups edges features), out))))))"

text \<open>\<open>json.dumps(v, indent=2, sort_keys=True)\<close>, \<open>k\<close> levels deep.\<close>

fun indent_dumps :: "nat \<Rightarrow> json \<Rightarrow> string" where
  "indent_dumps k (JList xs) =
     (if xs = [] then ''[]''
      else ''['' @ indented (Suc k) @ join ('','' @ indented (Suc k)) (map (indent_dumps (Suc k)) xs) @ indented k @ '']'')"
| "indent_dumps k (JObj d) =
     (if d = [] then ''{}''
      else ''{'' @ indented (Suc k)
        @ join ('','' @ indented (Suc k)) (map (\<lambda>(l, v). ascii_string l @ '': '' @ indent_dumps (Suc k) v) (sort_key fst d))
        @ indented k @ ''}'')"
| "indent_dumps k v = dumps v"

definition gp_dump :: "json \<Rightarrow> string" where
  "gp_dump v = indent_dumps 0 v @ newline"

text \<open>
  What \<open>--check\<close> finds, for the text of the committed file. A file with the text of the proposal holds
  the proposal, so the validator that is run on it sees that document; a run that ends with an exception
  has status 1.
\<close>

definition gp_check :: "string \<Rightarrow> json \<Rightarrow> json \<Rightarrow> string option \<Rightarrow> diagnostic list" where
  "gp_check path proposal corpus committed =
     (case committed of
        None \<Rightarrow> [diag ''proposal.not_committed'' (path @ '' is missing '' @ em_dash @ '' run --emit and commit it'')]
      | Some t \<Rightarrow>
          if t \<noteq> gp_dump proposal
          then [diag ''proposal.drift'' (path @ '' is stale '' @ em_dash @ '' re-run --emit and commit'')]
          else let status = (case dp_main (Inr proposal) (Some (Inr corpus)) of Inl e \<Rightarrow> 1 | Inr (reports, n) \<Rightarrow> n)
            in if status = 0 then []
               else [diag ''proposal.validation_failed''
                 (''emitted proposal failed validate_domain_proposal.py (exit '' @ show_nat status @ '')'')])"

definition count_of_field :: "string \<Rightarrow> json option \<Rightarrow> json" where
  "count_of_field k p = JInt (case p of None \<Rightarrow> 0 | Some v \<Rightarrow> int (length (as_list (jget k (as_obj v)))))"

text \<open>The printed summary, the text of the file at \<open>path\<close> afterwards and the exit status.\<close>

definition gp_main :: "(string \<Rightarrow> string) \<Rightarrow> (string \<Rightarrow> string) \<Rightarrow> string \<Rightarrow> bool \<Rightarrow> bool \<Rightarrow> string + json \<Rightarrow> string + json
    \<Rightarrow> string \<Rightarrow> (string + (string \<times> string) list) option \<Rightarrow> string option \<Rightarrow> (json \<times> string option \<times> nat) py" where
  "gp_main H L path emitting checking obs_file corpus_file dir files committed =
     (case (obs_file, corpus_file) of
        (Inr observations, Inr corpus) \<Rightarrow>
          pbind (gp_build H L observations corpus dir files) (\<lambda>(proposal, ds).
            let good = (filter errs ds = []);
                written = (case proposal of Some p \<Rightarrow> if emitting \<and> good then Some (gp_dump p) else committed | None \<Rightarrow> committed);
                found = (case proposal of
                    Some p \<Rightarrow> if (checking \<or> \<not> emitting) \<and> good then gp_check path p corpus written else []
                  | None \<Rightarrow> []);
                ok = (filter errs (ds @ found) = [])
            in Inr (JObj [(''ok'', JBool ok), (''candidateTerms'', count_of_field ''candidateTerms'' proposal),
                  (''candidateEdges'', count_of_field ''candidateEdges'' proposal),
                  (''diagnostics'', JList (map diag_json (sort_key diag_key (ds @ found))))],
                 written, if ok then 0 else 1))
      | (Inr observations, Inl e) \<Rightarrow>
          Inr (JObj [(''ok'', JBool False), (''diagnostics'', JList [diag_json (diag ''proposal.io'' (''cannot read input: '' @ e))])],
            committed, 1)
      | (Inl e, c) \<Rightarrow>
          Inr (JObj [(''ok'', JBool False), (''diagnostics'', JList [diag_json (diag ''proposal.io'' (''cannot read input: '' @ e))])],
            committed, 1))"

end
