(* ===== verification/ProposalProps.thy ===== *)
theory ProposalProps
  imports CorpusProposal
begin

text \<open>
  The stages from a corpus to a proposed vocabulary, one after the other: what an accepted observation set
  provides, what the generator makes of it, and that the validator of proposals accepts what the
  generator made, for every accepted corpus manifest.
\<close>

section \<open>Accepted observations\<close>

lemma os_check_fields_pass:
  "os_check_fields w d allowed required = Inr [] \<longleftrightarrow>
     (\<forall>k. jhas k d \<longrightarrow> k \<in> set allowed) \<and> (\<forall>k \<in> set required. jhas k d)"
  by (auto simp: os_check_fields_def sorted_diff_Nil_iff subset_iff jhas_jkeys)

definition vocab_values :: "obj \<Rightarrow> string \<Rightarrow> string list" where
  "vocab_values doc dim = map str_of (as_list (jget dim (as_obj (jget ''dimensions'' doc))))"

definition provenance_ok :: "json \<Rightarrow> bool" where
  "provenance_ok v \<longleftrightarrow>
     v = JNull \<or> (\<exists>p. v = JObj p \<and> nonempty_str (jget ''source'' p) \<and> nonempty_str (jget ''construct'' p))"

definition observation_ok :: "obj \<Rightarrow> json \<Rightarrow> bool" where
  "observation_ok doc v \<longleftrightarrow>
     (\<exists>ob dim val. v = JObj ob \<and> (\<forall>k. jhas k ob \<longrightarrow> k \<in> set observation_fields)
        \<and> nonempty_str (jget ''id'' ob) \<and> jget ''dimension'' ob = JStr dim \<and> jget ''value'' ob = JStr val \<and> val \<noteq> []
        \<and> val \<in> set (vocab_values doc dim) \<and> jhas ''provenance'' ob \<and> provenance_ok (jget ''provenance'' ob)
        \<and> (jhas ''note'' ob \<longrightarrow> nonempty_str (jget ''note'' ob)))"

lemma os_vocab_values: "os_vocab doc dim = Some vs \<Longrightarrow> vs = vocab_values doc dim"
  by (auto simp: os_vocab_def vocab_values_def dimension_values_def jget_in split: option.splits if_splits)

lemma os_value_pass:
  assumes "os_value doc w ob = Inr []" and "jhas ''dimension'' ob" and "is_obj (jget ''dimensions'' doc)"
  shows "\<exists>dim val. jget ''dimension'' ob = JStr dim \<and> jget ''value'' ob = JStr val \<and> val \<noteq> [] \<and> val \<in> set (vocab_values doc dim)"
  using assms by (auto simp: os_value_def Let_def emit_if_pass nonempty_str_iff dest!: os_vocab_values
      split: if_splits option.splits)

lemma os_provenance_pass:
  assumes "os_provenance w v = Inr []"
  shows "provenance_ok v"
proof (cases v)
  case (JObj p)
  have "os_check_fields (w @ ''.provenance'') p provenance_fields provenance_required = Inr []"
    and "\<forall>k \<in> set [''source'', ''construct'', ''constructKind'']. jhas k p \<longrightarrow> nonempty_str (jget k p)"
    using assms by (auto simp: JObj os_provenance_def chks_pass each_pass emit_if_pass)
  then show ?thesis by (simp add: JObj provenance_ok_def os_check_fields_pass provenance_required_def)
qed (use assms in \<open>simp_all add: os_provenance_def provenance_ok_def\<close>)

lemma os_observation_pass:
  assumes "os_observation doc i seen v = Inr []" and "is_obj (jget ''dimensions'' doc)"
  shows "observation_ok doc v" and "\<exists>oid. jget ''id'' (as_obj v) = JStr oid \<and> oid \<noteq> [] \<and> oid \<notin> set seen"
proof -
  obtain ob where v: "v = JObj ob" using assms(1) by (cases v) (simp_all add: os_observation_def)
  obtain w where pass: "os_check_fields w ob observation_fields observation_required = Inr []"
    "os_value doc w ob = Inr []" "os_provenance w (jget ''provenance'' ob) = Inr []"
    "jhas ''note'' ob \<longrightarrow> nonempty_str (jget ''note'' ob)"
    using assms(1) by (auto simp: v os_observation_def Let_def chks_pass emit_if_pass)
  have has: "jhas ''id'' ob" "jhas ''dimension'' ob" "jhas ''provenance'' ob"
    using pass(1) by (simp_all add: os_check_fields_pass observation_required_def)
  then show oid: "\<exists>oid. jget ''id'' (as_obj v) = JStr oid \<and> oid \<noteq> [] \<and> oid \<notin> set seen"
    using assms(1) by (auto simp: v os_observation_def Let_def chks_pass emit_if_pass nonempty_str_iff split: if_splits)
  show "observation_ok doc v"
    using os_value_pass [OF pass(2) has(2) assms(2)] os_provenance_pass [OF pass(3)] pass(1,4) oid has(3)
    by (auto simp: v observation_ok_def os_check_fields_pass nonempty_str_iff)
qed

lemma os_observations_pass:
  assumes "os_observations doc = Inr []" and "is_obj (jget ''dimensions'' doc)"
    and obs: "obs = as_list (jget ''observations'' doc)"
  shows "\<forall>v \<in> set obs. observation_ok doc v" and "distinct (map (\<lambda>v. jget ''id'' (as_obj v)) obs)"
proof -
  have loop: "each_st (os_observation doc) os_seen 0 [] obs = Inr []"
    using assms(1) by (simp add: os_observations_def chks_pass obs Let_def)
  show "\<forall>v \<in> set obs. observation_ok doc v"
    using each_st_member_pass [OF loop] os_observation_pass(1) assms(2) by metis
  have ids: "\<exists>oid. jget ''id'' (as_obj v) = JStr oid \<and> oid \<noteq> []" if "v \<in> set obs" for v
    using each_st_member_pass [OF loop that] os_observation_pass(2) assms(2) by metis
  have "distinct (rev (concat (map (\<lambda>v. [str_of (jget ''id'' (as_obj v))]) obs)) @ [])"
  proof (rule conjunct2 [OF each_st_collects [OF loop]])
    fix i s v
    assume "os_observation doc i s v = Inr []" and "distinct s"
    then show "os_seen v s = rev [str_of (jget ''id'' (as_obj v))] @ s \<and> distinct (rev [str_of (jget ''id'' (as_obj v))] @ s)"
      using os_observation_pass(2) assms(2) by (fastforce simp: os_seen_def Let_def)
  qed simp
  moreover have "concat (map (\<lambda>v. [str_of (jget ''id'' (as_obj v))]) obs) = map (\<lambda>v. str_of (jget ''id'' (as_obj v))) obs"
    by (induction obs) auto
  ultimately have "distinct (map str_of (map (\<lambda>v. jget ''id'' (as_obj v)) obs))" by (simp add: comp_def)
  then show "distinct (map (\<lambda>v. jget ''id'' (as_obj v)) obs)"
    unfolding distinct_map [of str_of] by blast
qed

lemma errors_os_parts [outcomes]:
  "outcome E errs (os_check_fields w d allowed required)" "outcome E errs (os_dimension e)" "outcome E errs (os_span w v)"
  "outcome E errs (os_provenance w v)" "outcome E errs (os_value doc w ob)" "outcome E errs (os_observation doc i seen v)"
proof -
  show fields [outcomes]: "outcome E errs (os_check_fields w d allowed required)" for w d allowed required
    by (auto simp: os_check_fields_def outcome_def list_all_iff)
  show "outcome E errs (os_dimension e)"
    unfolding os_dimension_def by (cases e) (auto intro!: outcomes simp: os_schema_def split: option.split)
  show span [outcomes]: "outcome E errs (os_span w v)" for w v
    unfolding os_span_def Let_def by (cases v) (auto intro!: outcomes simp: os_schema_def)
  show prov [outcomes]: "outcome E errs (os_provenance w v)" for w v
    unfolding os_provenance_def by (cases v) (auto intro!: outcomes simp: os_schema_def)
  show val [outcomes]: "outcome E errs (os_value doc w ob)" for w ob
    unfolding os_value_def Let_def by (auto intro!: outcomes simp: os_schema_def split: option.split)
  show "outcome E errs (os_observation doc i seen v)"
    unfolding os_observation_def Let_def by (cases v) (auto intro!: outcomes simp: os_schema_def)
qed

lemma errors_os_sections: "outcome E errs (os_sections doc)"
  unfolding os_sections_def os_header_def os_corpus_ref_def os_extractor_def os_dimensions_def os_observations_def Let_def
  by (intro outcomes; simp add: os_schema_def)

lemma os_validate_total: "\<exists>ds. os_validate v = Inr ds"
proof (cases v)
  case (JObj doc)
  obtain out where "os_sections doc = Inr out"
    using errors_os_sections [of "\<lambda>_. False" doc] by (auto simp: outcome_def split: sum.splits)
  then show ?thesis by (simp add: JObj os_validate_def)
qed (simp_all add: os_validate_def)

lemma os_validate_errors:
  assumes "os_validate v = Inr ds" and "filter errs ds = []"
  shows "\<exists>doc. v = JObj doc \<and> os_sections doc = Inr []"
proof -
  obtain doc where v: "v = JObj doc" using assms by (cases v) (auto simp: os_validate_def os_schema_def)
  then obtain out where out: "os_sections doc = Inr out" "ds = sort_key diag_key out"
    using assms(1) by (auto simp: os_validate_def pbind_Inr_conv)
  have "list_all errs out" using errors_os_sections [of "\<lambda>_. True" doc] by (simp add: out(1) outcome_def)
  moreover have "\<forall>d \<in> set out. \<not> errs d" using assms(2) by (simp add: out(2) filter_empty_conv)
  ultimately have "out = []" by (cases out) auto
  with v out(1) show ?thesis by blast
qed

lemma os_sections_pass:
  assumes "os_sections doc = Inr []"
  shows "is_obj (jget ''dimensions'' doc)" and "os_observations doc = Inr []" and "jhas ''observations'' doc"
    and "\<exists>cref. jget ''corpusRef'' doc = JObj cref \<and> nonempty_str (jget ''corpusId'' cref) \<and> nonempty_str (jget ''contentHash'' cref)"
proof -
  have parts: "os_header doc = Inr []" "os_corpus_ref doc = Inr []" "os_dimensions doc = Inr []"
    using assms by (simp_all add: os_sections_def chks_pass)
  then have has: "\<forall>k \<in> set os_top_fields. jhas k doc"
    by (simp add: os_header_def chks_pass os_check_fields_pass)
  then show "jhas ''observations'' doc" by (simp add: os_top_fields_def)
  show "os_observations doc = Inr []" using assms by (simp add: os_sections_def chks_pass)
  show "is_obj (jget ''dimensions'' doc)"
    using parts(3) has by (auto simp: os_dimensions_def os_top_fields_def emit_if_pass split: json.splits)
  obtain cref where "jget ''corpusRef'' doc = JObj cref"
    using parts(2) has by (auto simp: os_corpus_ref_def os_top_fields_def emit_if_pass split: json.splits)
  then show "\<exists>cref. jget ''corpusRef'' doc = JObj cref \<and> nonempty_str (jget ''corpusId'' cref) \<and> nonempty_str (jget ''contentHash'' cref)"
    using parts(2) by (auto simp: os_corpus_ref_def Let_def chks_pass os_check_fields_pass corpus_ref_fields_def emit_if_pass)
qed

text \<open>C38. An accepted observation set has observations, with distinct ids; each one has only the five known
  fields, none of them AI metadata, and its value is declared for its dimension. Its provenance is null
  or names a source and a construct.\<close>

theorem accepted_observations_in_vocabulary:
  assumes "os_main file (Inr v) = Inr (printed, rep, 0)"
  shows "\<exists>doc. v = JObj doc \<and> as_list (jget ''observations'' doc) \<noteq> []
    \<and> distinct (map (\<lambda>ob. jget ''id'' (as_obj ob)) (as_list (jget ''observations'' doc)))
    \<and> (\<forall>ob \<in> set (as_list (jget ''observations'' doc)). observation_ok doc ob)"
proof -
  obtain ds where "os_validate v = Inr ds" "filter errs ds = []"
    using assms by (auto simp: os_main_def pbind_Inr_conv Let_def split: if_splits)
  then obtain doc where v: "v = JObj doc" and pass: "os_sections doc = Inr []" using os_validate_errors by blast
  note parts = os_sections_pass [OF pass]
  have "as_list (jget ''observations'' doc) \<noteq> []"
    using parts(2,3) by (auto simp: os_observations_def Let_def chks_pass emit_if_pass)
  with v os_observations_pass [OF parts(2,1) refl] show ?thesis by blast
qed

definition sample_observation :: "json \<Rightarrow> json" where
  "sample_observation prov = JObj [(''id'', JStr ''o1''), (''dimension'', JStr ''expressibility''),
     (''value'', JStr ''m5-expressible''), (''provenance'', prov)]"

definition observation_set :: "json \<Rightarrow> obj" where
  "observation_set prov =
    [(''kind'', JStr ''neutrino.domain-observation-set''), (''schemaVersion'', JInt 1),
     (''corpusRef'', JObj [(''corpusId'', JStr ''c''), (''contentHash'', JStr (''sha256:'' @ replicate 64 CHR ''a''))]),
     (''extractor'', JObj [(''tool'', JStr ''t''), (''version'', JStr ''1'')]),
     (''dimensions'', JObj [(''expressibility'', JList [JStr ''m5-expressible'', JStr ''m6-frontier''])]),
     (''observations'', JList [sample_observation prov])]"

definition sample_prov :: json where
  "sample_prov = JObj [(''source'', JStr ''s''), (''construct'', JStr ''Escrow'')]"

lemma accepted_observations_in_vocabulary_witness:
  "observation_ok (observation_set sample_prov) (sample_observation sample_prov)"
proof -
  have "case os_main ''f'' (Inr (JObj (observation_set sample_prov))) of Inl e \<Rightarrow> False | Inr (p, r, n) \<Rightarrow> n = 0"
    by code_simp
  then obtain p r where "os_main ''f'' (Inr (JObj (observation_set sample_prov))) = Inr (p, r, 0)"
    by (auto split: sum.splits)
  from accepted_observations_in_vocabulary [OF this] show ?thesis
    by (auto simp: observation_set_def jget_def jget_or_def)
qed

section \<open>Accepted corpus manifests\<close>

lemma errors_corpus_rules: "errors_only (corpus_rules corpus)"
  unfolding corpus_rules_def corpus_source_rules_def Let_def by (intro outcomes; simp)

text \<open>A source of an accepted manifest: it has an id, and an authority is public or approved.\<close>

definition source_ok :: "json \<Rightarrow> bool" where
  "source_ok s \<longleftrightarrow>
     (\<exists>d i. s = JObj d \<and> jget ''id'' d = JStr i \<and> jhas ''id'' d
        \<and> (jget ''allowedUse'' d = JStr ''domain-authority'' \<longrightarrow> permitted_source d))"

definition accepted_corpus :: "json \<Rightarrow> bool" where
  "accepted_corpus corpus \<longleftrightarrow>
     jget ''kind'' (as_obj corpus) = JStr ''neutrino.domain-corpus-manifest''
     \<and> (\<exists>files. dp_main (Inr corpus) None = Inr (files, 0))"

lemma accepted_corpus_checks:
  assumes "accepted_corpus corpus"
  shows "vschema schema_regex corpus_schema corpus corpus_schema ''(root)'' = Inr []"
    and "corpus_rules (as_obj corpus) = Inr []"
proof -
  obtain ds where ds: "dp_diagnostics ''neutrino.domain-corpus-manifest'' ''corpus'' corpus_schema corpus None = Inr ds"
    and none: "filter errs ds = []"
    using assms by (auto simp: accepted_corpus_def dp_main_def schema_by_kind_def pbind_Inr_conv Let_def split: if_splits)
  then obtain shape where shape: "vschema schema_regex corpus_schema corpus corpus_schema ''(root)'' = Inr shape"
    by (auto simp: dp_diagnostics_def pbind_Inr_conv)
  have "shape = []"
  proof (rule ccontr)
    assume "shape \<noteq> []"
    then have "ds = map (diag (''corpus'' @ ''.schema'')) (sort shape)" using ds by (simp add: dp_diagnostics_def shape)
    with none have "sort shape = []" by (cases "sort shape") auto
    with \<open>shape \<noteq> []\<close> show False by simp
  qed
  with shape show "vschema schema_regex corpus_schema corpus corpus_schema ''(root)'' = Inr []" by simp
  have rules: "corpus_rules (as_obj corpus) = Inr ds" using ds \<open>shape = []\<close> by (simp add: dp_diagnostics_def shape)
  then have "list_all errs ds" using errors_corpus_rules [of "as_obj corpus"] by (simp add: outcome_def)
  with none have "ds = []" by (cases ds) auto
  with rules show "corpus_rules (as_obj corpus) = Inr []" by simp
qed

lemma corpus_ref:
  "vschema R corpus_schema v (sch_ref ''#/$defs/source'') loc = vschema R corpus_schema v source_schema loc"
  by (rule conforms_ref) (simp_all add: resolve_ref_def corpus_schema_def source_schema_def jindex_def schema_eval sch_defs)

lemma accepted_corpus_sources:
  assumes "accepted_corpus corpus"
  obtains cd ss where "corpus = JObj cd" and "jget_or ''sources'' (JList []) cd = JList ss" and "jget ''sources'' cd = JList ss"
    and "\<forall>s \<in> set ss. source_ok s"
proof -
  note checks = accepted_corpus_checks [OF assms]
  obtain cd where cd: "corpus = JObj cd" and req: "jhas ''sources'' cd"
    and items: "\<forall>(k, x) \<in> set cd. \<exists>s. map_of [(''kind'', sch_const ''neutrino.domain-corpus-manifest''), (''corpusId'', sch_text),
        (''sources'', sch_array1 (sch_ref ''#/$defs/source''))] k = Some s
      \<and> vschema schema_regex corpus_schema x s (''(root)'' @ ''.'' @ k) = Inr []"
    using checks(1) unfolding corpus_schema_def conforms_root by auto
  then obtain v where v: "map_of cd ''sources'' = Some v" by (auto simp: jhas_map_of)
  then have "vschema schema_regex corpus_schema v (sch_array1 (sch_ref ''#/$defs/source'')) (''(root)'' @ ''.'' @ ''sources'') = Inr []"
    using items map_of_SomeD by fastforce
  then obtain ss where ss: "v = JList ss"
    and each: "\<forall>i < length ss. vschema schema_regex corpus_schema (ss ! i) source_schema (idx (''(root)'' @ ''.'' @ ''sources'') i) = Inr []"
    by (auto simp: conforms_array1 corpus_ref)
  have sources: "jget_or ''sources'' (JList []) cd = JList ss" "jget ''sources'' cd = JList ss"
    using v ss by (simp_all add: jget_or_def jget_def)
  have "source_ok s" if s: "s \<in> set ss" for s
  proof -
    obtain loc where "vschema schema_regex corpus_schema s source_schema loc = Inr []"
      using each s by (metis in_set_conv_nth)
    then obtain d where d: "s = JObj d" "jhas ''id'' d"
      and ditems: "\<forall>(k, x) \<in> set d. k = ''id'' \<longrightarrow> vschema schema_regex corpus_schema x sch_text (loc @ ''.'' @ k) = Inr []"
      unfolding source_schema_def conforms_object by fastforce
    obtain x where x: "map_of d ''id'' = Some x" using d(2) by (auto simp: jhas_map_of)
    then have "vschema schema_regex corpus_schema x sch_text (loc @ ''.'' @ ''id'') = Inr []"
      using ditems map_of_SomeD by fastforce
    then obtain i where "x = JStr i" by (auto simp: conforms_text nonempty_str_iff)
    then have "jget ''id'' d = JStr i" using x by (simp add: jget_in)
    moreover have "corpus_source_rules s = Inr []"
      using checks(2) s by (auto simp: cd corpus_rules_def sources pbind_Inr_conv each_pass)
    ultimately show ?thesis
      using d by (auto simp: source_ok_def corpus_source_rules_def Let_def chks_pass emit_if_pass permitted_source_def)
  qed
  with cd sources that show ?thesis by blast
qed

section \<open>What the generator reads\<close>

text \<open>An observation the first loop accepted, with its fact and its source.\<close>

definition observed :: "json list \<Rightarrow> json \<Rightarrow> (string \<times> string) \<times> string \<Rightarrow> bool" where
  "observed authority ob = (\<lambda>((dim, val), src).
     gp_fact ob = Inr (dim, val) \<and> dim \<in> set known_dimensions \<and> gp_prov ''source'' ob = Inr src \<and> JStr src \<in> set authority)"

text \<open>The loop without an error is the grouping of the facts.\<close>

lemma gp_observe_step:
  assumes "gp_observe authority ob (groups, out) = Inr (groups', out')" and "filter errs out' = []"
  shows "filter errs out = [] \<and> (\<exists>f src. observed authority ob (f, src) \<and> groups' = group_add f src groups)"
proof -
  obtain dim val where fact: "gp_fact ob = Inr (dim, val)"
    using assms(1) by (auto simp: gp_observe_def pbind_Inr_conv)
  have known: "dim \<in> set known_dimensions"
  proof (rule ccontr)
    assume "dim \<notin> set known_dimensions"
    with assms fact show False by (auto simp: gp_observe_def)
  qed
  obtain src where src: "gp_prov ''source'' ob = Inr src" "groups' = group_add (dim, val) src groups"
    "out' = (if in_list (JStr src) authority then out else out @ [diag ''proposal.non_authority_source''
       (''observation source '' @ sq src @ '' ('' @ dim @ ''='' @ val @ '') is not a domain-authority corpus source'')])"
    using assms(1) fact known by (auto simp: gp_observe_def pbind_Inr_conv)
  with assms(2) fact known show ?thesis
    by (intro conjI exI [of _ "(dim, val)"] exI [of _ src]) (auto simp: observed_def split: if_splits)
qed

lemma gp_observe_loop:
  assumes "fold_py (gp_observe authority) obs (groups, out) = Inr (groups', out')" and "filter errs out' = []"
  shows "\<exists>facts. list_all2 (observed authority) obs facts
    \<and> groups' = fold (\<lambda>(f, src). group_add f src) facts groups \<and> filter errs out = []"
  using assms
proof (induction obs arbitrary: groups out)
  case (Cons ob obs)
  obtain g o' where step: "gp_observe authority ob (groups, out) = Inr (g, o')"
    and rest: "fold_py (gp_observe authority) obs (g, o') = Inr (groups', out')"
    using Cons.prems(1) by (auto simp: pbind_Inr_conv)
  from Cons.IH [OF rest Cons.prems(2)] obtain facts where
    facts: "list_all2 (observed authority) obs facts" "groups' = fold (\<lambda>(f, src). group_add f src) facts g" "filter errs o' = []"
    by blast
  from gp_observe_step [OF step facts(3)] obtain f src where
    "filter errs out = []" "observed authority ob (f, src)" "g = group_add f src groups" by blast
  with facts show ?case by (intro exI [of _ "(f, src) # facts"]) simp
qed simp

text \<open>The groups are the facts, each with the set of its sources.\<close>

definition group_sources :: "'k \<Rightarrow> ('k \<times> 'v list) list \<Rightarrow> 'v list" where
  "group_sources k groups = (case map_of groups k of None \<Rightarrow> [] | Some vs \<Rightarrow> vs)"

lemma group_sources_simps [simp]:
  "group_sources k [] = []" "group_sources k ((k', vs) # d) = (if k = k' then vs else group_sources k d)"
  by (simp_all add: group_sources_def)

lemma group_add_keys: "fst ` set (group_add k src groups) = insert k (fst ` set groups)"
  by (induction k src groups rule: group_add.induct) (simp_all add: insert_commute)

lemma group_add_distinct: "distinct (map fst groups) \<Longrightarrow> distinct (map fst (group_add k src groups))"
  by (induction k src groups rule: group_add.induct) (auto simp: group_add_keys)

lemma group_add_same: "set (group_sources k (group_add k src groups)) = insert src (set (group_sources k groups))"
  by (induction k src groups rule: group_add.induct) simp_all

lemma group_add_other: "j \<noteq> k \<Longrightarrow> group_sources j (group_add k src groups) = group_sources j groups"
  by (induction k src groups rule: group_add.induct) simp_all

lemma group_add_sources:
  "set (group_sources j (group_add k src groups)) = (if j = k then {src} else {}) \<union> set (group_sources j groups)"
  by (cases "j = k") (simp_all add: group_add_same group_add_other)

lemma group_facts:
  "fst ` set (fold (\<lambda>(f, src). group_add f src) facts groups) = fst ` set facts \<union> fst ` set groups"
  "distinct (map fst groups) \<Longrightarrow> distinct (map fst (fold (\<lambda>(f, src). group_add f src) facts groups))"
  "set (group_sources j (fold (\<lambda>(f, src). group_add f src) facts groups))
   = {src. (j, src) \<in> set facts} \<union> set (group_sources j groups)"
proof -
  have split: "(\<lambda>(f, src). group_add f src) = (\<lambda>x. group_add (fst x) (snd x))" by (simp add: case_prod_beta')
  show "fst ` set (fold (\<lambda>(f, src). group_add f src) facts groups) = fst ` set facts \<union> fst ` set groups"
    unfolding split by (induction facts arbitrary: groups) (simp_all add: group_add_keys)
  show "distinct (map fst (fold (\<lambda>(f, src). group_add f src) facts groups))" if "distinct (map fst groups)"
    using that unfolding split by (induction facts arbitrary: groups) (simp_all add: group_add_distinct)
  show "set (group_sources j (fold (\<lambda>(f, src). group_add f src) facts groups))
      = {src. (j, src) \<in> set facts} \<union> set (group_sources j groups)"
    unfolding split by (induction facts arbitrary: groups) (auto simp: group_add_sources)
qed

lemma grouped_facts:
  assumes "(k, srcs) \<in> set (fold (\<lambda>(f, src). group_add f src) facts [])"
  shows "set srcs = {src. (k, src) \<in> set facts} \<and> srcs \<noteq> []"
proof -
  let ?groups = "fold (\<lambda>(f, src). group_add f src) facts []"
  have "map_of ?groups k = Some srcs" using assms group_facts(2) [of "[]" facts] by simp
  then have "group_sources k ?groups = srcs" by (simp add: group_sources_def)
  then have "set srcs = {src. (k, src) \<in> set facts}" using group_facts(3) [of k facts "[]"] by (simp add: group_sources_def)
  moreover have "k \<in> fst ` set facts" using assms group_facts(1) [of facts "[]"] by force
  ultimately show ?thesis by fastforce
qed

lemma set_dict_set_pair: "(j, w) \<in> set (dict_set k v d) \<Longrightarrow> (j, w) = (k, v) \<or> (j, w) \<in> set d"
  by (induction k v d rule: dict_set.induct) (auto split: if_splits)

text \<open>The second loop: every edge has a source of an observation, every note is a text.\<close>

lemma gp_derive_loop:
  assumes "fold_py (gp_derive L) obs st = Inr (edges', features')"
    and "\<forall>ob \<in> set obs. \<forall>src. gp_prov ''source'' ob = Inr src \<longrightarrow> P src"
    and "\<forall>ob \<in> set obs. nonempty_str (jget_or ''note'' (JStr ''M6 frontier'') (as_obj ob))"
    and "\<forall>e \<in> set (fst st). \<exists>c src. e = gp_edge L c src \<and> P src" and "\<forall>(c, note) \<in> set (snd st). nonempty_str note"
  shows "(\<forall>e \<in> set edges'. \<exists>c src. e = gp_edge L c src \<and> P src) \<and> (\<forall>(c, note) \<in> set features'. nonempty_str note)"
  using assms
proof (induction obs arbitrary: st)
  case (Cons ob obs)
  obtain e f where st: "st = (e, f)" by force
  obtain st' where step: "gp_derive L ob (e, f) = Inr st'" and rest: "fold_py (gp_derive L) obs st' = Inr (edges', features')"
    using Cons.prems(1) by (auto simp: st pbind_Inr_conv)
  have keep: "\<forall>(c, note) \<in> set (dict_set k v f). nonempty_str note" if "nonempty_str v" for k v
    using Cons.prems(5) that by (auto simp: st dest!: set_dict_set_pair)
  show ?case
  proof (rule Cons.IH [OF rest])
    show "\<forall>e \<in> set (fst st'). \<exists>c src. e = gp_edge L c src \<and> P src"
      using step Cons.prems(2,4) by (auto simp: st gp_derive_def pbind_Inr_conv split: if_splits) blast+
    show "\<forall>(c, note) \<in> set (snd st'). nonempty_str note"
      using step Cons.prems(3,5) keep by (fastforce simp: st gp_derive_def pbind_Inr_conv split: if_splits)
  qed (use Cons.prems(2,3) in auto)
qed simp

section \<open>A generated proposal conforms to its schema\<close>

lemma proposal_refs:
  "vschema R proposal_schema v (sch_ref ''#/$defs/layer'') loc
   = vschema R proposal_schema v (sch_enum [''L1'', ''L2'', ''L3'', ''L4'']) loc"
  "vschema R proposal_schema v (sch_ref ''#/$defs/lossiness'') loc
   = vschema R proposal_schema v (sch_enum [''lossless'', ''lossy-preserved-in-extensionData'', ''unsupported'']) loc"
  "vschema R proposal_schema v (sch_ref ''#/$defs/citation'') loc = vschema R proposal_schema v citation_schema loc"
  "vschema R proposal_schema v (sch_ref ''#/$defs/candidateTerm'') loc = vschema R proposal_schema v term_schema loc"
  "vschema R proposal_schema v (sch_ref ''#/$defs/candidateEdge'') loc = vschema R proposal_schema v edge_schema loc"
  "vschema R proposal_schema v (sch_ref ''#/$defs/extensionDataCandidate'') loc
   = vschema R proposal_schema v extension_schema loc"
  by (rule conforms_ref; simp add: resolve_ref_def proposal_schema_def jindex_def schema_eval sch_defs citation_schema_def
      term_schema_def edge_schema_def extension_schema_def)+

lemma conforms_citation:
  "s \<noteq> [] \<Longrightarrow> vschema R proposal_schema (JObj [(''source'', JStr s)]) citation_schema loc = Inr []"
  unfolding citation_schema_def by (simp add: conforms_object conforms_text schema_eval)

lemma conforms_texts:
  "list_all (\<lambda>s. s \<noteq> []) ss \<Longrightarrow> vschema R root (JList (map JStr ss)) (sch_array sch_text) loc = Inr []"
  by (simp add: conforms_array conforms_text list_all_length)

lemma conforms_citations:
  assumes "ss \<noteq> []" and "\<forall>s \<in> set ss. s \<noteq> []"
  shows "vschema R proposal_schema (JList (map (\<lambda>s. JObj [(''source'', JStr s)]) (sort ss)))
    (sch_array1 (sch_ref ''#/$defs/citation'')) loc = Inr []"
proof -
  have "sort ss ! i \<noteq> []" if "i < length ss" for i
    using that assms(2) nth_mem [of i "sort ss"] by simp
  with assms(1) show ?thesis by (simp add: conforms_array1 proposal_refs conforms_citation)
qed

lemma conforms_term:
  assumes "srcs \<noteq> []" and "\<forall>s \<in> set srcs. s \<noteq> []"
  shows "vschema R proposal_schema (JObj (gp_term ((dim, val), srcs))) term_schema loc = Inr []"
  unfolding term_schema_def conforms_object
  using conforms_citations [OF assms] conforms_texts [of "[''procedure'']" R proposal_schema]
    conforms_texts [of "[a]" R proposal_schema for a] conforms_texts [of "[a, b]" R proposal_schema for a b]
  by (auto simp: gp_term_def Let_def schema_eval conforms_text conforms_enum conforms_const proposal_refs gp_confidence_def
      editorial_dimensions_def)

lemma conforms_edge:
  assumes "src \<noteq> []"
  shows "vschema R proposal_schema (JObj (gp_edge L c src)) edge_schema loc = Inr []"
  unfolding edge_schema_def gp_edge_def conforms_object
  using assms by (simp add: schema_eval conforms_text conforms_enum conforms_const conforms_object proposal_refs)

lemma conforms_extension:
  assumes "nonempty_str note"
  shows "vschema R proposal_schema (JObj [(''field'', JStr (''m6_frontier:'' @ c)), (''reason'', note)]) extension_schema loc = Inr []"
  unfolding extension_schema_def using assms by (simp add: conforms_object conforms_text schema_eval)

section \<open>The validator accepts what the generator made\<close>

lemma observed_source:
  assumes "observation_ok doc ob" and "gp_prov ''source'' ob = Inr src"
  shows "src \<noteq> []"
  using assms by (auto simp: observation_ok_def provenance_ok_def gp_prov_def pbind_Inr_conv py_key_obj jget_in nonempty_str_iff
      dest!: jget_in)

lemma observed_note: "observation_ok doc ob \<Longrightarrow> nonempty_str (jget_or ''note'' (JStr ''M6 frontier'') (as_obj ob))"
  by (cases "jhas ''note'' (as_obj ob)")
    (auto simp: observation_ok_def jhas_map_of jget_in jget_or_def split: option.split)

lemma chks_member: "chks ms = Inr xs \<Longrightarrow> x \<in> set xs \<Longrightarrow> \<exists>m \<in> set ms. \<exists>ys. m = Inr ys \<and> x \<in> set ys"
proof (induction ms arbitrary: xs)
  case (Cons m ms)
  obtain a b where "m = Inr a" "chks ms = Inr b" "xs = a @ b"
    using Cons.prems(1) by (auto simp: chks.simps pbind_Inr_conv)
  then show ?case using Cons.IH [of b] Cons.prems(2) by auto
qed (simp add: chks.simps)

lemma gp_authority_member:
  assumes "gp_authority cd = Inr authority" and "jget_or ''sources'' (JList []) cd = JList ss" and "i \<in> set authority"
  shows "\<exists>d. JObj d \<in> set ss \<and> jget ''allowedUse'' d = JStr ''domain-authority'' \<and> jget ''id'' d = i"
proof -
  have "each ss (\<lambda>s. pbind (py_items s) (\<lambda>d. if jget ''allowedUse'' d \<noteq> JStr ''domain-authority'' then Inr []
         else pbind (jindex ''id'' d) (\<lambda>i. if hashable i then Inr [i] else Inl TypeError))) = Inr authority"
    using assms(1,2) by (simp add: gp_authority_def)
  from chks_member [OF this [unfolded each_def] assms(3)] show ?thesis
    by (auto simp: pbind_Inr_conv py_items_obj jindex_def split: if_splits option.splits) (blast dest: jget_in)
qed

lemma check_source_pass:
  "JStr s \<in> set ids \<Longrightarrow> JStr s \<in> set authority \<Longrightarrow> check_source ids authority (JStr s) w = Inr []"
  by (simp add: check_source_def hashable_def emit_if_pass)

lemma check_term_sources_pass:
  assumes "\<forall>s \<in> set srcs. JStr s \<in> set ids \<and> JStr s \<in> set authority"
  shows "check_term_sources ids authority (JObj (gp_term (f, srcs))) = Inr []"
proof -
  have "jget_or ''citations'' (JList []) (gp_term (f, srcs)) = JList (map (\<lambda>s. JObj [(''source'', JStr s)]) (sort srcs))"
    by (cases f) (simp add: gp_term_def jget_or_def Let_def)
  then show ?thesis
    using assms by (auto simp: check_term_sources_def each_pass schema_eval check_source_pass)
qed

lemma check_edge_source_pass:
  "JStr src \<in> set ids \<Longrightarrow> JStr src \<in> set authority \<Longrightarrow> check_edge_source ids authority (JObj (gp_edge L c src)) = Inr []"
  by (simp add: check_edge_source_def gp_edge_def schema_eval check_source_pass)

text \<open>The ids of the sources of an accepted manifest, as the validator reads them.\<close>

lemma source_ids:
  assumes "\<forall>s \<in> set ss. source_ok s"
  shows "map_py source_id ss = Inr (map (\<lambda>s. jget ''id'' (as_obj s)) ss)"
  using assms by (auto simp: map_py_Inr list_all2_map2 list_all2_same source_ok_def source_id_def hashable_def)

lemma accepted_authority:
  assumes ss: "jget_or ''sources'' (JList []) cd = JList ss" and ok: "\<forall>s \<in> set ss. source_ok s"
    and auth: "gp_authority cd = Inr authority" and i: "i \<in> set authority"
  shows "i \<in> set (map (\<lambda>s. jget ''id'' (as_obj s)) ss)"
    and "i \<in> set (map (\<lambda>s. jget ''id'' (as_obj s)) (filter (\<lambda>s. permitted_source (as_obj s)) ss))"
proof -
  obtain d where d: "JObj d \<in> set ss" "jget ''allowedUse'' d = JStr ''domain-authority''" "jget ''id'' d = i"
    using gp_authority_member [OF auth ss i] by blast
  then have "permitted_source d" using ok by (fastforce simp: source_ok_def)
  with d show "i \<in> set (map (\<lambda>s. jget ''id'' (as_obj s)) ss)"
    and "i \<in> set (map (\<lambda>s. jget ''id'' (as_obj s)) (filter (\<lambda>s. permitted_source (as_obj s)) ss))"
    by force+
qed

text \<open>A successful generation, taken apart.\<close>

lemma gp_build_parts:
  assumes "gp_build H L observations corpus dir files = Inr (Some p, out)"
  obtains doc cref cid cd authority groups edges features out0 where
    "observations = JObj doc" and "os_sections doc = Inr []"
    and "jget ''corpusRef'' doc = JObj cref" and "jget ''corpusId'' cref = JStr cid" and "cid \<noteq> []"
    and "corpus = JObj cd" and "jget ''corpusId'' cd = JStr cid" and "gp_authority cd = Inr authority"
    and "fold_py (gp_observe authority) (as_list (jget ''observations'' doc)) ([], out0) = Inr (groups, out)"
    and "filter errs out = []"
    and "fold_py (gp_derive L) (as_list (jget ''observations'' doc)) ([], []) = Inr (edges, features)"
    and "p = gp_proposal (JStr cid) groups edges features"
proof -
  obtain ods where ods: "os_validate observations = Inr ods" "filter errs ods = []"
    using assms by (auto simp: gp_build_def pbind_Inr_conv split: if_splits)
  then obtain doc where doc: "observations = JObj doc" "os_sections doc = Inr []" using os_validate_errors by blast
  then obtain cref cid where cref: "jget ''corpusRef'' doc = JObj cref" "jget ''corpusId'' cref = JStr cid" "cid \<noteq> []"
    using os_sections_pass(4) [OF doc(2)] by (auto simp: nonempty_str_iff)
  let ?obs = "as_list (jget ''observations'' doc)"
  let ?rebind = "gp_rebind H (jget ''contentHash'' cref) dir files"
  let ?mismatch = "\<lambda>cd. if jget ''corpusId'' cd = JStr cid then [] else [diag ''proposal.corpus_mismatch''
    (''observation corpusId '' @ py_repr (JStr cid) @ '' != corpus-manifest corpusId '' @ py_repr (jget ''corpusId'' cd))]"
  obtain cd where cd: "corpus = JObj cd"
    using assms ods by (cases corpus) (simp_all add: gp_build_def Let_def)
  obtain authority groups edges features where
    run: "gp_authority cd = Inr authority"
    "fold_py (gp_observe authority) ?obs ([], ?mismatch cd @ fst ?rebind) = Inr (groups, out)" "filter errs out = []"
    "fold_py (gp_derive L) ?obs ([], []) = Inr (edges, features)" "p = gp_proposal (JStr cid) groups edges features"
    using assms ods doc cref
    by (auto simp: gp_build_def cd pbind_Inr_conv Let_def split: if_splits prod.splits)
  have "filter errs (?mismatch cd @ fst ?rebind) = []"
    using gp_observe_loop [OF run(2,3)] by blast
  then have "jget ''corpusId'' cd = JStr cid" by (auto split: if_splits)
  with doc cref cd run that show thesis by blast
qed

text \<open>What the loops leave: groups and edges over authorities.\<close>

lemma gp_loops_sources:
  assumes ok: "\<forall>ob \<in> set obs. observation_ok doc ob" and "obs \<noteq> []"
    and observe: "fold_py (gp_observe authority) obs ([], out0) = Inr (groups, out)" and "filter errs out = []"
    and derive: "fold_py (gp_derive L) obs ([], []) = Inr (edges, features)"
  defines "good \<equiv> \<lambda>s. s \<noteq> [] \<and> JStr s \<in> set authority"
  shows "groups \<noteq> []" and "\<forall>(f, srcs) \<in> set groups. srcs \<noteq> [] \<and> (\<forall>s \<in> set srcs. good s)"
    and "\<forall>e \<in> set edges. \<exists>c src. e = gp_edge L c src \<and> good src" and "\<forall>(c, note) \<in> set features. nonempty_str note"
proof -
  obtain facts where facts: "list_all2 (observed authority) obs facts"
    and groups: "groups = fold (\<lambda>(f, src). group_add f src) facts []"
    using gp_observe_loop [OF observe assms(4)] by blast
  have src: "good src" if "ob \<in> set obs" "gp_prov ''source'' ob = Inr src" for ob src
  proof -
    obtain i where i: "i < length obs" "obs ! i = ob" using \<open>ob \<in> set obs\<close> by (auto simp: in_set_conv_nth)
    then have seen: "observed authority ob (facts ! i)" using facts by (auto simp: list_all2_conv_all_nth)
    obtain dim val s where "facts ! i = ((dim, val), s)" by (metis surj_pair)
    with seen that(2) have "JStr src \<in> set authority" by (simp add: observed_def)
    then show ?thesis using observed_source [OF _ that(2)] ok that(1) by (auto simp: good_def)
  qed
  have fact: "\<exists>ob \<in> set obs. gp_prov ''source'' ob = Inr src" if mem: "(f, src) \<in> set facts" for f src
  proof -
    obtain i where i: "i < length facts" "facts ! i = (f, src)" using mem by (auto simp: in_set_conv_nth)
    obtain dim val where "f = (dim, val)" by force
    with i facts have "i < length obs" "gp_prov ''source'' (obs ! i) = Inr src"
      by (auto simp: list_all2_conv_all_nth observed_def)
    then show ?thesis using nth_mem by blast
  qed
  have "facts \<noteq> []" using facts \<open>obs \<noteq> []\<close> by auto
  then show "groups \<noteq> []" using group_facts(1) [of facts "[]"] by (auto simp: groups)
  show "\<forall>(f, srcs) \<in> set groups. srcs \<noteq> [] \<and> (\<forall>s \<in> set srcs. good s)"
  proof clarify
    fix dim val srcs
    assume g: "((dim, val), srcs) \<in> set groups"
    then show "srcs \<noteq> [] \<and> (\<forall>s \<in> set srcs. good s)"
      using grouped_facts [OF g [unfolded groups]] fact src by blast
  qed
  have "(\<forall>e \<in> set edges. \<exists>c src. e = gp_edge L c src \<and> good src) \<and> (\<forall>(c, note) \<in> set features. nonempty_str note)"
    by (rule gp_derive_loop [OF derive]) (use src ok observed_note in auto)
  then show "\<forall>e \<in> set edges. \<exists>c src. e = gp_edge L c src \<and> good src" and "\<forall>(c, note) \<in> set features. nonempty_str note"
    by blast+
qed

lemma conforms_items:
  assumes "\<forall>v \<in> set xs. \<forall>loc. vschema R root v s loc = Inr []" and "truthy item"
    and "\<And>v loc. vschema R root v item loc = vschema R root v s loc"
  shows "vschema R root (JList xs) (sch_array item) loc = Inr []"
  using assms by (simp add: conforms_array)

lemma conforms_items1:
  assumes "\<forall>v \<in> set xs. \<forall>loc. vschema R root v s loc = Inr []" and "truthy item"
    and "\<And>v loc. vschema R root v item loc = vschema R root v s loc" and "xs \<noteq> []"
  shows "vschema R root (JList xs) (sch_array1 item) loc = Inr []"
  using assms by (simp add: conforms_array1)

lemma conforms_proposal:
  assumes "cid \<noteq> []" and "groups \<noteq> []"
    and groups: "\<forall>(f, srcs) \<in> set groups. srcs \<noteq> [] \<and> (\<forall>s \<in> set srcs. s \<noteq> [])"
    and edges: "\<forall>e \<in> set edges. \<exists>c src. e = gp_edge L c src \<and> src \<noteq> []"
    and features: "\<forall>(c, note) \<in> set features. nonempty_str note"
  shows "vschema schema_regex proposal_schema (gp_proposal (JStr cid) groups edges features) proposal_schema loc = Inr []"
proof -
  let ?terms = "sort_key (\<lambda>t. str_of (jget ''term'' t)) (map gp_term (sort_key fst groups))"
  let ?edges = "sort_key (\<lambda>e. str_of (jget ''id'' e)) edges"
  let ?ext = "\<lambda>(c, note). JObj [(''field'', JStr (''m6_frontier:'' @ c)), (''reason'', note)]"
  have terms: "vschema schema_regex proposal_schema (JList (map JObj ?terms))
      (sch_array1 (sch_ref ''#/$defs/candidateTerm'')) loc = Inr []" for loc
  proof (rule conforms_items1)
    show "\<forall>v \<in> set (map JObj ?terms). \<forall>loc. vschema schema_regex proposal_schema v term_schema loc = Inr []"
      using groups conforms_term by fastforce
  qed (use \<open>groups \<noteq> []\<close> proposal_refs in simp_all)
  have es: "vschema schema_regex proposal_schema (JList (map JObj ?edges))
      (sch_array (sch_ref ''#/$defs/candidateEdge'')) loc = Inr []" for loc
  proof (rule conforms_items)
    show "\<forall>v \<in> set (map JObj ?edges). \<forall>loc. vschema schema_regex proposal_schema v edge_schema loc = Inr []"
      using edges conforms_edge by fastforce
  qed (simp_all add: proposal_refs)
  have ext: "vschema schema_regex proposal_schema (JList (map ?ext (sort_key fst features)))
      (sch_array (sch_ref ''#/$defs/extensionDataCandidate'')) loc = Inr []" for loc
  proof (rule conforms_items)
    show "\<forall>v \<in> set (map ?ext (sort_key fst features)). \<forall>loc.
        vschema schema_regex proposal_schema v extension_schema loc = Inr []"
      using features conforms_extension by fastforce
  qed (simp_all add: proposal_refs)
  have version: "schema_regex version_pattern ''0.1.0''" by code_simp
  show ?thesis
    unfolding proposal_schema_def conforms_root gp_proposal_def
    using terms es ext version assms(1)
    by (simp add: schema_eval conforms_text conforms_const conforms_pattern flip: proposal_schema_def)
qed

text \<open>The rules beyond the schema, when the sources are authorities of the corpus.\<close>

lemma proposal_rules_pass:
  assumes ss: "jget ''sources'' cd = JList ss" and ok: "\<forall>s \<in> set ss. source_ok s"
    and authority: "\<forall>i \<in> set authority. i \<in> set (map (\<lambda>s. jget ''id'' (as_obj s)) ss)
      \<and> i \<in> set (map (\<lambda>s. jget ''id'' (as_obj s)) (filter (\<lambda>s. permitted_source (as_obj s)) ss))"
    and cid: "jget ''corpusId'' cd = JStr cid"
    and groups: "\<forall>(f, srcs) \<in> set groups. \<forall>s \<in> set srcs. JStr s \<in> set authority"
    and edges: "\<forall>e \<in> set edges. \<exists>c src. e = gp_edge L c src \<and> JStr src \<in> set authority"
  shows "proposal_rules (as_obj (gp_proposal (JStr cid) groups edges features)) (JObj cd) = Inr []"
proof -
  let ?ids = "map (\<lambda>s. jget ''id'' (as_obj s)) ss"
  let ?permitted = "map (\<lambda>s. jget ''id'' (as_obj s)) (filter (\<lambda>s. permitted_source (as_obj s)) ss)"
  let ?p = "as_obj (gp_proposal (JStr cid) groups edges features)"
  have terms: "\<forall>t \<in> set (map gp_term groups). check_term_sources ?ids ?permitted (JObj t) = Inr []"
    using groups authority check_term_sources_pass by fastforce
  have es: "\<forall>e \<in> set edges. check_edge_source ?ids ?permitted (JObj e) = Inr []"
    using edges authority check_edge_source_pass by fastforce
  have sources: "proposal_sources_rules ?p ?ids ?permitted = Inr []"
    unfolding proposal_sources_rules_def chks_pass list.set ball_simps
    using terms es by (auto simp: gp_proposal_def jget_or_def each_pass)
  have "jget ''corpusRef'' ?p = JStr cid" by (simp add: gp_proposal_def schema_eval)
  then show ?thesis
    by (simp add: proposal_rules_def ss source_ids [OF ok] Let_def cid sources chks.simps emit_if_def del: map_map)
qed

lemma dp_main_accepts:
  assumes "vschema schema_regex proposal_schema (gp_proposal (JStr cid) groups edges features) proposal_schema ''(root)'' = Inr []"
    and "proposal_rules (as_obj (gp_proposal (JStr cid) groups edges features)) corpus = Inr []"
  shows "\<exists>reports. dp_main (Inr (gp_proposal (JStr cid) groups edges features)) (Some (Inr corpus)) = Inr (reports, 0)"
proof -
  have "jget ''kind'' (as_obj (gp_proposal (JStr cid) groups edges features)) = JStr ''neutrino.domain-vocabulary-proposal''"
    by (simp add: gp_proposal_def schema_eval)
  with assms show ?thesis
    by (simp add: dp_main_def Let_def schema_by_kind_def dp_diagnostics_def)
qed

text \<open>C39. What the generator makes, the validator accepts: for every accepted corpus manifest, a generation that
  ends with a proposal gives one that passes its schema and every rule on citation authority.\<close>

theorem generated_proposal_accepted:
  assumes "gp_build H L observations corpus dir files = Inr (Some p, out)" and "accepted_corpus corpus"
  shows "\<exists>reports. dp_main (Inr p) (Some (Inr corpus)) = Inr (reports, 0)"
proof -
  obtain doc cref cid cd authority groups edges features out0 where
    doc: "observations = JObj doc" "os_sections doc = Inr []" and cid: "cid \<noteq> []"
    and cd: "corpus = JObj cd" "jget ''corpusId'' cd = JStr cid" and auth: "gp_authority cd = Inr authority"
    and observe: "fold_py (gp_observe authority) (as_list (jget ''observations'' doc)) ([], out0) = Inr (groups, out)"
    and none: "filter errs out = []"
    and derive: "fold_py (gp_derive L) (as_list (jget ''observations'' doc)) ([], []) = Inr (edges, features)"
    and p: "p = gp_proposal (JStr cid) groups edges features"
    by (rule gp_build_parts [OF assms(1)])
  obtain ss where ss: "jget_or ''sources'' (JList []) cd = JList ss" "jget ''sources'' cd = JList ss"
    and ok: "\<forall>s \<in> set ss. source_ok s"
    by (rule accepted_corpus_sources [OF assms(2)]) (simp add: cd(1))
  note parts = os_sections_pass [OF doc(2)]
  have "as_list (jget ''observations'' doc) \<noteq> []"
    using parts(2,3) by (auto simp: os_observations_def Let_def chks_pass emit_if_pass)
  note loops = gp_loops_sources [OF os_observations_pass(1) [OF parts(2,1) refl] this observe none derive]
  have shape: "vschema schema_regex proposal_schema p proposal_schema ''(root)'' = Inr []"
    unfolding p by (rule conforms_proposal [OF cid loops(1)]) (use loops in fastforce)+
  have "proposal_rules (as_obj p) (JObj cd) = Inr []"
    unfolding p
  proof (rule proposal_rules_pass [OF ss(2) ok _ cd(2)])
    show "\<forall>i \<in> set authority. i \<in> set (map (\<lambda>s. jget ''id'' (as_obj s)) ss)
      \<and> i \<in> set (map (\<lambda>s. jget ''id'' (as_obj s)) (filter (\<lambda>s. permitted_source (as_obj s)) ss))"
      using accepted_authority [OF ss(1) ok auth] by blast
  qed (use loops in fastforce)+
  with shape show ?thesis unfolding p cd(1) by (rule dp_main_accepts)
qed

text \<open>A corpus with one public source, and the observation set above.\<close>

definition corpus_manifest :: obj where
  "corpus_manifest = [(''kind'', JStr ''neutrino.domain-corpus-manifest''), (''corpusId'', JStr ''c''),
     (''sources'', JList [JObj [(''id'', JStr ''s''), (''owner'', JStr ''o''), (''sensitivity'', JStr ''public''),
        (''allowedUse'', JStr ''domain-authority''), (''contentHash'', JStr (''sha256:'' @ replicate 64 CHR ''a'')),
        (''sourceType'', JStr ''official-public-repository'')]])]"

lemma generated_proposal_accepted_witness:
  "\<exists>p out reports. gp_build (\<lambda>s. s) (\<lambda>s. s) (JObj (observation_set sample_prov)) (JObj corpus_manifest) ''d'' None = Inr (Some p, out)
     \<and> dp_main (Inr p) (Some (Inr (JObj corpus_manifest))) = Inr (reports, 0)"
proof -
  have "case dp_main (Inr (JObj corpus_manifest)) None of Inl e \<Rightarrow> False | Inr (r, n) \<Rightarrow> n = 0" by code_simp
  moreover have "jget ''kind'' corpus_manifest = JStr ''neutrino.domain-corpus-manifest''" by code_simp
  ultimately have corpus: "accepted_corpus (JObj corpus_manifest)"
    by (auto simp: accepted_corpus_def split: sum.splits)
  have "case gp_build (\<lambda>s. s) (\<lambda>s. s) (JObj (observation_set sample_prov)) (JObj corpus_manifest) ''d'' None of
      Inl e \<Rightarrow> False | Inr (p, out) \<Rightarrow> p \<noteq> None" by code_simp
  then obtain p out where built:
    "gp_build (\<lambda>s. s) (\<lambda>s. s) (JObj (observation_set sample_prov)) (JObj corpus_manifest) ''d'' None = Inr (Some p, out)"
    by (auto split: sum.splits)
  from generated_proposal_accepted [OF built corpus] built show ?thesis by blast
qed

section \<open>How a generation can end\<close>

text \<open>An accepted observation has its fact, and has its source and construct unless its provenance is null.\<close>

lemma jindex_text: "jget k d = JStr s \<Longrightarrow> jindex k d = Inr (JStr s)"
  by (auto simp: jindex_def jget_def jget_or_def split: option.splits)

lemma gp_fact_total: "observation_ok doc ob \<Longrightarrow> \<exists>f. gp_fact ob = Inr f"
  by (auto simp: observation_ok_def gp_fact_def jindex_text)

definition null_provenance :: "json \<Rightarrow> bool" where
  "null_provenance ob \<longleftrightarrow> jget ''provenance'' (as_obj ob) = JNull"

lemma gp_prov_raises:
  assumes "observation_ok doc ob" and "k \<in> {''source'', ''construct''}"
  shows "raises_only (\<lambda>e. e = TypeError \<and> null_provenance ob) (gp_prov k ob)"
  unfolding raises_only_def
proof (intro allI impI)
  fix e
  assume raised: "gp_prov k ob = Inl e"
  obtain d where d: "ob = JObj d" "jhas ''provenance'' d" "provenance_ok (jget ''provenance'' d)"
    using assms(1) by (auto simp: observation_ok_def)
  with raised assms(2) show "e = TypeError \<and> null_provenance ob"
    by (auto simp: gp_prov_def null_provenance_def provenance_ok_def nonempty_str_iff jindex_has jindex_text py_key_def)
qed

lemma gp_steps_raise:
  assumes "observation_ok doc ob"
  shows "raises_only (\<lambda>e. e = TypeError \<and> null_provenance ob) (gp_observe authority ob s)"
    and "raises_only (\<lambda>e. e = TypeError \<and> null_provenance ob) (gp_derive L ob t)"
proof -
  obtain dim val where fact: "gp_fact ob = Inr (dim, val)" using gp_fact_total [OF assms] by force
  note prov = gp_prov_raises [OF assms]
  show "raises_only (\<lambda>e. e = TypeError \<and> null_provenance ob) (gp_observe authority ob s)"
    by (cases s) (auto simp: gp_observe_def fact intro!: outcomes prov)
  show "raises_only (\<lambda>e. e = TypeError \<and> null_provenance ob) (gp_derive L ob t)"
    by (cases t) (auto simp: gp_derive_def fact intro!: outcomes prov)
qed

lemma gp_authority_total:
  assumes "jget_or ''sources'' (JList []) cd = JList ss" and "\<forall>s \<in> set ss. source_ok s"
  shows "\<exists>authority. gp_authority cd = Inr authority"
proof -
  have one: "outcome (\<lambda>_. False) (\<lambda>_. True) (pbind (py_items s) (\<lambda>d.
      if jget ''allowedUse'' d \<noteq> JStr ''domain-authority'' then Inr []
      else pbind (jindex ''id'' d) (\<lambda>i. if hashable i then Inr [i] else Inl TypeError)))" if s: "s \<in> set ss" for s
  proof -
    obtain d i where "s = JObj d" "jget ''id'' d = JStr i" using assms(2) s by (auto simp: source_ok_def)
    then show ?thesis by (simp add: jindex_text hashable_def outcome_def)
  qed
  have "outcome (\<lambda>_. False) (\<lambda>_. True) (gp_authority cd)"
    unfolding gp_authority_def assms(1) py_iter.simps pbind_simps by (rule outcomes) (rule one)
  then show ?thesis by (auto simp: outcome_def split: sum.splits)
qed

text \<open>C40. With an accepted corpus manifest the generator ends with a proposal or with diagnostics, except that
  an observation whose provenance is null, which the validator of observations accepts, ends it with a TypeError.\<close>

theorem generation_raises_on_null_provenance:
  assumes "gp_build H L observations corpus dir files = Inl e" and "accepted_corpus corpus"
  shows "e = TypeError \<and> (\<exists>ob \<in> set (as_list (jget ''observations'' (as_obj observations))). null_provenance ob)"
proof -
  obtain cd ss where cd: "corpus = JObj cd" "jget_or ''sources'' (JList []) cd = JList ss" "\<forall>s \<in> set ss. source_ok s"
    by (rule accepted_corpus_sources [OF assms(2)])
  obtain authority where auth: "gp_authority cd = Inr authority" using gp_authority_total [OF cd(2,3)] by blast
  obtain ods where ods: "os_validate observations = Inr ods" using os_validate_total by blast
  with assms(1) have "filter errs ods = []" by (simp add: gp_build_def split: if_splits)
  with os_validate_errors [OF ods] obtain doc where doc: "observations = JObj doc" "os_sections doc = Inr []" by blast
  let ?obs = "as_list (jget ''observations'' doc)"
  let ?E = "\<lambda>e. e = TypeError \<and> (\<exists>ob \<in> set ?obs. null_provenance ob)"
  have ok: "\<forall>ob \<in> set ?obs. observation_ok doc ob"
    using os_observations_pass(1) [OF os_sections_pass(2,1) [OF doc(2)] refl] .
  have observe: "raises_only ?E (fold_py (gp_observe authority) ?obs s)" for s
    by (intro outcomes) (use ok gp_steps_raise(1) in \<open>force simp: raises_only_def\<close>)
  have derive: "raises_only ?E (fold_py (gp_derive L) ?obs s)" for s
    by (intro outcomes) (use ok gp_steps_raise(2) in \<open>force simp: raises_only_def\<close>)
  have "(\<exists>s. fold_py (gp_observe authority) ?obs s = Inl e) \<or> (\<exists>s. fold_py (gp_derive L) ?obs s = Inl e)"
    using assms(1) ods unfolding gp_build_def Let_def auth doc(1) cd(1)
    by (auto simp: ods auth pbind_Inl_conv split: if_splits prod.splits)
  with observe derive doc(1) show ?thesis by (auto simp: raises_only_def)
qed

lemma generation_raises_on_null_provenance_witness:
  "(case os_main ''f'' (Inr (JObj (observation_set JNull))) of Inl e \<Rightarrow> False | Inr (p, r, n) \<Rightarrow> n = 0)
   \<and> null_provenance (sample_observation JNull)"
proof -
  have "case os_main ''f'' (Inr (JObj (observation_set JNull))) of Inl e \<Rightarrow> False | Inr (p, r, n) \<Rightarrow> n = 0" by code_simp
  moreover have "case dp_main (Inr (JObj corpus_manifest)) None of Inl e \<Rightarrow> False | Inr (r, n) \<Rightarrow> n = 0" by code_simp
  moreover have "jget ''kind'' corpus_manifest = JStr ''neutrino.domain-corpus-manifest''" by code_simp
  ultimately have accepted: "case os_main ''f'' (Inr (JObj (observation_set JNull))) of Inl e \<Rightarrow> False | Inr (p, r, n) \<Rightarrow> n = 0"
    and corpus: "accepted_corpus (JObj corpus_manifest)"
    by (auto simp: accepted_corpus_def split: sum.splits)
  have "gp_build (\<lambda>s. s) (\<lambda>s. s) (JObj (observation_set JNull)) (JObj corpus_manifest) ''d'' None = Inl TypeError" by code_simp
  from generation_raises_on_null_provenance [OF this corpus] accepted show ?thesis
    by (simp add: observation_set_def jget_def jget_or_def)
qed

end
