(* ===== verification/Spec2Isabelle.thy ===== *)
theory Spec2Isabelle
  imports SpecProps ManifestProps AgreementIdentity TranslationMap DialectProps ObservationProps ViewProps SemanticsProps
    DomainOrigin RecipeLayout BranchCompat ProposalProps
begin

text \<open>
  \<^bold>\<open>The Python tools around the Neutrino language.\<close>

  Neutrino is a language for agreements between organizations. Its compiler is C++; around it stands a
  chain of Python tools under \<open>src/scripts\<close> that read and write JSON artifacts and decide whether an
  artifact may go on to the next stage. Each tool fails closed: it exits with 0 only for an artifact
  that passed every check. This library models the decision logic of eighteen of these tools and
  proves what an accepted artifact, or a produced one, guarantees.

  \<^bold>\<open>How the tools interact.\<close>
  \<^item> The vocabulary of a domain is first observed. An extractor's observation set
    (\<open>corpus/validate_domain_observation_set.py\<close>) over a governed corpus becomes a proposal
    (\<open>corpus/generate_proposal_from_observations.py\<close>), which \<open>corpus/validate_domain_proposal.py\<close> checks against
    the corpus manifest; people promote it to a dialect.
  \<^item> A domain team writes L2 semantics (\<open>domain/validate_l2_domain_semantics.py\<close>, v2, v3). Several
    participants refine one L1 capability, and \<open>domain/validate_l2_branch_compat.py\<close> compares their files.
  \<^item> A domain dialect (\<open>domain/validate_domain_dialect.py\<close>) is expanded into core source with a manifest of
    spans (\<open>domain/expand_dialect.py\<close>); \<open>domain/domain_diagnostics.py\<close> uses the spans to lead a diagnostic
    of the compiler back to the dialect.
  \<^item> The compiler emits a capability spec (\<open>validators/validate_capability_spec.py\<close>). A participant view
    is a projection of a spec (\<open>validators/validate_participant_view.py\<close>), an observation binding gives its
    attestations observers (\<open>validators/validate_observation_binding.py\<close>), an agreement identity pins it with
    an envelope (\<open>validators/validate_agreement_identity.py\<close>).
  \<^item> A binding topology lists slots (\<open>validators/validate_binding_topology.py\<close>), a binding manifest fills them
    (\<open>validators/validate_binding_manifest.py\<close>).
  \<^item> At run time \<open>rails/translate_rail.py\<close> maps an agreement to the messages of a payment rail and back, with a
    map that passed \<open>rails/validate_translation_map.py\<close>.
  \<^item> \<open>generators/recipe_canonicalizer.py\<close> keeps the recipes the backends are generated from in one form.

  \<^bold>\<open>The shared layer.\<close>
  \<^item> \<open>PyBase\<close>: exceptions as the left summand of \<open>'a py\<close>; \<open>chks\<close>, \<open>each\<close>, \<open>emit_if\<close> and their relatives
    stand for statement sequences, loops and \<open>if\<close> that append diagnostics. The collection \<open>checks\<close> says when
    each of them passes, the collection \<open>outcomes\<close> which exceptions it can raise. Texts are UTF-8 bytes.
  \<^item> \<open>PyJson\<close>, \<open>PyDyn\<close>, \<open>PyText\<close>: the values of \<open>json.load\<close> and what Python does with them when their type is
    unknown: truth, equality (\<open>True == 1 == 1.0\<close>), hashing, membership, indexing, sorting, \<open>repr\<close>,
    \<open>json.dumps\<close>, \<open>int\<close>.
  \<^item> \<open>Canonical\<close>: the canonical text every hash is taken of. The locale of canonical texts states that the text
    determines the value up to key order; its interpretation proves it for the printer of the code. The hash
    lemmas of six tools are facts of that interpretation.
  \<^item> \<open>SlotIndex\<close>: the contract of an index by id, interpreted for the slots of a topology.

  \<^bold>\<open>The components.\<close> Definitions keep the names of the source where they can; a prefix tells tools apart
  whose functions share names (\<open>ob_\<close>, \<open>pv_\<close>, \<open>ds_\<close>, \<open>dm_\<close>, \<open>bc_\<close>, \<open>rc_\<close>, \<open>td_\<close>, \<open>tm_\<close>, \<open>os_\<close>,
  \<open>dp_\<close>, \<open>gp_\<close>).
  \<^item> \<open>SpecExpr\<close>, \<open>CapabilitySpec\<close>, \<open>SpecLifecycle\<close>, \<open>SpecValidate\<close>, \<open>SpecProps\<close>: \<open>validate\<close> is the whole gate on
    capability specs. The expression check is equivalent to a grammar. The lifecycle is read as an inductive
    step relation: an accepted lifecycle never gets stuck, and without cycles it can always finish. The two
    digests identify the semantic content and the document.
  \<^item> \<open>BindingTopology\<close>, \<open>BindingManifest\<close>, \<open>ManifestProps\<close>: \<open>topology_main\<close> and \<open>manifest_main\<close>. The core manifest
    check is a refinement of the contract \<open>realizes\<close>; the L3 layer traces parameters to the L2 interface.
  \<^item> \<open>AgreementIdentity\<close>: the framed preimage is injective, so one agreement hash is one agreement.
  \<^item> \<open>TranslateRail\<close>, \<open>RailProps\<close>, \<open>TranslationMap\<close>: the rail, and \<open>tm_main\<close>, the review of its maps. With a
    reviewed map a lift succeeds exactly on reviewed codes and without rejected fields, and every value of the
    result comes from the status and the rules; a map that is applied is the pinned one.
  \<^item> \<open>ExpandDialect\<close>, \<open>ExpandProps\<close>: rendering emits lines and spans together; the spans delimit the blocks,
    every rendered field passed its gate, and the balance assertion is there iff both kinds of legs are.
  \<^item> \<open>DomainDialect\<close>, \<open>DialectProps\<close>: an accepted dialect has a closed mapping graph.
  \<^item> \<open>ObservationBinding\<close>, \<open>ObservationProps\<close>: every quorum can be reached by the bound observers; the same
    theory shows that two observers may share one key.
  \<^item> \<open>ParticipantView\<close>, \<open>ViewProps\<close>: an accepted view is a projection of its spec.
  \<^item> \<open>DomainSemantics\<close>, \<open>SemanticsProps\<close>: v2 and v3; an accepted graph is closed, its hash identifies it up to the
    order of records, and re-emitting the canonical form is idempotent.
  \<^item> \<open>DomainOrigin\<close>: an origin is attached exactly to the diagnostics inside a span of a matching manifest.
    Where spans nest the code names the widest one, against its own comment.
  \<^item> \<open>RecipeExtract\<close>, \<open>RecipeEmit\<close>, \<open>RecipeRewrite\<close> with \<open>RecipeProps\<close>, \<open>RecipeEnds\<close>, \<open>RecipeFiles\<close>, \<open>RecipeScan\<close>,
    \<open>RecipeLayout\<close>: the reader of records, the printer, and the scan and rewriting of the files. What the reader
    returns is in the grammar of the IR; what the printer prints is in a grammar of balanced brackets; rewriting a
    file replaces exactly the definitions of its recipes; a normalization keeps all recipes.
  \<^item> \<open>L2Domain\<close>: the first version of the L2 validator; every reference of an accepted artifact resolves.
  \<^item> \<open>BranchCompat\<close>: the gate accepts exactly the sidecars that agree on every shared name.
  \<^item> \<open>ObservationSet\<close>, \<open>JsonSchema\<close>, \<open>CorpusProposal\<close>, \<open>ProposalProps\<close>: the three stages from observations to a
    proposal, with the interpreter of JSON schemas and the schemas it runs on (\<open>src/docs/schemas\<close>). The collection
    \<open>conforms\<close> says what each shape of schema accepts. Every proposal the generator makes for an accepted
    corpus is accepted; the generator raises only for an observation with a null provenance.

  \<^bold>\<open>Arguments and assumptions.\<close> The digest is a function argument \<open>H\<close>;
  theorems from a hash to a document assume that \<open>H\<close> does not collide on the two texts they
  name. \<open>U\<close> gives the value of a Unicode decimal digit. \<open>T\<close>, the view
  \<open>llvm-tblgen\<close> makes of the corpus, is an argument. \<open>L\<close> is the lower case of a
  text. The number \<open>n\<close> of nested calls the reader of recipes may make is the recursion limit of
  Python: \<open>reader_terminates\<close> shows that a bound exists iff the references have no infinite
  path and that the result does not depend on it, \<open>reader_depth\<close> gives one. Documents are what
  \<open>json.load\<close> returns (\<open>wf_json\<close>: distinct keys); floats are their
  \<open>repr\<close>.

  \<^bold>\<open>Not modelled.\<close> Opening, reading and writing files, argument parsing, the JSON and
  YAML parsers and the self-tests of the modelled tools: their results are arguments. \<open>sorted\<close>
  on lists as sort keys, lone surrogates in texts. Of the other Python files: the repository gates under
  \<open>scripts/gates\<close> compare C++, TableGen and build files by patterns and subprocesses, the
  generators print other languages' source, the packaging scripts run external programs, and the release and
  sample scripts move and count files. The validators of compatibility manifests, classifications, catalogs,
  envelopes, profiles, results and registers have no part in the chain above. The compiler is not Python.
\<close>

end
